(* ===== verification/Prelude.thy ===== *)
theory Prelude
  imports Main "HOL-Library.AList" "HOL-Library.Sublist"
begin

text \<open>
  Shared ground of the development: the Python exceptions the modelled code can raise, results
  that may be exceptions, Python strings (as ASCII character lists) with the string operations the
  sources call, decimal integers, and insertion-ordered dictionaries as association lists.
  Three collections of theorems drive the proofs of the components: \<open>str_simps\<close> (string
  operations), \<open>dict_simps\<close> (dictionaries) and \<open>flow_simps\<close> (exceptions and control flow).
\<close>

named_theorems str_simps "equations of the Python string operations"
named_theorems dict_simps "equations of insertion-ordered dictionaries"
named_theorems flow_simps "equations of exceptions and control flow"

section \<open>Exceptions\<close>

datatype py_error =
    AttributeError | IndexError | KeyError | TypeError | ValueError | AssertionError
  | RuntimeError string
  | SystemExit nat   \<comment> \<open>\<open>sys.exit(n)\<close>\<close>

type_synonym 'a res = "py_error + 'a"

definition rbind :: "'a res \<Rightarrow> ('a \<Rightarrow> 'b res) \<Rightarrow> 'b res" where
  "rbind m f = (case m of Inl e \<Rightarrow> Inl e | Inr x \<Rightarrow> f x)"

lemma rbind_simps [simp, flow_simps]:
  "rbind (Inl e) f = Inl e"
  "rbind (Inr x) f = f x"
  by (simp_all add: rbind_def)

lemma rbind_Inr_iff: "rbind m f = Inr y \<longleftrightarrow> (\<exists>x. m = Inr x \<and> f x = Inr y)"
  by (cases m) simp_all

definition raises :: "'a res \<Rightarrow> bool" where
  "raises r = (case r of Inl _ \<Rightarrow> True | Inr _ \<Rightarrow> False)"

lemma raises_simps [simp]: "raises (Inl e)" "\<not> raises (Inr x)"
  by (simp_all add: raises_def)

text \<open>\<open>for x in xs\<close> with a body that may raise.\<close>

fun rmap :: "('a \<Rightarrow> 'b res) \<Rightarrow> 'a list \<Rightarrow> 'b list res" where
  "rmap f [] = Inr []"
| "rmap f (x # xs) = rbind (f x) (\<lambda>y. rbind (rmap f xs) (\<lambda>ys. Inr (y # ys)))"

fun rfold :: "('a \<Rightarrow> 's \<Rightarrow> 's res) \<Rightarrow> 'a list \<Rightarrow> 's \<Rightarrow> 's res" where
  "rfold f [] s = Inr s"
| "rfold f (x # xs) s = rbind (f x s) (rfold f xs)"

lemma rmap_Inr: "(\<And>x. x \<in> set xs \<Longrightarrow> f x = Inr (g x)) \<Longrightarrow> rmap f xs = Inr (map g xs)"
  by (induction xs) auto

lemma rfold_invariant:
  assumes "\<And>x s s'. x \<in> set xs \<Longrightarrow> P s \<Longrightarrow> f x s = Inr s' \<Longrightarrow> P s'"
    and "P s" and "rfold f xs s = Inr s'"
  shows "P s'"
  using assms
proof (induction xs arbitrary: s)
  case Nil
  then show ?case by simp
next
  case (Cons x xs)
  from Cons.prems(3) obtain s1 where s1: "f x s = Inr s1" "rfold f xs s1 = Inr s'"
    by (auto simp: rbind_Inr_iff)
  with Cons.prems(1,2) have "P s1" by auto
  with s1 Cons show ?case by (metis list.set_intros(2))
qed

section \<open>Characters\<close>

text \<open>
  Program text is ASCII throughout: the character classes below are Python's classes of \<open>str\<close>
  patterns restricted to the code points below 128 (\<open>\\s\<close> includes the separators 28 to 31).
\<close>

abbreviation code_of :: "char \<Rightarrow> nat" where
  "code_of c \<equiv> of_char c"

definition is_digit :: "char \<Rightarrow> bool" where
  "is_digit c = (48 \<le> code_of c \<and> code_of c \<le> 57)"

definition is_space :: "char \<Rightarrow> bool" where
  "is_space c = (code_of c = 32 \<or> (9 \<le> code_of c \<and> code_of c \<le> 13)
                 \<or> (28 \<le> code_of c \<and> code_of c \<le> 31))"

definition is_word :: "char \<Rightarrow> bool" where
  "is_word c = (is_digit c \<or> (65 \<le> code_of c \<and> code_of c \<le> 90)
                \<or> (97 \<le> code_of c \<and> code_of c \<le> 122) \<or> code_of c = 95)"

lemma digit_is_word: "is_digit c \<Longrightarrow> is_word c"
  by (simp add: is_word_def)

lemma digit_not_space: "is_digit c \<Longrightarrow> \<not> is_space c"
  by (auto simp: is_digit_def is_space_def)

lemma word_not_space: "is_word c \<Longrightarrow> \<not> is_space c"
  by (auto simp: is_word_def is_digit_def is_space_def)

text \<open>The classes bit by bit, which is what evaluation uses.\<close>

lemma char_classes_code [code]:
  "is_digit (Char b0 b1 b2 b3 b4 b5 b6 b7) =
     (\<not> b7 \<and> \<not> b6 \<and> b5 \<and> b4 \<and> (\<not> b3 \<or> \<not> b2 \<and> \<not> b1))"
  "is_space (Char b0 b1 b2 b3 b4 b5 b6 b7) =
     (\<not> b7 \<and> \<not> b6 \<and>
      (b5 \<and> \<not> b4 \<and> \<not> b3 \<and> \<not> b2 \<and> \<not> b1 \<and> \<not> b0
       \<or> \<not> b5 \<and> \<not> b4 \<and> b3 \<and> (\<not> b2 \<and> (b1 \<or> b0) \<or> b2 \<and> \<not> b1)
       \<or> \<not> b5 \<and> b4 \<and> b3 \<and> b2))"
  "is_word (Char b0 b1 b2 b3 b4 b5 b6 b7) =
     (\<not> b7 \<and>
      (\<not> b6 \<and> b5 \<and> b4 \<and> (\<not> b3 \<or> \<not> b2 \<and> \<not> b1)
       \<or> b6 \<and> (b4 \<or> b3 \<or> b2 \<or> b1 \<or> b0) \<and> \<not> (b4 \<and> b3 \<and> (b2 \<or> b1 \<and> b0))
       \<or> b6 \<and> \<not> b5 \<and> b4 \<and> b3 \<and> b2 \<and> b1 \<and> b0))"
  by (simp_all add: is_digit_def is_space_def is_word_def del: One_nat_def;
      cases b0; cases b1; cases b2; cases b3; cases b4; cases b5; cases b6; cases b7; simp)+

definition lower_char :: "char \<Rightarrow> char" where
  "lower_char c = (if 65 \<le> code_of c \<and> code_of c \<le> 90 then char_of (code_of c + 32) else c)"

definition upper_char :: "char \<Rightarrow> char" where
  "upper_char c = (if 97 \<le> code_of c \<and> code_of c \<le> 122 then char_of (code_of c - 32) else c)"

section \<open>Strings\<close>

definition py_lower :: "string \<Rightarrow> string" where "py_lower = map lower_char"
definition py_upper :: "string \<Rightarrow> string" where "py_upper = map upper_char"

lemma py_lower_append [str_simps]: "py_lower (s @ t) = py_lower s @ py_lower t"
  by (simp add: py_lower_def)

fun starts_with :: "string \<Rightarrow> string \<Rightarrow> bool" where
  "starts_with [] s = True"
| "starts_with (c # cs) [] = False"
| "starts_with (c # cs) (d # ds) = (c = d \<and> starts_with cs ds)"

definition ends_with :: "string \<Rightarrow> string \<Rightarrow> bool" where
  "ends_with u s = starts_with (rev u) (rev s)"

text \<open>Python's \<open>sub in s\<close>.\<close>

fun str_in :: "string \<Rightarrow> string \<Rightarrow> bool" where
  "str_in u [] = (u = [])"
| "str_in u (c # s) = (starts_with u (c # s) \<or> str_in u s)"

lemma starts_with_iff: "starts_with u s \<longleftrightarrow> (\<exists>t. s = u @ t)"
  by (induction u s rule: starts_with.induct) auto

lemma starts_with_append [simp]: "starts_with u (u @ t)"
  by (auto simp: starts_with_iff)

lemma str_in_iff: "str_in u s \<longleftrightarrow> (\<exists>p q. s = p @ u @ q)"
proof (induction s)
  case Nil
  then show ?case by simp
next
  case (Cons c s)
  have "str_in u (c # s) \<longleftrightarrow> (\<exists>q. c # s = u @ q) \<or> (\<exists>p q. s = p @ u @ q)"
    by (simp add: Cons.IH starts_with_iff)
  also have "\<dots> \<longleftrightarrow> (\<exists>p q. c # s = p @ u @ q)"
    by (auto simp: Cons_eq_append_conv)
  finally show ?case .
qed

lemma str_in_append [str_simps]: "str_in u s \<Longrightarrow> str_in u (p @ s @ q)"
  by (metis append.assoc str_in_iff)

lemma str_in_appendI1: "str_in u s \<Longrightarrow> str_in u (s @ q)"
  by (metis append.assoc str_in_iff)

lemma str_in_appendI2: "str_in u s \<Longrightarrow> str_in u (p @ s)"
  by (metis append.assoc str_in_iff)

definition lstrip :: "string \<Rightarrow> string" where "lstrip = dropWhile is_space"
definition py_strip :: "string \<Rightarrow> string" where "py_strip s = rev (lstrip (rev (lstrip s)))"

lemma strip_padded:
  assumes "w \<noteq> []" "\<not> is_space (hd w)" "\<not> is_space (last w)"
    and "list_all is_space p" "list_all is_space q"
  shows "py_strip (p @ w @ q) = w"
proof -
  have drop: "\<And>p v. list_all is_space p \<Longrightarrow> v \<noteq> [] \<Longrightarrow> \<not> is_space (hd v) \<Longrightarrow> lstrip (p @ v) = v"
    by (metis dropWhile_append2 dropWhile_eq_self_iff list_all_iff lstrip_def)
  have 1: "lstrip (p @ w @ q) = w @ q"
    by (rule drop) (use assms in \<open>auto simp: hd_append\<close>)
  have 2: "lstrip (rev q @ rev w) = rev w"
    by (rule drop) (use assms in \<open>auto simp: hd_rev list_all_iff\<close>)
  show ?thesis by (simp add: py_strip_def 1 2)
qed

text \<open>\<open>sep.join(xs)\<close> and \<open>s.replace(c, t)\<close> for a single character \<open>c\<close>.\<close>

fun join :: "string \<Rightarrow> string list \<Rightarrow> string" where
  "join sep [] = []"
| "join sep [x] = x"
| "join sep (x # xs) = x @ sep @ join sep xs"

definition replace_char :: "char \<Rightarrow> string \<Rightarrow> string \<Rightarrow> string" where
  "replace_char c t s = concat (map (\<lambda>d. if d = c then t else [d]) s)"

text \<open>\<open>s.split(sep)[0]\<close> for a separator that is not empty, and \<open>s.split(c)[-1]\<close> for a character.\<close>

fun before_first :: "string \<Rightarrow> string \<Rightarrow> string" where
  "before_first sep [] = []"
| "before_first sep (c # s) = (if starts_with sep (c # s) then [] else c # before_first sep s)"

definition after_last :: "char \<Rightarrow> string \<Rightarrow> string" where
  "after_last c s = rev (takeWhile (\<lambda>d. d \<noteq> c) (rev s))"

lemma ends_with_iff: "ends_with u s \<longleftrightarrow> (\<exists>p. s = p @ u)"
  unfolding ends_with_def starts_with_iff by (metis rev_append rev_rev_ident)

section \<open>Decimal integers\<close>

fun show_nat :: "nat \<Rightarrow> string" where
  "show_nat n = (if n < 10 then [char_of (48 + n)] else show_nat (n div 10) @ [char_of (48 + n mod 10)])"

declare show_nat.simps [simp del]

definition digit_val :: "char \<Rightarrow> int" where "digit_val c = int (code_of c) - 48"

definition digits_val :: "string \<Rightarrow> int" where
  "digits_val = foldl (\<lambda>a c. 10 * a + digit_val c) 0"

text \<open>\<open>int(s)\<close> on the digit strings the patterns extract; anything else is a \<open>ValueError\<close>.\<close>

definition py_int :: "string \<Rightarrow> int res" where
  "py_int s = (if s \<noteq> [] \<and> list_all is_digit s then Inr (digits_val s) else Inl ValueError)"

lemma show_nat_digits: "show_nat n \<noteq> [] \<and> list_all is_digit (show_nat n)"
proof (induction n rule: show_nat.induct)
  case (1 n)
  then show ?case
    by (cases "n < 10") (auto simp: show_nat.simps [of n] is_digit_def)
qed

lemma digits_val_snoc: "digits_val (s @ [c]) = 10 * digits_val s + digit_val c"
  by (simp add: digits_val_def)

lemma digits_val_show_nat: "digits_val (show_nat n) = int n"
proof (induction n rule: show_nat.induct)
  case (1 n)
  show ?case
  proof (cases "n < 10")
    case True
    then show ?thesis by (subst show_nat.simps) (simp add: digits_val_def digit_val_def)
  next
    case False
    with 1 have "digits_val (show_nat (n div 10)) = int (n div 10)" by simp
    with False show ?thesis
      by (subst show_nat.simps) (simp add: digits_val_snoc digit_val_def zmod_int zdiv_int)
  qed
qed

lemma py_int_show_nat [simp]: "py_int (show_nat n) = Inr (int n)"
  using show_nat_digits [of n] by (simp add: py_int_def digits_val_show_nat)

lemma show_nat_inj: "show_nat m = show_nat n \<Longrightarrow> m = n"
  by (metis Inr_inject of_nat_eq_iff py_int_show_nat)

lemma py_int_digits: "s \<noteq> [] \<Longrightarrow> list_all is_digit s \<Longrightarrow> py_int s = Inr (digits_val s)"
  by (simp add: py_int_def)

section \<open>Lists read and written by index\<close>

fun index_of :: "'a \<Rightarrow> 'a list \<Rightarrow> nat option" where
  "index_of x [] = None"
| "index_of x (y # ys) = (if x = y then Some 0 else map_option Suc (index_of x ys))"

lemma index_of_Some: "index_of x xs = Some i \<Longrightarrow> i < length xs \<and> xs ! i = x"
  by (induction xs arbitrary: i) (auto split: if_splits)

lemma index_of_None: "index_of x xs = None \<longleftrightarrow> x \<notin> set xs"
  by (induction xs) auto

lemma index_of_nth: "distinct xs \<Longrightarrow> i < length xs \<Longrightarrow> index_of (xs ! i) xs = Some i"
  by (induction xs arbitrary: i) (auto simp: nth_Cons split: nat.splits)

text \<open>\<open>xs.index(x)\<close>, \<open>xs[i]\<close> and \<open>xs[i] = v\<close>\<close>

definition py_index :: "'a \<Rightarrow> 'a list \<Rightarrow> nat res" where
  "py_index x xs = (case index_of x xs of None \<Rightarrow> Inl ValueError | Some i \<Rightarrow> Inr i)"

definition py_nth :: "'a list \<Rightarrow> nat \<Rightarrow> 'a res" where
  "py_nth xs i = (if i < length xs then Inr (xs ! i) else Inl IndexError)"

definition py_set :: "'a list \<Rightarrow> nat \<Rightarrow> 'a \<Rightarrow> 'a list res" where
  "py_set xs i v = (if i < length xs then Inr (xs[i := v]) else Inl IndexError)"

lemma py_nth_simps [simp]: "i < length xs \<Longrightarrow> py_nth xs i = Inr (xs ! i)"
  by (simp add: py_nth_def)

lemma py_set_simps [simp]: "i < length xs \<Longrightarrow> py_set xs i v = Inr (xs[i := v])"
  by (simp add: py_set_def)

lemma map_update_eqI:
  assumes "distinct ks" "i < length ks" "g (ks ! i) = v" "\<And>k. k \<in> set ks \<Longrightarrow> k \<noteq> ks ! i \<Longrightarrow> g k = f k"
  shows "(map f ks)[i := v] = map g ks"
  using assms by (intro nth_equalityI) (auto simp: nth_list_update nth_eq_iff_index_eq)

lemma py_index_in: "x \<in> set xs \<Longrightarrow> \<exists>i. py_index x xs = Inr i \<and> i < length xs \<and> xs ! i = x"
  using index_of_None [of x xs] index_of_Some [of x xs] by (auto simp: py_index_def split: option.splits)

lemma py_index_nth: "distinct xs \<Longrightarrow> i < length xs \<Longrightarrow> py_index (xs ! i) xs = Inr i"
  by (simp add: py_index_def index_of_nth)

text \<open>Two parts of the same output: one of them comes first.\<close>

lemma prefix_cases:
  assumes "prefix h' ts" "prefix (h @ [u]) ts"
  obtains (before) z where "h = h' @ z" | (later) z where "h' = h @ u # z"
proof -
  consider "prefix h' (h @ [u])" | "prefix (h @ [u]) h'" using assms prefix_same_cases by blast
  then show ?thesis
  proof cases
    case 1
    then consider "h' = h @ [u]" | "prefix h' h" by auto
    then show ?thesis by cases (use that in \<open>auto simp: prefix_def\<close>)
  qed (use that in \<open>auto simp: prefix_def\<close>)
qed

section \<open>Insertion-ordered dictionaries\<close>

type_synonym ('k, 'v) dict = "('k \<times> 'v) list"

abbreviation dget :: "('k, 'v) dict \<Rightarrow> 'k \<Rightarrow> 'v option" where
  "dget \<equiv> map_of"

abbreviation dset :: "'k \<Rightarrow> 'v \<Rightarrow> ('k, 'v) dict \<Rightarrow> ('k, 'v) dict" where
  "dset \<equiv> AList.update"

definition dget_or :: "('k, 'v) dict \<Rightarrow> 'k \<Rightarrow> 'v \<Rightarrow> 'v" where
  "dget_or d k v = (case dget d k of None \<Rightarrow> v | Some w \<Rightarrow> w)"

abbreviation dkeys :: "('k, 'v) dict \<Rightarrow> 'k list" where
  "dkeys d \<equiv> map fst d"

definition dvalid :: "('k, 'v) dict \<Rightarrow> bool" where
  "dvalid d = distinct (dkeys d)"

text \<open>\<open>d[k] = d.get(k, 0) + n\<close>\<close>

definition dadd :: "'k \<Rightarrow> nat \<Rightarrow> ('k, nat) dict \<Rightarrow> ('k, nat) dict" where
  "dadd k n d = dset k (dget_or d k 0 + n) d"

lemma dset_keys: "dkeys (dset k v d) = (if k \<in> set (dkeys d) then dkeys d else dkeys d @ [k])"
  by (induction d) auto

lemma dset_fresh: "k \<notin> set (dkeys d) \<Longrightarrow> dset k v d = d @ [(k, v)]"
  by (induction d) auto

lemma dget_None: "dget d k = None \<longleftrightarrow> k \<notin> set (dkeys d)"
  by (simp add: map_of_eq_None_iff)

lemma dvalid_dset [simp]: "dvalid d \<Longrightarrow> dvalid (dset k v d)"
  by (simp add: dvalid_def dset_keys)

lemma dget_dset [dict_simps]: "dget (dset k v d) k' = (if k' = k then Some v else dget d k')"
  by (simp add: update_conv')

lemma sum_list_dset_add:
  "dvalid d \<Longrightarrow> sum_list (map snd (dadd k n d)) = sum_list (map snd d) + n"
proof (induction d)
  case Nil
  then show ?case by (simp add: dadd_def dget_or_def)
next
  case (Cons p d)
  then have "dvalid d" and "fst p = k \<longrightarrow> True" by (auto simp: dvalid_def)
  with Cons.IH show ?case by (cases p) (auto simp: dadd_def dget_or_def)
qed

lemma dvalid_dadd [simp]: "dvalid d \<Longrightarrow> dvalid (dadd k n d)"
  by (simp add: dadd_def)

lemma dget_dadd [dict_simps]:
  "dget_or (dadd k n d) k' m = (if k' = k then dget_or d k 0 + n else dget_or d k' m)"
  by (simp add: dadd_def dget_or_def dget_dset)

end
