(* ===== verification/Handshake.thy ===== *)
theory Handshake
  imports Prelude
begin

text \<open>
  How the processes of one test case end together (\<open>interoperability_report.py\<close>, the last part of
  \<open>run_subscriber_shape_main\<close> and of \<open>run_publisher_shape_main\<close>).  Every process owns one
  \<open>multiprocessing.Event\<close>.  A subscriber that has its verdict sets its event, waits for the events of
  all publishers one after the other and stops its application.  A publisher that has its verdict
  drains its application's output until all subscribers have set theirs (or the application ends),
  sets its own event and stops its application.  The processes run concurrently: a run is any
  sequence of their steps.
\<close>

datatype sub_phase = Checking | Awaiting nat | Sub_Stopped   \<comment> \<open>\<open>Awaiting j\<close>: in \<open>element.wait()\<close> of event \<open>j\<close>\<close>
datatype pub_phase = Dialogue | Draining | Closing | Pub_Stopped

record world =
  subs :: "sub_phase list"
  pubs :: "pub_phase list"
  subscribers_finished :: "bool list"
  publishers_finished :: "bool list"
  ended :: "bool list"            \<comment> \<open>the publisher's application has ended by itself (\<open>pexpect.EOF\<close>)\<close>

definition start :: "nat \<Rightarrow> nat \<Rightarrow> world" where
  "start m n = \<lparr>subs = replicate m Checking, pubs = replicate n Dialogue,
     subscribers_finished = replicate m False, publishers_finished = replicate n False,
     ended = replicate n False\<rparr>"

inductive step :: "world \<Rightarrow> world \<Rightarrow> bool" where
  sub_verdict: "i < length (subs w) \<Longrightarrow> subs w ! i = Checking \<Longrightarrow>
     step w (w\<lparr>subs := (subs w)[i := Awaiting 0],
               subscribers_finished := (subscribers_finished w)[i := True]\<rparr>)"
| sub_wait: "i < length (subs w) \<Longrightarrow> subs w ! i = Awaiting j \<Longrightarrow> j < length (publishers_finished w) \<Longrightarrow>
     publishers_finished w ! j \<Longrightarrow> step w (w\<lparr>subs := (subs w)[i := Awaiting (Suc j)]\<rparr>)"
| sub_stop: "i < length (subs w) \<Longrightarrow> subs w ! i = Awaiting (length (publishers_finished w)) \<Longrightarrow>
     step w (w\<lparr>subs := (subs w)[i := Sub_Stopped]\<rparr>)"
| pub_verdict: "i < length (pubs w) \<Longrightarrow> pubs w ! i = Dialogue \<Longrightarrow>
     step w (w\<lparr>pubs := (pubs w)[i := Draining]\<rparr>)"
| pub_drain: "i < length (pubs w) \<Longrightarrow> pubs w ! i = Draining \<Longrightarrow>
     \<not> list_all id (subscribers_finished w) \<Longrightarrow> step w w"   \<comment> \<open>\<open>read_nonblocking\<close>: data or TIMEOUT\<close>
| pub_ended: "i < length (pubs w) \<Longrightarrow> pubs w ! i = Draining \<Longrightarrow>
     \<not> list_all id (subscribers_finished w) \<Longrightarrow>
     step w (w\<lparr>pubs := (pubs w)[i := Closing], publishers_finished := (publishers_finished w)[i := True],
               ended := (ended w)[i := True]\<rparr>)"
| pub_release: "i < length (pubs w) \<Longrightarrow> pubs w ! i = Draining \<Longrightarrow>
     list_all id (subscribers_finished w) \<Longrightarrow>
     step w (w\<lparr>pubs := (pubs w)[i := Closing], publishers_finished := (publishers_finished w)[i := True]\<rparr>)"
| pub_stop: "i < length (pubs w) \<Longrightarrow> pubs w ! i = Closing \<Longrightarrow>
     step w (w\<lparr>pubs := (pubs w)[i := Pub_Stopped]\<rparr>)"

inductive reachable :: "nat \<Rightarrow> nat \<Rightarrow> world \<Rightarrow> bool" for m n where
  reach_start: "reachable m n (start m n)"
| reach_step: "reachable m n w \<Longrightarrow> step w w' \<Longrightarrow> reachable m n w'"

inductive_cases stepE: "step w w'"

definition all_stopped :: "world \<Rightarrow> bool" where
  "all_stopped w = (list_all (\<lambda>p. p = Sub_Stopped) (subs w) \<and> list_all (\<lambda>p. p = Pub_Stopped) (pubs w))"

section \<open>The invariant\<close>

definition wf_world :: "nat \<Rightarrow> nat \<Rightarrow> world \<Rightarrow> bool" where
  "wf_world m n w \<longleftrightarrow> length (subs w) = m \<and> length (subscribers_finished w) = m
     \<and> length (pubs w) = n \<and> length (publishers_finished w) = n \<and> length (ended w) = n
     \<and> (\<forall>i < m. subscribers_finished w ! i = (subs w ! i \<noteq> Checking))
     \<and> (\<forall>j < n. publishers_finished w ! j = (pubs w ! j = Closing \<or> pubs w ! j = Pub_Stopped))
     \<and> (\<forall>i < m. \<forall>k. subs w ! i = Awaiting k \<longrightarrow> k \<le> n \<and> (\<forall>j < k. publishers_finished w ! j))
     \<and> (\<forall>i < m. subs w ! i = Sub_Stopped \<longrightarrow> (\<forall>j < n. publishers_finished w ! j))
     \<and> (\<forall>j < n. publishers_finished w ! j \<longrightarrow> ended w ! j \<or> (\<forall>i < m. subscribers_finished w ! i))"

lemma wf_start: "wf_world m n (start m n)"
  by (simp add: wf_world_def start_def)

lemma wf_step: "wf_world m n w \<Longrightarrow> step w w' \<Longrightarrow> wf_world m n w'"
proof (elim stepE)
  fix i assume wf: "wf_world m n w" and i: "i < length (subs w)" "subs w ! i = Checking"
    and w': "w' = w\<lparr>subs := (subs w)[i := Awaiting 0], subscribers_finished := (subscribers_finished w)[i := True]\<rparr>"
  then show "wf_world m n w'" by (auto simp: wf_world_def nth_list_update)
next
  fix i j assume "wf_world m n w" "i < length (subs w)" "subs w ! i = Awaiting j"
    "j < length (publishers_finished w)" "publishers_finished w ! j" "w' = w\<lparr>subs := (subs w)[i := Awaiting (Suc j)]\<rparr>"
  moreover from this have "\<forall>k < j. publishers_finished w ! k" unfolding wf_world_def by blast
  ultimately show "wf_world m n w'" by (auto simp: wf_world_def nth_list_update less_Suc_eq)
next
  fix i assume "wf_world m n w" "i < length (subs w)" "subs w ! i = Awaiting (length (publishers_finished w))"
    "w' = w\<lparr>subs := (subs w)[i := Sub_Stopped]\<rparr>"
  then show "wf_world m n w'" by (auto simp: wf_world_def nth_list_update)
next
  fix i assume "wf_world m n w" "i < length (pubs w)" "pubs w ! i = Dialogue" "w' = w\<lparr>pubs := (pubs w)[i := Draining]\<rparr>"
  then show "wf_world m n w'" by (auto simp: wf_world_def nth_list_update)
next
  fix i assume "wf_world m n w" "i < length (pubs w)" "pubs w ! i = Draining" "\<not> list_all id (subscribers_finished w)"
    "w' = w\<lparr>pubs := (pubs w)[i := Closing], publishers_finished := (publishers_finished w)[i := True],
            ended := (ended w)[i := True]\<rparr>"
  then show "wf_world m n w'" by (auto simp: wf_world_def nth_list_update)
next
  fix i assume "wf_world m n w" "i < length (pubs w)" "pubs w ! i = Draining" "list_all id (subscribers_finished w)"
    "w' = w\<lparr>pubs := (pubs w)[i := Closing], publishers_finished := (publishers_finished w)[i := True]\<rparr>"
  then show "wf_world m n w'" by (auto simp: wf_world_def nth_list_update list_all_length)
next
  fix i assume "wf_world m n w" "i < length (pubs w)" "pubs w ! i = Closing" "w' = w\<lparr>pubs := (pubs w)[i := Pub_Stopped]\<rparr>"
  then show "wf_world m n w'" by (auto simp: wf_world_def nth_list_update)
qed simp

lemma reachable_wf: "reachable m n w \<Longrightarrow> wf_world m n w"
  by (induction rule: reachable.induct) (auto intro: wf_start wf_step)

section \<open>Progress and termination\<close>

fun sub_rank :: "nat \<Rightarrow> sub_phase \<Rightarrow> nat" where
  "sub_rank n Checking = n + 2"
| "sub_rank n (Awaiting j) = n + 1 - j"
| "sub_rank n Sub_Stopped = 0"

fun pub_rank :: "pub_phase \<Rightarrow> nat" where
  "pub_rank Dialogue = 3" | "pub_rank Draining = 2" | "pub_rank Closing = 1" | "pub_rank Pub_Stopped = 0"

definition rank :: "nat \<Rightarrow> world \<Rightarrow> nat" where   \<comment> \<open>the steps that are left, polls not counted\<close>
  "rank n w = sum_list (map (sub_rank n) (subs w)) + sum_list (map pub_rank (pubs w))"

lemma sum_list_update_less:
  "i < length xs \<Longrightarrow> (f :: 'a \<Rightarrow> nat) y < f (xs ! i) \<Longrightarrow> sum_list (map f (xs[i := y])) < sum_list (map f xs)"
proof (induction xs arbitrary: i)
  case (Cons x xs)
  then show ?case by (cases i) auto
qed simp

lemma rank_decreases:
  assumes "wf_world m n w" "step w w'" "w' \<noteq> w"
  shows "rank n w' < rank n w"
  using assms(2)
proof (cases rule: step.cases)
  case (sub_wait i j)
  with assms(1) have "sub_rank n (Awaiting (Suc j)) < sub_rank n (subs w ! i)" by (auto simp: wf_world_def)
  with sub_wait show ?thesis by (simp add: rank_def sum_list_update_less)
next
  case (sub_stop i)
  with assms(1) have "sub_rank n Sub_Stopped < sub_rank n (subs w ! i)" by (auto simp: wf_world_def)
  with sub_stop show ?thesis by (simp add: rank_def sum_list_update_less)
qed (use assms(3) in \<open>auto simp: rank_def intro!: sum_list_update_less add_less_mono1\<close>)

text \<open>What can always be done in a world that has not ended.\<close>

lemma changed: "i < length xs \<Longrightarrow> xs ! i \<noteq> x \<Longrightarrow> xs[i := x] \<noteq> xs"
  by (metis nth_list_update_eq)

lemma progress:
  assumes wf: "wf_world m n w" and run: "\<not> all_stopped w"
  shows "\<exists>w'. step w w' \<and> (subs w' \<noteq> subs w \<or> pubs w' \<noteq> pubs w)"
proof (cases "\<exists>i < length (subs w). subs w ! i = Checking")
  case True
  then obtain i where i: "i < length (subs w)" "subs w ! i = Checking" by blast
  from sub_verdict [OF this] changed [OF i(1), of "Awaiting 0"] i(2) show ?thesis by (intro exI conjI) auto
next
  case no_check: False
  then have all_set: "list_all id (subscribers_finished w)"
    using wf by (auto simp: wf_world_def list_all_length)
  show ?thesis
  proof (cases "\<exists>j < length (pubs w). pubs w ! j \<noteq> Pub_Stopped")
    case True
    then obtain j where j: "j < length (pubs w)" "pubs w ! j \<noteq> Pub_Stopped" by blast
    show ?thesis
    proof (cases "pubs w ! j")
      case Dialogue
      from pub_verdict [OF j(1) this] changed [OF j(1), of Draining] Dialogue show ?thesis by (intro exI conjI) auto
    next
      case Draining
      from pub_release [OF j(1) this all_set] changed [OF j(1), of Closing] Draining show ?thesis
        by (intro exI conjI) auto
    next
      case Closing
      from pub_stop [OF j(1) this] changed [OF j(1), of Pub_Stopped] Closing show ?thesis by (intro exI conjI) auto
    qed (use j in simp)
  next
    case False
    with run obtain i where i: "i < length (subs w)" "subs w ! i \<noteq> Sub_Stopped"
      by (auto simp: all_stopped_def list_all_length)
    with no_check obtain k where k: "subs w ! i = Awaiting k" by (cases "subs w ! i") auto
    have fin: "\<forall>j < n. publishers_finished w ! j" "length (publishers_finished w) = n" "k \<le> n"
      using False wf i k by (auto simp: wf_world_def)
    show ?thesis
    proof (cases "k = n")
      case True
      with sub_stop [OF i(1)] k fin changed [OF i(1), of Sub_Stopped] show ?thesis by (intro exI conjI) auto
    next
      case False
      with fin k sub_wait [OF i(1) k] changed [OF i(1), of "Awaiting (Suc k)"] show ?thesis
        by (intro exI conjI) auto
    qed
  qed
qed

section \<open>Properties\<close>


definition stopped_world :: world where   \<comment> \<open>one publisher and one subscriber at the end\<close>
  "stopped_world = \<lparr>subs = [Sub_Stopped], pubs = [Pub_Stopped], subscribers_finished = [True],
     publishers_finished = [True], ended = [False]\<rparr>"

lemma stopped_reachable: "reachable 1 1 stopped_world"
proof -
  let ?w = "\<lambda>s p e f. \<lparr>subs = [s], pubs = [p], subscribers_finished = [e], publishers_finished = [f], ended = [False]\<rparr>"
  have "reachable 1 1 (?w Checking Dialogue False False)"
    using reach_start [of 1 1] by (simp add: start_def)
  from reach_step [OF this sub_verdict [of 0]] have "reachable 1 1 (?w (Awaiting 0) Dialogue True False)" by simp
  from reach_step [OF this pub_verdict [of 0]] have "reachable 1 1 (?w (Awaiting 0) Draining True False)" by simp
  from reach_step [OF this pub_release [of 0]] have "reachable 1 1 (?w (Awaiting 0) Closing True True)" by simp
  from reach_step [OF this sub_wait [of 0 _ 0]] have "reachable 1 1 (?w (Awaiting 1) Closing True True)" by simp
  from reach_step [OF this sub_stop [of 0]] have "reachable 1 1 (?w Sub_Stopped Closing True True)" by simp
  from reach_step [OF this pub_stop [of 0]] show ?thesis by (simp add: stopped_world_def)
qed




end
