(* ===== verification/Regex.thy ===== *)
theory Regex
  imports Prelude
begin

text \<open>
  Python's \<open>re\<close> on the patterns the sources use: character classes, sequences, alternatives,
  greedy and lazy repetition of one class, optional parts and numbered groups.  The matcher returns
  all matches at a position in the order a backtracking engine tries them, so the first one is the
  match Python reports; \<open>re_search\<close> takes the first position that has one.
\<close>

section \<open>Patterns\<close>

datatype cls =
    CChar char | CRange nat nat | CDigit | CWord | CSpace | CDot | CNot cls | COr cls cls

fun cmatch :: "cls \<Rightarrow> char \<Rightarrow> bool" where
  "cmatch (CChar d) c = (c = d)"
| "cmatch (CRange l h) c = (l \<le> code_of c \<and> code_of c \<le> h)"
| "cmatch CDigit c = is_digit c"
| "cmatch CWord c = is_word c"
| "cmatch CSpace c = is_space c"
| "cmatch CDot c = (code_of c \<noteq> 10)"
| "cmatch (CNot k) c = (\<not> cmatch k c)"
| "cmatch (COr k l) c = (cmatch k c \<or> cmatch l c)"

lemma cmatch_classes [simp]:
  "cmatch CDigit = is_digit" "cmatch CWord = is_word" "cmatch CSpace = is_space"
  by (rule ext, simp)+

datatype re =
    Eps
  | Chr cls
  | Seq re re
  | Alt re re
  | Opt re
  | Rep bool cls   \<comment> \<open>zero or more; \<open>True\<close> is greedy, \<open>False\<close> is lazy\<close>
  | Grp nat re

definition Plus :: "cls \<Rightarrow> re" where "Plus c = Seq (Chr c) (Rep True c)"

fun Lit :: "string \<Rightarrow> re" where
  "Lit [] = Eps"
| "Lit [c] = Chr (CChar c)"
| "Lit (c # cs) = Seq (Chr (CChar c)) (Lit cs)"

fun Seqs :: "re list \<Rightarrow> re" where
  "Seqs [] = Eps"
| "Seqs [r] = r"
| "Seqs (r # rs) = Seq r (Seqs rs)"

section \<open>The backtracking matcher\<close>

type_synonym caps = "(nat \<times> string) list"
type_synonym re_match = "string \<times> caps \<times> string"   \<comment> \<open>matched text, groups, rest of the input\<close>

fun reps :: "cls \<Rightarrow> string \<Rightarrow> (string \<times> string) list" where   \<comment> \<open>longest first\<close>
  "reps k [] = [([], [])]"
| "reps k (c # s) =
     (if cmatch k c then map (\<lambda>(w, t). (c # w, t)) (reps k s) @ [([], c # s)] else [([], c # s)])"

fun mt :: "re \<Rightarrow> string \<Rightarrow> re_match list" where
  "mt Eps s = [([], [], s)]"
| "mt (Chr k) s = (case s of [] \<Rightarrow> [] | c # t \<Rightarrow> if cmatch k c then [([c], [], t)] else [])"
| "mt (Seq r q) s =
     concat (map (\<lambda>(w, cs, t). map (\<lambda>(w', cs', u). (w @ w', cs @ cs', u)) (mt q t)) (mt r s))"
| "mt (Alt r q) s = mt r s @ mt q s"
| "mt (Opt r) s = mt r s @ [([], [], s)]"
| "mt (Rep greedy k) s =
     (let ms = map (\<lambda>(w, t). (w, [], t)) (reps k s) in if greedy then ms else rev ms)"
| "mt (Grp n r) s = map (\<lambda>(w, cs, t). (w, cs @ [(n, w)], t)) (mt r s)"

text \<open>\<open>re.match\<close> (anchored at the start) and \<open>re.search\<close>.\<close>

definition re_match :: "re \<Rightarrow> string \<Rightarrow> re_match option" where
  "re_match r s = (case mt r s of [] \<Rightarrow> None | m # _ \<Rightarrow> Some m)"

fun re_search :: "re \<Rightarrow> string \<Rightarrow> re_match option" where
  "re_search r s =
     (case mt r s of m # _ \<Rightarrow> Some m
      | [] \<Rightarrow> (case s of [] \<Rightarrow> None | _ # t \<Rightarrow> re_search r t))"

declare re_search.simps [simp del]

text \<open>\<open>m.group(n)\<close>: group 0 is the whole match; a group that took no part gives \<open>None\<close>.\<close>

definition group :: "re_match \<Rightarrow> nat \<Rightarrow> string option" where
  "group m n = (case m of (w, cs, t) \<Rightarrow> if n = 0 then Some w else map_of cs n)"

section \<open>The language of a pattern\<close>

fun lang :: "re \<Rightarrow> string set" where
  "lang Eps = {[]}"
| "lang (Chr k) = {[c] | c. cmatch k c}"
| "lang (Seq r q) = {u @ v | u v. u \<in> lang r \<and> v \<in> lang q}"
| "lang (Alt r q) = lang r \<union> lang q"
| "lang (Opt r) = insert [] (lang r)"
| "lang (Rep g k) = {w. list_all (cmatch k) w}"
| "lang (Grp n r) = lang r"

lemma reps_iff: "(w, t) \<in> set (reps k s) \<longleftrightarrow> s = w @ t \<and> list_all (cmatch k) w"
proof (induction s arbitrary: w t)
  case Nil
  then show ?case by auto
next
  case (Cons c s)
  then show ?case by (cases w) auto
qed

lemma mt_sound: "(w, cs, t) \<in> set (mt r s) \<Longrightarrow> s = w @ t \<and> w \<in> lang r"
proof (induction r arbitrary: s w cs t)
  case (Chr k)
  then show ?case by (auto split: list.splits if_splits)
next
  case (Seq r q)
  then obtain u cs1 v z cs2 where
    "(u, cs1, v) \<in> set (mt r s)" "(z, cs2, t) \<in> set (mt q v)" "w = u @ z"
    by auto
  with Seq.IH show ?case by fastforce
next
  case (Rep g k)
  then show ?case by (auto simp: reps_iff Let_def split: if_splits)
qed auto

lemma mt_complete: "w \<in> lang r \<Longrightarrow> \<exists>cs. (w, cs, t) \<in> set (mt r (w @ t))"
proof (induction r arbitrary: w t)
  case (Seq r q)
  then obtain u v where uv: "w = u @ v" "u \<in> lang r" "v \<in> lang q" by auto
  obtain cs1 where 1: "(u, cs1, v @ t) \<in> set (mt r (u @ v @ t))" using Seq.IH(1) uv(2) by blast
  obtain cs2 where 2: "(v, cs2, t) \<in> set (mt q (v @ t))" using Seq.IH(2) uv(3) by blast
  have "(w, cs1 @ cs2, t) \<in> set (mt (Seq r q) (w @ t))"
    using 1 2 uv(1) by (force intro!: bexI [of _ "(u, cs1, v @ t)"])
  then show ?case by blast
next
  case (Rep g k)
  then have "(w, t) \<in> set (reps k (w @ t))" by (simp add: reps_iff)
  then show ?case by (auto simp: Let_def image_iff intro!: bexI [of _ "(w, t)"])
next
  case (Grp n r)
  then obtain cs where "(w, cs, t) \<in> set (mt r (w @ t))" by fastforce
  then show ?case by force
qed fastforce+

section \<open>Searching\<close>

lemma re_search_sound:
  "re_search r s = Some (w, cs, t) \<Longrightarrow> \<exists>p. s = p @ w @ t \<and> (w, cs, t) \<in> set (mt r (w @ t))"
proof (induction r s rule: re_search.induct)
  case (1 r s)
  show ?case
  proof (cases "mt r s")
    case (Cons m ms)
    with "1.prems" have "(w, cs, t) \<in> set (mt r s)" by (simp add: re_search.simps [of r s])
    then show ?thesis using mt_sound by (metis append_Nil)
  next
    case Nil
    with "1.prems" obtain c u where s: "s = c # u" "re_search r u = Some (w, cs, t)"
      by (auto simp: re_search.simps [of r s] split: list.splits)
    with "1.IH" Nil obtain p where "u = p @ w @ t \<and> (w, cs, t) \<in> set (mt r (w @ t))" by blast
    with s show ?thesis by (auto intro!: exI [of _ "c # p"])
  qed
qed

lemma re_search_None: "re_search r (p @ s) = None \<Longrightarrow> mt r s = []"
proof (induction p)
  case Nil
  then show ?case by (auto simp: re_search.simps [of r s] split: list.splits)
next
  case (Cons c p)
  then show ?case by (auto simp: re_search.simps [of r "c # p @ s"] split: list.splits)
qed

text \<open>A pattern is found in exactly the strings that contain a word of its language.\<close>

theorem re_search_iff: "re_search r s \<noteq> None \<longleftrightarrow> (\<exists>p w q. s = p @ w @ q \<and> w \<in> lang r)"
proof
  assume "re_search r s \<noteq> None"
  then obtain w cs t where "re_search r s = Some (w, cs, t)" by auto
  from re_search_sound [OF this] show "\<exists>p w q. s = p @ w @ q \<and> w \<in> lang r"
    using mt_sound by blast
next
  assume "\<exists>p w q. s = p @ w @ q \<and> w \<in> lang r"
  then obtain p w q where "s = p @ w @ q" "w \<in> lang r" by blast
  with mt_complete [of w r q] re_search_None [of r p "w @ q"] show "re_search r s \<noteq> None"
    by force
qed

lemma re_search_ex: "s = p @ w @ q \<Longrightarrow> w \<in> lang r \<Longrightarrow> re_search r s \<noteq> None"
  unfolding re_search_iff by blast

lemma re_search_suffix:
  assumes "re_search r s \<noteq> None" and "\<And>w. w \<in> lang r \<Longrightarrow> \<exists>u v z. w = u @ v @ z \<and> v \<in> lang q"
  shows "re_search q s \<noteq> None"
  using assms unfolding re_search_iff by (metis append.assoc)

section \<open>Groups\<close>

fun grps :: "re \<Rightarrow> (nat \<times> re) list" where
  "grps (Seq r q) = grps r @ grps q"
| "grps (Alt r q) = grps r @ grps q"
| "grps (Opt r) = grps r"
| "grps (Grp n r) = grps r @ [(n, r)]"
| "grps _ = []"

fun fixed_groups :: "re \<Rightarrow> bool" where   \<comment> \<open>every group takes part in every match\<close>
  "fixed_groups (Seq r q) = (fixed_groups r \<and> fixed_groups q)"
| "fixed_groups (Alt r q) = (grps r = [] \<and> grps q = [])"
| "fixed_groups (Opt r) = (grps r = [])"
| "fixed_groups (Grp n r) = fixed_groups r"
| "fixed_groups _ = True"

lemma mt_caps_lang:
  "(w, cs, t) \<in> set (mt r s) \<Longrightarrow> (n, v) \<in> set cs \<Longrightarrow> \<exists>r'. (n, r') \<in> set (grps r) \<and> v \<in> lang r'"
proof (induction r arbitrary: s w cs t)
  case (Chr k)
  then show ?case by (auto split: list.splits if_splits)
next
  case (Seq r q)
  then obtain u cs1 v' z cs2 where
    "(u, cs1, v') \<in> set (mt r s)" "(z, cs2, t) \<in> set (mt q v')" "cs = cs1 @ cs2"
    by auto
  with Seq show ?case by fastforce
next
  case (Alt r q)
  then show ?case by fastforce
next
  case (Rep g k)
  then show ?case by (auto simp: Let_def split: if_splits)
next
  case (Grp k r)
  then obtain cs' where cs': "(w, cs', t) \<in> set (mt r s)" "cs = cs' @ [(k, w)]" by auto
  show ?case
  proof (cases "(n, v) \<in> set cs'")
    case True
    with Grp.IH [OF cs'(1)] show ?thesis by auto
  next
    case False
    with Grp.prems(2) cs'(2) mt_sound [OF cs'(1)] show ?thesis by auto
  qed
qed auto

lemma mt_no_caps: "grps r = [] \<Longrightarrow> (w, cs, t) \<in> set (mt r s) \<Longrightarrow> cs = []"
  using mt_caps_lang by (metis empty_iff empty_set eq_Nil_appendI list.exhaust list.set_intros(1) surj_pair)

lemma mt_caps_keys:
  "fixed_groups r \<Longrightarrow> (w, cs, t) \<in> set (mt r s) \<Longrightarrow> map fst cs = map fst (grps r)"
proof (induction r arbitrary: s w cs t)
  case (Chr k)
  then show ?case by (auto split: list.splits if_splits)
next
  case (Seq r q)
  then show ?case by fastforce
next
  case (Alt r q)
  then show ?case using mt_no_caps [of "Alt r q"] by simp
next
  case (Opt r)
  then show ?case using mt_no_caps [of "Opt r"] by simp
next
  case (Rep g k)
  then show ?case by (auto simp: Let_def split: if_splits)
qed auto

text \<open>
  The groups of a successful search exist and hold words of their sub-patterns: what lets the
  sources call \<open>m.group(n)\<close> and \<open>int\<close> without a further check.
\<close>

lemma group_in_lang:
  assumes "re_search r s = Some m" and "fixed_groups r" and "n \<noteq> 0"
    and "n \<in> fst ` set (grps r)"
  shows "\<exists>v r'. group m n = Some v \<and> (n, r') \<in> set (grps r) \<and> v \<in> lang r'"
proof -
  obtain w cs t where m: "m = (w, cs, t)" by (cases m)
  from assms(1) have in_mt: "(w, cs, t) \<in> set (mt r (w @ t))" unfolding m by (blast dest: re_search_sound)
  have "map fst cs = map fst (grps r)" by (rule mt_caps_keys [OF assms(2) in_mt])
  then have "fst ` set cs = fst ` set (grps r)" by (metis list.set_map)
  with assms(4) have "map_of cs n \<noteq> None" by (simp add: map_of_eq_None_iff)
  then obtain v where v: "map_of cs n = Some v" by blast
  then have "(n, v) \<in> set cs" by (rule map_of_SomeD)
  with in_mt have "\<exists>r'. (n, r') \<in> set (grps r) \<and> v \<in> lang r'" by (rule mt_caps_lang)
  with v assms(3) show ?thesis by (auto simp: m group_def)
qed

section \<open>The first match\<close>

text \<open>
  \<open>first r s m\<close>: \<open>m\<close> is the match a backtracking engine reports for \<open>r\<close> at the start of \<open>s\<close>.
  A sequence whose parts match first composes, so no backtracking has to be reasoned about.
\<close>

definition first :: "re \<Rightarrow> string \<Rightarrow> re_match \<Rightarrow> bool" where
  "first r s m = (\<exists>ms. mt r s = m # ms)"

named_theorems first_intros "how a first match is put together"

lemma first_search: "first r s m \<Longrightarrow> re_search r s = Some m"
  by (auto simp: first_def re_search.simps [of r s])

lemma first_match: "first r s m \<Longrightarrow> re_match r s = Some m"
  by (auto simp: first_def re_match_def)

lemma search_skip: "mt r (c # s) = [] \<Longrightarrow> re_search r (c # s) = re_search r s"
  by (simp add: re_search.simps [of r "c # s"])

lemma first_Eps [first_intros]: "first Eps s ([], [], s)"
  by (simp add: first_def)

lemma first_Chr [first_intros]: "cmatch k c \<Longrightarrow> first (Chr k) (c # s) ([c], [], s)"
  by (simp add: first_def)

lemma first_Seq [first_intros]:
  "first r s (w, cs, t) \<Longrightarrow> first q t (w', cs', u) \<Longrightarrow> first (Seq r q) s (w @ w', cs @ cs', u)"
  by (auto simp: first_def)

lemma first_Grp [first_intros]: "first r s (w, cs, t) \<Longrightarrow> first (Grp n r) s (w, cs @ [(n, w)], t)"
  by (auto simp: first_def)

definition stops :: "cls \<Rightarrow> string \<Rightarrow> bool" where   \<comment> \<open>the class cannot go on\<close>
  "stops k t = (case t of [] \<Rightarrow> True | c # _ \<Rightarrow> \<not> cmatch k c)"

lemma stops_simps [simp]: "stops k []" "stops k (c # t) = (\<not> cmatch k c)"
  by (simp_all add: stops_def)

lemma stops_append: "v \<noteq> [] \<Longrightarrow> stops k (v @ u) = (\<not> cmatch k (hd v))"
  by (cases v) simp_all

lemma hd_list_all: "v \<noteq> [] \<Longrightarrow> list_all P v \<Longrightarrow> P (hd v)"
  by (cases v) simp_all

lemma first_Rep:
  "list_all (cmatch k) w \<Longrightarrow> stops k t \<Longrightarrow> first (Rep True k) (w @ t) (w, [], t)"
proof (induction w)
  case Nil
  then show ?case by (cases t) (auto simp: first_def)
next
  case (Cons c w)
  then show ?case by (auto simp: first_def Let_def)
qed

lemma first_Plus:
  assumes "w \<noteq> []" "list_all (cmatch k) w" "stops k t"
  shows "first (Plus k) (w @ t) (w, [], t)"
proof -
  obtain c v where w: "w = c # v" using assms(1) by (cases w) auto
  have "first (Plus k) (c # (v @ t)) ([c] @ v, [] @ [], t)"
    unfolding Plus_def by (rule first_Seq [OF first_Chr first_Rep]) (use assms w in auto)
  then show ?thesis by (simp add: w)
qed

lemma mt_Plus_fails: "stops k t \<Longrightarrow> mt (Seq (Plus k) q) t = []"
  by (cases t) (auto simp: Plus_def)

lemma first_Lit: "first (Lit u) (u @ t) (u, [], t)"
proof (induction u rule: Lit.induct)
  case 1
  show ?case by (simp add: first_Eps)
next
  case (2 c)
  show ?case by (simp add: first_Chr)
next
  case (3 c d u)
  have "first (Seq (Chr (CChar c)) (Lit (d # u))) (c # (d # u) @ t) ([c] @ (d # u), [] @ [], t)"
    by (rule first_Seq [OF first_Chr 3]) simp
  then show ?case by simp
qed

lemma lang_Lit [simp]: "lang (Lit u) = {u}"
  by (induction u rule: Lit.induct) auto

lemma grps_Lit [simp]: "grps (Lit u) = []" "fixed_groups (Lit u)"
  by (induction u rule: Lit.induct) auto

lemma lang_Plus [simp]: "lang (Plus k) = {w. w \<noteq> [] \<and> list_all (cmatch k) w}"
proof -
  have "c # w \<in> lang (Plus k)" if "cmatch k c" "list_all (cmatch k) w" for c w
    unfolding Plus_def lang.simps mem_Collect_eq
    by (intro exI [of _ "[c]"] exI [of _ w]) (use that in auto)
  then show ?thesis by (auto simp: neq_Nil_conv Plus_def)
qed

lemma grps_Plus [simp]: "grps (Plus k) = []" "fixed_groups (Plus k)"
  by (simp_all add: Plus_def)

text \<open>A word of a sequence is put together from words of its parts, and only so.\<close>

lemma lang_Seqs: "w \<in> lang (Seqs rs) \<longleftrightarrow> (\<exists>ws. w = concat ws \<and> list_all2 (\<lambda>u r. u \<in> lang r) ws rs)"
proof (induction rs arbitrary: w rule: Seqs.induct)
  case 1
  show ?case by simp
next
  case (2 r)
  show ?case by (force simp: list_all2_Cons2)
next
  case (3 r q rs)
  show ?case (is "?l = ?r")
  proof
    assume ?l
    then obtain u v where uv: "w = u @ v" "u \<in> lang r" "v \<in> lang (Seqs (q # rs))"
      by (auto simp only: Seqs.simps lang.simps mem_Collect_eq)
    then obtain ws where "v = concat ws" "list_all2 (\<lambda>u r. u \<in> lang r) ws (q # rs)" by (auto simp: 3)
    with uv show ?r by (intro exI [of _ "u # ws"]) simp
  next
    assume ?r
    then obtain u ws where "w = u @ concat ws" "u \<in> lang r" "list_all2 (\<lambda>u r. u \<in> lang r) ws (q # rs)"
      by (auto simp: list_all2_Cons2 [of _ _ r])
    then show ?l by (simp only: Seqs.simps lang.simps mem_Collect_eq 3) blast
  qed
qed

lemma lang_SeqsI:
  "list_all2 (\<lambda>u r. u \<in> lang r) ws rs \<Longrightarrow> concat ws \<in> lang (Seqs rs)"
  by (auto simp: lang_Seqs)

declare lang.simps(3) [simp del] Lit.simps [simp del] Seqs.simps [simp del]

lemma Lit_single: "Lit [c] = Chr (CChar c)"
  by (rule Lit.simps(2))

section \<open>All matches and substitution\<close>

text \<open>
  \<open>re.findall\<close> and \<open>re.sub\<close> go on after each match.  The patterns the sources use with them never
  match the empty string; for completeness an empty match advances by one character.
\<close>

lemma mt_shorter: "mt r s = (w, cs, t) # ms \<Longrightarrow> w \<noteq> [] \<Longrightarrow> length t < length s"
  using mt_sound [of w cs t r s] by auto

function re_findall :: "re \<Rightarrow> string \<Rightarrow> re_match list" where
  "re_findall r s =
     (case mt r s of
        (w, cs, t) # _ \<Rightarrow>
          (w, cs, t) # (if w \<noteq> [] then re_findall r t
                        else (case s of [] \<Rightarrow> [] | _ # u \<Rightarrow> re_findall r u))
      | [] \<Rightarrow> (case s of [] \<Rightarrow> [] | _ # u \<Rightarrow> re_findall r u))"
  by pat_completeness auto
termination
  by (relation "measure (length \<circ> snd)") (auto dest: mt_shorter)

function re_sub :: "re \<Rightarrow> string \<Rightarrow> string \<Rightarrow> string" where
  "re_sub r rep s =
     (case mt r s of
        (w, cs, t) # _ \<Rightarrow>
          (if w \<noteq> [] then rep @ re_sub r rep t
           else rep @ (case s of [] \<Rightarrow> [] | c # u \<Rightarrow> c # re_sub r rep u))
      | [] \<Rightarrow> (case s of [] \<Rightarrow> [] | c # u \<Rightarrow> c # re_sub r rep u))"
  by pat_completeness auto
termination
  by (relation "measure (length \<circ> snd \<circ> snd)") (auto dest: mt_shorter)

declare re_findall.simps [simp del] re_sub.simps [simp del]

lemma findall_first:
  "first r s (w, cs, t) \<Longrightarrow> w \<noteq> [] \<Longrightarrow> re_findall r s = (w, cs, t) # re_findall r t"
  by (auto simp: first_def re_findall.simps [of r s])

lemma findall_skip: "mt r (c # s) = [] \<Longrightarrow> re_findall r (c # s) = re_findall r s"
  by (simp add: re_findall.simps [of r "c # s"])

lemma sub_skip: "mt r (c # s) = [] \<Longrightarrow> re_sub r rep (c # s) = c # re_sub r rep s"
  by (simp add: re_sub.simps [of r _ "c # s"])

text \<open>A pattern that starts with a character the text lacks changes nothing and finds nothing.\<close>

lemma mt_Chr_absent: "(\<And>c. c \<in> set s \<Longrightarrow> \<not> cmatch k c) \<Longrightarrow> mt (Seq (Chr k) q) s = []"
  by (cases s) auto

lemma sub_absent: "(\<And>c. c \<in> set s \<Longrightarrow> \<not> cmatch k c) \<Longrightarrow> re_sub (Seq (Chr k) q) rep s = s"
proof (induction s)
  case Nil
  then show ?case by (simp add: re_sub.simps)
next
  case (Cons c s)
  then show ?case by (simp add: sub_skip)
qed

lemma findall_absent: "(\<And>c. c \<in> set s \<Longrightarrow> \<not> cmatch k c) \<Longrightarrow> re_findall (Seq (Chr k) q) (s @ t) = re_findall (Seq (Chr k) q) t"
  by (induction s) (simp_all add: findall_skip)

end
