(* ===== verification/Child.thy ===== *)
theory Child
  imports Regex
begin

text \<open>
  The dialogue with a spawned \<open>shape_main\<close> process.  \<open>pexpect\<close> is a third-party package and the
  process is the system under test, so what they answer is a parameter: a child carries the list
  of the answers its successive \<open>expect\<close> calls get.  Every finite dialogue of the (deterministic)
  scripts with any process is such a list; theorems quantify over all of them.  When the list is
  used up the script is still waiting, and so is one whose next answer is not one that the call at
  hand can return; this is the value \<open>Waiting\<close>, never a verdict.
\<close>

section \<open>What a child answers\<close>

datatype pat = PStr string | PRe re | PNoCase string | PTimeout | PEof

datatype answer =
    Matched nat string string   \<comment> \<open>index of the matched pattern, \<open>before\<close>, \<open>after\<close>\<close>
  | TimedOut string             \<comment> \<open>\<open>pexpect.TIMEOUT\<close>, with the text seen so far\<close>
  | Ended string                \<comment> \<open>\<open>pexpect.EOF\<close>\<close>

record child =
  before :: string
  after :: "string option"      \<comment> \<open>\<open>None\<close>: the exception class pexpect stores after TIMEOUT or EOF\<close>
  answers :: "answer list"

text \<open>\<open>child.before + child.after\<close>: a \<open>TypeError\<close> when the last answer was no match.\<close>

definition child_text :: "child \<Rightarrow> string res" where
  "child_text c = (case after c of Some a \<Rightarrow> Inr (before c @ a) | None \<Rightarrow> Inl TypeError)"

datatype 'a run = Waiting | Raised py_error | Returned 'a

definition text_pat :: "pat \<Rightarrow> bool" where
  "text_pat p = (p \<noteq> PTimeout \<and> p \<noteq> PEof)"

text \<open>
  \<open>child.expect(pats, timeout)\<close>: the index of the pattern that matched; TIMEOUT and EOF give
  their index when listed and are raised otherwise (no call of the sources leaves one out).
\<close>

definition expect :: "pat list \<Rightarrow> child \<Rightarrow> (nat \<times> child) run" where
  "expect pats c =
     (case answers c of
        [] \<Rightarrow> Waiting
      | Matched i b a # rest \<Rightarrow>
          (if i < length pats \<and> text_pat (pats ! i)
           then Returned (i, c\<lparr>before := b, after := Some a, answers := rest\<rparr>) else Waiting)
      | TimedOut b # rest \<Rightarrow>
          (case index_of PTimeout pats of
             Some i \<Rightarrow> Returned (i, c\<lparr>before := b, after := None, answers := rest\<rparr>)
           | None \<Rightarrow> Raised (RuntimeError ''TIMEOUT''))
      | Ended b # rest \<Rightarrow>
          (case index_of PEof pats of
             Some i \<Rightarrow> Returned (i, c\<lparr>before := b, after := None, answers := rest\<rparr>)
           | None \<Rightarrow> Raised (RuntimeError ''EOF'')))"

lemma expect_shrinks: "expect pats c = Returned (i, c') \<Longrightarrow> length (answers c') < length (answers c)"
  by (auto simp: expect_def split: list.splits answer.splits if_splits option.splits)

text \<open>A listed text pattern leaves a readable text; TIMEOUT and EOF do not.\<close>

lemma expect_text:
  "expect pats c = Returned (i, c') \<Longrightarrow>
   i < length pats \<and> (text_pat (pats ! i) \<longleftrightarrow> after c' \<noteq> None)"
  by (auto simp: expect_def text_pat_def dest: index_of_Some
      split: list.splits answer.splits if_splits option.splits)

lemma expect_complete:
  "PTimeout \<in> set pats \<Longrightarrow> PEof \<in> set pats \<Longrightarrow> expect pats c \<noteq> Raised e"
  by (auto simp: expect_def index_of_None
      split: list.splits answer.splits if_splits option.splits)

text \<open>More answers never change what a call has returned.\<close>

definition with_more :: "answer list \<Rightarrow> child \<Rightarrow> child" where
  "with_more as c = c\<lparr>answers := answers c @ as\<rparr>"

lemma with_more_simps [simp]:
  "before (with_more as c) = before c" "after (with_more as c) = after c" "child_text (with_more as c) = child_text c"
  by (simp_all add: with_more_def child_text_def split: option.splits)

lemma expect_more:
  "expect pats c = Returned (i, c') \<Longrightarrow> expect pats (with_more as c) = Returned (i, with_more as c')"
  by (auto simp: expect_def with_more_def split: list.splits answer.splits if_splits option.splits)

lemma expect_more_Raised: "expect pats c = Raised e \<Longrightarrow> expect pats (with_more as c) = Raised e"
  by (auto simp: expect_def with_more_def split: list.splits answer.splits if_splits option.splits)

end
