(* ===== verification/Utilities.thy ===== *)
theory Utilities
  imports Child
begin

text \<open>
  \<open>rtps_test_utilities.py\<close>: the return codes, the two default check functions and the removal of
  ANSI escape sequences.  A check function reads the child after its first sample and gives a
  return code; its parameters \<open>samples_sent\<close> and \<open>last_sample_saved\<close> are not read by any of them,
  and \<open>timeout\<close> only reaches \<open>expect\<close>, whose answers the child carries.
\<close>

section \<open>Return codes\<close>

datatype ReturnCode =
    OK | TOPIC_NOT_CREATED | READER_NOT_CREATED | WRITER_NOT_CREATED | FILTER_NOT_CREATED
  | INCOMPATIBLE_QOS | READER_NOT_MATCHED | DATA_NOT_RECEIVED | DATA_NOT_SENT | DATA_NOT_CORRECT
  | RECEIVING_FROM_ONE | RECEIVING_FROM_BOTH | DEADLINE_MISSED | ORDERED_ACCESS_INSTANCE
  | ORDERED_ACCESS_TOPIC | PUB_UNSUPPORTED_FEATURE | SUB_UNSUPPORTED_FEATURE

text \<open>\<open>code.name\<close>\<close>

fun code_name :: "ReturnCode \<Rightarrow> string" where
  "code_name OK = ''OK''"
| "code_name TOPIC_NOT_CREATED = ''TOPIC_NOT_CREATED''"
| "code_name READER_NOT_CREATED = ''READER_NOT_CREATED''"
| "code_name WRITER_NOT_CREATED = ''WRITER_NOT_CREATED''"
| "code_name FILTER_NOT_CREATED = ''FILTER_NOT_CREATED''"
| "code_name INCOMPATIBLE_QOS = ''INCOMPATIBLE_QOS''"
| "code_name READER_NOT_MATCHED = ''READER_NOT_MATCHED''"
| "code_name DATA_NOT_RECEIVED = ''DATA_NOT_RECEIVED''"
| "code_name DATA_NOT_SENT = ''DATA_NOT_SENT''"
| "code_name DATA_NOT_CORRECT = ''DATA_NOT_CORRECT''"
| "code_name RECEIVING_FROM_ONE = ''RECEIVING_FROM_ONE''"
| "code_name RECEIVING_FROM_BOTH = ''RECEIVING_FROM_BOTH''"
| "code_name DEADLINE_MISSED = ''DEADLINE_MISSED''"
| "code_name ORDERED_ACCESS_INSTANCE = ''ORDERED_ACCESS_INSTANCE''"
| "code_name ORDERED_ACCESS_TOPIC = ''ORDERED_ACCESS_TOPIC''"
| "code_name PUB_UNSUPPORTED_FEATURE = ''PUB_UNSUPPORTED_FEATURE''"
| "code_name SUB_UNSUPPORTED_FEATURE = ''SUB_UNSUPPORTED_FEATURE''"

section \<open>Patterns of the sample lines\<close>

definition num :: re where "num = Plus CDigit"

text \<open>\<open>[0-9]\<close> is the class of ASCII digits, the same as \<open>\\d\<close> on ASCII text.\<close>

definition basic_re :: re where   \<comment> \<open>\<open>\\w\\s+\\w+\\s+[0-9]+ [0-9]+ \\[([0-9]+)\\]\<close>\<close>
  "basic_re = Seqs [Chr CWord, Plus CSpace, Plus CWord, Plus CSpace, num, Lit '' '', num,
                    Lit '' ['', Grp 1 num, Lit '']'']"

definition color_re :: re where   \<comment> \<open>\<open>\\w\\s+(\\w+)\\s+[0-9]+ [0-9]+ \\[[0-9]+\\]\<close>\<close>
  "color_re = Seqs [Chr CWord, Plus CSpace, Grp 1 (Plus CWord), Plus CSpace, num, Lit '' '', num,
                    Lit '' ['', num, Lit '']'']"

definition size_re :: re where    \<comment> \<open>\<open>[0-9]+ [0-9]+ \\[([0-9]+)\\]\<close>\<close>
  "size_re = Seqs [num, Lit '' '', num, Lit '' ['', Grp 1 num, Lit '']'']"

definition instance_re :: re where   \<comment> \<open>\<open>\\w+\\s+(\\w+)\\s+[0-9]+\\s+[0-9]+\\s+\\[([0-9]+)\\]\<close>\<close>
  "instance_re = Seqs [Plus CWord, Plus CSpace, Grp 1 (Plus CWord), Plus CSpace, num, Plus CSpace,
                       num, Plus CSpace, Lit ''['', Grp 2 num, Lit '']'']"

definition bracket_re :: re where    \<comment> \<open>\<open>\\[[0-9]+\\]\<close>\<close>
  "bracket_re = Seqs [Lit ''['', num, Lit '']'']"

section \<open>Using a match\<close>

text \<open>
  \<open>m.group(n)\<close> on the result of a search: an \<open>AttributeError\<close> on \<open>None\<close>; a group without a value
  is \<open>None\<close>, which every use in the sources would reject with a \<open>TypeError\<close>.
\<close>

definition py_group :: "re_match option \<Rightarrow> nat \<Rightarrow> string res" where
  "py_group mo n = (case mo of None \<Rightarrow> Inl AttributeError
     | Some m \<Rightarrow> (case group m n of None \<Rightarrow> Inl TypeError | Some v \<Rightarrow> Inr v))"

definition group_int :: "re_match option \<Rightarrow> nat \<Rightarrow> int res" where
  "group_int mo n = rbind (py_group mo n) py_int"

definition from_res :: "'a res \<Rightarrow> ('a \<Rightarrow> 'b run) \<Rightarrow> 'b run" where
  "from_res r f = (case r of Inl e \<Rightarrow> Raised e | Inr x \<Rightarrow> f x)"

lemma from_res_simps [simp, flow_simps]: "from_res (Inl e) f = Raised e" "from_res (Inr x) f = f x"
  by (simp_all add: from_res_def)

lemma from_res_Returned_iff: "from_res r f = Returned y \<longleftrightarrow> (\<exists>x. r = Inr x \<and> f x = Returned y)"
  by (cases r) auto

definition run_bind :: "'a run \<Rightarrow> ('a \<Rightarrow> 'b run) \<Rightarrow> 'b run" where
  "run_bind r f = (case r of Waiting \<Rightarrow> Waiting | Raised e \<Rightarrow> Raised e | Returned x \<Rightarrow> f x)"

lemma run_bind_simps [simp, flow_simps]:
  "run_bind Waiting f = Waiting" "run_bind (Raised e) f = Raised e" "run_bind (Returned x) f = f x"
  by (simp_all add: run_bind_def)

lemma run_bind_Returned_iff:
  "run_bind r f = Returned y \<longleftrightarrow> (\<exists>x. r = Returned x \<and> f x = Returned y)"
  by (cases r) auto

lemma run_bind_Raised_iff:
  "run_bind r f = Raised e \<longleftrightarrow> r = Raised e \<or> (\<exists>x. r = Returned x \<and> f x = Raised e)"
  by (cases r) auto

text \<open>A run that raises nothing and whose value, if there is one, satisfies \<open>P\<close>.\<close>

definition run_ok :: "('a \<Rightarrow> bool) \<Rightarrow> 'a run \<Rightarrow> bool" where
  "run_ok P r = (case r of Waiting \<Rightarrow> True | Raised _ \<Rightarrow> False | Returned x \<Rightarrow> P x)"

lemma run_ok_simps [simp, flow_simps]: "run_ok P Waiting" "\<not> run_ok P (Raised e)" "run_ok P (Returned x) = P x"
  by (simp_all add: run_ok_def)

lemma run_ok_expect:
  assumes "\<And>e. expect ps c \<noteq> Raised e" "\<And>i c'. expect ps c = Returned (i, c') \<Longrightarrow> run_ok P (f i c')"
  shows "run_ok P (run_bind (expect ps c) (\<lambda>(i, c'). f i c'))"
  using assms by (cases "expect ps c") auto

lemma run_ok_if: "(b \<Longrightarrow> run_ok P r) \<Longrightarrow> (\<not> b \<Longrightarrow> run_ok P r') \<Longrightarrow> run_ok P (if b then r else r')"
  by simp

section \<open>The default checks\<close>

type_synonym check_function = "child \<Rightarrow> ReturnCode run"

definition no_check :: check_function where
  "no_check child_sub = Returned OK"

definition basic_check :: check_function where
  "basic_check child_sub =
     from_res (child_text child_sub) (\<lambda>text.
       let sub_string = re_search basic_re text in
       if sub_string = None then Returned DATA_NOT_RECEIVED
       else from_res (group_int sub_string 1) (\<lambda>sample_size.
         if sample_size = 0 then Returned DATA_NOT_CORRECT else Returned OK))"

text \<open>The prologue of every check function of \<open>test_suite_functions.py\<close>.\<close>

definition after_basic_check :: "child \<Rightarrow> ReturnCode run \<Rightarrow> ReturnCode run" where
  "after_basic_check child_sub rest =
     run_bind (basic_check child_sub) (\<lambda>basic_check_retcode.
       if basic_check_retcode \<noteq> OK then Returned basic_check_retcode else rest)"

section \<open>ANSI escape sequences\<close>

text \<open>\<open>\\x1B(?:[@-Z\\\\-_]|\\[[0-?]*[ -/]*[@-~])\<close>\<close>

definition ansi_escape :: re where
  "ansi_escape =
     Seq (Chr (CRange 27 27))
       (Alt (Chr (COr (CRange 64 90) (CRange 92 95)))
            (Seqs [Lit ''['', Rep True (CRange 48 63), Rep True (CRange 32 47), Chr (CRange 64 126)]))"

definition remove_ansi_colors :: "string \<Rightarrow> string" where
  "remove_ansi_colors text = re_sub ansi_escape [] text"

lemma remove_ansi_colors_plain:
  "(\<And>c. c \<in> set s \<Longrightarrow> code_of c \<noteq> (27::nat)) \<Longrightarrow> remove_ansi_colors s = s"
  unfolding remove_ansi_colors_def ansi_escape_def by (rule sub_absent) auto

section \<open>Lemmas on the sample patterns\<close>

lemmas pattern_defs = basic_re_def color_re_def size_re_def instance_re_def bracket_re_def num_def

lemma lang_num: "lang num = {w. w \<noteq> [] \<and> list_all is_digit w}"
  by (simp add: num_def)

lemma lang_spaces: "lang (Plus CSpace) = {w. w \<noteq> [] \<and> list_all is_space w}"
  by simp

lemma lang_words: "lang (Plus CWord) = {w. w \<noteq> [] \<and> list_all is_word w}"
  by simp

text \<open>A numeric group of a search that succeeded converts without an exception.\<close>

lemma group_int_ok:
  assumes "re_search r s = Some m" and "fixed_groups r" and "n \<noteq> 0"
    and "map_of (grps r) n = Some num" and "distinct (map fst (grps r))"
  shows "\<exists>v. py_group (Some m) n = Inr v \<and> group_int (Some m) n = Inr (digits_val v)"
proof -
  from assms(4) have "n \<in> fst ` set (grps r)" by (force dest: map_of_SomeD)
  with assms obtain v r' where v: "group m n = Some v" "(n, r') \<in> set (grps r)" "v \<in> lang r'"
    using group_in_lang by blast
  with assms(4,5) have "r' = num" by (metis map_of_eq_Some_iff option.inject)
  with v have "py_int v = Inr (digits_val v)" by (simp add: lang_num py_int_digits)
  with v show ?thesis by (simp add: py_group_def group_int_def)
qed

lemma py_group_ok:
  assumes "re_search r s = Some m" and "fixed_groups r" and "n \<noteq> 0" and "n \<in> fst ` set (grps r)"
  shows "\<exists>v. py_group (Some m) n = Inr v"
  using group_in_lang [OF assms] by (auto simp: py_group_def)

text \<open>
  What the default check establishes for the other patterns: after it has accepted a text, the
  patterns of the check functions are found in that text as well.
\<close>

lemma basic_parts:
  assumes "re_search basic_re s \<noteq> None"
  obtains p l b c d x y z q where
    "s = p @ concat [l, b, c, d, x, '' '', y, '' ['', z, '']''] @ q"
    "l \<in> lang (Plus CWord)" "b \<in> lang (Plus CSpace)" "c \<in> lang (Plus CWord)"
    "d \<in> lang (Plus CSpace)" "x \<in> lang num" "y \<in> lang num" "z \<in> lang num"
proof -
  from assms obtain p w q where s: "s = p @ w @ q" and w: "w \<in> lang basic_re"
    using re_search_iff by blast
  from w obtain l b c d x y z where "w = concat [[l], b, c, d, x, '' '', y, '' ['', z, '']'']"
    "is_word l" "b \<in> lang (Plus CSpace)" "c \<in> lang (Plus CWord)"
    "d \<in> lang (Plus CSpace)" "x \<in> lang num" "y \<in> lang num" "z \<in> lang num"
    unfolding basic_re_def lang_Seqs by (auto simp: list_all2_Cons2)
  then show ?thesis using s by (intro that [of p "[l]" b c d x y z q]) simp_all
qed

lemma basic_size: "re_search basic_re s \<noteq> None \<Longrightarrow> re_search size_re s \<noteq> None"
proof (elim basic_parts)
  fix p l b c d x y z q
  assume s: "s = p @ concat [l, b, c, d, x, '' '', y, '' ['', z, '']''] @ q"
    and num: "x \<in> lang num" "y \<in> lang num" "z \<in> lang num"
  have "concat [x, '' '', y, '' ['', z, '']''] \<in> lang size_re"
    unfolding size_re_def by (rule lang_SeqsI) (use num in simp)
  with s show ?thesis by (intro re_search_ex [of s "p @ l @ b @ c @ d" _ q]) simp_all
qed

lemma basic_color: "re_search basic_re s \<noteq> None \<Longrightarrow> re_search color_re s \<noteq> None"
proof -
  have "w \<in> lang color_re \<longleftrightarrow> w \<in> lang basic_re" for w
    by (simp add: basic_re_def color_re_def lang_Seqs list_all2_Cons2)
  then show "re_search basic_re s \<noteq> None \<Longrightarrow> re_search color_re s \<noteq> None"
    unfolding re_search_iff by simp
qed

lemma basic_instance: "re_search basic_re s \<noteq> None \<Longrightarrow> re_search instance_re s \<noteq> None"
proof (elim basic_parts)
  fix p l b c d x y z q
  assume s: "s = p @ concat [l, b, c, d, x, '' '', y, '' ['', z, '']''] @ q"
    and parts: "l \<in> lang (Plus CWord)" "b \<in> lang (Plus CSpace)" "c \<in> lang (Plus CWord)"
    "d \<in> lang (Plus CSpace)" "x \<in> lang num" "y \<in> lang num" "z \<in> lang num"
  have "concat [l, b, c, d, x, '' '', y, '' '', ''['', z, '']''] \<in> lang instance_re"
    unfolding instance_re_def by (rule lang_SeqsI) (use parts in \<open>simp add: is_space_def\<close>)
  with s show ?thesis by (intro re_search_ex [of s p _ q]) simp_all
qed

text \<open>The default check never raises on a text, and \<open>OK\<close> means a well-formed sample of size not 0.\<close>

lemma basic_check_text:
  assumes "child_text c = Inr t"
  shows "basic_check c = Returned (case re_search basic_re t of None \<Rightarrow> DATA_NOT_RECEIVED
           | Some m \<Rightarrow> (if group_int (Some m) 1 = Inr 0 then DATA_NOT_CORRECT else OK))"
proof (cases "re_search basic_re t")
  case None
  with assms show ?thesis by (simp add: basic_check_def)
next
  case (Some m)
  have "\<exists>v. py_group (Some m) 1 = Inr v \<and> group_int (Some m) 1 = Inr (digits_val v)"
    by (rule group_int_ok [OF Some]) (simp_all add: basic_re_def num_def Seqs.simps)
  with assms Some show ?thesis by (auto simp: basic_check_def)
qed

lemma basic_check_OK:
  assumes "basic_check c = Returned OK"
  obtains t where "child_text c = Inr t" "re_search basic_re t \<noteq> None"
    "re_search size_re t \<noteq> None" "re_search color_re t \<noteq> None" "re_search instance_re t \<noteq> None"
proof -
  obtain t where t: "child_text c = Inr t"
    using assms by (auto simp: basic_check_def from_res_def split: sum.splits)
  with assms have "re_search basic_re t \<noteq> None"
    by (auto simp: basic_check_text split: option.splits)
  with t that show ?thesis by (simp add: basic_size basic_color basic_instance)
qed

text \<open>The prologue: either its own verdict, or the rest of the check on a text it has accepted.\<close>

lemma after_basic_check_cases:
  assumes "after_basic_check c rest = Returned r"
  obtains "basic_check c = Returned r" "r = DATA_NOT_RECEIVED \<or> r = DATA_NOT_CORRECT"
  | t where "child_text c = Inr t" "re_search basic_re t \<noteq> None" "re_search size_re t \<noteq> None"
      "re_search color_re t \<noteq> None" "re_search instance_re t \<noteq> None" "rest = Returned r"
proof -
  from assms obtain x where x: "basic_check c = Returned x" "(if x \<noteq> OK then Returned x else rest) = Returned r"
    by (auto simp: after_basic_check_def run_bind_Returned_iff)
  obtain t where t: "child_text c = Inr t"
    using x(1) by (auto simp: basic_check_def from_res_def split: sum.splits)
  show ?thesis
  proof (cases "x = OK")
    case True
    with x basic_check_OK [of c] that(2) show ?thesis by auto
  next
    case False
    with x basic_check_text [OF t] that(1) show ?thesis by (auto split: option.splits if_splits)
  qed
qed

lemma after_basic_check_pass: "basic_check c = Returned OK \<Longrightarrow> after_basic_check c rest = rest"
  by (simp add: after_basic_check_def)

lemma after_basic_check_Raised:
  assumes "child_text c = Inr t" and "re_search basic_re t \<noteq> None \<Longrightarrow> rest \<noteq> Raised e"
  shows "after_basic_check c rest \<noteq> Raised e"
proof (cases "re_search basic_re t")
  case None
  with assms(1) show ?thesis by (simp add: after_basic_check_def basic_check_text)
next
  case (Some m)
  with assms show ?thesis by (simp add: after_basic_check_def basic_check_text)
qed

lemma after_basic_check_Waiting:
  assumes "child_text c = Inr t" and "re_search basic_re t \<noteq> None \<Longrightarrow> rest \<noteq> Waiting"
  shows "after_basic_check c rest \<noteq> Waiting"
proof (cases "re_search basic_re t")
  case None
  with assms(1) show ?thesis by (simp add: after_basic_check_def basic_check_text)
next
  case (Some m)
  with assms show ?thesis by (simp add: after_basic_check_def basic_check_text)
qed

section \<open>Samples\<close>

text \<open>
  What the check functions read off a text: the instance (the colour) and the sequence number (the
  shape size).  \<open>instance_groups\<close> says that their \<open>group\<close> and \<open>int\<close> calls give just that.
\<close>

definition sample_of :: "string \<Rightarrow> (string \<times> int) option" where
  "sample_of t = (case re_search instance_re t of None \<Rightarrow> None
     | Some m \<Rightarrow> (case (py_group (Some m) 1, group_int (Some m) 2) of
         (Inr color, Inr n) \<Rightarrow> Some (color, n) | _ \<Rightarrow> None))"

lemma instance_groups:
  assumes "re_search instance_re t = Some m"
  shows "\<exists>color n. sample_of t = Some (color, n)
           \<and> py_group (Some m) 1 = Inr color \<and> group_int (Some m) 2 = Inr n"
proof -
  note shape = instance_re_def num_def Seqs.simps
  have "\<exists>v. py_group (Some m) 1 = Inr v"
    by (rule py_group_ok [OF assms]) (simp_all add: shape)
  moreover have "\<exists>v. py_group (Some m) 2 = Inr v \<and> group_int (Some m) 2 = Inr (digits_val v)"
    by (rule group_int_ok [OF assms]) (simp_all add: shape)
  ultimately show ?thesis using assms by (auto simp: sample_of_def)
qed

lemma sample_of_None: "sample_of t = None \<longleftrightarrow> re_search instance_re t = None"
proof (cases "re_search instance_re t")
  case (Some m)
  with instance_groups [OF Some] show ?thesis by auto
qed (simp add: sample_of_def)

text \<open>The line \<open>shape_main\<close> prints for a sample is read back, whatever its padding.\<close>

lemma instance_re_line:
  assumes "a \<noteq> []" "list_all is_word a" "b \<noteq> []" "list_all is_space b"
    "c \<noteq> []" "list_all is_word c" "d \<noteq> []" "list_all is_space d"
    "x \<noteq> []" "list_all is_digit x" "e \<noteq> []" "list_all is_space e"
    "y \<noteq> []" "list_all is_digit y" "f \<noteq> []" "list_all is_space f"
    "z \<noteq> []" "list_all is_digit z"
  shows "re_search instance_re (a @ b @ c @ d @ x @ e @ y @ f @ ''['' @ z @ '']'' @ q)
         = Some (a @ b @ c @ d @ x @ e @ y @ f @ ''['' @ z @ '']'', [(1, c), (2, z)], q)"
proof -
  have hds: "is_space (hd b)" "is_word (hd c)" "is_space (hd d)" "is_digit (hd x)" "is_space (hd e)"
    "is_digit (hd y)" "is_space (hd f)" "is_digit (hd z)"
    using assms by (auto intro: hd_list_all)
  then have stop: "\<not> is_word (hd b)" "\<not> is_space (hd c)" "\<not> is_word (hd d)" "\<not> is_space (hd x)"
    "\<not> is_digit (hd e)" "\<not> is_space (hd y)" "\<not> is_digit (hd f)"
    using word_not_space digit_not_space by blast+
  have brackets: "\<not> is_space (CHR ''['')" "\<not> is_digit (CHR '']'')"
    by (simp_all add: is_space_def is_digit_def)
  note part = first_Plus [where k = CWord] first_Plus [where k = CSpace] first_Plus [where k = CDigit]
  have "first instance_re (a @ b @ c @ d @ x @ e @ y @ f @ ''['' @ z @ '']'' @ q)
    (a @ b @ c @ d @ x @ e @ y @ f @ ''['' @ z @ '']'',
     [] @ [] @ ([] @ [(1, c)]) @ [] @ [] @ [] @ [] @ [] @ [] @ ([] @ [(2, z)]) @ [], q)"
    unfolding instance_re_def num_def Seqs.simps
    by (rule first_Seq first_Grp first_Lit part
        | use assms stop brackets in \<open>simp add: stops_append\<close>)+
  then show ?thesis by (simp add: first_search)
qed

end
