(* ===== verification/CheckLoop.thy ===== *)
theory CheckLoop
  imports Utilities
begin

text \<open>
  The loop every check function of \<open>test_suite_functions.py\<close> runs: while a guard holds, look at
  the text of the last match, ask the child for its next output, react to the index of the pattern
  that came.  The Python control flow (\<open>break\<close>, \<open>return\<close>, an exception) is a value; the driver
  \<open>run_loop\<close> is the \<open>while\<close> statement.  Each check function is a record of its parts.  The locale
  \<open>loop_contract\<close> states what the driver guarantees for parts that keep an invariant: no exception
  escapes, a complete script gets a verdict, and every verdict comes from a history of texts that
  the child really printed.
\<close>

definition MAX_SAMPLES_READ :: nat where "MAX_SAMPLES_READ = 500"

datatype 's flow = Next 's | Break 's | Return ReturnCode | Raise py_error

definition attempt :: "'a res \<Rightarrow> ('a \<Rightarrow> 's flow) \<Rightarrow> 's flow" where
  "attempt r f = (case r of Inl e \<Rightarrow> Raise e | Inr x \<Rightarrow> f x)"

lemma attempt_simps [simp, flow_simps]: "attempt (Inl e) f = Raise e" "attempt (Inr x) f = f x"
  by (simp_all add: attempt_def)

record 's check_loop =
  guard :: "'s \<Rightarrow> bool"                             \<comment> \<open>the condition of the \<open>while\<close>\<close>
  body :: "string res \<Rightarrow> 's \<Rightarrow> 's flow"              \<comment> \<open>up to the call of \<open>expect\<close>\<close>
  pats :: "pat list"                                \<comment> \<open>the patterns of that call\<close>
  react :: "nat \<Rightarrow> string res \<Rightarrow> 's \<Rightarrow> 's flow"      \<comment> \<open>from the index to the end of the body\<close>
  finish :: "'s \<Rightarrow> ReturnCode"                       \<comment> \<open>the code after the loop\<close>

function run_loop :: "'s check_loop \<Rightarrow> 's \<Rightarrow> child \<Rightarrow> ReturnCode run" where
  "run_loop L s c =
     (if \<not> guard L s then Returned (finish L s)
      else (case body L (child_text c) s of
              Raise e \<Rightarrow> Raised e
            | Return r \<Rightarrow> Returned r
            | Break s' \<Rightarrow> Returned (finish L s')
            | Next s' \<Rightarrow>
                (case expect (pats L) c of
                   Waiting \<Rightarrow> Waiting
                 | Raised e \<Rightarrow> Raised e
                 | Returned (i, c') \<Rightarrow>
                     (case react L i (child_text c') s' of
                        Raise e \<Rightarrow> Raised e
                      | Return r \<Rightarrow> Returned r
                      | Break s'' \<Rightarrow> Returned (finish L s'')
                      | Next s'' \<Rightarrow> run_loop L s'' c'))))"
  by pat_completeness auto
termination
  by (relation "measure (\<lambda>(L, s, c). length (answers c))") (auto dest: expect_shrinks)

declare run_loop.simps [simp del]

section \<open>What every run of the loop does\<close>

text \<open>A verdict that has been reached does not depend on what the child prints later.\<close>

lemma run_loop_more: "run_loop L s c = Returned r \<Longrightarrow> run_loop L s (with_more as c) = Returned r"
proof (induction L s c rule: run_loop.induct)
  case (1 L s c)
  note unfold = run_loop.simps [of L s c] run_loop.simps [of L s "with_more as c"]
  show ?case
  proof (cases "guard L s \<and> (\<exists>s'. body L (child_text c) s = Next s')")
    case False
    with "1.prems" show ?thesis by (auto simp: unfold split: flow.splits)
  next
    case True
    then obtain s' where s': "guard L s" "body L (child_text c) s = Next s'" by blast
    with "1.prems" obtain i c' where ic: "expect (pats L) c = Returned (i, c')"
      by (auto simp: unfold split: run.splits)
    with "1.IH" [OF _ s'(2) ic refl] s' "1.prems" show ?thesis
      by (auto simp: unfold expect_more split: flow.splits)
  qed
qed

text \<open>
  A complete script: every answer is one the call can return, and the child falls silent or exits
  at some point.
\<close>

fun legal_answer :: "pat list \<Rightarrow> answer \<Rightarrow> bool" where
  "legal_answer ps (Matched i _ _) = (i < length ps \<and> text_pat (ps ! i))"
| "legal_answer ps _ = True"

fun silent_answer :: "answer \<Rightarrow> bool" where
  "silent_answer (Matched _ _ _) = False"
| "silent_answer _ = True"

definition complete_script :: "pat list \<Rightarrow> answer list \<Rightarrow> bool" where
  "complete_script ps as = (list_all (legal_answer ps) as \<and> list_ex silent_answer as)"

lemma expect_not_waiting: "complete_script ps (answers c) \<Longrightarrow> expect ps c \<noteq> Waiting"
  by (auto simp: complete_script_def expect_def
      split: list.splits answer.splits option.splits)

lemma expect_tail:
  "complete_script ps (answers c) \<Longrightarrow> expect ps c = Returned (i, c') \<Longrightarrow> after c' \<noteq> None \<Longrightarrow>
   complete_script ps (answers c')"
  by (auto simp: complete_script_def expect_def
      split: list.splits answer.splits option.splits if_splits)

section \<open>The texts a loop sees, and how the child falls silent\<close>

fun later_texts :: "answer list \<Rightarrow> string list" where
  "later_texts (Matched i b a # rest) = (b @ a) # later_texts rest"
| "later_texts _ = []"

definition texts :: "child \<Rightarrow> string list" where
  "texts c = (case child_text c of Inr t \<Rightarrow> t # later_texts (answers c) | Inl _ \<Rightarrow> [])"

fun ending :: "answer list \<Rightarrow> pat option" where
  "ending [] = None"
| "ending (Matched i b a # rest) = ending rest"
| "ending (TimedOut b # rest) = Some PTimeout"
| "ending (Ended b # rest) = Some PEof"

text \<open>One call of \<open>expect\<close> that lists both TIMEOUT and EOF.\<close>

lemma expect_outcomes:
  assumes "PTimeout \<in> set ps" "PEof \<in> set ps" "child_text c = Inr t"
  obtains (waits) "expect ps c = Waiting" "\<not> complete_script ps (answers c)"
      "list_all (legal_answer ps) (answers c) \<Longrightarrow> texts c = [t]"
  | (matched) i t' c' where "expect ps c = Returned (i, c')" "i < length ps" "text_pat (ps ! i)"
      "child_text c' = Inr t'" "texts c = t # texts c'" "ending (answers c) = ending (answers c')"
      "complete_script ps (answers c) \<Longrightarrow> complete_script ps (answers c')"
      "list_all (legal_answer ps) (answers c) \<Longrightarrow> list_all (legal_answer ps) (answers c')"
      "length (answers c') < length (answers c)"
  | (silent) i c' where "expect ps c = Returned (i, c')" "i < length ps" "\<not> text_pat (ps ! i)"
      "child_text c' = Inl TypeError" "texts c = [t]" "ending (answers c) = Some (ps ! i)"
proof (cases "answers c")
  case Nil
  then have "expect ps c = Waiting" "texts c = [t]" using assms(3) by (simp_all add: expect_def texts_def)
  with waits expect_not_waiting show ?thesis by blast
next
  case (Cons a rest)
  show ?thesis
  proof (cases a)
    case (Matched i b d)
    show ?thesis
    proof (cases "i < length ps \<and> text_pat (ps ! i)")
      case True
      with Cons Matched assms(3) show ?thesis
        by (intro matched [of i "c\<lparr>before := b, after := Some d, answers := rest\<rparr>" "b @ d"])
           (auto simp: expect_def texts_def child_text_def complete_script_def)
    next
      case False
      with Cons Matched have "expect ps c = Waiting" "\<not> list_all (legal_answer ps) (answers c)"
        by (auto simp: expect_def)
      with waits expect_not_waiting show ?thesis by blast
    qed
  next
    case (TimedOut b)
    obtain i where i: "index_of PTimeout ps = Some i"
      using assms(1) index_of_None [of PTimeout ps] by (cases "index_of PTimeout ps") auto
    with Cons TimedOut assms(3) index_of_Some [OF i] show ?thesis
      by (intro silent [of i "c\<lparr>before := b, after := None, answers := rest\<rparr>"])
         (auto simp: expect_def texts_def child_text_def text_pat_def)
  next
    case (Ended b)
    obtain i where i: "index_of PEof ps = Some i"
      using assms(2) index_of_None [of PEof ps] by (cases "index_of PEof ps") auto
    with Cons Ended assms(3) index_of_Some [OF i] show ?thesis
      by (intro silent [of i "c\<lparr>before := b, after := None, answers := rest\<rparr>"])
         (auto simp: expect_def texts_def child_text_def text_pat_def)
  qed
qed

section \<open>The contract of a loop\<close>

text \<open>
  What one part of the loop's body must do: raise nothing, and satisfy a condition per way of
  leaving it.
\<close>

definition flow_spec :: "('s \<Rightarrow> bool) \<Rightarrow> ('s \<Rightarrow> bool) \<Rightarrow> (ReturnCode \<Rightarrow> bool) \<Rightarrow> 's flow \<Rightarrow> bool" where
  "flow_spec N B R f = (case f of Next s \<Rightarrow> N s | Break s \<Rightarrow> B s | Return r \<Rightarrow> R r | Raise _ \<Rightarrow> False)"

lemma flow_spec_simps [simp, flow_simps]:
  "flow_spec N B R (Next s) = N s" "flow_spec N B R (Break s) = B s"
  "flow_spec N B R (Return r) = R r" "\<not> flow_spec N B R (Raise e)"
  by (simp_all add: flow_spec_def)

lemma flow_spec_if [simp]:
  "flow_spec N B R (if b then f else g) \<longleftrightarrow> (b \<longrightarrow> flow_spec N B R f) \<and> (\<not> b \<longrightarrow> flow_spec N B R g)"
  by simp

text \<open>
  \<open>Inv h t s\<close> relates the state to the texts \<open>h\<close> already worked through and the text \<open>t\<close> at hand,
  \<open>Mid h t s\<close> does so between the body and the reaction to the child's answer.  \<open>good h t how r\<close>
  says what a verdict \<open>r\<close> given at that point means; \<open>how\<close> is \<open>None\<close>, or the TIMEOUT or EOF on which
  the child fell silent.
\<close>

locale loop_contract =
  fixes L :: "'s check_loop"
    and Inv :: "string list \<Rightarrow> string \<Rightarrow> 's \<Rightarrow> bool"
    and Mid :: "string list \<Rightarrow> string \<Rightarrow> 's \<Rightarrow> bool"
    and good :: "string list \<Rightarrow> string \<Rightarrow> pat option \<Rightarrow> ReturnCode \<Rightarrow> bool"
  assumes listed: "PTimeout \<in> set (pats L)" "PEof \<in> set (pats L)"
    and off: "Inv h t s \<Longrightarrow> \<not> guard L s \<Longrightarrow> good h t None (finish L s)"
    and body_spec: "Inv h t s \<Longrightarrow> guard L s \<Longrightarrow>
          flow_spec (Mid h t) (\<lambda>s'. good h t None (finish L s')) (good h t None) (body L (Inr t) s)"
    and react_text: "Mid h t s \<Longrightarrow> i < length (pats L) \<Longrightarrow> text_pat (pats L ! i) \<Longrightarrow>
          flow_spec (Inv (h @ [t]) t') (\<lambda>s'. good (h @ [t]) t' None (finish L s'))
            (good (h @ [t]) t' None) (react L i (Inr t') s)"
    and react_silent: "Mid h t s \<Longrightarrow> i < length (pats L) \<Longrightarrow> \<not> text_pat (pats L ! i) \<Longrightarrow>
          flow_spec (\<lambda>_. False) (\<lambda>s'. good h t (Some (pats L ! i)) (finish L s'))
            (good h t (Some (pats L ! i))) (react L i (Inl TypeError) s)"
begin

text \<open>Where a verdict on the child \<open>c\<close>, after the texts \<open>h\<close>, comes from.\<close>

definition justified :: "string list \<Rightarrow> child \<Rightarrow> ReturnCode \<Rightarrow> bool" where
  "justified h c r \<longleftrightarrow> (\<exists>h' u how. prefix (h' @ [u]) (texts c) \<and> good (h @ h') u how r
     \<and> (\<forall>p. how = Some p \<longrightarrow> texts c = h' @ [u] \<and> ending (answers c) = Some p))"

lemma justified_now: "child_text c = Inr t \<Longrightarrow> good h t None r \<Longrightarrow> justified h c r"
  unfolding justified_def
  by (intro exI [of _ "[]"] exI [of _ t] exI [of _ None]) (simp add: texts_def)

lemma justified_silent:
  "texts c = [t] \<Longrightarrow> ending (answers c) = Some p \<Longrightarrow> good h t (Some p) r \<Longrightarrow> justified h c r"
  unfolding justified_def
  by (intro exI [of _ "[]"] exI [of _ t] exI [of _ "Some p"]) simp

lemma justified_later:
  assumes "texts c = t # texts c'" "ending (answers c) = ending (answers c')" "justified (h @ [t]) c' r"
  shows "justified h c r"
proof -
  from assms(3) obtain h' u how where "prefix (h' @ [u]) (texts c')" "good (h @ t # h') u how r"
    "\<forall>p. how = Some p \<longrightarrow> texts c' = h' @ [u] \<and> ending (answers c') = Some p"
    by (auto simp: justified_def)
  with assms(1,2) show ?thesis
    unfolding justified_def
    by (intro exI [of _ "t # h'"] exI [of _ u] exI [of _ how]) simp
qed

definition stalled :: "string list \<Rightarrow> child \<Rightarrow> bool" where
  "stalled h c \<longleftrightarrow> \<not> complete_script (pats L) (answers c)
     \<and> (list_all (legal_answer (pats L)) (answers c) \<longrightarrow>
          (\<exists>h' u s. texts c = h' @ [u] \<and> Mid (h @ h') u s))"

lemma stalled_later:
  assumes "stalled (h @ [t]) c'" "texts c = t # texts c'"
    and "complete_script (pats L) (answers c) \<Longrightarrow> complete_script (pats L) (answers c')"
    and "list_all (legal_answer (pats L)) (answers c) \<Longrightarrow> list_all (legal_answer (pats L)) (answers c')"
  shows "stalled h c"
  unfolding stalled_def
proof (intro conjI impI)
  show "\<not> complete_script (pats L) (answers c)" using assms(1,3) by (auto simp: stalled_def)
  assume "list_all (legal_answer (pats L)) (answers c)"
  with assms(1,4) obtain h' u s where "texts c' = h' @ [u]" "Mid (h @ t # h') u s"
    by (auto simp: stalled_def)
  with assms(2) show "\<exists>h' u s. texts c = h' @ [u] \<and> Mid (h @ h') u s"
    by (intro exI [of _ "t # h'"] exI [of _ u] exI [of _ s]) simp
qed

text \<open>
  The loop raises nothing, waits only while the script is incomplete, and justifies its verdict.
\<close>

theorem run_justified:
  assumes "Inv h t s" and "child_text c = Inr t"
  shows "case run_loop L s c of Raised _ \<Rightarrow> False | Waiting \<Rightarrow> stalled h c | Returned r \<Rightarrow> justified h c r"
  using assms
proof (induction "length (answers c)" arbitrary: h s c t rule: less_induct)
  case (less c h s t)
  note run = run_loop.simps [of L s c]
  show ?case
  proof (cases "guard L s")
    case False
    with off [OF less.prems(1)] justified_now [OF less.prems(2)] show ?thesis by (simp add: run)
  next
    case True
    note spec = body_spec [OF less.prems(1) True]
    show ?thesis
    proof (cases "\<exists>s'. body L (Inr t) s = Next s'")
      case False
      with spec True less.prems(2) justified_now [OF less.prems(2)] show ?thesis
        by (cases "body L (Inr t) s") (simp_all add: run)
    next
      case True
      then obtain s' where s': "body L (Inr t) s = Next s'" by blast
      with spec have mid: "Mid h t s'" by simp
      note here = run s' \<open>guard L s\<close> less.prems(2)
      from listed less.prems(2) show ?thesis
      proof (cases rule: expect_outcomes)
        case waits
        with mid have "stalled h c"
          unfolding stalled_def by (metis append_Nil append_Nil2)
        with here waits(1) show ?thesis by simp
      next
        case (matched i t' c')
        note react = react_text [OF mid matched(2,3), of t']
        have now: "justified h c r" if "good (h @ [t]) t' None r" for r
          by (rule justified_later [OF matched(5,6) justified_now [OF matched(4) that]])
        show ?thesis
        proof (cases "react L i (Inr t') s'")
          case (Next s'')
          with react have "Inv (h @ [t]) t' s''" by simp
          from less.hyps [OF matched(9) this matched(4)] matched(1,4) Next here
            justified_later [OF matched(5,6)] stalled_later [OF _ matched(5,7,8)]
          show ?thesis by (auto split: run.splits)
        qed (use matched(1,4) react here now in simp_all)
      next
        case (silent i c')
        from react_silent [OF mid silent(2,3)] silent(1,4) here justified_silent [OF silent(5,6)]
        show ?thesis by (cases "react L i (Inl TypeError) s'") simp_all
      qed
    qed
  qed
qed

lemma never_raises: "Inv h t s \<Longrightarrow> child_text c = Inr t \<Longrightarrow> run_loop L s c \<noteq> Raised e"
  using run_justified by fastforce

lemma returns_on_complete:
  assumes "Inv h t s" "child_text c = Inr t" "complete_script (pats L) (answers c)"
  obtains r where "run_loop L s c = Returned r" "justified h c r"
  using run_justified [OF assms(1,2)] assms(3) by (cases "run_loop L s c") (auto simp: stalled_def)

lemma waits_only_at_end:
  assumes "Inv h t s" "child_text c = Inr t" "run_loop L s c = Waiting"
    and "list_all (legal_answer (pats L)) (answers c)"
  obtains h' u s' where "texts c = h' @ [u]" "Mid (h @ h') u s'"
  using run_justified [OF assms(1,2)] assms(3,4) by (auto simp: stalled_def)

lemma justified_verdict:
  assumes "Inv h t s" "child_text c = Inr t" "run_loop L s c = Returned r"
  shows "justified h c r"
  using run_justified [OF assms(1,2)] assms(3) by simp

text \<open>How to characterise a verdict by a condition on what the child prints.\<close>

lemma verdict_iff_condition:
  assumes start: "Inv [] t s" "child_text c = Inr t" "list_all (legal_answer (pats L)) (answers c)"
    and this_one: "\<And>h u how. prefix (h @ [u]) (texts c) \<Longrightarrow> good h u how r \<Longrightarrow>
      (\<forall>p. how = Some p \<longrightarrow> texts c = h @ [u] \<and> ending (answers c) = Some p) \<Longrightarrow> P"
    and another: "\<And>h u how r'. prefix (h @ [u]) (texts c) \<Longrightarrow> good h u how r' \<Longrightarrow> r' \<noteq> r \<Longrightarrow>
      (\<forall>p. how = Some p \<longrightarrow> texts c = h @ [u] \<and> ending (answers c) = Some p) \<Longrightarrow> \<not> P"
    and none: "\<And>h u s. texts c = h @ [u] \<Longrightarrow> Mid h u s \<Longrightarrow> \<not> P"
  shows "run_loop L s c = Returned r \<longleftrightarrow> P"
proof (cases "run_loop L s c")
  case Waiting
  from waits_only_at_end [OF start(1,2) this start(3)] none Waiting show ?thesis by auto
next
  case (Raised e)
  with never_raises [OF start(1,2), of e] show ?thesis by blast
next
  case (Returned r')
  from justified_verdict [OF start(1,2) this] obtain h u how where
    "prefix (h @ [u]) (texts c)" "good h u how r'"
    "\<forall>p. how = Some p \<longrightarrow> texts c = h @ [u] \<and> ending (answers c) = Some p"
    by (auto simp: justified_def)
  with this_one another Returned show ?thesis by (cases "r' = r") auto
qed

end

end
