(* ===== verification/Check_Receivers.thy ===== *)
theory Check_Receivers
  imports CheckLoop
begin

text \<open>
  The checks that read one value off every sample: \<open>test_size_receivers\<close> and \<open>test_color_receivers\<close>
  (does the subscriber receive from one publisher or from both), \<open>test_size_less_than_20\<close> (does a
  content filter hold) and \<open>test_large_data\<close> (is the last byte of every sample intact).
\<close>

definition sample_pats :: "pat list" where
  "sample_pats = [PRe bracket_re, PTimeout, PEof]"

lemma sample_pats_simps [simp, flow_simps]:
  "PTimeout \<in> set sample_pats" "PEof \<in> set sample_pats"
  by (simp_all add: sample_pats_def)

lemma sample_pats_text:
  "i < length sample_pats \<Longrightarrow> text_pat (sample_pats ! i) \<Longrightarrow> i = 0"
  by (auto simp: sample_pats_def text_pat_def nth_Cons' split: if_splits)

lemma sample_pats_silent:
  "i < length sample_pats \<Longrightarrow> \<not> text_pat (sample_pats ! i) \<Longrightarrow>
   i = 1 \<and> sample_pats ! i = PTimeout \<or> i = 2 \<and> sample_pats ! i = PEof"
  by (auto simp: sample_pats_def text_pat_def nth_Cons' less_Suc_eq split: if_splits)

section \<open>What is read off a text\<close>

definition number_in :: "re \<Rightarrow> string \<Rightarrow> int option" where
  "number_in r t = (case re_search r t of None \<Rightarrow> None
     | Some m \<Rightarrow> (case group_int (Some m) 1 of Inl _ \<Rightarrow> None | Inr n \<Rightarrow> Some n))"

definition word_in :: "re \<Rightarrow> string \<Rightarrow> string option" where
  "word_in r t = (case re_search r t of None \<Rightarrow> None
     | Some m \<Rightarrow> (case py_group (Some m) 1 of Inl _ \<Rightarrow> None | Inr w \<Rightarrow> Some w))"

definition large_re :: re where
  \<comment> \<open>\<open>\\w+\\s+\\w+\\s+[0-9]+\\s+[0-9]+\\s+\\[[0-9]+\\]\\s+\\{([0-9]+)\\}\<close>\<close>
  "large_re = Seqs [Plus CWord, Plus CSpace, Plus CWord, Plus CSpace, num, Plus CSpace, num,
                    Plus CSpace, Lit ''['', num, Lit '']'', Plus CSpace, Lit ''{'', Grp 1 num, Lit ''}'']"

lemma number_in_cases:
  assumes "fixed_groups r" "map_of (grps r) 1 = Some num" "distinct (map fst (grps r))"
  obtains "re_search r t = None" "number_in r t = None"
  | m n where "re_search r t = Some m" "number_in r t = Some n" "group_int (Some m) 1 = Inr n"
proof (cases "re_search r t")
  case None
  then show ?thesis using that(1) by (simp add: number_in_def)
next
  case (Some m)
  obtain v where "group_int (Some m) 1 = Inr (digits_val v)"
    using group_int_ok [OF Some assms(1) _ assms(2,3)] by auto
  with Some show ?thesis by (intro that(2) [OF Some _]) (simp_all add: number_in_def)
qed

lemma one_number:
  "fixed_groups basic_re" "map_of (grps basic_re) 1 = Some num" "distinct (map fst (grps basic_re))"
  "fixed_groups size_re" "map_of (grps size_re) 1 = Some num" "distinct (map fst (grps size_re))"
  "fixed_groups large_re" "map_of (grps large_re) 1 = Some num" "distinct (map fst (grps large_re))"
  by (simp_all add: basic_re_def size_re_def large_re_def num_def Seqs.simps)

lemmas basic_number = number_in_cases [OF one_number(1-3)]
lemmas size_number = number_in_cases [OF one_number(4-6)]
lemmas large_number = number_in_cases [OF one_number(7-9)]

lemma color_word:
  obtains "re_search color_re t = None" "word_in color_re t = None"
  | m w where "re_search color_re t = Some m" "word_in color_re t = Some w" "py_group (Some m) 1 = Inr w"
proof (cases "re_search color_re t")
  case None
  then show ?thesis using that(1) by (simp add: word_in_def)
next
  case (Some m)
  have "\<exists>v. py_group (Some m) 1 = Inr v"
    by (rule py_group_ok [OF Some]) (simp_all add: color_re_def num_def Seqs.simps)
  then obtain v where "py_group (Some m) 1 = Inr v" by blast
  with Some show ?thesis by (intro that(2) [OF Some _]) (simp_all add: word_in_def)
qed

text \<open>The values of a list of texts, when all of them have one.\<close>

definition values_in :: "(string \<Rightarrow> 'a option) \<Rightarrow> string list \<Rightarrow> 'a list" where
  "values_in f h = map (\<lambda>t. the (f t)) h"

definition all_read :: "(string \<Rightarrow> 'a option) \<Rightarrow> string list \<Rightarrow> bool" where
  "all_read f h = list_all (\<lambda>t. f t \<noteq> None) h"

lemma values_in_simps [simp]:
  "values_in f [] = []" "values_in f (h @ [t]) = values_in f h @ [the (f t)]"
  "values_in f [t] = [the (f t)]" "all_read f [t] \<longleftrightarrow> f t \<noteq> None"
  "all_read f []" "all_read f (h @ [t]) \<longleftrightarrow> all_read f h \<and> f t \<noteq> None"
  "length (values_in f h) = length h"
  by (simp_all add: values_in_def all_read_def)

lemma remdups_adj_snoc:
  "remdups_adj (xs @ [x]) = (if xs \<noteq> [] \<and> last xs = x then remdups_adj xs else remdups_adj xs @ [x])"
  by (induction xs rule: remdups_adj.induct) auto

section \<open>test_size_receivers\<close>

record size_receivers =
  sub_string :: "re_match option"
  first_sample_size :: int
  samples_read :: nat
  ignore_first_samples :: bool
  retcode :: ReturnCode

definition size_receivers_loop :: "size_receivers check_loop" where
  "size_receivers_loop =
     \<lparr>guard = (\<lambda>s. sub_string s \<noteq> None \<and> samples_read s < MAX_SAMPLES_READ),
      body = (\<lambda>_ s. attempt (group_int (sub_string s) 1) (\<lambda>current_sample_size.
        if current_sample_size \<noteq> first_sample_size s then
          if ignore_first_samples s
          then Next (s\<lparr>ignore_first_samples := False, first_sample_size := current_sample_size\<rparr>)
          else Break (s\<lparr>retcode := RECEIVING_FROM_BOTH\<rparr>)
        else Next s)),
      pats = sample_pats,
      react = (\<lambda>index text s.
        if index = 1 then Break s
        else if index = 2 then Return DATA_NOT_RECEIVED
        else attempt text (\<lambda>t.
          Next (s\<lparr>samples_read := samples_read s + 1, sub_string := re_search basic_re t\<rparr>))),
      finish = retcode\<rparr>"

definition size_receivers_init :: "re_match option \<Rightarrow> int \<Rightarrow> size_receivers" where
  "size_receivers_init sub n = \<lparr>sub_string = sub, first_sample_size = n, samples_read = 0,
     ignore_first_samples = True, retcode = RECEIVING_FROM_ONE\<rparr>"

definition test_size_receivers :: check_function where
  "test_size_receivers child_sub =
     after_basic_check child_sub (from_res (child_text child_sub) (\<lambda>t.
       let sub_string = re_search basic_re t in
       if sub_string = None then Returned DATA_NOT_RECEIVED
       else from_res (group_int sub_string 1) (\<lambda>first_sample_size.
         run_loop size_receivers_loop (size_receivers_init sub_string first_sample_size) child_sub)))"

abbreviation size_in :: "string \<Rightarrow> int option" where "size_in \<equiv> number_in basic_re"

text \<open>The sizes read so far are those of one publisher, then at most one change.\<close>

definition one_change :: "int list \<Rightarrow> size_receivers \<Rightarrow> bool" where
  "one_change xs s \<longleftrightarrow> retcode s = RECEIVING_FROM_ONE
     \<and> (if ignore_first_samples s then remdups_adj xs = [first_sample_size s]
        else \<exists>y. remdups_adj xs = [y, first_sample_size s])"

definition size_inv :: "string list \<Rightarrow> string \<Rightarrow> size_receivers \<Rightarrow> bool" where
  "size_inv h t s \<longleftrightarrow> sub_string s = re_search basic_re t \<and> samples_read s = length h
     \<and> length h \<le> MAX_SAMPLES_READ \<and> all_read size_in h
     \<and> (if h = [] then ignore_first_samples s \<and> size_in t = Some (first_sample_size s)
          \<and> retcode s = RECEIVING_FROM_ONE
        else one_change (values_in size_in h) s)"

definition size_mid :: "string list \<Rightarrow> string \<Rightarrow> size_receivers \<Rightarrow> bool" where
  "size_mid h t s \<longleftrightarrow> samples_read s = length h \<and> length h < MAX_SAMPLES_READ \<and> all_read size_in (h @ [t])
     \<and> one_change (values_in size_in (h @ [t])) s"

definition size_good :: "string list \<Rightarrow> string \<Rightarrow> pat option \<Rightarrow> ReturnCode \<Rightarrow> bool" where
  "size_good h u how r \<longleftrightarrow>
     r = RECEIVING_FROM_BOTH \<and> all_read size_in (h @ [u]) \<and> length h < MAX_SAMPLES_READ
       \<and> length (remdups_adj (values_in size_in (h @ [u]))) = 3
   \<or> r = RECEIVING_FROM_ONE \<and> all_read size_in h \<and> length (remdups_adj (values_in size_in h)) \<le> 2
       \<and> (length h = MAX_SAMPLES_READ \<or> size_in u = None)
   \<or> r = RECEIVING_FROM_ONE \<and> how = Some PTimeout \<and> all_read size_in (h @ [u])
       \<and> length (remdups_adj (values_in size_in (h @ [u]))) \<le> 2
   \<or> r = DATA_NOT_RECEIVED \<and> how = Some PEof \<and> all_read size_in (h @ [u])
       \<and> length (remdups_adj (values_in size_in (h @ [u]))) \<le> 2"

lemma remdups_adj_last: "remdups_adj xs = ys @ [y] \<Longrightarrow> xs \<noteq> [] \<and> last xs = y"
  by (metis append_is_Nil_conv last_remdups_adj last_snoc not_Cons_self2 remdups_adj_Nil_iff)

lemma one_change_snoc:
  assumes "one_change xs s"
  shows "x = first_sample_size s \<Longrightarrow> one_change (xs @ [x]) s"
    and "x \<noteq> first_sample_size s \<Longrightarrow> ignore_first_samples s \<Longrightarrow>
      one_change (xs @ [x]) (s\<lparr>ignore_first_samples := False, first_sample_size := x\<rparr>)"
    and "x \<noteq> first_sample_size s \<Longrightarrow> \<not> ignore_first_samples s \<Longrightarrow> length (remdups_adj (xs @ [x])) = 3"
  using assms remdups_adj_last [of xs "[]"] remdups_adj_last [of xs "[_]"]
  by (auto simp: one_change_def remdups_adj_snoc split: if_splits)

interpretation size_receivers: loop_contract size_receivers_loop size_inv size_mid size_good
proof unfold_locales
  fix h t s assume inv: "size_inv h t s" and off: "\<not> guard size_receivers_loop s"
  then show "size_good h t None (finish size_receivers_loop s)"
    by (cases t rule: basic_number)
       (auto simp: size_receivers_loop_def size_inv_def size_good_def one_change_def MAX_SAMPLES_READ_def split: if_splits)
next
  fix h t s assume inv: "size_inv h t s" and on: "guard size_receivers_loop s"
  from on inv obtain m n where m: "sub_string s = Some m" "group_int (Some m) 1 = Inr n" "size_in t = Some n"
    by (cases t rule: basic_number) (auto simp: size_receivers_loop_def size_inv_def)
  show "flow_spec (size_mid h t) (\<lambda>s'. size_good h t None (finish size_receivers_loop s'))
      (size_good h t None) (body size_receivers_loop (Inr t) s)"
  proof (cases "h = []")
    case True
    with inv on m show ?thesis
      by (auto simp: size_receivers_loop_def size_inv_def size_mid_def one_change_def)
  next
    case False
    with inv on m one_change_snoc [of "values_in size_in h" s n] show ?thesis
      by (auto simp: size_receivers_loop_def size_inv_def size_mid_def size_good_def one_change_def)
  qed
next
  fix h t s i t' assume "size_mid h t s" and i: "i < length (pats size_receivers_loop)" "text_pat (pats size_receivers_loop ! i)"
  moreover have "i = 0" using i sample_pats_text by (simp add: size_receivers_loop_def)
  ultimately show "flow_spec (size_inv (h @ [t]) t') (\<lambda>s'. size_good (h @ [t]) t' None (finish size_receivers_loop s'))
      (size_good (h @ [t]) t' None) (react size_receivers_loop i (Inr t') s)"
    by (simp add: size_receivers_loop_def size_inv_def size_mid_def one_change_def)
next
  fix h t s i assume "size_mid h t s" and i: "i < length (pats size_receivers_loop)" "\<not> text_pat (pats size_receivers_loop ! i)"
  then show "flow_spec (\<lambda>_. False) (\<lambda>s'. size_good h t (Some (pats size_receivers_loop ! i)) (finish size_receivers_loop s'))
      (size_good h t (Some (pats size_receivers_loop ! i))) (react size_receivers_loop i (Inl TypeError) s)"
    using sample_pats_silent [of i]
    by (auto simp: size_receivers_loop_def size_mid_def size_good_def one_change_def split: if_splits)
qed (simp_all add: size_receivers_loop_def)

section \<open>test_color_receivers\<close>

record color_receivers =
  color_match :: "re_match option"   \<comment> \<open>\<open>sub_string\<close>\<close>
  first_sample_color :: string
  colors_read :: nat                 \<comment> \<open>\<open>samples_read\<close>\<close>

definition color_receivers_loop :: "color_receivers check_loop" where
  "color_receivers_loop =
     \<lparr>guard = (\<lambda>s. color_match s \<noteq> None \<and> colors_read s < MAX_SAMPLES_READ),
      body = (\<lambda>_ s. attempt (py_group (color_match s) 1) (\<lambda>current_sample_color.
        if current_sample_color \<noteq> first_sample_color s then Return RECEIVING_FROM_BOTH else Next s)),
      pats = sample_pats,
      react = (\<lambda>index text s.
        if index = 1 then Break s
        else if index = 2 then Return DATA_NOT_RECEIVED
        else attempt text (\<lambda>t.
          Next (s\<lparr>colors_read := colors_read s + 1, color_match := re_search color_re t\<rparr>))),
      finish = (\<lambda>_. RECEIVING_FROM_ONE)\<rparr>"

definition test_color_receivers :: check_function where
  "test_color_receivers child_sub =
     after_basic_check child_sub (from_res (child_text child_sub) (\<lambda>t.
       let sub_string = re_search color_re t in
       from_res (py_group sub_string 1) (\<lambda>first_sample_color.
         run_loop color_receivers_loop
           \<lparr>color_match = sub_string, first_sample_color = first_sample_color, colors_read = 0\<rparr>
           child_sub)))"

abbreviation color_in :: "string \<Rightarrow> string option" where "color_in \<equiv> word_in color_re"

definition same_color :: "string \<Rightarrow> string list \<Rightarrow> bool" where
  "same_color k h = list_all (\<lambda>t. color_in t = Some k) h"

lemma same_color_simps [simp]:
  "same_color k []" "same_color k (h @ [t]) \<longleftrightarrow> same_color k h \<and> color_in t = Some k"
  by (simp_all add: same_color_def)

definition color_inv :: "string \<Rightarrow> string list \<Rightarrow> string \<Rightarrow> color_receivers \<Rightarrow> bool" where
  "color_inv k h t s \<longleftrightarrow> color_match s = re_search color_re t \<and> colors_read s = length h
     \<and> length h \<le> MAX_SAMPLES_READ \<and> first_sample_color s = k \<and> same_color k h"

definition color_mid :: "string \<Rightarrow> string list \<Rightarrow> string \<Rightarrow> color_receivers \<Rightarrow> bool" where
  "color_mid k h t s \<longleftrightarrow> colors_read s = length h \<and> length h < MAX_SAMPLES_READ
     \<and> first_sample_color s = k \<and> same_color k (h @ [t])"

definition color_good :: "string \<Rightarrow> string list \<Rightarrow> string \<Rightarrow> pat option \<Rightarrow> ReturnCode \<Rightarrow> bool" where
  "color_good k h u how r \<longleftrightarrow>
     r = RECEIVING_FROM_BOTH \<and> same_color k h \<and> length h < MAX_SAMPLES_READ
       \<and> color_in u \<noteq> None \<and> color_in u \<noteq> Some k
   \<or> r = RECEIVING_FROM_ONE \<and> same_color k h \<and> (length h = MAX_SAMPLES_READ \<or> color_in u = None)
   \<or> r = RECEIVING_FROM_ONE \<and> how = Some PTimeout \<and> same_color k (h @ [u])
   \<or> r = DATA_NOT_RECEIVED \<and> how = Some PEof \<and> same_color k (h @ [u])"

interpretation color_receivers: loop_contract color_receivers_loop "color_inv k" "color_mid k" "color_good k"
  for k
proof unfold_locales
  fix h t s assume "color_inv k h t s" "\<not> guard color_receivers_loop s"
  then show "color_good k h t None (finish color_receivers_loop s)"
    by (cases t rule: color_word) (auto simp: color_receivers_loop_def color_inv_def color_good_def)
next
  fix h t s assume "color_inv k h t s" "guard color_receivers_loop s"
  then show "flow_spec (color_mid k h t) (\<lambda>s'. color_good k h t None (finish color_receivers_loop s'))
      (color_good k h t None) (body color_receivers_loop (Inr t) s)"
    by (cases t rule: color_word)
       (auto simp: color_receivers_loop_def color_inv_def color_mid_def color_good_def)
next
  fix h t s i t'
  assume "color_mid k h t s" and i: "i < length (pats color_receivers_loop)" "text_pat (pats color_receivers_loop ! i)"
  moreover have "i = 0" using i sample_pats_text by (simp add: color_receivers_loop_def)
  ultimately show "flow_spec (color_inv k (h @ [t]) t') (\<lambda>s'. color_good k (h @ [t]) t' None (finish color_receivers_loop s'))
      (color_good k (h @ [t]) t' None) (react color_receivers_loop i (Inr t') s)"
    by (simp add: color_receivers_loop_def color_inv_def color_mid_def)
next
  fix h t s i
  assume "color_mid k h t s" "i < length (pats color_receivers_loop)" "\<not> text_pat (pats color_receivers_loop ! i)"
  then show "flow_spec (\<lambda>_. False) (\<lambda>s'. color_good k h t (Some (pats color_receivers_loop ! i)) (finish color_receivers_loop s'))
      (color_good k h t (Some (pats color_receivers_loop ! i))) (react color_receivers_loop i (Inl TypeError) s)"
    using sample_pats_silent [of i]
    by (auto simp: color_receivers_loop_def color_mid_def color_good_def)
qed (simp_all add: color_receivers_loop_def)

section \<open>test_size_less_than_20\<close>

record size_filter =
  size_match :: "re_match option"    \<comment> \<open>\<open>sub_string\<close>\<close>
  sizes_read :: nat                  \<comment> \<open>\<open>samples_read\<close>\<close>
  return_code :: ReturnCode

definition filter_max :: nat where "filter_max = MAX_SAMPLES_READ div 2"   \<comment> \<open>\<open>MAX_SAMPLES_READ / 2\<close> is 250.0\<close>

definition size_less_than_20_loop :: "size_filter check_loop" where
  "size_less_than_20_loop =
     \<lparr>guard = (\<lambda>s. size_match s \<noteq> None \<and> sizes_read s < filter_max),
      body = (\<lambda>_ s. attempt (group_int (size_match s) 1) (\<lambda>size.
        if size < 1 \<or> size > 20 then Break (s\<lparr>return_code := DATA_NOT_CORRECT\<rparr>) else Next s)),
      pats = sample_pats,
      react = (\<lambda>index text s.
        if index = 1 \<or> index = 2 then Break (s\<lparr>return_code := DATA_NOT_RECEIVED\<rparr>)
        else attempt text (\<lambda>t.
          Next (s\<lparr>sizes_read := sizes_read s + 1, size_match := re_search size_re t\<rparr>))),
      finish = return_code\<rparr>"

definition test_size_less_than_20 :: check_function where
  "test_size_less_than_20 child_sub =
     after_basic_check child_sub (from_res (child_text child_sub) (\<lambda>t.
       run_loop size_less_than_20_loop
         \<lparr>size_match = re_search size_re t, sizes_read = 0, return_code = OK\<rparr> child_sub))"

abbreviation any_size_in :: "string \<Rightarrow> int option" where "any_size_in \<equiv> number_in size_re"

definition in_filter :: "string \<Rightarrow> bool" where
  "in_filter t = (case any_size_in t of None \<Rightarrow> False | Some n \<Rightarrow> 1 \<le> n \<and> n \<le> 20)"

definition filter_inv :: "string list \<Rightarrow> string \<Rightarrow> size_filter \<Rightarrow> bool" where
  "filter_inv h t s \<longleftrightarrow> size_match s = re_search size_re t \<and> sizes_read s = length h
     \<and> length h \<le> filter_max \<and> list_all in_filter h \<and> return_code s = OK"

definition filter_mid :: "string list \<Rightarrow> string \<Rightarrow> size_filter \<Rightarrow> bool" where
  "filter_mid h t s \<longleftrightarrow> sizes_read s = length h \<and> length h < filter_max
     \<and> list_all in_filter (h @ [t]) \<and> return_code s = OK"

definition filter_good :: "string list \<Rightarrow> string \<Rightarrow> pat option \<Rightarrow> ReturnCode \<Rightarrow> bool" where
  "filter_good h u how r \<longleftrightarrow>
     r = OK \<and> list_all in_filter h \<and> (length h = filter_max \<or> any_size_in u = None)
   \<or> r = DATA_NOT_CORRECT \<and> list_all in_filter h \<and> length h < filter_max
       \<and> any_size_in u \<noteq> None \<and> \<not> in_filter u
   \<or> r = DATA_NOT_RECEIVED \<and> how \<noteq> None \<and> list_all in_filter (h @ [u]) \<and> length h < filter_max"

interpretation size_filter: loop_contract size_less_than_20_loop filter_inv filter_mid filter_good
proof unfold_locales
  fix h t s assume "filter_inv h t s" "\<not> guard size_less_than_20_loop s"
  then show "filter_good h t None (finish size_less_than_20_loop s)"
    by (cases t rule: size_number) (auto simp: size_less_than_20_loop_def filter_inv_def filter_good_def)
next
  fix h t s assume "filter_inv h t s" "guard size_less_than_20_loop s"
  then show "flow_spec (filter_mid h t) (\<lambda>s'. filter_good h t None (finish size_less_than_20_loop s'))
      (filter_good h t None) (body size_less_than_20_loop (Inr t) s)"
    by (cases t rule: size_number)
       (auto simp: size_less_than_20_loop_def filter_inv_def filter_mid_def filter_good_def in_filter_def)
next
  fix h t s i t'
  assume "filter_mid h t s" and i: "i < length (pats size_less_than_20_loop)" "text_pat (pats size_less_than_20_loop ! i)"
  moreover have "i = 0" using i sample_pats_text by (simp add: size_less_than_20_loop_def)
  ultimately show "flow_spec (filter_inv (h @ [t]) t') (\<lambda>s'. filter_good (h @ [t]) t' None (finish size_less_than_20_loop s'))
      (filter_good (h @ [t]) t' None) (react size_less_than_20_loop i (Inr t') s)"
    by (simp add: size_less_than_20_loop_def filter_inv_def filter_mid_def)
next
  fix h t s i
  assume "filter_mid h t s" "i < length (pats size_less_than_20_loop)" "\<not> text_pat (pats size_less_than_20_loop ! i)"
  then show "flow_spec (\<lambda>_. False) (\<lambda>s'. filter_good h t (Some (pats size_less_than_20_loop ! i)) (finish size_less_than_20_loop s'))
      (filter_good h t (Some (pats size_less_than_20_loop ! i))) (react size_less_than_20_loop i (Inl TypeError) s)"
    using sample_pats_silent [of i]
    by (auto simp: size_less_than_20_loop_def filter_mid_def filter_good_def)
qed (simp_all add: size_less_than_20_loop_def)

section \<open>test_large_data\<close>

record large_data =
  produced_code :: ReturnCode
  samples_complete :: nat            \<comment> \<open>\<open>samples_read\<close>\<close>

definition large_sample_re :: re where
  \<comment> \<open>\<open>\\w+\\s+\\w+\\s+[0-9]+\\s+[0-9]+\\s+\\[[0-9]+\\]\\s+\\{[0-9]+\\}\<close>, the pattern \<open>expect\<close> waits for\<close>
  "large_sample_re = Seqs [Plus CWord, Plus CSpace, Plus CWord, Plus CSpace, num, Plus CSpace, num,
                    Plus CSpace, Lit ''['', num, Lit '']'', Plus CSpace, Lit ''{'', num, Lit ''}'']"

definition large_data_loop :: "large_data check_loop" where
  "large_data_loop =
     \<lparr>guard = (\<lambda>s. samples_complete s < MAX_SAMPLES_READ),
      body = (\<lambda>_ s. Next s),
      pats = [PRe large_sample_re, PTimeout, PEof],
      react = (\<lambda>index text s.
        if index = 0 then
          attempt text (\<lambda>t.
            let sub_string = re_search large_re t in
            if sub_string = None then Break (s\<lparr>produced_code := DATA_NOT_CORRECT\<rparr>)
            else attempt (group_int sub_string 1) (\<lambda>n.
              if n \<noteq> 255 then Break (s\<lparr>produced_code := DATA_NOT_CORRECT\<rparr>)
              else Next (s\<lparr>samples_complete := samples_complete s + 1\<rparr>)))
        else if index = 1 \<or> index = 2 then Break (s\<lparr>produced_code := DATA_NOT_RECEIVED\<rparr>)
        else Next s),
      finish = (\<lambda>s. if samples_complete s = MAX_SAMPLES_READ then OK else produced_code s)\<rparr>"

definition test_large_data :: check_function where
  "test_large_data child_sub =
     after_basic_check child_sub
       (run_loop large_data_loop \<lparr>produced_code = DATA_NOT_RECEIVED, samples_complete = 0\<rparr> child_sub)"

definition intact :: "string \<Rightarrow> bool" where   \<comment> \<open>the last additional byte arrived\<close>
  "intact t = (number_in large_re t = Some 255)"

lemma tl_snoc2 [simp]: "tl (h @ [t, t']) = tl (h @ [t]) @ [t']"
  by (cases h) auto

definition large_inv :: "string list \<Rightarrow> string \<Rightarrow> large_data \<Rightarrow> bool" where
  "large_inv h t s \<longleftrightarrow> samples_complete s = length h \<and> length h \<le> MAX_SAMPLES_READ
     \<and> list_all intact (tl (h @ [t]))"

definition large_good :: "string list \<Rightarrow> string \<Rightarrow> pat option \<Rightarrow> ReturnCode \<Rightarrow> bool" where
  "large_good h u how r \<longleftrightarrow>
     r = OK \<and> length h = MAX_SAMPLES_READ \<and> list_all intact (tl (h @ [u]))
   \<or> r = DATA_NOT_CORRECT \<and> h \<noteq> [] \<and> length h \<le> MAX_SAMPLES_READ \<and> list_all intact (tl h) \<and> \<not> intact u
   \<or> r = DATA_NOT_RECEIVED \<and> how \<noteq> None \<and> length h < MAX_SAMPLES_READ \<and> list_all intact (tl (h @ [u]))"

interpretation large_data: loop_contract large_data_loop large_inv
  "\<lambda>h t s. large_inv h t s \<and> length h < MAX_SAMPLES_READ" large_good
proof unfold_locales
  fix h t s assume "large_inv h t s" "\<not> guard large_data_loop s"
  then show "large_good h t None (finish large_data_loop s)"
    by (auto simp: large_data_loop_def large_inv_def large_good_def)
next
  fix h t s assume "large_inv h t s" "guard large_data_loop s"
  then show "flow_spec (\<lambda>s. large_inv h t s \<and> length h < MAX_SAMPLES_READ)
      (\<lambda>s'. large_good h t None (finish large_data_loop s')) (large_good h t None) (body large_data_loop (Inr t) s)"
    by (auto simp: large_data_loop_def large_inv_def)
next
  fix h t s i t' assume mid: "large_inv h t s \<and> length h < MAX_SAMPLES_READ"
    and i: "i < length (pats large_data_loop)" "text_pat (pats large_data_loop ! i)"
  have "i = 0" using i by (auto simp: large_data_loop_def text_pat_def nth_Cons' split: if_splits)
  with mid show "flow_spec (large_inv (h @ [t]) t') (\<lambda>s'. large_good (h @ [t]) t' None (finish large_data_loop s'))
      (large_good (h @ [t]) t' None) (react large_data_loop i (Inr t') s)"
    by (cases t' rule: large_number)
       (auto simp: large_data_loop_def large_inv_def large_good_def intact_def Let_def)
next
  fix h t s i assume "large_inv h t s \<and> length h < MAX_SAMPLES_READ"
    and "i < length (pats large_data_loop)" "\<not> text_pat (pats large_data_loop ! i)"
  then show "flow_spec (\<lambda>_. False) (\<lambda>s'. large_good h t (Some (pats large_data_loop ! i)) (finish large_data_loop s'))
      (large_good h t (Some (pats large_data_loop ! i))) (react large_data_loop i (Inl TypeError) s)"
    by (auto simp: large_data_loop_def large_inv_def large_good_def text_pat_def nth_Cons' split: if_splits)
qed (simp_all add: large_data_loop_def)

section \<open>Properties\<close>

text \<open>What holds of the texts read so far holds of every part the loop has gone through.\<close>

lemma values_in_append [simp]: "values_in f (h @ h') = values_in f h @ values_in f h'"
  by (simp add: values_in_def)

lemma all_read_append [simp]: "all_read f (h @ h') \<longleftrightarrow> all_read f h \<and> all_read f h'"
  by (simp add: all_read_def)

lemma remdups_adj_mono: "length (remdups_adj xs) \<le> length (remdups_adj (xs @ ys))"
proof (induction ys rule: rev_induct)
  case (snoc y ys)
  have "length (remdups_adj (xs @ ys)) \<le> length (remdups_adj ((xs @ ys) @ [y]))"
    unfolding remdups_adj_snoc by simp
  with snoc show ?case by simp
qed simp

definition both_sizes :: "string list \<Rightarrow> bool" where
  "both_sizes h \<longleftrightarrow> length h \<le> MAX_SAMPLES_READ \<and> all_read size_in h \<and> 3 \<le> length (remdups_adj (values_in size_in h))"

lemma not_both_sizes:
  assumes "prefix h' ts" "prefix (h @ [u]) ts" "length (remdups_adj (values_in size_in h)) \<le> 2"
    and "length h = MAX_SAMPLES_READ \<or> size_in u = None
      \<or> ts = h @ [u] \<and> length (remdups_adj (values_in size_in (h @ [u]))) \<le> 2"
  shows "\<not> both_sizes h'"
  using assms(1,2)
proof (cases rule: prefix_cases)
  case (before z)
  with assms(3) remdups_adj_mono [of "values_in size_in h'" "values_in size_in z"] show ?thesis
    by (simp add: both_sizes_def)
next
  case (later z)
  with assms show ?thesis by (auto simp: both_sizes_def all_read_def)
qed

lemma mid_one_change: "one_change xs s \<Longrightarrow> length (remdups_adj xs) \<le> 2"
  by (auto simp: one_change_def split: if_splits)

lemma size_loop_iff:
  assumes inv: "size_inv [] t s" and c: "child_text c = Inr t" "list_all (legal_answer sample_pats) (answers c)"
  shows "run_loop size_receivers_loop s c = Returned RECEIVING_FROM_BOTH \<longleftrightarrow>
      (\<exists>h. prefix h (texts c) \<and> both_sizes h)"
proof (rule size_receivers.verdict_iff_condition [OF inv c(1)])
  show "list_all (legal_answer (pats size_receivers_loop)) (answers c)"
    using c(2) by (simp add: size_receivers_loop_def)
next
  fix h u how assume "prefix (h @ [u]) (texts c)" "size_good h u how RECEIVING_FROM_BOTH"
  then show "\<exists>h. prefix h (texts c) \<and> both_sizes h"
    by (intro exI [of _ "h @ [u]"]) (auto simp: size_good_def both_sizes_def)
next
  fix h u how r' assume "prefix (h @ [u]) (texts c)" "size_good h u how r'" "r' \<noteq> RECEIVING_FROM_BOTH"
    "\<forall>p. how = Some p \<longrightarrow> texts c = h @ [u] \<and> ending (answers c) = Some p"
  then show "\<not> (\<exists>h. prefix h (texts c) \<and> both_sizes h)"
    using not_both_sizes [of _ "texts c" h u] remdups_adj_mono [of "values_in size_in h" "values_in size_in [u]"]
    by (auto simp: size_good_def)
next
  fix h u s assume "texts c = h @ [u]" "size_mid h u s"
  then show "\<not> (\<exists>h. prefix h (texts c) \<and> both_sizes h)"
    using not_both_sizes [of _ "texts c" h u] mid_one_change [of "values_in size_in (h @ [u])" s]
      remdups_adj_mono [of "values_in size_in h" "values_in size_in [u]"]
    by (auto simp: size_mid_def)
qed

lemma basic_fails:
  assumes "child_text c = Inr t" "basic_check c \<noteq> Returned OK"
  shows "after_basic_check c rest = basic_check c"
    and "basic_check c = Returned DATA_NOT_RECEIVED \<or> basic_check c = Returned DATA_NOT_CORRECT"
  using assms by (auto simp: after_basic_check_def basic_check_text split: option.splits)

text \<open>
  \<open>test_size_receivers\<close> tells one publisher from two. On any child whose answers its \<open>expect\<close> can
  give, the verdict is \<open>RECEIVING_FROM_BOTH\<close> if and only if the default check passes and, within the
  first \<open>MAX_SAMPLES_READ\<close> texts, all of them samples, the size changes at least twice (it comes back
  after one hand-over); one single change is tolerated.
\<close>

theorem size_receivers_both_iff:
  assumes "child_text c = Inr t" and "list_all (legal_answer sample_pats) (answers c)"
  shows "test_size_receivers c = Returned RECEIVING_FROM_BOTH \<longleftrightarrow>
    basic_check c = Returned OK \<and>
    (\<exists>h. prefix h (texts c) \<and> length h \<le> MAX_SAMPLES_READ \<and> all_read size_in h
       \<and> 3 \<le> length (remdups_adj (values_in size_in h)))"
proof (cases "basic_check c = Returned OK")
  case True
  then obtain m n where "re_search basic_re t = Some m" "size_in t = Some n" "group_int (Some m) 1 = Inr n"
    using basic_check_OK [OF True] assms(1) by (cases t rule: basic_number) auto
  with True assms size_loop_iff [OF _ assms, unfolded both_sizes_def] show ?thesis
    by (simp add: test_size_receivers_def after_basic_check_pass size_inv_def size_receivers_init_def)
next
  case False
  with basic_fails [OF assms(1)] show ?thesis by (auto simp: test_size_receivers_def)
qed

definition three_sizes :: child where   \<comment> \<open>20, 30, 20\<close>
  "three_sizes = \<lparr>before = ''Square     RED       010 020 '', after = Some ''[20]'',
     answers = [Matched 0 ''Square     RED       010 020 '' ''[30]'', Matched 0 ''Square     RED       010 020 '' ''[20]'']\<rparr>"

theorem size_receivers_both_iff_witness:
  "test_size_receivers three_sizes = Returned RECEIVING_FROM_BOTH \<and> basic_check three_sizes = Returned OK"
proof -
  have facts: "child_text three_sizes = Inr ''Square     RED       010 020 [20]''"
    "list_all (legal_answer sample_pats) (answers three_sizes)" "basic_check three_sizes = Returned OK"
    "all_read size_in (texts three_sizes)" "length (texts three_sizes) \<le> MAX_SAMPLES_READ"
    "3 \<le> length (remdups_adj (values_in size_in (texts three_sizes)))"
    by code_simp+
  with size_receivers_both_iff [OF facts(1,2)] show ?thesis by (meson prefix_order.refl)
qed

definition both_colors :: "string list \<Rightarrow> bool" where
  "both_colors h \<longleftrightarrow> length h \<le> MAX_SAMPLES_READ \<and> all_read color_in h \<and> 2 \<le> card (set (values_in color_in h))"

lemma same_not_both: "same_color k h \<Longrightarrow> \<not> both_colors h"
proof -
  assume "same_color k h"
  then have "set (values_in color_in h) \<subseteq> {k}" by (auto simp: same_color_def values_in_def list_all_iff)
  then have "card (set (values_in color_in h)) \<le> 1" using card_mono [of "{k}"] by fastforce
  then show ?thesis by (simp add: both_colors_def)
qed

lemma not_both_colors:
  assumes "prefix h' ts" "prefix (h @ [u]) ts" "same_color k h"
    and "length h = MAX_SAMPLES_READ \<or> color_in u = None \<or> ts = h @ [u] \<and> same_color k (h @ [u])"
  shows "\<not> both_colors h'"
  using assms(1,2)
proof (cases rule: prefix_cases)
  case (before z)
  with assms(3) same_not_both [of k h'] show ?thesis by (simp add: same_color_def)
next
  case (later z)
  with assms(1,4) same_not_both [of k h'] show ?thesis by (auto simp: both_colors_def all_read_def)
qed

lemma second_color:
  assumes "same_color k h" "h \<noteq> []" "length h < MAX_SAMPLES_READ" "color_in u = Some k'" "k' \<noteq> k"
  shows "both_colors (h @ [u])"
proof -
  have "k \<in> set (values_in color_in h)"
    using assms(1,2) by (cases h) (auto simp: same_color_def values_in_def)
  then have "card {k, k'} \<le> card (set (values_in color_in (h @ [u])))"
    using assms(4) by (intro card_mono) auto
  with assms show ?thesis by (auto simp: both_colors_def same_color_def all_read_def list_all_iff)
qed

lemma color_loop_iff:
  assumes inv: "color_inv k [] t s" and c: "child_text c = Inr t" "list_all (legal_answer sample_pats) (answers c)"
    and t: "color_in t = Some k"
  shows "run_loop color_receivers_loop s c = Returned RECEIVING_FROM_BOTH \<longleftrightarrow>
      (\<exists>h. prefix h (texts c) \<and> both_colors h)"
proof (rule color_receivers.verdict_iff_condition [OF inv c(1)])
  show "list_all (legal_answer (pats color_receivers_loop)) (answers c)"
    using c(2) by (simp add: color_receivers_loop_def)
next
  fix h u how assume h: "prefix (h @ [u]) (texts c)" and g: "color_good k h u how RECEIVING_FROM_BOTH"
  then obtain k' where k': "color_in u = Some k'" "k' \<noteq> k" by (auto simp: color_good_def)
  with h t c(1) have "h \<noteq> []" by (cases h) (auto simp: texts_def)
  with g k' have "both_colors (h @ [u])" by (intro second_color [of k]) (auto simp: color_good_def)
  with h show "\<exists>h. prefix h (texts c) \<and> both_colors h" by blast
next
  fix h u how r' assume "prefix (h @ [u]) (texts c)" "color_good k h u how r'" "r' \<noteq> RECEIVING_FROM_BOTH"
    "\<forall>p. how = Some p \<longrightarrow> texts c = h @ [u] \<and> ending (answers c) = Some p"
  then show "\<not> (\<exists>h. prefix h (texts c) \<and> both_colors h)"
    using not_both_colors [of _ "texts c" h u] unfolding color_good_def same_color_simps by blast
next
  fix h u s assume "texts c = h @ [u]" "color_mid k h u s"
  then show "\<not> (\<exists>h. prefix h (texts c) \<and> both_colors h)"
    using not_both_colors [of _ "texts c" h u] unfolding color_mid_def by auto
qed

text \<open>
  \<open>test_color_receivers\<close> tells one publisher from two. The verdict is \<open>RECEIVING_FROM_BOTH\<close> if
  and only if the default check passes and two colours appear within the first \<open>MAX_SAMPLES_READ\<close>
  texts, all of them samples.
\<close>

theorem color_receivers_both_iff:
  assumes "child_text c = Inr t" and "list_all (legal_answer sample_pats) (answers c)"
  shows "test_color_receivers c = Returned RECEIVING_FROM_BOTH \<longleftrightarrow>
    basic_check c = Returned OK \<and>
    (\<exists>h. prefix h (texts c) \<and> length h \<le> MAX_SAMPLES_READ \<and> all_read color_in h
       \<and> 2 \<le> card (set (values_in color_in h)))"
proof (cases "basic_check c = Returned OK")
  case True
  then obtain m k where "re_search color_re t = Some m" "color_in t = Some k" "py_group (Some m) 1 = Inr k"
    using basic_check_OK [OF True] assms(1) by (cases t rule: color_word) auto
  with True assms color_loop_iff [OF _ assms, unfolded both_colors_def] show ?thesis
    by (simp add: test_color_receivers_def after_basic_check_pass color_inv_def)
next
  case False
  with basic_fails [OF assms(1)] show ?thesis by (auto simp: test_color_receivers_def)
qed

definition two_colors :: child where
  "two_colors = \<lparr>before = ''Square     RED       010 020 '', after = Some ''[20]'',
     answers = [Matched 0 ''Square     BLUE      010 020 '' ''[20]'']\<rparr>"

theorem color_receivers_both_iff_witness:
  "test_color_receivers two_colors = Returned RECEIVING_FROM_BOTH \<and> basic_check two_colors = Returned OK"
proof -
  have facts: "child_text two_colors = Inr ''Square     RED       010 020 [20]''"
    "list_all (legal_answer sample_pats) (answers two_colors)" "basic_check two_colors = Returned OK"
    "all_read color_in (texts two_colors)" "length (texts two_colors) \<le> MAX_SAMPLES_READ"
    "2 \<le> card (set (values_in color_in (texts two_colors)))"
    by code_simp+
  with color_receivers_both_iff [OF facts(1,2)] show ?thesis by (meson prefix_order.refl)
qed

definition leaves_filter :: "string list \<Rightarrow> string \<Rightarrow> bool" where
  "leaves_filter h u \<longleftrightarrow> length h < filter_max \<and> list_all in_filter h \<and> any_size_in u \<noteq> None \<and> \<not> in_filter u"

lemma not_leaves_filter:
  assumes "prefix (h' @ [u']) ts" "prefix (h @ [u]) ts" "list_all in_filter h"
    and "length h = filter_max \<or> any_size_in u = None \<or> ts = h @ [u] \<and> list_all in_filter (h @ [u])"
  shows "\<not> leaves_filter h' u'"
  using assms(1,2)
proof (cases rule: prefix_cases)
  case (before z)
  with assms(3) show ?thesis by (auto simp: leaves_filter_def)
next
  case (later z)
  then have "h' @ [u'] = h @ [u] \<or> (\<exists>z'. h' = h @ u # z')" by (cases z rule: rev_cases) auto
  moreover have "in_filter u \<Longrightarrow> any_size_in u \<noteq> None" by (auto simp: in_filter_def split: option.splits)
  ultimately show ?thesis using assms(1,4) by (auto simp: leaves_filter_def)
qed

lemma filter_loop_iff:
  assumes inv: "filter_inv [] t s" and c: "child_text c = Inr t" "list_all (legal_answer sample_pats) (answers c)"
  shows "run_loop size_less_than_20_loop s c = Returned DATA_NOT_CORRECT \<longleftrightarrow>
      (\<exists>h u. prefix (h @ [u]) (texts c) \<and> leaves_filter h u)"
proof (rule size_filter.verdict_iff_condition [OF inv c(1)])
  show "list_all (legal_answer (pats size_less_than_20_loop)) (answers c)"
    using c(2) by (simp add: size_less_than_20_loop_def)
next
  fix h u how assume "prefix (h @ [u]) (texts c)" "filter_good h u how DATA_NOT_CORRECT"
  then show "\<exists>h u. prefix (h @ [u]) (texts c) \<and> leaves_filter h u"
    unfolding filter_good_def leaves_filter_def by (simp only: ReturnCode.distinct simp_thms) blast
next
  fix h u how r' assume "prefix (h @ [u]) (texts c)" "filter_good h u how r'" "r' \<noteq> DATA_NOT_CORRECT"
    "\<forall>p. how = Some p \<longrightarrow> texts c = h @ [u] \<and> ending (answers c) = Some p"
  then show "\<not> (\<exists>h u. prefix (h @ [u]) (texts c) \<and> leaves_filter h u)"
    using not_leaves_filter [of _ _ "texts c" h u] unfolding filter_good_def list_all_append by blast
next
  fix h u s assume "texts c = h @ [u]" "filter_mid h u s"
  then show "\<not> (\<exists>h u. prefix (h @ [u]) (texts c) \<and> leaves_filter h u)"
    using not_leaves_filter [of _ _ "texts c" h u] prefix_order.refl [of "texts c"]
    unfolding filter_mid_def list_all_append by metis
qed

text \<open>
  \<open>test_size_less_than_20\<close> refuses exactly the streams that leave the filter. The verdict is
  \<open>DATA_NOT_CORRECT\<close> if and only if the default check gives it (a first sample of size 0), or the
  default check passes and, among the first \<open>MAX_SAMPLES_READ / 2\<close> texts, samples of size 1 to 20 are
  followed by a sample \<open>u\<close> whose size is not in that range.
\<close>

theorem size_filter_reject_iff:
  assumes "child_text c = Inr t" and "list_all (legal_answer sample_pats) (answers c)"
  shows "test_size_less_than_20 c = Returned DATA_NOT_CORRECT \<longleftrightarrow>
    basic_check c = Returned DATA_NOT_CORRECT \<or> basic_check c = Returned OK \<and>
    (\<exists>h u. prefix (h @ [u]) (texts c) \<and> length h < MAX_SAMPLES_READ div 2 \<and> list_all in_filter h
       \<and> any_size_in u \<noteq> None \<and> \<not> in_filter u)"
proof (cases "basic_check c = Returned OK")
  case True
  with assms(1) filter_loop_iff [OF _ assms, unfolded leaves_filter_def] show ?thesis
    by (simp add: test_size_less_than_20_def after_basic_check_pass filter_max_def filter_inv_def)
next
  case False
  with basic_fails [OF assms(1)] show ?thesis by (auto simp: test_size_less_than_20_def)
qed

definition too_large :: child where
  "too_large = \<lparr>before = ''Square     RED       010 020 '', after = Some ''[20]'',
     answers = [Matched 0 ''Square     RED       010 020 '' ''[21]'']\<rparr>"

theorem size_filter_reject_iff_witness:
  "test_size_less_than_20 too_large = Returned DATA_NOT_CORRECT \<and> basic_check too_large = Returned OK"
proof -
  have facts: "child_text too_large = Inr ''Square     RED       010 020 [20]''"
    "list_all (legal_answer sample_pats) (answers too_large)" "basic_check too_large = Returned OK"
    "texts too_large = [''Square     RED       010 020 [20]''] @ [''Square     RED       010 020 [21]'']"
    "in_filter ''Square     RED       010 020 [20]''" "any_size_in ''Square     RED       010 020 [21]'' = Some 21"
    "\<not> in_filter ''Square     RED       010 020 [21]''" "length [''Square     RED       010 020 [20]''] < MAX_SAMPLES_READ div 2"
    by code_simp+
  have "\<exists>h u. prefix (h @ [u]) (texts too_large) \<and> length h < MAX_SAMPLES_READ div 2 \<and> list_all in_filter h
       \<and> any_size_in u \<noteq> None \<and> \<not> in_filter u"
    unfolding facts(4)
    by (intro exI [of _ "[''Square     RED       010 020 [20]'']"] exI [of _ "''Square     RED       010 020 [21]''"])
       (use facts(5-8) in simp)
  with size_filter_reject_iff [OF facts(1,2)] facts(3) show ?thesis by blast
qed

definition all_intact :: "string list \<Rightarrow> bool" where
  "all_intact ts \<longleftrightarrow> (\<exists>h. prefix h (tl ts) \<and> length h = MAX_SAMPLES_READ \<and> list_all intact h)"

lemma prefix_tl: "prefix (h @ [u]) ts \<Longrightarrow> prefix (tl (h @ [u])) (tl ts)"
  by (cases h) (auto simp: prefix_def)

lemma large_loop_iff:
  assumes inv: "large_inv [] t s" and c: "child_text c = Inr t" "list_all (legal_answer (pats large_data_loop)) (answers c)"
  shows "run_loop large_data_loop s c = Returned OK \<longleftrightarrow> all_intact (texts c)"
proof (rule large_data.verdict_iff_condition [OF inv c])
  fix h u how assume "prefix (h @ [u]) (texts c)" "large_good h u how OK"
  with prefix_tl show "all_intact (texts c)"
    unfolding all_intact_def by (intro exI [of _ "tl (h @ [u])"]) (auto simp: large_good_def)
next
  fix h u how r' assume "prefix (h @ [u]) (texts c)" "large_good h u how r'" "r' \<noteq> OK"
    "\<forall>p. how = Some p \<longrightarrow> texts c = h @ [u] \<and> ending (answers c) = Some p"
  then show "\<not> all_intact (texts c)"
    using prefix_tl [of h u "texts c"]
    by (cases h) (auto simp: all_intact_def large_good_def prefix_def append_eq_append_conv2 Cons_eq_append_conv)
next
  fix h u s assume "texts c = h @ [u]" "large_inv h u s \<and> length h < MAX_SAMPLES_READ"
  then show "\<not> all_intact (texts c)" by (cases h) (auto simp: all_intact_def dest!: prefix_length_le)
qed

text \<open>
  \<open>test_large_data\<close> accepts exactly the complete deliveries. The verdict is \<open>OK\<close> if and only if
  the default check passes and the child prints at least \<open>MAX_SAMPLES_READ\<close> further texts, the first
  \<open>MAX_SAMPLES_READ\<close> of which are samples whose last additional byte is 255.
\<close>

theorem large_data_OK_iff:
  assumes "child_text c = Inr t" and "list_all (legal_answer (pats large_data_loop)) (answers c)"
  shows "test_large_data c = Returned OK \<longleftrightarrow>
    basic_check c = Returned OK \<and>
    (\<exists>h. prefix h (tl (texts c)) \<and> length h = MAX_SAMPLES_READ \<and> list_all intact h)"
proof (cases "basic_check c = Returned OK")
  case True
  with large_loop_iff [OF _ assms, unfolded all_intact_def] show ?thesis
    by (simp add: test_large_data_def after_basic_check_pass large_inv_def)
next
  case False
  with basic_fails [OF assms(1)] show ?thesis by (auto simp: test_large_data_def)
qed

definition large_delivery :: "nat \<Rightarrow> child" where
  "large_delivery n = \<lparr>before = ''Square     RED       010 020 '', after = Some ''[20]'',
     answers = replicate n (Matched 0 [] ''Square     RED       010 020 [20] {255}'')\<rparr>"

theorem large_data_OK_iff_witness:
  "test_large_data (large_delivery 500) = Returned OK"
proof -
  have first_text: "child_text (large_delivery n) = Inr ''Square     RED       010 020 [20]''" for n
    by (simp add: large_delivery_def child_text_def)
  have "later_texts (replicate n (Matched 0 [] u)) = replicate n u" for n u
    by (induction n) auto
  then have "texts (large_delivery n) = ''Square     RED       010 020 [20]'' # replicate n ''Square     RED       010 020 [20] {255}''" for n
    using first_text by (simp add: texts_def) (simp add: large_delivery_def)
  moreover have "list_all (legal_answer (pats large_data_loop)) (answers (large_delivery n))" for n
    by (induction n) (auto simp: large_delivery_def large_data_loop_def text_pat_def)
  moreover have "intact ''Square     RED       010 020 [20] {255}''" and "basic_check (large_delivery 0) = Returned OK"
    by code_simp+
  moreover have "basic_check (large_delivery n) = basic_check (large_delivery 0)" for n
    by (simp only: basic_check_text [OF first_text])
  ultimately show ?thesis
    by (subst large_data_OK_iff [OF first_text]) (auto simp: MAX_SAMPLES_READ_def list_all_iff intro!: exI [of _ "replicate 500 _"])
qed

end
