(* ===== verification/Check_Durability.thy ===== *)
theory Check_Durability
  imports Check_Receivers
begin

text \<open>
  The checks without a loop: \<open>test_durability_volatile\<close>, \<open>test_durability_transient_local\<close> (what the
  first sample tells of the writer's history) and \<open>test_deadline_missed\<close>.
\<close>

definition test_durability_volatile :: check_function where
  "test_durability_volatile child_sub =
     after_basic_check child_sub (from_res (child_text child_sub) (\<lambda>t.
       let sub_string = re_search size_re t in
       from_res (group_int sub_string 1) (\<lambda>n.
         if n \<ge> 5 then Returned OK else Returned DATA_NOT_CORRECT)))"

definition test_durability_transient_local :: check_function where
  "test_durability_transient_local child_sub =
     after_basic_check child_sub (from_res (child_text child_sub) (\<lambda>t.
       let sub_string = re_search size_re t in
       from_res (group_int sub_string 1) (\<lambda>n.
         if n = 1 then Returned OK else Returned DATA_NOT_CORRECT)))"

definition deadline_re :: re where   \<comment> \<open>\<open>on_requested_deadline_missed()\<close>: the parentheses are an empty group\<close>
  "deadline_re = Seq (Lit ''on_requested_deadline_missed'') (Grp 1 Eps)"

definition test_deadline_missed :: check_function where
  "test_deadline_missed child_sub =
     after_basic_check child_sub
       (run_bind (expect [PRe deadline_re, PTimeout, PEof] child_sub) (\<lambda>(index, child_sub).
          if index = 0 then Returned DEADLINE_MISSED
          else if index = 1 then Returned DATA_NOT_RECEIVED
          else run_bind (expect [PRe bracket_re, PTimeout, PEof] child_sub) (\<lambda>(index, child_sub).
            if index = 0 then Returned OK else Returned DATA_NOT_RECEIVED)))"

text \<open>The size the default check reads is the one these checks read.\<close>

lemma first_size:
  assumes "child_text c = Inr t" "basic_check c = Returned OK"
  obtains m n where "re_search size_re t = Some m" "any_size_in t = Some n" "group_int (Some m) 1 = Inr n"
  using basic_check_OK [OF assms(2)] assms(1) by (cases t rule: size_number) auto

text \<open>
  Volatile and transient-local durability exclude each other. On a child whose first text has
  passed the default check with a sample of size \<open>n\<close>, \<open>test_durability_volatile\<close> answers \<open>OK\<close> if and
  only if \<open>n \<ge> 5\<close> (at least four samples were not replayed), \<open>test_durability_transient_local\<close> if and
  only if \<open>n = 1\<close>; otherwise each answers \<open>DATA_NOT_CORRECT\<close>, so no delivery satisfies both.
\<close>

theorem durability_verdicts:
  assumes "child_text c = Inr t" and "basic_check c = Returned OK"
  shows "\<exists>n. any_size_in t = Some n
    \<and> test_durability_volatile c = Returned (if 5 \<le> n then OK else DATA_NOT_CORRECT)
    \<and> test_durability_transient_local c = Returned (if n = 1 then OK else DATA_NOT_CORRECT)"
proof -
  obtain m n where "re_search size_re t = Some m" "any_size_in t = Some n" "group_int (Some m) 1 = Inr n"
    by (rule first_size [OF assms])
  with assms show ?thesis
    by (simp add: test_durability_volatile_def test_durability_transient_local_def after_basic_check_pass)
qed

definition fifth_sample :: child where
  "fifth_sample = \<lparr>before = ''Square     RED       010 020 '', after = Some ''[5]'', answers = []\<rparr>"

theorem durability_verdicts_witness:
  "test_durability_volatile fifth_sample = Returned OK
   \<and> test_durability_transient_local fifth_sample = Returned DATA_NOT_CORRECT"
proof -
  have facts: "child_text fifth_sample = Inr ''Square     RED       010 020 [5]''"
    "basic_check fifth_sample = Returned OK" "any_size_in ''Square     RED       010 020 [5]'' = Some 5"
    by code_simp+
  with durability_verdicts [OF facts(1,2)] show ?thesis by simp
qed

text \<open>
  \<open>test_deadline_missed\<close> is determined by what the child does after its first sample (one that
  passes the default check): the deadline message gives \<open>DEADLINE_MISSED\<close>, silence gives
  \<open>DATA_NOT_RECEIVED\<close>, and an exit gives \<open>DATA_NOT_RECEIVED\<close> too unless a further sample is found in
  what the child had printed.
\<close>

theorem deadline_verdicts:
  assumes "basic_check c = Returned OK"
  shows "test_deadline_missed c =
    (case answers c of
       [] \<Rightarrow> Waiting
     | Matched i _ _ # _ \<Rightarrow> (if i = 0 then Returned DEADLINE_MISSED else Waiting)
     | TimedOut _ # _ \<Rightarrow> Returned DATA_NOT_RECEIVED
     | Ended _ # rest \<Rightarrow>
         (case rest of
            [] \<Rightarrow> Waiting
          | Matched i _ _ # _ \<Rightarrow> (if i = 0 then Returned OK else Waiting)
          | _ # _ \<Rightarrow> Returned DATA_NOT_RECEIVED))"
  by (auto simp: test_deadline_missed_def after_basic_check_pass [OF assms] expect_def text_pat_def
      nth_Cons' split: list.splits answer.splits)

definition late_child :: child where
  "late_child = \<lparr>before = ''Square     RED       010 020 '', after = Some ''[5]'',
     answers = [Matched 0 [] ''on_requested_deadline_missed'']\<rparr>"

theorem deadline_verdicts_witness:
  "test_deadline_missed late_child = Returned DEADLINE_MISSED"
proof -
  have "basic_check late_child = Returned OK" by code_simp
  with deadline_verdicts [of late_child] show ?thesis by (simp add: late_child_def)
qed

end
