(* ===== verification/Streams.thy ===== *)
theory Streams
  imports CheckLoop
begin

text \<open>
  What a stream of texts says about every instance: its samples, the sequence numbers of one colour,
  the colours in order of appearance, the number of samples of the first one.  The checks keep such
  data in their lists; their contracts are stated in these terms.
\<close>

section \<open>What a stream of texts says about every instance\<close>

definition samples :: "string list \<Rightarrow> (string \<times> int) list" where
  "samples h = concat (map (\<lambda>t. case sample_of t of None \<Rightarrow> [] | Some p \<Rightarrow> [p]) h)"

definition seq_nums :: "string \<Rightarrow> string list \<Rightarrow> int list" where   \<comment> \<open>of one colour, in order\<close>
  "seq_nums color h = map snd (filter (\<lambda>p. fst p = color) (samples h))"

definition colors :: "string list \<Rightarrow> string list" where   \<comment> \<open>in order of first appearance\<close>
  "colors h = rev (remdups (rev (map fst (samples h))))"

lemma samples_simps [simp]:
  "samples [] = []"
  "samples (h @ h') = samples h @ samples h'"
  "sample_of t = None \<Longrightarrow> samples [t] = []"
  "sample_of t = Some p \<Longrightarrow> samples [t] = [p]"
  by (simp_all add: samples_def)

lemma seq_nums_simps [simp]:
  "seq_nums k [] = []"
  "seq_nums k (h @ h') = seq_nums k h @ seq_nums k h'"
  "sample_of t = None \<Longrightarrow> seq_nums k [t] = []"
  "sample_of t = Some (color, n) \<Longrightarrow> seq_nums k [t] = (if color = k then [n] else [])"
  by (simp_all add: seq_nums_def)

lemma colors_simps [simp]:
  "colors [] = []"
  "sample_of t = None \<Longrightarrow> colors (h @ [t]) = colors h"
  "sample_of t = Some (color, n) \<Longrightarrow>
   colors (h @ [t]) = (if color \<in> set (colors h) then colors h else colors h @ [color])"
  "distinct (colors h)"
  by (auto simp: colors_def)

lemma seq_nums_nonempty: "color \<in> set (colors h) \<longleftrightarrow> seq_nums color h \<noteq> []"
  by (auto simp: colors_def seq_nums_def filter_empty_conv)

lemma colors_empty: "colors h = [] \<longleftrightarrow> samples h = []"
  by (simp add: colors_def)

lemma successively_snoc:
  "successively P (xs @ [x]) \<longleftrightarrow> successively P xs \<and> (xs = [] \<or> P (last xs) x)"
  by (auto simp: successively_append_iff)

lemma good_prefix: "successively P (seq_nums k (h @ h')) \<Longrightarrow> successively P (seq_nums k h)"
  by (simp add: successively_append_iff)

section \<open>Samples of the first instance\<close>

definition first_count :: "string list \<Rightarrow> nat" where   \<comment> \<open>samples of the first instance\<close>
  "first_count h = length (seq_nums (hd (colors h)) h)"

lemma first_count_snoc:
  "first_count (h @ [t]) = (case sample_of t of None \<Rightarrow> first_count h
     | Some (color, n) \<Rightarrow> if colors h = [] \<or> color = hd (colors h) then first_count h + 1 else first_count h)"
proof (cases "sample_of t")
  case (Some p)
  obtain color n where p: "p = (color, n)" by (cases p)
  show ?thesis
  proof (cases "colors h = []")
    case True
    then have "seq_nums k h = []" for k using seq_nums_nonempty [of k h] by auto
    with Some p True show ?thesis by (simp add: first_count_def)
  next
    case False
    with Some p show ?thesis by (auto simp: first_count_def hd_append)
  qed
qed (simp add: first_count_def)

lemma first_count_step: "first_count h \<le> first_count (h @ [t])" "first_count (h @ [t]) \<le> Suc (first_count h)"
  by (auto simp: first_count_snoc split: option.splits)

lemma first_count_mono: "first_count h \<le> first_count (h @ h')"
proof (induction h' rule: rev_induct)
  case (snoc t h')
  have "first_count (h @ h') \<le> first_count ((h @ h') @ [t])"
    unfolding first_count_snoc by (auto split: option.splits)
  with snoc show ?case by simp
qed simp

lemma first_count_prefix: "prefix h h' \<Longrightarrow> first_count h \<le> first_count h'"
  by (auto simp: prefix_def first_count_mono)

section \<open>Children that print given samples, for the witnesses\<close>

definition sample_text :: "nat \<Rightarrow> string" where
  "sample_text k = ''Square'' @ ''     '' @ ''BLUE'' @ ''       '' @ ''010'' @ '' '' @ ''020'' @ '' '' @ ''['' @ show_nat k @ '']''"

definition printed :: "nat list \<Rightarrow> child" where   \<comment> \<open>samples of these sizes, all of one instance\<close>
  "printed ks = \<lparr>before = sample_text (hd ks), after = Some [],
     answers = map (\<lambda>k. Matched 0 (sample_text k) []) (tl ks)\<rparr>"

lemma sample_of_text: "sample_of (sample_text k) = Some (''BLUE'', int k)"
proof -
  have "re_search instance_re (sample_text k @ []) = Some (sample_text k, [(1, ''BLUE''), (2, show_nat k)], [])"
    unfolding sample_text_def append.assoc
    by (rule instance_re_line)
       (use show_nat_digits [of k] in \<open>simp_all add: is_word_def is_digit_def is_space_def\<close>)
  then show ?thesis
    by (simp add: sample_of_def py_group_def group_def group_int_def)
qed

lemma later_texts_matched: "later_texts (map (\<lambda>k. Matched 0 (f k) []) ks) = map f ks"
  by (induction ks) auto

lemma answers_printed:
  "answers (printed ks) = map (\<lambda>(b, a). Matched 0 b a) (map (\<lambda>k. (sample_text k, [])) (tl ks))"
  by (simp add: printed_def)

lemma child_text_printed: "child_text (printed ks) = Inr (sample_text (hd ks))"
  by (simp add: printed_def child_text_def)

lemma texts_printed: "ks \<noteq> [] \<Longrightarrow> texts (printed ks) = map sample_text ks"
  unfolding texts_def child_text_printed by (cases ks) (simp_all add: printed_def later_texts_matched)

lemma ending_printed: "ending (answers (printed ks)) = None"
proof -
  have "ending (map (\<lambda>k. Matched 0 (sample_text k) []) js) = None" for js by (induction js) auto
  then show ?thesis by (simp add: printed_def)
qed

lemma legal_printed:
  "0 < length ps \<Longrightarrow> text_pat (ps ! 0) \<Longrightarrow> list_all (legal_answer ps) (answers (printed ks))"
  by (auto simp: printed_def list_all_iff)

lemma samples_texts: "samples (map sample_text ks) = map (\<lambda>k. (''BLUE'', int k)) ks"
  by (induction ks) (simp_all add: samples_def sample_of_text)

lemma seq_nums_texts: "seq_nums color (map sample_text ks) = (if color = ''BLUE'' then map int ks else [])"
  by (auto simp: seq_nums_def samples_texts filter_map comp_def)

lemma colors_texts: "ks \<noteq> [] \<Longrightarrow> colors (map sample_text ks) = [''BLUE'']"
proof -
  assume "ks \<noteq> []"
  then have "remdups (map (\<lambda>_. ''BLUE'') (rev ks)) = [''BLUE'']"
    by (induction ks rule: rev_induct) (auto simp: image_constant_conv)
  then show ?thesis by (simp add: colors_def samples_texts rev_map comp_def)
qed

lemma successively_upt:
  assumes "\<And>k. P (int k) (int (Suc k))"
  shows "successively P (map int [m..<n])"
proof (induction n)
  case (Suc n)
  show ?case
  proof (cases "m < n")
    case True
    then have "P (int (last [m..<n])) (int n)" using assms [of "n - 1"] by simp
    with Suc True show ?thesis by (simp add: successively_append_iff last_map)
  qed (auto simp: le_less)
qed simp

lemma basic_check_printed:
  assumes "hd ks = 1"
  shows "basic_check (printed ks) = Returned OK"
proof -
  have "child_text (printed ks) = Inr (sample_text 1)"
    by (simp add: child_text_printed assms)
  moreover have "(case re_search basic_re (sample_text 1) of None \<Rightarrow> DATA_NOT_RECEIVED
      | Some m \<Rightarrow> (if group_int (Some m) 1 = Inr 0 then DATA_NOT_CORRECT else OK)) = OK"
    by code_simp
  ultimately show ?thesis by (simp only: basic_check_text)
qed

end
