(* ===== verification/Check_Order.thy ===== *)
theory Check_Order
  imports Streams
begin

text \<open>
  The two checks on the sequence numbers of every instance: \<open>test_order_w_instances\<close> (increasing)
  and \<open>test_reliability_no_losses_w_instances\<close> (consecutive).  Both keep, per colour, the last
  sequence number seen; both stop after \<open>MAX_SAMPLES_READ\<close> samples of the first colour.
\<close>

record order_state =
  instance_color :: "string list"
  instance_seq_num :: "int list"
  first_iteration :: "bool list"
  samples_read_per_instance :: nat
  produced_code :: ReturnCode
  sub_string :: "re_match option"

definition order_init :: order_state where
  "order_init = \<lparr>instance_color = [], instance_seq_num = [], first_iteration = [],
     samples_read_per_instance = 0, produced_code = DATA_NOT_RECEIVED, sub_string = None\<rparr>"

text \<open>Adding a new instance to \<open>instance_color\<close> and its companions.\<close>

definition add_instance :: "string \<Rightarrow> int \<Rightarrow> order_state \<Rightarrow> order_state" where
  "add_instance color n s =
     (if color \<notin> set (instance_color s)
      then s\<lparr>instance_color := instance_color s @ [color],
             instance_seq_num := instance_seq_num s @ [n],
             first_iteration := first_iteration s @ [True]\<rparr>
      else s)"

definition order_body :: "string res \<Rightarrow> order_state \<Rightarrow> order_state flow" where
  "order_body text s0 = attempt text (\<lambda>t.
     let sub = re_search instance_re t; s1 = s0\<lparr>sub_string := sub\<rparr> in
     if sub = None then Next s1
     else
       attempt (py_group sub 1) (\<lambda>color. attempt (group_int sub 2) (\<lambda>n.
         let s = add_instance color n s1 in
         if color \<in> set (instance_color s) then
           attempt (py_index color (instance_color s)) (\<lambda>index.
           attempt (py_nth (first_iteration s) index) (\<lambda>first.
             if first then
               attempt (py_set (first_iteration s) index False) (\<lambda>fs. Next (s\<lparr>first_iteration := fs\<rparr>))
             else
               attempt (py_nth (instance_seq_num s) index) (\<lambda>previous.
                 if n > previous then
                   attempt (py_set (instance_seq_num s) index n) (\<lambda>ns. Next (s\<lparr>instance_seq_num := ns\<rparr>))
                 else Break (s\<lparr>produced_code := DATA_NOT_CORRECT\<rparr>))))
         else Break (s\<lparr>produced_code := DATA_NOT_CORRECT\<rparr>))))"

definition reliability_body :: "string res \<Rightarrow> order_state \<Rightarrow> order_state flow" where
  "reliability_body text s0 = attempt text (\<lambda>t.
     let sub = re_search instance_re t; s1 = s0\<lparr>sub_string := sub\<rparr> in
     if sub = None then Next s1
     else
       attempt (py_group sub 1) (\<lambda>color. attempt (group_int sub 2) (\<lambda>n.
         let s = add_instance color n s1 in
         if color \<in> set (instance_color s) then
           attempt (py_index color (instance_color s)) (\<lambda>index.
           attempt (py_nth (first_iteration s) index) (\<lambda>first.
             if first then
               attempt (py_set (first_iteration s) index False) (\<lambda>fs. Next (s\<lparr>first_iteration := fs\<rparr>))
             else
               attempt (py_nth (instance_seq_num s) index) (\<lambda>previous.
               attempt (py_set (instance_seq_num s) index (previous + 1)) (\<lambda>ns.
                 let s' = s\<lparr>instance_seq_num := ns\<rparr> in
                 if previous + 1 \<noteq> n then Break (s'\<lparr>produced_code := DATA_NOT_CORRECT\<rparr>)
                 else Next s'))))
         else Break (s\<lparr>produced_code := DATA_NOT_CORRECT\<rparr>))))"

text \<open>\<open>if sub_string is not None and sub_string.group(1) == instance_color[0]\<close>\<close>

definition count_first_instance :: "('a order_state_scheme) \<Rightarrow> ('a order_state_scheme) flow" where
  "count_first_instance s =
     (if sub_string s = None then Next s
      else
        attempt (py_group (sub_string s) 1) (\<lambda>color.
        attempt (py_nth (instance_color s) 0) (\<lambda>first.
          Next (if color = first
                then s\<lparr>samples_read_per_instance := samples_read_per_instance s + 1\<rparr> else s))))"

definition order_finish :: "order_state \<Rightarrow> ReturnCode" where
  "order_finish s = (if MAX_SAMPLES_READ = samples_read_per_instance s then OK else produced_code s)"

definition reading_ordered_re :: re where   \<comment> \<open>\<open>Reading with ordered access.*?\\n\<close>\<close>
  "reading_ordered_re = Seqs [Lit ''Reading with ordered access'', Rep False CDot, Chr (CRange 10 10)]"

definition order_loop :: "order_state check_loop" where
  "order_loop =
     \<lparr>guard = (\<lambda>s. samples_read_per_instance s < MAX_SAMPLES_READ),
      body = order_body,
      pats = [PRe bracket_re, PRe reading_ordered_re, PTimeout, PEof],
      react = (\<lambda>index _ s.
        if index = 0 then count_first_instance s
        else if index = 2 then Break s
        else if index = 3 then Return DATA_NOT_RECEIVED
        else Next s),
      finish = order_finish\<rparr>"

definition reliability_loop :: "order_state check_loop" where
  "reliability_loop =
     \<lparr>guard = (\<lambda>s. samples_read_per_instance s < MAX_SAMPLES_READ),
      body = reliability_body,
      pats = [PRe bracket_re, PTimeout, PEof],
      react = (\<lambda>index _ s.
        if index = 0 then count_first_instance s
        else if index = 1 then Break s
        else if index = 2 then Return DATA_NOT_RECEIVED
        else Next s),
      finish = order_finish\<rparr>"

definition test_order_w_instances :: check_function where
  "test_order_w_instances child_sub =
     after_basic_check child_sub (run_loop order_loop order_init child_sub)"

definition test_reliability_no_losses_w_instances :: check_function where
  "test_reliability_no_losses_w_instances child_sub =
     after_basic_check child_sub (run_loop reliability_loop order_init child_sub)"

section \<open>The rule both checks apply to one sample\<close>

text \<open>
  \<open>follows\<close> is the relation a sample must stand in to the previous one of its colour.  On the states
  the loops reach, both bodies are the same function of the sample and of that relation.
\<close>

definition wf_order :: "'a order_state_scheme \<Rightarrow> bool" where
  "wf_order s = (distinct (instance_color s)
     \<and> length (instance_seq_num s) = length (instance_color s)
     \<and> first_iteration s = replicate (length (instance_color s)) False)"

definition track :: "(int \<Rightarrow> int \<Rightarrow> bool) \<Rightarrow> string \<Rightarrow> order_state \<Rightarrow> order_state flow" where
  "track follows t s =
     (let s1 = s\<lparr>sub_string := re_search instance_re t\<rparr> in
      case sample_of t of
        None \<Rightarrow> Next s1
      | Some (color, n) \<Rightarrow>
          (case index_of color (instance_color s) of
             None \<Rightarrow> Next (s1\<lparr>instance_color := instance_color s @ [color],
                            instance_seq_num := instance_seq_num s @ [n],
                            first_iteration := first_iteration s @ [False]\<rparr>)
           | Some i \<Rightarrow>
               if follows (instance_seq_num s ! i) n
               then Next (s1\<lparr>instance_seq_num := (instance_seq_num s)[i := n]\<rparr>)
               else Break s1))"

fun same_flow :: "order_state flow \<Rightarrow> order_state flow \<Rightarrow> bool" where
  "same_flow (Next s) (Next s') = (s = s')"
| "same_flow (Break s) (Break s') = (produced_code s = DATA_NOT_CORRECT
     \<and> samples_read_per_instance s = samples_read_per_instance s')"
| "same_flow _ _ = False"

lemma body_track_cases:
  assumes wf: "wf_order s" and m: "re_search instance_re t = Some m"
  obtains (new) color n where "sample_of t = Some (color, n)" "py_group (Some m) 1 = Inr color"
      "group_int (Some m) 2 = Inr n" "color \<notin> set (instance_color s)"
      "py_index color (instance_color s @ [color]) = Inr (length (instance_color s))"
      "index_of color (instance_color s) = None"
  | (old) color n i where "sample_of t = Some (color, n)" "py_group (Some m) 1 = Inr color"
      "group_int (Some m) 2 = Inr n" "color \<in> set (instance_color s)"
      "index_of color (instance_color s) = Some i" "py_index color (instance_color s) = Inr i"
      "i < length (instance_color s)"
proof -
  obtain color n where cn: "sample_of t = Some (color, n)" "py_group (Some m) 1 = Inr color"
    "group_int (Some m) 2 = Inr n"
    using instance_groups [OF m] by blast
  show ?thesis
  proof (cases "index_of color (instance_color s)")
    case None
    then have "color \<notin> set (instance_color s)" by (simp add: index_of_None)
    moreover from this have "py_index color (instance_color s @ [color]) = Inr (length (instance_color s))"
      using py_index_nth [of "instance_color s @ [color]" "length (instance_color s)"] wf
      by (simp add: wf_order_def)
    ultimately show ?thesis using new cn None by blast
  next
    case (Some i)
    with index_of_Some [OF this] have "color \<in> set (instance_color s)" "i < length (instance_color s)" by auto
    with old [OF cn _ Some] Some show ?thesis by (simp add: py_index_def)
  qed
qed

lemma add_instance_old [simp]: "color \<in> set (instance_color s) \<Longrightarrow> add_instance color n s = s"
  by (simp add: add_instance_def)

lemma add_instance_new [simp]:
  "color \<notin> set (instance_color s) \<Longrightarrow> add_instance color n s =
   s\<lparr>instance_color := instance_color s @ [color],
     instance_seq_num := instance_seq_num s @ [n],
     first_iteration := first_iteration s @ [True]\<rparr>"
  by (simp add: add_instance_def)

lemmas body_track_simps =
  track_def wf_order_def

lemma order_body_track: "wf_order s \<Longrightarrow> same_flow (order_body (Inr t) s) (track (<) t s)"
proof (cases "re_search instance_re t")
  case (Some m)
  assume "wf_order s"
  then show "same_flow (order_body (Inr t) s) (track (<) t s)"
    by (cases rule: body_track_cases [OF _ Some])
       (use Some in \<open>simp_all add: order_body_def body_track_simps, simp_all add: Let_def nth_append list_update_append\<close>)
qed (simp add: order_body_def track_def sample_of_def)

lemma reliability_body_track:
  "wf_order s \<Longrightarrow> same_flow (reliability_body (Inr t) s) (track (\<lambda>x y. y = x + 1) t s)"
proof (cases "re_search instance_re t")
  case (Some m)
  assume "wf_order s"
  then show "same_flow (reliability_body (Inr t) s) (track (\<lambda>x y. y = x + 1) t s)"
    by (cases rule: body_track_cases [OF _ Some])
       (use Some in \<open>simp_all add: reliability_body_def body_track_simps, simp_all add: Let_def nth_append list_update_append\<close>)
qed (simp add: reliability_body_def track_def sample_of_def)

section \<open>The interface both checks implement\<close>

text \<open>Counting a sample of the first instance is what the reaction to a sample does.\<close>

lemma count_first_instance_spec:
  assumes "instance_color s = colors (h @ [t])" "sub_string s = re_search instance_re t"
    and "samples_read_per_instance s = n"
  shows "count_first_instance s =
    Next (s\<lparr>samples_read_per_instance := n + (first_count (h @ [t]) - first_count h)\<rparr>)"
proof (cases "re_search instance_re t")
  case None
  then have "sample_of t = None" by (simp add: sample_of_None)
  with None assms show ?thesis by (auto simp: count_first_instance_def first_count_snoc)
next
  case (Some m)
  obtain color n where cn: "sample_of t = Some (color, n)" "py_group (Some m) 1 = Inr color"
    using instance_groups [OF Some] by blast
  have hd: "colors (h @ [t]) \<noteq> []"
    "hd (colors (h @ [t])) = (if colors h = [] then color else hd (colors h))"
    using cn by (auto simp: hd_append)
  then have "py_nth (instance_color s) 0 = Inr (hd (colors (h @ [t])))"
    using assms by (simp add: py_nth_def hd_conv_nth)
  with assms Some cn hd show ?thesis
    by (auto simp: count_first_instance_def first_count_snoc)
qed

definition conforms :: "(int \<Rightarrow> int \<Rightarrow> bool) \<Rightarrow> string list \<Rightarrow> bool" where
  "conforms follows h = (\<forall>color. successively follows (seq_nums color h))"

lemma conforms_prefix: "prefix h h' \<Longrightarrow> conforms P h' \<Longrightarrow> conforms P h"
  by (auto simp: conforms_def prefix_def successively_append_iff)

locale per_instance_check =
  fixes L :: "order_state check_loop" and follows :: "int \<Rightarrow> int \<Rightarrow> bool"
  assumes guard: "guard L s \<longleftrightarrow> samples_read_per_instance s < MAX_SAMPLES_READ"
    and body: "wf_order s \<Longrightarrow> same_flow (body L (Inr t) s) (track follows t s)"
    and finish: "finish L s = order_finish s"
    and on_text: "i < length (pats L) \<Longrightarrow> text_pat (pats L ! i) \<Longrightarrow>
          react L i rt s = (if i = 0 then count_first_instance s else Next s)"
    and on_silence: "i < length (pats L) \<Longrightarrow> \<not> text_pat (pats L ! i) \<Longrightarrow>
          react L i rt s = Break s \<or> react L i rt s = Return DATA_NOT_RECEIVED"
    and first_pat: "0 < length (pats L)" "text_pat (pats L ! 0)"
    and silence_listed: "PTimeout \<in> set (pats L)" "PEof \<in> set (pats L)"
begin

definition every_text_counts :: bool where
  "every_text_counts \<longleftrightarrow> (\<forall>i < length (pats L). text_pat (pats L ! i) \<longrightarrow> i = 0)"

definition counted :: "string list \<Rightarrow> nat \<Rightarrow> bool" where
  "counted h n \<longleftrightarrow> n \<le> first_count h \<and> (every_text_counts \<longrightarrow> n = first_count h)"

definition H :: "string list \<Rightarrow> order_state \<Rightarrow> bool" where
  "H h s \<longleftrightarrow> instance_color s = colors h
     \<and> instance_seq_num s = map (\<lambda>k. last (seq_nums k h)) (colors h)
     \<and> first_iteration s = replicate (length (colors h)) False
     \<and> conforms follows h
     \<and> produced_code s = DATA_NOT_RECEIVED
     \<and> samples_read_per_instance s \<le> MAX_SAMPLES_READ
     \<and> counted h (samples_read_per_instance s)"

text \<open>Between the body and the reaction the text at hand is recorded but not counted.\<close>

definition between :: "string list \<Rightarrow> string \<Rightarrow> order_state \<Rightarrow> bool" where
  "between h t s \<longleftrightarrow> instance_color s = colors (h @ [t])
     \<and> instance_seq_num s = map (\<lambda>k. last (seq_nums k (h @ [t]))) (colors (h @ [t]))
     \<and> first_iteration s = replicate (length (colors (h @ [t]))) False
     \<and> conforms follows (h @ [t])
     \<and> produced_code s = DATA_NOT_RECEIVED
     \<and> sub_string s = re_search instance_re t
     \<and> samples_read_per_instance s < MAX_SAMPLES_READ
     \<and> counted h (samples_read_per_instance s)"

definition good :: "string list \<Rightarrow> string \<Rightarrow> pat option \<Rightarrow> ReturnCode \<Rightarrow> bool" where
  "good h u how r \<longleftrightarrow>
     r = OK \<and> conforms follows h \<and> MAX_SAMPLES_READ \<le> first_count h
   \<or> r = DATA_NOT_RECEIVED \<and> how \<noteq> None \<and> conforms follows (h @ [u])
       \<and> (every_text_counts \<longrightarrow> first_count h < MAX_SAMPLES_READ)
   \<or> r = DATA_NOT_CORRECT \<and> conforms follows h \<and> \<not> conforms follows (h @ [u])
       \<and> (every_text_counts \<longrightarrow> first_count h < MAX_SAMPLES_READ)"

lemma H_wf: "H h s \<Longrightarrow> wf_order s"
  by (simp add: H_def wf_order_def)

lemma H_init: "H [] order_init"
  by (simp add: H_def order_init_def conforms_def counted_def first_count_def)

lemma body_H:
  assumes H: "H h s"
  shows "case body L (Inr t) s of
      Next s' \<Rightarrow> (samples_read_per_instance s < MAX_SAMPLES_READ \<longrightarrow> between h t s')
        \<and> samples_read_per_instance s' = samples_read_per_instance s
    | Break s' \<Rightarrow> produced_code s' = DATA_NOT_CORRECT
        \<and> samples_read_per_instance s' = samples_read_per_instance s \<and> \<not> conforms follows (h @ [t])
    | _ \<Rightarrow> False"
proof -
  note same = body [OF H_wf [OF H], of t]
  show ?thesis
  proof (cases "sample_of t")
    case None
    with same H show ?thesis
      by (cases "body L (Inr t) s") (simp_all add: track_def between_def H_def conforms_def)
  next
    case (Some p)
    obtain color n where p: "p = (color, n)" by (cases p)
    note t = Some [unfolded p]
    show ?thesis
    proof (cases "index_of color (instance_color s)")
      case None
      then have new: "color \<notin> set (colors h)" "seq_nums color h = []"
        using H seq_nums_nonempty [of color h] by (auto simp: H_def index_of_None)
      with same H t None show ?thesis
        by (cases "body L (Inr t) s")
           (auto simp: track_def between_def H_def conforms_def replicate_append_same)
    next
      case (Some i)
      with index_of_Some [OF this] H have i: "i < length (colors h)" "colors h ! i = color"
        by (auto simp: H_def)
      then have old: "color \<in> set (colors h)" "seq_nums color h \<noteq> []"
        using seq_nums_nonempty [of color h] by auto
      have upd: "(map (\<lambda>k. last (seq_nums k h)) (colors h))[i := n] =
        map (\<lambda>k. last (seq_nums k (h @ [t]))) (colors h)"
        using t i nth_eq_iff_index_eq [OF colors_simps(4) [of h]]
        by (intro nth_equalityI) (auto simp: nth_list_update)
      show ?thesis
      proof (cases "follows (last (seq_nums color h)) n")
        case True
        with same H t Some i old upd show ?thesis
          by (cases "body L (Inr t) s")
             (auto simp: track_def between_def H_def conforms_def successively_snoc)
      next
        case False
        with same H t Some i old show ?thesis
          by (cases "body L (Inr t) s")
             (auto simp: track_def H_def conforms_def successively_snoc intro!: exI [of _ color])
      qed
    qed
  qed
qed

lemma count_between:
  assumes b: "between h t s"
  shows "\<exists>s'. count_first_instance s = Next s' \<and> H (h @ [t]) s'
    \<and> (samples_read_per_instance s = first_count h \<longrightarrow>
       samples_read_per_instance s' = first_count (h @ [t]))"
proof -
  have "count_first_instance s = Next (s\<lparr>samples_read_per_instance :=
      samples_read_per_instance s + (first_count (h @ [t]) - first_count h)\<rparr>)"
    using b by (intro count_first_instance_spec) (auto simp: between_def)
  then show ?thesis
    using b first_count_step [of h t] by (auto simp: between_def H_def counted_def)
qed

lemma between_H: "between h t s \<Longrightarrow> \<not> every_text_counts \<Longrightarrow> H (h @ [t]) s"
  using first_count_mono [of h "[t]"] by (auto simp: between_def H_def counted_def)

end

sublocale per_instance_check \<subseteq> loop_contract L "\<lambda>h t s. H h s" between good
proof unfold_locales
  fix h t s assume H: "H h s" and g: "guard L s"
  show "flow_spec (between h t) (\<lambda>s'. good h t None (finish L s')) (good h t None) (body L (Inr t) s)"
    using body_H [OF H, of t] g H
    by (cases "body L (Inr t) s")
       (auto simp: guard finish order_finish_def good_def H_def counted_def)
next
  fix h t s i t' assume b: "between h t s" and i: "i < length (pats L)" "text_pat (pats L ! i)"
  obtain s' where "count_first_instance s = Next s'" "H (h @ [t]) s'"
    using count_between [OF b] by blast
  moreover have "i \<noteq> 0 \<Longrightarrow> H (h @ [t]) s"
    using i by (intro between_H [OF b]) (auto simp: every_text_counts_def)
  ultimately show "flow_spec (H (h @ [t])) (\<lambda>s'. good (h @ [t]) t' None (finish L s'))
      (good (h @ [t]) t' None) (react L i (Inr t') s)"
    using on_text [OF i, of "Inr t'" s] by simp
next
  fix h t s i assume b: "between h t s" and i: "i < length (pats L)" "\<not> text_pat (pats L ! i)"
  show "flow_spec (\<lambda>_. False) (\<lambda>s'. good h t (Some (pats L ! i)) (finish L s'))
      (good h t (Some (pats L ! i))) (react L i (Inl TypeError) s)"
    using on_silence [OF i, of "Inl TypeError" s] b
    by (auto simp: between_def good_def finish order_finish_def counted_def)
qed (use silence_listed in \<open>auto simp: guard finish order_finish_def H_def counted_def good_def\<close>)

context per_instance_check begin

text \<open>Soundness: a verdict comes with the texts \<open>h\<close> read in full and the text \<open>u\<close> after them.\<close>

lemma run_sound:
  assumes "child_text c = Inr t" and "run_loop L order_init c = Returned r"
  obtains h u how where "prefix (h @ [u]) (texts c)" "good h u how r"
    "how \<noteq> None \<Longrightarrow> texts c = h @ [u]"
  using justified_verdict [OF H_init assms] by (auto simp: justified_def)

text \<open>
  When every text counts, the verdicts exclude one another, so that each of them is characterised
  by the texts.
\<close>

definition accepted :: "string list \<Rightarrow> bool" where
  "accepted ts \<longleftrightarrow> (\<exists>h u. prefix (h @ [u]) ts \<and> conforms follows h \<and> MAX_SAMPLES_READ \<le> first_count h)"

definition refused :: "string list \<Rightarrow> bool" where
  "refused ts \<longleftrightarrow> (\<exists>h u. prefix (h @ [u]) ts \<and> conforms follows h \<and> first_count h < MAX_SAMPLES_READ
     \<and> \<not> conforms follows (h @ [u]))"

lemma accepted_prefix:
  assumes "accepted ts" "ts = h' @ rest" "first_count h' < MAX_SAMPLES_READ"
  obtains h where "prefix h' h" "conforms follows h" "h \<noteq> h'" "prefix h ts"
proof -
  from assms(1) obtain h u where h: "prefix (h @ [u]) ts" "conforms follows h" "MAX_SAMPLES_READ \<le> first_count h"
    by (auto simp: accepted_def)
  then have "prefix h ts" by (simp add: append_prefixD)
  moreover have "prefix h' ts" using assms(2) by simp
  moreover have "\<not> prefix h h'"
    using h(3) assms(3) first_count_prefix [of h h'] by linarith
  ultimately show ?thesis using that [of h] h(2) by (metis prefix_same_cases)
qed

lemma not_both: "accepted ts \<Longrightarrow> \<not> refused ts"
proof
  assume a: "accepted ts" and "refused ts"
  then obtain h' u where h': "prefix (h' @ [u]) ts" "first_count h' < MAX_SAMPLES_READ"
    "\<not> conforms follows (h' @ [u])"
    by (auto simp: refused_def)
  then obtain rest where ts: "ts = h' @ u # rest" by (auto simp: prefix_def)
  from accepted_prefix [OF a ts h'(2)] obtain h where h: "prefix h' h" "conforms follows h" "h \<noteq> h'" "prefix h ts"
    by blast
  with ts have "prefix (h' @ [u]) h"
    by (auto simp: prefix_def Cons_eq_append_conv append_eq_Cons_conv)
  with h(2) h'(3) show False using conforms_prefix by blast
qed

lemma verdict_iff:
  assumes "every_text_counts" "child_text c = Inr t" "list_all (legal_answer (pats L)) (answers c)"
  shows "run_loop L order_init c = Returned OK \<longleftrightarrow> accepted (texts c)"
    and "run_loop L order_init c = Returned DATA_NOT_CORRECT \<longleftrightarrow> refused (texts c)"
proof -
  note run = run_justified [OF H_init assms(2)]
  have end_accepted: "\<not> accepted ts" if "ts = h @ [u]" "first_count h < MAX_SAMPLES_READ" for ts h u
  proof
    assume "accepted ts"
    then obtain h' v where "prefix (h' @ [v]) ts" "MAX_SAMPLES_READ \<le> first_count h'" by (auto simp: accepted_def)
    moreover from this that have "prefix h' h" by (auto dest: append_prefixD)
    ultimately show False using that(2) first_count_prefix [of h' h] by linarith
  qed
  have end_refused: "\<not> refused ts" if "conforms follows ts" for ts
    using that conforms_prefix unfolding refused_def by blast
  show "run_loop L order_init c = Returned OK \<longleftrightarrow> accepted (texts c)"
    and "run_loop L order_init c = Returned DATA_NOT_CORRECT \<longleftrightarrow> refused (texts c)"
  proof (atomize (full), cases "run_loop L order_init c")
    case Waiting
    from waits_only_at_end [OF H_init assms(2) this assms(3)]
    obtain h u s where "texts c = h @ [u]" "between h u s" by auto
    with end_accepted [of "texts c" h u] end_refused [of "texts c"] Waiting assms(1)
    show "(run_loop L order_init c = Returned OK \<longleftrightarrow> accepted (texts c)) \<and>
      (run_loop L order_init c = Returned DATA_NOT_CORRECT \<longleftrightarrow> refused (texts c))"
      by (auto simp: between_def counted_def)
  next
    case (Raised e)
    with run show "(run_loop L order_init c = Returned OK \<longleftrightarrow> accepted (texts c)) \<and>
      (run_loop L order_init c = Returned DATA_NOT_CORRECT \<longleftrightarrow> refused (texts c))" by simp
  next
    case (Returned r)
    from run_sound [OF assms(2) Returned] obtain h u how where
      h: "prefix (h @ [u]) (texts c)" "good h u how r" "how \<noteq> None \<Longrightarrow> texts c = h @ [u]"
      by blast
    then consider "r = OK" "accepted (texts c)" | "r = DATA_NOT_CORRECT" "refused (texts c)"
      | "r = DATA_NOT_RECEIVED" "texts c = h @ [u]" "conforms follows (h @ [u])" "first_count h < MAX_SAMPLES_READ"
      using assms(1) unfolding good_def accepted_def refused_def by blast
    then show "(run_loop L order_init c = Returned OK \<longleftrightarrow> accepted (texts c)) \<and>
      (run_loop L order_init c = Returned DATA_NOT_CORRECT \<longleftrightarrow> refused (texts c))"
      using Returned not_both end_accepted end_refused by cases auto
  qed
qed

text \<open>Completeness for both checks, when the child only prints sample texts.\<close>

lemma run_accepts:
  assumes "H h s" "samples_read_per_instance s = first_count h"
    and "child_text c = Inr t" "answers c = map (\<lambda>(b, a). Matched 0 b a) out"
    and "conforms follows (h @ texts c)" and "MAX_SAMPLES_READ \<le> first_count (h @ butlast (texts c))"
  shows "run_loop L s c = Returned OK"
  using assms
proof (induction out arbitrary: h s c t)
  case Nil
  then have "\<not> guard L s" by (simp add: guard texts_def)
  with Nil(1) show ?case by (auto simp: run_loop.simps [of L s c] guard finish order_finish_def H_def)
next
  case (Cons ba out)
  obtain b a where ba: "ba = (b, a)" by (cases ba)
  let ?c' = "c\<lparr>before := b, after := Some a, answers := map (\<lambda>(b, a). Matched 0 b a) out\<rparr>"
  have texts: "texts c = t # texts ?c'" "texts ?c' \<noteq> []" and t': "child_text ?c' = Inr (b @ a)"
    using Cons.prems(3,4) ba by (auto simp: texts_def child_text_def)
  have ex: "expect (pats L) c = Returned (0, ?c')"
    using Cons.prems(4) ba first_pat by (simp add: expect_def)
  have fits: "conforms follows ((h @ [t]) @ texts ?c')"
    using Cons.prems(5) by (simp only: texts(1) append.assoc append_Cons append_Nil)
  have enough: "MAX_SAMPLES_READ \<le> first_count ((h @ [t]) @ butlast (texts ?c'))"
    using Cons.prems(6) texts(2)
    by (simp only: texts(1) append.assoc append_Cons append_Nil butlast.simps if_False)
  show ?case
  proof (cases "guard L s")
    case False
    with Cons.prems(1) show ?thesis
      by (auto simp: run_loop.simps [of L s c] guard finish order_finish_def H_def)
  next
    case True
    have "conforms follows (h @ [t])" using fits by (rule conforms_prefix [rotated]) simp
    with body_H [OF Cons.prems(1), of t] True obtain s' where s': "body L (Inr t) s = Next s'"
      "between h t s'" "samples_read_per_instance s' = samples_read_per_instance s"
      by (auto simp: guard split: flow.splits)
    obtain s'' where s'': "count_first_instance s' = Next s''" "H (h @ [t]) s''"
      "samples_read_per_instance s'' = first_count (h @ [t])"
      using count_between [OF s'(2)] s'(3) Cons.prems(2) by auto
    have "run_loop L s'' ?c' = Returned OK"
      by (rule Cons.IH [OF s''(2,3) t' _ fits enough]) simp
    then show ?thesis
      using True s'(1) s''(1) ex first_pat Cons.prems(3)
      by (simp add: run_loop.simps [of L s c] on_text)
  qed
qed

end

interpretation order: per_instance_check order_loop "(<)"
  by unfold_locales
     (auto simp: order_loop_def order_body_track text_pat_def nth_Cons' less_Suc_eq split: if_splits)

interpretation reliability: per_instance_check reliability_loop "\<lambda>x y. y = x + 1"
  by unfold_locales
     (auto simp: reliability_loop_def reliability_body_track text_pat_def nth_Cons' less_Suc_eq split: if_splits)

definition delivery :: "nat \<Rightarrow> child" where   \<comment> \<open>samples of sizes 1 to \<open>n\<close>, all of one instance\<close>
  "delivery n = printed [1..<Suc n]"

lemma delivery_facts:
  assumes "501 \<le> n" and "\<And>k. P (int k) (int (Suc k))"
  shows "child_text (delivery n) = Inr (sample_text 1)"
    and "conforms P ([] @ texts (delivery n))"
    and "MAX_SAMPLES_READ \<le> first_count ([] @ butlast (texts (delivery n)))"
proof -
  have "butlast (texts (delivery n)) = map sample_text [1..<n]"
    using assms(1) by (simp add: delivery_def texts_printed)
  then show "MAX_SAMPLES_READ \<le> first_count ([] @ butlast (texts (delivery n)))"
    using assms(1) by (simp add: first_count_def seq_nums_texts colors_texts MAX_SAMPLES_READ_def)
  show "child_text (delivery n) = Inr (sample_text 1)"
    using assms(1) by (simp add: delivery_def child_text_printed hd_upt del: upt_Suc)
  show "conforms P ([] @ texts (delivery n))"
    using assms successively_upt [of P] by (simp add: conforms_def delivery_def texts_printed seq_nums_texts del: upt_Suc)
qed

lemma basic_check_delivery: "0 < n \<Longrightarrow> basic_check (delivery n) = Returned OK"
  unfolding delivery_def by (rule basic_check_printed) (simp add: hd_upt del: upt_Suc)

definition lossy_child :: child where   \<comment> \<open>sample 2 is missing\<close>
  "lossy_child = \<lparr>before = sample_text 1, after = Some [], answers = [Matched 0 (sample_text 3) []]\<rparr>"

section \<open>Properties\<close>

abbreviation order_pats :: "pat list" where "order_pats \<equiv> pats order_loop"
abbreviation reliability_pats :: "pat list" where "reliability_pats \<equiv> pats reliability_loop"

lemma reliability_counts_all: "reliability.every_text_counts"
  unfolding reliability.every_text_counts_def
  by (simp add: reliability_loop_def text_pat_def nth_Cons' less_Suc_eq split: if_splits)

lemma after_basic_check_iff:
  assumes "child_text c = Inr t"
  shows "after_basic_check c rest = Returned r \<longleftrightarrow>
    (if basic_check c = Returned OK then rest = Returned r else basic_check c = Returned r)"
  by (simp add: after_basic_check_def basic_check_text [OF assms] split: option.splits)

text \<open>
  C1: \<open>test_reliability_no_losses_w_instances\<close> answers \<open>OK\<close> exactly when it should. On any child
  whose answers are ones its \<open>expect\<close> can give, the verdict is \<open>OK\<close> if and only if the first text
  passes the default check and the child prints texts \<open>h\<close>, followed by at least one more, such that
  in \<open>h\<close> every sequence number of every instance is the previous one of that instance plus 1 (no
  loss, no duplicate, no reordering) and at least \<open>MAX_SAMPLES_READ\<close> samples are of the first instance.
\<close>

theorem reliability_OK_iff:
  assumes "child_text c = Inr t" and "list_all (legal_answer reliability_pats) (answers c)"
  shows "test_reliability_no_losses_w_instances c = Returned OK \<longleftrightarrow>
    basic_check c = Returned OK \<and>
    (\<exists>h u. prefix (h @ [u]) (texts c)
       \<and> (\<forall>color. successively (\<lambda>x y. y = x + 1) (seq_nums color h))
       \<and> MAX_SAMPLES_READ \<le> length (seq_nums (hd (colors h)) h))"
  using reliability.verdict_iff(1) [OF reliability_counts_all assms]
  by (simp add: test_reliability_no_losses_w_instances_def after_basic_check_iff [OF assms(1)]
      reliability.accepted_def conforms_def first_count_def)

theorem reliability_OK_iff_witness:
  "test_reliability_no_losses_w_instances (delivery 501) = Returned OK"
proof -
  have "list_all (legal_answer reliability_pats) (answers (delivery 501))"
    unfolding delivery_def by (rule legal_printed) (simp_all add: reliability_loop_def text_pat_def)
  note iff = reliability_OK_iff [OF delivery_facts(1) [of 501 "\<lambda>_ _. True"] this]
  let ?h = "butlast (texts (delivery 501))" and ?u = "last (texts (delivery 501))"
  have "texts (delivery 501) \<noteq> []" by (simp add: delivery_def texts_printed)
  then have "?h @ [?u] = texts (delivery 501)" by (rule append_butlast_last_id)
  moreover have "conforms (\<lambda>x y. y = x + 1) ?h"
    using delivery_facts(2) [of 501 "\<lambda>x y. y = x + 1"] conforms_prefix [OF prefixeq_butlast] by simp
  moreover have "MAX_SAMPLES_READ \<le> first_count ?h"
    using delivery_facts(3) [of 501 "\<lambda>_ _. True"] by simp
  moreover have "basic_check (delivery 501) = Returned OK" by (rule basic_check_delivery) simp
  ultimately show ?thesis
    unfolding conforms_def first_count_def
    by (intro iffD2 [OF iff] conjI exI [of _ ?h] exI [of _ ?u]) simp_all
qed

text \<open>
  \<open>test_reliability_no_losses_w_instances\<close> refuses exactly the faulty deliveries. The verdict is
  \<open>DATA_NOT_CORRECT\<close> if and only if the default check already gives it (a first sample of size 0),
  or the child prints, before \<open>MAX_SAMPLES_READ\<close> samples of the first instance, a text \<open>u\<close> with which
  some instance skips, repeats or reorders a sequence number for the first time.
\<close>

theorem reliability_reject_iff:
  assumes "child_text c = Inr t" and "list_all (legal_answer reliability_pats) (answers c)"
  shows "test_reliability_no_losses_w_instances c = Returned DATA_NOT_CORRECT \<longleftrightarrow>
    basic_check c = Returned DATA_NOT_CORRECT \<or> basic_check c = Returned OK \<and>
    (\<exists>h u. prefix (h @ [u]) (texts c)
       \<and> (\<forall>color. successively (\<lambda>x y. y = x + 1) (seq_nums color h))
       \<and> length (seq_nums (hd (colors h)) h) < MAX_SAMPLES_READ
       \<and> (\<exists>color. \<not> successively (\<lambda>x y. y = x + 1) (seq_nums color (h @ [u]))))"
  using reliability.verdict_iff(2) [OF reliability_counts_all assms]
  by (simp add: test_reliability_no_losses_w_instances_def after_basic_check_iff [OF assms(1)]
      reliability.refused_def conforms_def first_count_def)

theorem reliability_reject_iff_witness:
  "test_reliability_no_losses_w_instances lossy_child = Returned DATA_NOT_CORRECT \<and>
   (\<exists>h u. prefix (h @ [u]) (texts lossy_child)
       \<and> (\<exists>color. \<not> successively (\<lambda>x y. y = x + 1) (seq_nums color (h @ [u]))))"
proof -
  have "child_text lossy_child = Inr (sample_text 1)"
    and "list_all (legal_answer reliability_pats) (answers lossy_child)"
    by (simp_all add: lossy_child_def child_text_def reliability_loop_def text_pat_def)
  note iff = reliability_reject_iff [OF this]
  have "test_reliability_no_losses_w_instances lossy_child = Returned DATA_NOT_CORRECT"
    and "basic_check lossy_child = Returned OK"
    by code_simp+
  with iff show ?thesis by auto
qed

text \<open>
  \<open>test_order_w_instances\<close> is sound. When it answers \<open>OK\<close>, the child has printed texts in which
  the sequence numbers of every instance strictly increase (losses are allowed, duplicates and
  reordering are not), and at least \<open>MAX_SAMPLES_READ\<close> of the samples belong to the first instance.
\<close>

theorem order_sound:
  assumes "test_order_w_instances c = Returned OK"
  shows "\<exists>h u. prefix (h @ [u]) (texts c) \<and> (\<forall>color. sorted_wrt (<) (seq_nums color h))
           \<and> MAX_SAMPLES_READ \<le> length (seq_nums (hd (colors h)) h)"
  using assms unfolding test_order_w_instances_def
  by (cases rule: after_basic_check_cases)
     (auto simp: order.good_def conforms_def first_count_def successively_conv_sorted_wrt [OF transp_on_less, symmetric]
        elim!: order.run_sound [of c _ OK])

lemma order_delivery: "test_order_w_instances (delivery 502) = Returned OK"
proof -
  have "run_loop order_loop order_init (delivery 502) = Returned OK"
    by (rule order.run_accepts [OF order.H_init _ delivery_facts(1) answers_printed [of "[1..<Suc 502]", folded delivery_def] delivery_facts(2,3)])
       (simp_all add: order_init_def first_count_def)
  then show ?thesis
    by (simp add: test_order_w_instances_def after_basic_check_pass basic_check_delivery)
qed

theorem order_sound_witness:
  "test_order_w_instances (delivery 502) = Returned OK
   \<and> (\<exists>h u. prefix (h @ [u]) (texts (delivery 502)) \<and> (\<forall>color. sorted_wrt (<) (seq_nums color h))
           \<and> MAX_SAMPLES_READ \<le> length (seq_nums (hd (colors h)) h))"
  using order_sound [OF order_delivery] order_delivery by blast

text \<open>
  \<open>test_order_w_instances\<close> refuses only faulty deliveries. \<open>DATA_NOT_CORRECT\<close> means that the
  default check gave it, or that some instance has a sequence number that is not larger than the
  one before it.
\<close>

theorem order_reject:
  assumes "test_order_w_instances c = Returned DATA_NOT_CORRECT"
  shows "basic_check c = Returned DATA_NOT_CORRECT
    \<or> (\<exists>h color. prefix h (texts c) \<and> \<not> sorted_wrt (<) (seq_nums color h))"
  using assms unfolding test_order_w_instances_def
proof (cases rule: after_basic_check_cases)
  case (2 t)
  then obtain h u how where "prefix (h @ [u]) (texts c)" "order.good h u how DATA_NOT_CORRECT"
    by (elim order.run_sound [of c t DATA_NOT_CORRECT])
  then show ?thesis
    unfolding order.good_def conforms_def successively_conv_sorted_wrt [OF transp_on_less]
    by (simp only: ReturnCode.distinct simp_thms) blast
qed simp

definition repeating_child :: child where   \<comment> \<open>sample 1 comes twice\<close>
  "repeating_child = \<lparr>before = sample_text 1, after = Some [], answers = [Matched 0 (sample_text 1) []]\<rparr>"

theorem order_reject_witness:
  "test_order_w_instances repeating_child = Returned DATA_NOT_CORRECT
   \<and> (\<exists>h color. prefix h (texts repeating_child) \<and> \<not> sorted_wrt (<) (seq_nums color h))"
proof -
  have "test_order_w_instances repeating_child = Returned DATA_NOT_CORRECT"
    and "basic_check repeating_child = Returned OK"
    by code_simp+
  with order_reject [OF this(1)] show ?thesis by simp
qed

end
