(* ===== verification/Check_TimeFilter.thy ===== *)
theory Check_TimeFilter
  imports Check_Order
begin

text \<open>
  \<open>test_reading_1_sample_every_10_samples_w_instances\<close>: a time-based filter lets through one sample
  in ten of every instance.  The state extends the one of the sequence-number checks.
\<close>

record time_filter_state = order_state +
  ignore_first_sample :: "bool list"
  missed_samples :: "int list"

definition filtered_max :: nat where "filtered_max = MAX_SAMPLES_READ div 10"   \<comment> \<open>\<open>MAX_SAMPLES_READ / 10\<close> is 50.0\<close>

text \<open>
  The two tolerances: \<open>max_samples_received * 0.1\<close> (5.0) missed samples per instance, and
  \<open>max_samples_received * 0.9\<close> (45.0) samples read.
\<close>

definition missed_tolerance :: int where "missed_tolerance = int filtered_max div 10"
definition enough_filtered :: nat where "enough_filtered = filtered_max * 9 div 10"

lemma tolerances: "filtered_max = 50" "missed_tolerance = 5" "enough_filtered = 45"
  by (simp_all add: filtered_max_def missed_tolerance_def enough_filtered_def MAX_SAMPLES_READ_def)

definition time_filter_init :: time_filter_state where
  "time_filter_init = \<lparr>instance_color = [], instance_seq_num = [], first_iteration = [],
     samples_read_per_instance = 0, produced_code = DATA_NOT_RECEIVED, sub_string = None,
     ignore_first_sample = [], missed_samples = []\<rparr>"

definition add_filtered_instance :: "string \<Rightarrow> int \<Rightarrow> time_filter_state \<Rightarrow> time_filter_state" where
  "add_filtered_instance color n s =
     (if color \<notin> set (instance_color s)
      then s\<lparr>instance_color := instance_color s @ [color],
             instance_seq_num := instance_seq_num s @ [n],
             first_iteration := first_iteration s @ [True],
             ignore_first_sample := ignore_first_sample s @ [True],
             missed_samples := missed_samples s @ [0]\<rparr>
      else s)"

definition missed_in_gap :: "int \<Rightarrow> int" where
  "missed_in_gap gap = max 0 ((gap - 10) div 10)"

text \<open>\<open>instance_seq_num[index] = current_seq_num\<close>\<close>

definition set_seq_num :: "nat \<Rightarrow> int \<Rightarrow> time_filter_state \<Rightarrow> time_filter_state flow" where
  "set_seq_num index n s =
     attempt (py_set (instance_seq_num s) index n) (\<lambda>ns. Next (s\<lparr>instance_seq_num := ns\<rparr>))"

definition time_filter_body :: "string res \<Rightarrow> time_filter_state \<Rightarrow> time_filter_state flow" where
  "time_filter_body text s0 = attempt text (\<lambda>t.
     let sub = re_search instance_re t; s1 = s0\<lparr>sub_string := sub\<rparr> in
     if sub = None then Next s1
     else
       attempt (py_group sub 1) (\<lambda>color. attempt (group_int sub 2) (\<lambda>n.
         let s = add_filtered_instance color n s1 in
         if color \<in> set (instance_color s) then
           attempt (py_index color (instance_color s)) (\<lambda>index.
           attempt (py_nth (first_iteration s) index) (\<lambda>first.
             if first then
               attempt (py_set (first_iteration s) index False) (\<lambda>fs. Next (s\<lparr>first_iteration := fs\<rparr>))
             else attempt (py_nth (ignore_first_sample s) index) (\<lambda>ignore.
               if ignore then
                 attempt (py_set (ignore_first_sample s) index False) (\<lambda>is.
                   set_seq_num index n (s\<lparr>ignore_first_sample := is\<rparr>))
               else attempt (py_nth (instance_seq_num s) index) (\<lambda>previous.
                 let gap = n - previous in
                 if gap < 9 then Break (s\<lparr>produced_code := DATA_NOT_CORRECT\<rparr>)
                 else attempt (py_nth (missed_samples s) index) (\<lambda>missed.
                   let missed' = missed + missed_in_gap gap in
                   attempt (py_set (missed_samples s) index missed') (\<lambda>ms.
                     let s' = s\<lparr>missed_samples := ms\<rparr> in
                     if missed' > missed_tolerance then Break (s'\<lparr>produced_code := DATA_NOT_CORRECT\<rparr>)
                     else set_seq_num index n s'))))))
         else Break (s\<lparr>produced_code := DATA_NOT_CORRECT\<rparr>))))"

definition time_filter_loop :: "time_filter_state check_loop" where
  "time_filter_loop =
     \<lparr>guard = (\<lambda>s. samples_read_per_instance s < filtered_max),
      body = time_filter_body,
      pats = [PRe bracket_re, PTimeout, PEof],
      react = (\<lambda>index _ s.
        if index = 0 then count_first_instance s
        else if index = 1 then Break s
        else if index = 2 then Return DATA_NOT_RECEIVED
        else Next s),
      finish = (\<lambda>s. if samples_read_per_instance s \<ge> enough_filtered then OK else produced_code s)\<rparr>"

definition test_reading_1_sample_every_10_samples_w_instances :: check_function where
  "test_reading_1_sample_every_10_samples_w_instances child_sub =
     after_basic_check child_sub (run_loop time_filter_loop time_filter_init child_sub)"

section \<open>The filter as a property of a sequence\<close>

fun gaps :: "int list \<Rightarrow> int list" where
  "gaps (x # y # xs) = (y - x) # gaps (y # xs)"
| "gaps _ = []"

lemma gaps_snoc: "gaps (xs @ [y]) = (if xs = [] then [] else gaps xs @ [y - last xs])"
  by (induction xs rule: gaps.induct) auto

text \<open>The first sample does not count: from the second on, the gaps are at least 9, and the samples
  missing in them are at most 5.\<close>

definition checked_gaps :: "int list \<Rightarrow> int list" where "checked_gaps xs = gaps (tl xs)"
definition missed_total :: "int list \<Rightarrow> int" where "missed_total xs = sum_list (map missed_in_gap (checked_gaps xs))"

definition well_filtered :: "int list \<Rightarrow> bool" where
  "well_filtered xs \<longleftrightarrow> list_all (\<lambda>g. 9 \<le> g) (checked_gaps xs) \<and> missed_total xs \<le> 5"

lemma checked_gaps_snoc:
  "checked_gaps (xs @ [y]) = (if length xs < 2 then [] else checked_gaps xs @ [y - last xs])"
  by (cases xs) (auto simp: checked_gaps_def gaps_snoc Suc_le_eq)

lemma missed_in_gap_nonneg: "0 \<le> missed_in_gap g"
  by (simp add: missed_in_gap_def)

lemma well_filtered_prefix: "prefix xs ys \<Longrightarrow> well_filtered ys \<Longrightarrow> well_filtered xs"
proof (induction ys rule: rev_induct)
  case (snoc y ys)
  then have "xs = ys @ [y] \<or> prefix xs ys" by auto
  moreover have "well_filtered ys"
    using snoc.prems(2) missed_in_gap_nonneg [of "y - last ys"]
    by (cases ys) (auto simp: well_filtered_def missed_total_def checked_gaps_snoc checked_gaps_def gaps_snoc split: if_splits)
  ultimately show ?case using snoc by auto
qed simp

section \<open>The contract\<close>

definition filtered_repr :: "string list \<Rightarrow> time_filter_state \<Rightarrow> bool" where
  "filtered_repr h s \<longleftrightarrow> instance_color s = colors h
     \<and> instance_seq_num s = map (\<lambda>k. last (seq_nums k h)) (colors h)
     \<and> first_iteration s = replicate (length (colors h)) False
     \<and> ignore_first_sample s = map (\<lambda>k. length (seq_nums k h) = 1) (colors h)
     \<and> missed_samples s = map (\<lambda>k. missed_total (seq_nums k h)) (colors h)
     \<and> (\<forall>k. well_filtered (seq_nums k h)) \<and> produced_code s = DATA_NOT_RECEIVED"

definition filtered_inv :: "string list \<Rightarrow> string \<Rightarrow> time_filter_state \<Rightarrow> bool" where
  "filtered_inv h t s \<longleftrightarrow> filtered_repr h s \<and> samples_read_per_instance s = first_count h
     \<and> first_count h \<le> filtered_max"

definition filtered_mid :: "string list \<Rightarrow> string \<Rightarrow> time_filter_state \<Rightarrow> bool" where
  "filtered_mid h t s \<longleftrightarrow> filtered_repr (h @ [t]) s \<and> samples_read_per_instance s = first_count h
     \<and> first_count h < filtered_max \<and> sub_string s = re_search instance_re t"

lemma well_filtered_snoc:
  "well_filtered xs \<Longrightarrow> well_filtered (xs @ [y]) \<longleftrightarrow>
   (2 \<le> length xs \<longrightarrow> 9 \<le> y - last xs \<and> missed_total xs + missed_in_gap (y - last xs) \<le> 5)"
  by (auto simp: well_filtered_def missed_total_def checked_gaps_snoc)

lemma missed_total_snoc:
  "missed_total (xs @ [y]) = (if length xs < 2 then 0 else missed_total xs + missed_in_gap (y - last xs))"
  by (simp add: missed_total_def checked_gaps_snoc)

lemma missed_total_single: "length xs = 1 \<Longrightarrow> missed_total xs = 0"
  by (cases xs) (auto simp: missed_total_def checked_gaps_def)

lemma filtered_body:
  assumes H: "filtered_repr h s"
  shows "case time_filter_body (Inr t) s of
      Next s' \<Rightarrow> filtered_repr (h @ [t]) s' \<and> sub_string s' = re_search instance_re t
        \<and> samples_read_per_instance s' = samples_read_per_instance s
    | Break s' \<Rightarrow> produced_code s' = DATA_NOT_CORRECT
        \<and> samples_read_per_instance s' = samples_read_per_instance s
        \<and> (\<exists>k. \<not> well_filtered (seq_nums k (h @ [t])))
    | _ \<Rightarrow> False"
proof (cases "re_search instance_re t")
  case None
  with H show ?thesis
    by (simp add: time_filter_body_def filtered_repr_def sample_of_None [symmetric])
next
  case (Some m)
  have wf: "wf_order s" using H by (simp add: filtered_repr_def wf_order_def)
  show ?thesis
  proof (cases rule: body_track_cases [OF wf Some])
    case (1 color n)
    with H have "color \<notin> set (colors h)" "seq_nums color h = []"
      using seq_nums_nonempty [of color h] by (auto simp: filtered_repr_def)
    with 1 H Some show ?thesis
      by (simp add: time_filter_body_def filtered_repr_def add_filtered_instance_def)
         (auto simp: Let_def filtered_repr_def nth_append list_update_append replicate_append_same
            missed_total_def checked_gaps_def well_filtered_def)
  next
    case (2 color n i)
    then have i: "i < length (colors h)" "colors h ! i = color" "color \<in> set (colors h)" "seq_nums color h \<noteq> []"
      using H index_of_Some [of color "colors h" i] seq_nums_nonempty [of color h] by (auto simp: filtered_repr_def)
    let ?xs = "seq_nums color h"
    have len: "length ?xs = 1 \<or> 2 \<le> length ?xs" using i(4) by (cases ?xs rule: remdups_adj.cases) auto
    note facts = 2 H Some i well_filtered_snoc [of ?xs n]
    show ?thesis
    proof (cases "length ?xs = 1")
      case True
      with facts missed_total_single [OF True] show ?thesis
        by (simp add: time_filter_body_def filtered_repr_def add_filtered_instance_def set_seq_num_def)
           (auto simp: Let_def missed_total_snoc intro!: map_update_eqI)
    next
      case False
      with len have "2 \<le> length ?xs" by simp
      with False facts show ?thesis
        by (simp add: time_filter_body_def filtered_repr_def add_filtered_instance_def set_seq_num_def)
           (auto simp: Let_def set_seq_num_def filtered_repr_def tolerances missed_total_snoc intro!: map_update_eqI)
    qed
  qed
qed

definition filtered_texts :: "string list \<Rightarrow> bool" where
  "filtered_texts h \<longleftrightarrow> (\<forall>color. well_filtered (seq_nums color h))"

lemma filtered_texts_prefix: "prefix h h' \<Longrightarrow> filtered_texts h' \<Longrightarrow> filtered_texts h"
  unfolding filtered_texts_def
  by (metis prefix_def seq_nums_simps(2) well_filtered_prefix)

definition filtered_good :: "string list \<Rightarrow> string \<Rightarrow> pat option \<Rightarrow> ReturnCode \<Rightarrow> bool" where
  "filtered_good h u how r \<longleftrightarrow>
     r = OK \<and> filtered_texts h \<and> enough_filtered \<le> first_count h \<and> first_count h \<le> filtered_max
   \<or> r = DATA_NOT_CORRECT \<and> filtered_texts h \<and> first_count h < enough_filtered \<and> \<not> filtered_texts (h @ [u])
   \<or> r = DATA_NOT_RECEIVED \<and> how = Some PTimeout \<and> first_count h < enough_filtered \<and> filtered_texts (h @ [u])
   \<or> r = DATA_NOT_RECEIVED \<and> how = Some PEof \<and> filtered_texts (h @ [u]) \<and> first_count h < filtered_max"

interpretation time_filter: loop_contract time_filter_loop filtered_inv filtered_mid filtered_good
proof unfold_locales
  fix h t s assume "filtered_inv h t s" "\<not> guard time_filter_loop s"
  then show "filtered_good h t None (finish time_filter_loop s)"
    by (auto simp: time_filter_loop_def filtered_inv_def filtered_good_def filtered_repr_def filtered_texts_def tolerances)
next
  fix h t s assume inv: "filtered_inv h t s" and on: "guard time_filter_loop s"
  then have "filtered_repr h s" by (simp add: filtered_inv_def)
  from filtered_body [OF this, of t] inv on
  show "flow_spec (filtered_mid h t) (\<lambda>s'. filtered_good h t None (finish time_filter_loop s'))
      (filtered_good h t None) (body time_filter_loop (Inr t) s)"
    by (cases "time_filter_body (Inr t) s")
       (auto simp: time_filter_loop_def filtered_inv_def filtered_mid_def filtered_good_def filtered_repr_def
          filtered_texts_def)
next
  fix h t s i t' assume mid: "filtered_mid h t s"
    and i: "i < length (pats time_filter_loop)" "text_pat (pats time_filter_loop ! i)"
  have "i = 0" using i by (auto simp: time_filter_loop_def text_pat_def nth_Cons' split: if_splits)
  moreover have "count_first_instance s = Next (s\<lparr>samples_read_per_instance :=
      first_count h + (first_count (h @ [t]) - first_count h)\<rparr>)"
    using mid by (intro count_first_instance_spec) (auto simp: filtered_mid_def filtered_repr_def)
  ultimately show "flow_spec (filtered_inv (h @ [t]) t') (\<lambda>s'. filtered_good (h @ [t]) t' None (finish time_filter_loop s'))
      (filtered_good (h @ [t]) t' None) (react time_filter_loop i (Inr t') s)"
    using mid first_count_step [of h t]
    by (auto simp: time_filter_loop_def filtered_mid_def filtered_inv_def filtered_repr_def)
next
  fix h t s i assume "filtered_mid h t s"
    and "i < length (pats time_filter_loop)" "\<not> text_pat (pats time_filter_loop ! i)"
  moreover from this have "filtered_texts h"
    by (intro filtered_texts_prefix [of h "h @ [t]"]) (auto simp: filtered_mid_def filtered_repr_def filtered_texts_def)
  ultimately show "flow_spec (\<lambda>_. False) (\<lambda>s'. filtered_good h t (Some (pats time_filter_loop ! i)) (finish time_filter_loop s'))
      (filtered_good h t (Some (pats time_filter_loop ! i))) (react time_filter_loop i (Inl TypeError) s)"
    by (auto simp: time_filter_loop_def filtered_mid_def filtered_good_def filtered_repr_def filtered_texts_def
        text_pat_def nth_Cons' split: if_splits)
qed (simp_all add: time_filter_loop_def)

section \<open>Properties\<close>

lemma time_filter_start: "filtered_inv [] t time_filter_init"
  by (simp add: filtered_inv_def filtered_repr_def time_filter_init_def first_count_def
      well_filtered_def missed_total_def checked_gaps_def)

definition breaks_filter :: "string list \<Rightarrow> string \<Rightarrow> bool" where
  "breaks_filter h u \<longleftrightarrow> filtered_texts h \<and> first_count h < enough_filtered \<and> \<not> filtered_texts (h @ [u])"

lemma not_breaks_filter:
  assumes "prefix (h' @ [u']) ts" "prefix (h @ [u]) ts"
    and "filtered_texts h" "enough_filtered \<le> first_count h \<or> ts = h @ [u] \<and> filtered_texts (h @ [u])"
  shows "\<not> breaks_filter h' u'"
  using assms(1,2)
proof (cases rule: prefix_cases)
  case (before z)
  with assms(3) filtered_texts_prefix [of "h' @ [u']" h] show ?thesis by (auto simp: breaks_filter_def)
next
  case (later z)
  then consider "h' @ [u'] = h @ [u]" | "prefix h h'" "h' @ [u'] \<noteq> h @ [u]"
    by (cases z rule: rev_cases) (auto simp: prefix_def)
  then show ?thesis
  proof cases
    case 2
    with first_count_prefix [of h h'] assms(1,4) filtered_texts_prefix [of "h' @ [u']" ts] show ?thesis
      by (auto simp: breaks_filter_def)
  qed (use assms(4) in \<open>auto simp: breaks_filter_def\<close>)
qed

lemma time_filter_loop_iff:
  assumes "child_text c = Inr t" "list_all (legal_answer (pats time_filter_loop)) (answers c)"
  shows "run_loop time_filter_loop time_filter_init c = Returned DATA_NOT_CORRECT \<longleftrightarrow>
      (\<exists>h u. prefix (h @ [u]) (texts c) \<and> breaks_filter h u)"
proof (rule time_filter.verdict_iff_condition [OF _ assms])
  show "filtered_inv [] t time_filter_init" by (rule time_filter_start)
next
  fix h u how assume "prefix (h @ [u]) (texts c)" "filtered_good h u how DATA_NOT_CORRECT"
  then show "\<exists>h u. prefix (h @ [u]) (texts c) \<and> breaks_filter h u"
    unfolding filtered_good_def breaks_filter_def by (simp only: ReturnCode.distinct simp_thms) blast
next
  fix h u how r' assume "prefix (h @ [u]) (texts c)" "filtered_good h u how r'" "r' \<noteq> DATA_NOT_CORRECT"
    "\<forall>p. how = Some p \<longrightarrow> texts c = h @ [u] \<and> ending (answers c) = Some p"
  then show "\<not> (\<exists>h u. prefix (h @ [u]) (texts c) \<and> breaks_filter h u)"
    using not_breaks_filter [of _ _ "texts c" h u] filtered_texts_prefix [of h "h @ [u]"]
    unfolding filtered_good_def by (metis prefixI)
next
  fix h u s assume "texts c = h @ [u]" "filtered_mid h u s"
  then show "\<not> (\<exists>h u. prefix (h @ [u]) (texts c) \<and> breaks_filter h u)"
    using not_breaks_filter [of _ _ "texts c" h u] filtered_texts_prefix [of h "h @ [u]"]
    by (auto simp: filtered_mid_def filtered_repr_def filtered_texts_def)
qed

text \<open>A child that prints 51 well-filtered samples of one instance is accepted.\<close>

definition every_tenth :: "nat list" where "every_tenth = map (\<lambda>i. 1 + 10 * i) [0..<51]"

lemma time_filter_accepts:
  "test_reading_1_sample_every_10_samples_w_instances (printed every_tenth) = Returned OK"
proof -
  have facts: "every_tenth \<noteq> []" "hd every_tenth = 1" "length every_tenth = 51" "well_filtered (map int every_tenth)"
    by code_simp+
  have "well_filtered (seq_nums k (map sample_text every_tenth))" for k
    using facts(4) by (simp add: seq_nums_texts well_filtered_def missed_total_def checked_gaps_def)
  then have filtered: "filtered_texts (texts (printed every_tenth))"
    by (simp add: filtered_texts_def texts_printed facts(1))
  have many: "first_count h = 50" if "texts (printed every_tenth) = h @ [u]" for h u
  proof -
    have "h = butlast (map sample_text every_tenth)"
      using that by (simp add: texts_printed facts(1))
    then have h: "h = map sample_text (butlast every_tenth)" by (simp add: map_butlast)
    have len: "length (butlast every_tenth) = 50" using facts(3) by simp
    then have "butlast every_tenth \<noteq> []" by (metis list.size(3) zero_neq_numeral)
    with len show ?thesis by (simp add: h first_count_def colors_texts seq_nums_texts del: length_butlast)
  qed
  have legal: "list_all (legal_answer (pats time_filter_loop)) (answers (printed every_tenth))"
    by (rule legal_printed) (simp_all add: time_filter_loop_def text_pat_def)
  have "run_loop time_filter_loop time_filter_init (printed every_tenth) = Returned OK \<longleftrightarrow> True"
  proof (rule time_filter.verdict_iff_condition [OF time_filter_start child_text_printed legal])
    fix h u how r' assume "prefix (h @ [u]) (texts (printed every_tenth))" "filtered_good h u how r'" "r' \<noteq> OK"
      "\<forall>p. how = Some p \<longrightarrow> texts (printed every_tenth) = h @ [u] \<and> ending (answers (printed every_tenth)) = Some p"
    with filtered filtered_texts_prefix ending_printed [of every_tenth] show "\<not> True"
      by (auto simp: filtered_good_def)
  next
    fix h u s assume "texts (printed every_tenth) = h @ [u]" "filtered_mid h u s"
    with many show "\<not> True" by (auto simp: filtered_mid_def tolerances)
  qed simp
  then show ?thesis
    by (simp add: test_reading_1_sample_every_10_samples_w_instances_def after_basic_check_pass
        basic_check_printed facts(2))
qed

text \<open>
  C2: \<open>test_reading_1_sample_every_10_samples_w_instances\<close> refuses exactly the streams that leave the
  filter early enough. The verdict is \<open>DATA_NOT_CORRECT\<close> if and only if the default check gives it, or
  the child prints, before 45 samples of the first instance were read, a text \<open>u\<close> with which some
  instance, its first sample set aside, has a gap of less than 9 or more than 5 missed samples. A
  violation after the 45th sample is not reported: the code after the loop then answers \<open>OK\<close>.
\<close>

theorem time_filter_reject_iff:
  assumes "child_text c = Inr t" and "list_all (legal_answer (pats time_filter_loop)) (answers c)"
  shows "test_reading_1_sample_every_10_samples_w_instances c = Returned DATA_NOT_CORRECT \<longleftrightarrow>
    basic_check c = Returned DATA_NOT_CORRECT \<or> basic_check c = Returned OK \<and>
    (\<exists>h u. prefix (h @ [u]) (texts c) \<and> (\<forall>color. well_filtered (seq_nums color h))
       \<and> first_count h < 45 \<and> (\<exists>color. \<not> well_filtered (seq_nums color (h @ [u]))))"
  using time_filter_loop_iff [OF assms]
  by (simp add: test_reading_1_sample_every_10_samples_w_instances_def after_basic_check_iff [OF assms(1)]
      breaks_filter_def filtered_texts_def tolerances)

definition early_child :: child where   \<comment> \<open>the third sample comes 4 after the second\<close>
  "early_child = \<lparr>before = sample_text 1, after = Some [],
     answers = [Matched 0 (sample_text 11) [], Matched 0 (sample_text 15) []]\<rparr>"

theorem time_filter_reject_iff_witness:
  "test_reading_1_sample_every_10_samples_w_instances early_child = Returned DATA_NOT_CORRECT
   \<and> (\<exists>h u. prefix (h @ [u]) (texts early_child) \<and> (\<exists>color. \<not> well_filtered (seq_nums color (h @ [u]))))"
proof -
  have "child_text early_child = Inr (sample_text 1)"
    and "list_all (legal_answer (pats time_filter_loop)) (answers early_child)"
    by (simp_all add: early_child_def child_text_def time_filter_loop_def text_pat_def)
  note iff = time_filter_reject_iff [OF this]
  have "test_reading_1_sample_every_10_samples_w_instances early_child = Returned DATA_NOT_CORRECT"
    and "basic_check early_child = Returned OK"
    by code_simp+
  with iff show ?thesis by auto
qed

text \<open>
  \<open>test_reading_1_sample_every_10_samples_w_instances\<close> is sound: \<open>OK\<close> means that the child has
  printed texts in which every instance is well filtered (gaps of at least 9 and at most 5 missed
  samples, its first sample set aside) and of which 45 to 50 are samples of the first instance.
\<close>

theorem time_filter_sound:
  assumes "test_reading_1_sample_every_10_samples_w_instances c = Returned OK"
  shows "\<exists>h u. prefix (h @ [u]) (texts c) \<and> (\<forall>color. well_filtered (seq_nums color h))
           \<and> 45 \<le> first_count h \<and> first_count h \<le> 50"
  using assms unfolding test_reading_1_sample_every_10_samples_w_instances_def
proof (cases rule: after_basic_check_cases)
  case (2 t)
  from time_filter.justified_verdict [OF time_filter_start 2(1)] 2 obtain h u how
    where "prefix (h @ [u]) (texts c)" "filtered_good h u how OK"
    by (auto simp: time_filter.justified_def)
  then show ?thesis
    unfolding filtered_good_def filtered_texts_def tolerances by (simp only: ReturnCode.distinct simp_thms) blast
qed simp

theorem time_filter_sound_witness:
  "test_reading_1_sample_every_10_samples_w_instances (printed every_tenth) = Returned OK \<and>
   (\<exists>h u. prefix (h @ [u]) (texts (printed every_tenth)) \<and> (\<forall>color. well_filtered (seq_nums color h))
           \<and> 45 \<le> first_count h \<and> first_count h \<le> 50)"
  using time_filter_sound [OF time_filter_accepts] time_filter_accepts by blast

end
