(* ===== verification/Check_Lifespan.thy ===== *)
theory Check_Lifespan
  imports Check_Order
begin

text \<open>
  \<open>test_lifespan_2_3_consecutive_samples_w_instances\<close>: with the lifespan of the test, a slow reader
  gets 2 or 3 consecutive samples of every instance at a time.  The state extends the one of the
  sequence-number checks; \<open>instance_seq_num\<close> is the variable \<open>previous_seq_num\<close> of the code.
\<close>

record lifespan_state = order_state +
  consecutive_samples :: "nat list"
  ignore_first_sample :: "bool list"
  lifespan_expiration_observed :: bool

definition lifespan_max :: nat where "lifespan_max = MAX_SAMPLES_READ div 10"   \<comment> \<open>\<open>MAX_SAMPLES_READ / 10\<close> is 50.0\<close>

definition lifespan_init :: lifespan_state where
  "lifespan_init = \<lparr>instance_color = [], instance_seq_num = [], first_iteration = [],
     samples_read_per_instance = 0, produced_code = DATA_NOT_RECEIVED, sub_string = None,
     consecutive_samples = [], ignore_first_sample = [], lifespan_expiration_observed = False\<rparr>"

definition add_lifespan_instance :: "string \<Rightarrow> int \<Rightarrow> lifespan_state \<Rightarrow> lifespan_state" where
  "add_lifespan_instance color n s =
     (if color \<notin> set (instance_color s)
      then s\<lparr>instance_color := instance_color s @ [color],
             instance_seq_num := instance_seq_num s @ [n],
             first_iteration := first_iteration s @ [True],
             consecutive_samples := consecutive_samples s @ [1],
             ignore_first_sample := ignore_first_sample s @ [True]\<rparr>
      else s)"

text \<open>\<open>previous_seq_num[index] = int(sub_string.group(2))\<close>\<close>

definition set_previous :: "nat \<Rightarrow> int \<Rightarrow> lifespan_state \<Rightarrow> lifespan_state flow" where
  "set_previous index n s =
     attempt (py_set (instance_seq_num s) index n) (\<lambda>ns. Next (s\<lparr>instance_seq_num := ns\<rparr>))"

definition lifespan_body :: "string res \<Rightarrow> lifespan_state \<Rightarrow> lifespan_state flow" where
  "lifespan_body text s0 = attempt text (\<lambda>t.
     let sub = re_search instance_re t; s1 = s0\<lparr>sub_string := sub\<rparr> in
     if sub = None then Next s1
     else
       attempt (py_group sub 1) (\<lambda>color. attempt (group_int sub 2) (\<lambda>n.
         let s = add_lifespan_instance color n s1 in
         if color \<in> set (instance_color s) then
           attempt (py_index color (instance_color s)) (\<lambda>index.
           attempt (py_nth (first_iteration s) index) (\<lambda>first.
             if first then
               attempt (py_set (first_iteration s) index False) (\<lambda>fs.
                 set_previous index n (s\<lparr>first_iteration := fs\<rparr>))
             else attempt (py_nth (instance_seq_num s) index) (\<lambda>previous.
               attempt (py_nth (consecutive_samples s) index) (\<lambda>consecutive.
               if previous + 1 = n then
                 attempt (py_set (consecutive_samples s) index (consecutive + 1)) (\<lambda>cs.
                 attempt (py_set (ignore_first_sample s) index False) (\<lambda>is.
                   set_previous index n (s\<lparr>consecutive_samples := cs, ignore_first_sample := is\<rparr>)))
               else if consecutive = 3 \<or> consecutive = 2 then
                 attempt (py_set (consecutive_samples s) index 1) (\<lambda>cs.
                   set_previous index n (s\<lparr>consecutive_samples := cs, produced_code := OK,
                     lifespan_expiration_observed := True\<rparr>))
               else attempt (py_nth (ignore_first_sample s) index) (\<lambda>ignore.
                 if ignore then
                   attempt (py_set (ignore_first_sample s) index False) (\<lambda>is.
                     set_previous index n (s\<lparr>ignore_first_sample := is\<rparr>))
                 else Break (s\<lparr>produced_code := DATA_NOT_CORRECT\<rparr>))))))
         else Break (s\<lparr>produced_code := DATA_NOT_CORRECT\<rparr>))))"

definition lifespan_loop :: "lifespan_state check_loop" where
  "lifespan_loop =
     \<lparr>guard = (\<lambda>s. samples_read_per_instance s < lifespan_max),
      body = lifespan_body,
      pats = [PRe bracket_re, PTimeout, PEof],
      react = (\<lambda>index _ s.
        if index = 0 then count_first_instance s
        else if index = 1 then Break s
        else if index = 2 then Return DATA_NOT_RECEIVED
        else Next s),
      finish = (\<lambda>s.
        if lifespan_max = samples_read_per_instance s
        then if lifespan_expiration_observed s then OK else DATA_NOT_CORRECT
        else produced_code s)\<rparr>"

definition test_lifespan_2_3_consecutive_samples_w_instances :: check_function where
  "test_lifespan_2_3_consecutive_samples_w_instances child_sub =
     after_basic_check child_sub (run_loop lifespan_loop lifespan_init child_sub)"

section \<open>Runs of consecutive numbers\<close>

fun runs :: "int list \<Rightarrow> nat list" where   \<comment> \<open>the lengths of the maximal runs\<close>
  "runs [] = []"
| "runs [x] = [1]"
| "runs (x # y # xs) = (if y = x + 1 then Suc (hd (runs (y # xs))) # tl (runs (y # xs)) else 1 # runs (y # xs))"

lemma runs_nonempty: "runs xs = [] \<longleftrightarrow> xs = []"
  by (induction xs rule: runs.induct) auto

lemma runs_snoc:
  "runs (xs @ [y]) = (if xs = [] then [1]
     else if y = last xs + 1 then butlast (runs xs) @ [Suc (last (runs xs))] else runs xs @ [1])"
proof (induction xs rule: runs.induct)
  case (3 x z xs)
  have ne: "runs (z # xs) \<noteq> []" by (simp add: runs_nonempty)
  then obtain r rs where "runs (z # xs) = r # rs" by (cases "runs (z # xs)") auto
  with 3 show ?case by auto
qed auto

text \<open>
  A run is complete when a sample that does not continue it has come.  A first run of one single
  sample does not count: the reader may have been started between two samples.
\<close>

definition completed :: "int list \<Rightarrow> nat list" where
  "completed xs = (if runs xs \<noteq> [] \<and> hd (runs xs) = 1 then tl (butlast (runs xs)) else butlast (runs xs))"

definition lifespan_ok :: "int list \<Rightarrow> bool" where
  "lifespan_ok xs \<longleftrightarrow> list_all (\<lambda>n. n = 2 \<or> n = 3) (completed xs)"

lemma sum_runs: "sum_list (runs xs) = length xs"
proof (induction xs rule: runs.induct)
  case (3 x y xs)
  obtain r rs where "runs (y # xs) = r # rs"
    using runs_nonempty [of "y # xs"] by (cases "runs (y # xs)") auto
  with 3 show ?case by auto
qed auto

lemma runs_pos: "n \<in> set (runs xs) \<Longrightarrow> 0 < n"
proof (induction xs rule: runs.induct)
  case (3 x y xs)
  then show ?case by (cases "runs (y # xs)") (auto split: if_splits)
qed auto

lemma runs_split:
  assumes "xs \<noteq> []"
  obtains (one) r where "runs xs = [r]" "length xs = r"
  | (more) r rs q where "runs xs = r # rs @ [q]" "length xs \<noteq> 1"
proof (cases "runs xs" rule: rev_cases)
  case Nil
  with assms show ?thesis by (simp add: runs_nonempty)
next
  case (snoc ys q)
  show ?thesis
  proof (cases ys)
    case Nil
    with snoc sum_runs [of xs] one show ?thesis by simp
  next
    case (Cons r rs)
    have "0 < r" "0 < q" using runs_pos [of _ xs] snoc Cons by auto
    with sum_runs [of xs] snoc Cons have "length xs \<noteq> 1" by simp
    with snoc Cons more show ?thesis by simp
  qed
qed

lemma completed_snoc:
  assumes "xs \<noteq> []"
  shows "completed (xs @ [y]) =
     (if y = last xs + 1 \<or> length xs = 1 then completed xs else completed xs @ [last (runs xs)])"
  using assms
proof (cases rule: runs_split)
  case (one r)
  with assms show ?thesis by (auto simp: completed_def runs_snoc)
next
  case (more r rs q)
  with assms show ?thesis by (auto simp: completed_def runs_snoc butlast_append)
qed

lemma lifespan_ok_prefix: "prefix xs ys \<Longrightarrow> lifespan_ok ys \<Longrightarrow> lifespan_ok xs"
proof (induction ys rule: rev_induct)
  case (snoc y ys)
  then have "xs = ys @ [y] \<or> prefix xs ys" by auto
  moreover have "lifespan_ok ys"
    using snoc.prems(2) completed_snoc [of ys y]
    by (cases "ys = []") (auto simp: lifespan_ok_def completed_def split: if_splits)
  ultimately show ?case using snoc by auto
qed simp

section \<open>The contract\<close>

definition lifespan_texts :: "string list \<Rightarrow> bool" where
  "lifespan_texts h \<longleftrightarrow> (\<forall>color. lifespan_ok (seq_nums color h))"

definition expiry_observed :: "string list \<Rightarrow> bool" where
  "expiry_observed h \<longleftrightarrow> (\<exists>color \<in> set (colors h). completed (seq_nums color h) \<noteq> [])"

definition lifespan_repr :: "string list \<Rightarrow> lifespan_state \<Rightarrow> bool" where
  "lifespan_repr h s \<longleftrightarrow> instance_color s = colors h
     \<and> instance_seq_num s = map (\<lambda>k. last (seq_nums k h)) (colors h)
     \<and> first_iteration s = replicate (length (colors h)) False
     \<and> consecutive_samples s = map (\<lambda>k. last (runs (seq_nums k h))) (colors h)
     \<and> ignore_first_sample s = map (\<lambda>k. length (seq_nums k h) = 1) (colors h)
     \<and> lifespan_expiration_observed s = expiry_observed h
     \<and> lifespan_texts h
     \<and> produced_code s = (if expiry_observed h then OK else DATA_NOT_RECEIVED)"

definition lifespan_inv :: "string list \<Rightarrow> string \<Rightarrow> lifespan_state \<Rightarrow> bool" where
  "lifespan_inv h t s \<longleftrightarrow> lifespan_repr h s \<and> samples_read_per_instance s = first_count h
     \<and> first_count h \<le> lifespan_max"

definition lifespan_mid :: "string list \<Rightarrow> string \<Rightarrow> lifespan_state \<Rightarrow> bool" where
  "lifespan_mid h t s \<longleftrightarrow> lifespan_repr (h @ [t]) s \<and> samples_read_per_instance s = first_count h
     \<and> first_count h < lifespan_max \<and> sub_string s = re_search instance_re t"

lemma expiry_observed_None: "sample_of t = None \<Longrightarrow> expiry_observed (h @ [t]) = expiry_observed h"
  by (simp add: expiry_observed_def)

lemma expiry_observed_snoc:
  assumes "sample_of t = Some (color, n)"
  shows "expiry_observed (h @ [t]) \<longleftrightarrow> expiry_observed h \<or> completed (seq_nums color h @ [n]) \<noteq> []"
proof (cases "color \<in> set (colors h)")
  case True
  then have "completed (seq_nums color h) \<noteq> [] \<Longrightarrow> completed (seq_nums color h @ [n]) \<noteq> []"
    using seq_nums_nonempty [of color h] by (simp add: completed_snoc)
  with assms True show ?thesis by (simp add: expiry_observed_def) metis
next
  case False
  then have "completed (seq_nums color h @ [n]) = []"
    using seq_nums_nonempty [of color h] by (simp add: completed_def)
  with assms False show ?thesis by (auto simp: expiry_observed_def)
qed

lemma lifespan_texts_snoc:
  assumes "sample_of t = Some (color, n)" "lifespan_texts h"
  shows "lifespan_texts (h @ [t]) \<longleftrightarrow> lifespan_ok (seq_nums color h @ [n])"
  using assms by (auto simp: lifespan_texts_def)

lemma lifespan_texts_None: "sample_of t = None \<Longrightarrow> lifespan_texts (h @ [t]) = lifespan_texts h"
  by (simp add: lifespan_texts_def)

lemma runs_new: "runs [n] = [1]" "completed [n] = []" "lifespan_ok [n]"
  by (simp_all add: completed_def lifespan_ok_def)

lemma lifespan_body_spec:
  assumes H: "lifespan_repr h s"
  shows "case lifespan_body (Inr t) s of
      Next s' \<Rightarrow> lifespan_repr (h @ [t]) s' \<and> sub_string s' = re_search instance_re t
        \<and> samples_read_per_instance s' = samples_read_per_instance s
    | Break s' \<Rightarrow> produced_code s' = DATA_NOT_CORRECT
        \<and> samples_read_per_instance s' = samples_read_per_instance s \<and> \<not> lifespan_texts (h @ [t])
    | _ \<Rightarrow> False"
proof (cases "re_search instance_re t")
  case None
  then have "sample_of t = None" by (simp add: sample_of_None)
  with None H show ?thesis
    by (simp add: lifespan_body_def lifespan_repr_def expiry_observed_None lifespan_texts_None)
next
  case (Some m)
  have wf: "wf_order s" using H by (simp add: lifespan_repr_def wf_order_def)
  show ?thesis
  proof (cases rule: body_track_cases [OF wf Some])
    case (1 color n)
    then have "color \<notin> set (colors h)" "seq_nums color h = []"
      using H seq_nums_nonempty [of color h] by (auto simp: lifespan_repr_def)
    with 1 H Some expiry_observed_snoc [OF 1(1), of h] lifespan_texts_snoc [OF 1(1), of h] show ?thesis
      by (simp add: lifespan_body_def lifespan_repr_def add_lifespan_instance_def)
         (auto simp: Let_def set_previous_def lifespan_repr_def nth_append list_update_append
            replicate_append_same runs_new)
  next
    case (2 color n i)
    then have i: "i < length (colors h)" "colors h ! i = color" "color \<in> set (colors h)" "seq_nums color h \<noteq> []"
      using H index_of_Some [of color "colors h" i] seq_nums_nonempty [of color h] by (auto simp: lifespan_repr_def)
    let ?xs = "seq_nums color h"
    have old: "lifespan_ok ?xs" using H by (simp add: lifespan_repr_def lifespan_texts_def)
    have single: "length ?xs = 1 \<Longrightarrow> last (runs ?xs) = 1 \<and> completed ?xs = []"
      by (cases ?xs) (auto simp: completed_def)
    note facts = 2 H Some i old single expiry_observed_snoc [OF 2(1), of h] lifespan_texts_snoc [OF 2(1), of h]
      completed_snoc [OF i(4), of n] runs_snoc [of ?xs n]
    consider "n = last ?xs + 1" | "n \<noteq> last ?xs + 1" "length ?xs = 1"
      | "n \<noteq> last ?xs + 1" "length ?xs \<noteq> 1" "last (runs ?xs) = 3 \<or> last (runs ?xs) = 2"
      | "n \<noteq> last ?xs + 1" "length ?xs \<noteq> 1" "last (runs ?xs) \<noteq> 3" "last (runs ?xs) \<noteq> 2"
      by blast
    then show ?thesis
    proof cases
      case 1
      with facts show ?thesis
        by (simp add: lifespan_body_def lifespan_repr_def add_lifespan_instance_def)
           (auto simp: Let_def set_previous_def lifespan_repr_def lifespan_ok_def expiry_observed_def intro!: map_update_eqI)
    next
      case 2
      with facts show ?thesis
        by (simp add: lifespan_body_def lifespan_repr_def add_lifespan_instance_def)
           (auto simp: Let_def set_previous_def lifespan_repr_def lifespan_ok_def intro!: map_update_eqI)
    next
      case 3
      with facts show ?thesis
        by (simp add: lifespan_body_def lifespan_repr_def add_lifespan_instance_def)
           (auto simp: Let_def set_previous_def lifespan_repr_def lifespan_ok_def intro!: map_update_eqI)
    next
      case 4
      with facts show ?thesis
        by (simp add: lifespan_body_def lifespan_repr_def add_lifespan_instance_def)
           (auto simp: Let_def lifespan_ok_def)
    qed
  qed
qed

definition lifespan_good :: "string list \<Rightarrow> string \<Rightarrow> pat option \<Rightarrow> ReturnCode \<Rightarrow> bool" where
  "lifespan_good h u how r \<longleftrightarrow>
     r = OK \<and> lifespan_texts h \<and> expiry_observed h \<and> first_count h = lifespan_max
   \<or> r = OK \<and> how = Some PTimeout \<and> lifespan_texts (h @ [u]) \<and> expiry_observed (h @ [u])
   \<or> r = DATA_NOT_CORRECT \<and> lifespan_texts h \<and> first_count h = lifespan_max \<and> \<not> expiry_observed h
   \<or> r = DATA_NOT_CORRECT \<and> lifespan_texts h \<and> first_count h < lifespan_max \<and> \<not> lifespan_texts (h @ [u])
   \<or> r = DATA_NOT_RECEIVED \<and> how = Some PTimeout \<and> lifespan_texts (h @ [u]) \<and> \<not> expiry_observed (h @ [u])
       \<and> first_count h < lifespan_max
   \<or> r = DATA_NOT_RECEIVED \<and> how = Some PEof \<and> lifespan_texts (h @ [u]) \<and> first_count h < lifespan_max"

interpretation lifespan: loop_contract lifespan_loop lifespan_inv lifespan_mid lifespan_good
proof unfold_locales
  fix h t s assume "lifespan_inv h t s" "\<not> guard lifespan_loop s"
  then show "lifespan_good h t None (finish lifespan_loop s)"
    by (auto simp: lifespan_loop_def lifespan_inv_def lifespan_good_def lifespan_repr_def)
next
  fix h t s assume inv: "lifespan_inv h t s" and on: "guard lifespan_loop s"
  then have "lifespan_repr h s" by (simp add: lifespan_inv_def)
  from lifespan_body_spec [OF this, of t] inv on
  show "flow_spec (lifespan_mid h t) (\<lambda>s'. lifespan_good h t None (finish lifespan_loop s'))
      (lifespan_good h t None) (body lifespan_loop (Inr t) s)"
    by (cases "lifespan_body (Inr t) s")
       (auto simp: lifespan_loop_def lifespan_inv_def lifespan_mid_def lifespan_good_def lifespan_repr_def)
next
  fix h t s i t' assume mid: "lifespan_mid h t s"
    and i: "i < length (pats lifespan_loop)" "text_pat (pats lifespan_loop ! i)"
  have "i = 0" using i by (auto simp: lifespan_loop_def text_pat_def nth_Cons' split: if_splits)
  moreover have "count_first_instance s = Next (s\<lparr>samples_read_per_instance :=
      first_count h + (first_count (h @ [t]) - first_count h)\<rparr>)"
    using mid by (intro count_first_instance_spec) (auto simp: lifespan_mid_def lifespan_repr_def)
  ultimately show "flow_spec (lifespan_inv (h @ [t]) t') (\<lambda>s'. lifespan_good (h @ [t]) t' None (finish lifespan_loop s'))
      (lifespan_good (h @ [t]) t' None) (react lifespan_loop i (Inr t') s)"
    using mid first_count_step [of h t]
    by (auto simp: lifespan_loop_def lifespan_mid_def lifespan_inv_def lifespan_repr_def)
next
  fix h t s i assume "lifespan_mid h t s"
    and "i < length (pats lifespan_loop)" "\<not> text_pat (pats lifespan_loop ! i)"
  then show "flow_spec (\<lambda>_. False) (\<lambda>s'. lifespan_good h t (Some (pats lifespan_loop ! i)) (finish lifespan_loop s'))
      (lifespan_good h t (Some (pats lifespan_loop ! i))) (react lifespan_loop i (Inl TypeError) s)"
    by (auto simp: lifespan_loop_def lifespan_mid_def lifespan_good_def lifespan_repr_def
        text_pat_def nth_Cons' split: if_splits)
qed (simp_all add: lifespan_loop_def)

section \<open>Properties\<close>

lemma lifespan_start: "lifespan_inv [] t lifespan_init"
  by (simp add: lifespan_inv_def lifespan_repr_def lifespan_init_def first_count_def lifespan_texts_def
      expiry_observed_def lifespan_ok_def completed_def)

lemma lifespan_verdict:
  assumes "test_lifespan_2_3_consecutive_samples_w_instances c = Returned r"
  obtains "basic_check c = Returned r" "r = DATA_NOT_RECEIVED \<or> r = DATA_NOT_CORRECT"
  | h u how where "prefix (h @ [u]) (texts c)" "lifespan_good h u how r"
      "\<And>p. how = Some p \<Longrightarrow> texts c = h @ [u] \<and> ending (answers c) = Some p"
  using assms unfolding test_lifespan_2_3_consecutive_samples_w_instances_def
proof (cases rule: after_basic_check_cases)
  case (2 t)
  with lifespan.justified_verdict [OF lifespan_start 2(1)] that(2) show ?thesis
    by (auto simp: lifespan.justified_def)
qed (use that(1) in blast)

text \<open>
  C3: \<open>test_lifespan_2_3_consecutive_samples_w_instances\<close> is sound. \<open>OK\<close> means that in the texts \<open>h\<close> the
  child has printed every completed run of consecutive sequence numbers of every instance has 2 or 3
  samples (a first single sample aside), that at least one run was completed, and that either 50
  samples of the first instance were read or the child fell silent: \<open>OK\<close> does not need 50 samples.
\<close>

theorem lifespan_sound:
  assumes "test_lifespan_2_3_consecutive_samples_w_instances c = Returned OK"
  shows "\<exists>h. prefix h (texts c) \<and> (\<forall>color. lifespan_ok (seq_nums color h)) \<and> expiry_observed h
           \<and> (first_count h = 50 \<or> h = texts c \<and> ending (answers c) = Some PTimeout)"
  using assms
proof (cases rule: lifespan_verdict)
  case (2 h u how)
  then have "lifespan_texts h \<and> expiry_observed h \<and> first_count h = lifespan_max
    \<or> how = Some PTimeout \<and> lifespan_texts (h @ [u]) \<and> expiry_observed (h @ [u])"
    unfolding lifespan_good_def by (simp only: ReturnCode.distinct simp_thms)
  then show ?thesis
  proof
    assume "lifespan_texts h \<and> expiry_observed h \<and> first_count h = lifespan_max"
    with 2(1) show ?thesis
      by (intro exI [of _ h]) (auto simp: lifespan_texts_def lifespan_max_def MAX_SAMPLES_READ_def dest: append_prefixD)
  next
    assume "how = Some PTimeout \<and> lifespan_texts (h @ [u]) \<and> expiry_observed (h @ [u])"
    with 2(3) [of PTimeout] show ?thesis
      unfolding lifespan_texts_def by (intro exI [of _ "h @ [u]"]) simp
  qed
qed simp

definition silent_after :: "nat list \<Rightarrow> child" where
  "silent_after ks = with_more [TimedOut []] (printed ks)"

theorem lifespan_sound_witness:
  "test_lifespan_2_3_consecutive_samples_w_instances (silent_after [1, 2, 3, 10]) = Returned OK
   \<and> (\<exists>h. prefix h (texts (silent_after [1, 2, 3, 10])) \<and> (\<forall>color. lifespan_ok (seq_nums color h)) \<and> expiry_observed h)"
proof -
  have "test_lifespan_2_3_consecutive_samples_w_instances (silent_after [1, 2, 3, 10]) = Returned OK"
    by code_simp
  from this lifespan_sound [OF this] show ?thesis by blast
qed

text \<open>
  A rejection by \<open>test_lifespan_2_3_consecutive_samples_w_instances\<close> is justified. On
  \<open>DATA_NOT_CORRECT\<close> the default check already gave it, or some instance has a completed run whose
  length is neither 2 nor 3, or 50 samples of the first instance came without any completed run.
\<close>

theorem lifespan_reject:
  assumes "test_lifespan_2_3_consecutive_samples_w_instances c = Returned DATA_NOT_CORRECT"
  shows "basic_check c = Returned DATA_NOT_CORRECT
    \<or> (\<exists>h color. prefix h (texts c) \<and> \<not> lifespan_ok (seq_nums color h))
    \<or> (\<exists>h. prefix h (texts c) \<and> first_count h = 50 \<and> \<not> expiry_observed h)"
  using assms
proof (cases rule: lifespan_verdict)
  case (2 h u how)
  then have "first_count h = 50 \<and> \<not> expiry_observed h \<or> \<not> lifespan_texts (h @ [u])"
    unfolding lifespan_good_def lifespan_max_def MAX_SAMPLES_READ_def
    by auto
  with 2(1) show ?thesis unfolding lifespan_texts_def by (blast dest: append_prefixD)
qed simp

theorem lifespan_reject_witness:
  "test_lifespan_2_3_consecutive_samples_w_instances (printed [1, 2, 10, 20]) = Returned DATA_NOT_CORRECT
   \<and> ((\<exists>h color. prefix h (texts (printed [1, 2, 10, 20])) \<and> \<not> lifespan_ok (seq_nums color h))
    \<or> (\<exists>h. prefix h (texts (printed [1, 2, 10, 20])) \<and> first_count h = 50 \<and> \<not> expiry_observed h))"
proof -
  have "test_lifespan_2_3_consecutive_samples_w_instances (printed [1, 2, 10, 20]) = Returned DATA_NOT_CORRECT"
    and "basic_check (printed [1, 2, 10, 20]) = Returned OK"
    by code_simp+
  with lifespan_reject [OF this(1)] show ?thesis by simp
qed

end
