(* ===== verification/Check_Instances.thy ===== *)
theory Check_Instances
  imports Streams
begin

text \<open>
  \<open>test_unregistering_w_instances\<close> and \<open>test_disposing_w_instances\<close>: does every instance that was seen
  reach the announced state.  The two functions are the same text but for the state they look for,
  which is the parameter \<open>ended_re\<close> here.
\<close>

record instances_state =
  instance_color :: "string list"
  ended_color :: "string list"   \<comment> \<open>\<open>unregistered_instance_color\<close> or \<open>disposed_instance_color\<close>\<close>
  samples_read_per_instance :: nat
  sub_string :: "re_match option"

definition instances_init :: instances_state where
  "instances_init = \<lparr>instance_color = [], ended_color = [], samples_read_per_instance = 0, sub_string = None\<rparr>"

definition state_re :: "string \<Rightarrow> re" where   \<comment> \<open>\<open>\\w+\\s+(\\w+)\\s+STATE\<close>\<close>
  "state_re state = Seqs [Plus CWord, Plus CSpace, Grp 1 (Plus CWord), Plus CSpace, Lit state]"

definition unregistered_re :: re where "unregistered_re = state_re ''NOT_ALIVE_NO_WRITERS_INSTANCE_STATE''"
definition disposed_re :: re where "disposed_re = state_re ''NOT_ALIVE_DISPOSED_INSTANCE_STATE''"

definition line_re :: re where   \<comment> \<open>\<open>\\w+\\s+\\w+\\s+.*?\\n\<close>\<close>
  "line_re = Seqs [Plus CWord, Plus CSpace, Plus CWord, Plus CSpace, Rep False CDot, Chr (CRange 10 10)]"

definition instances_body :: "re \<Rightarrow> string res \<Rightarrow> instances_state \<Rightarrow> instances_state flow" where
  "instances_body ended_re text s = attempt text (\<lambda>t.
     let sub = re_search instance_re t in
     if sub = None then
       let sub = re_search ended_re t; s1 = s\<lparr>sub_string := sub\<rparr> in
       if sub = None then Next s1
       else attempt (py_group sub 1) (\<lambda>color.
         if color \<notin> set (ended_color s) then
           let s2 = s1\<lparr>ended_color := ended_color s @ [color]\<rparr> in
           if length (instance_color s2) = length (ended_color s2) then Break s2 else Next s2
         else Next s1)
     else
       attempt (py_group sub 1) (\<lambda>color.
         Next (s\<lparr>sub_string := sub,
                 instance_color := (if color \<notin> set (instance_color s) then instance_color s @ [color]
                                    else instance_color s)\<rparr>)))"

definition count_first :: "instances_state \<Rightarrow> instances_state flow" where
  "count_first s =
     (if sub_string s = None then Next s
      else
        attempt (py_group (sub_string s) 1) (\<lambda>color.
        attempt (py_nth (instance_color s) 0) (\<lambda>first.
          Next (if color = first
                then s\<lparr>samples_read_per_instance := samples_read_per_instance s + 1\<rparr> else s))))"

definition instances_loop :: "re \<Rightarrow> instances_state check_loop" where
  "instances_loop ended_re =
     \<lparr>guard = (\<lambda>s. samples_read_per_instance s < MAX_SAMPLES_READ),
      body = instances_body ended_re,
      pats = [PRe line_re, PTimeout, PEof],
      react = (\<lambda>index _ s.
        if index = 0 then count_first s
        else if index = 1 then Break s
        else if index = 2 then Return DATA_NOT_RECEIVED
        else Next s),
      finish = (\<lambda>s.
        if length (instance_color s) = 0 then DATA_NOT_RECEIVED
        else if set (instance_color s) = set (ended_color s) then OK
        else DATA_NOT_CORRECT)\<rparr>"

definition test_unregistering_w_instances :: check_function where
  "test_unregistering_w_instances child_sub =
     after_basic_check child_sub (run_loop (instances_loop unregistered_re) instances_init child_sub)"

definition test_disposing_w_instances :: check_function where
  "test_disposing_w_instances child_sub =
     after_basic_check child_sub (run_loop (instances_loop disposed_re) instances_init child_sub)"

section \<open>The instances that reached the state\<close>

definition ended_in :: "re \<Rightarrow> string \<Rightarrow> string option" where
  "ended_in r t = (if sample_of t \<noteq> None then None else
     (case re_search r t of None \<Rightarrow> None
      | Some m \<Rightarrow> (case py_group (Some m) 1 of Inl _ \<Rightarrow> None | Inr color \<Rightarrow> Some color)))"

definition ended :: "re \<Rightarrow> string list \<Rightarrow> string list" where   \<comment> \<open>in order of first appearance\<close>
  "ended r h = rev (remdups (rev (concat (map (\<lambda>t. case ended_in r t of None \<Rightarrow> [] | Some k \<Rightarrow> [k]) h))))"

lemma ended_simps [simp]:
  "ended r [] = []"
  "ended_in r t = None \<Longrightarrow> ended r (h @ [t]) = ended r h"
  "ended_in r t = Some k \<Longrightarrow> ended r (h @ [t]) = (if k \<in> set (ended r h) then ended r h else ended r h @ [k])"
  by (auto simp: ended_def)

definition is_state_re :: "re \<Rightarrow> bool" where
  "is_state_re r \<longleftrightarrow> r = unregistered_re \<or> r = disposed_re"

lemma state_group: "is_state_re r \<Longrightarrow> re_search r t = Some m \<Longrightarrow> \<exists>v. py_group (Some m) 1 = Inr v"
  by (erule py_group_ok)
     (auto simp: is_state_re_def unregistered_re_def disposed_re_def state_re_def Seqs.simps)

lemma ended_cases:
  assumes "is_state_re r" "sample_of t = None"
  obtains (none) "re_search r t = None" "ended_in r t = None"
  | (some) m k where "re_search r t = Some m" "py_group (Some m) 1 = Inr k" "ended_in r t = Some k"
proof (cases "re_search r t")
  case None
  with none assms show ?thesis by (simp add: ended_in_def)
next
  case (Some m)
  from state_group [OF assms(1) this] obtain k where "py_group (Some m) 1 = Inr k" by blast
  with Some some assms(2) show ?thesis by (auto simp: ended_in_def)
qed

section \<open>The contract\<close>

definition instances_inv :: "re \<Rightarrow> string list \<Rightarrow> string \<Rightarrow> instances_state \<Rightarrow> bool" where
  "instances_inv r h t s \<longleftrightarrow> instance_color s = colors h \<and> ended_color s = ended r h
     \<and> samples_read_per_instance s \<le> length h \<and> samples_read_per_instance s \<le> MAX_SAMPLES_READ
     \<and> (if h = [] then sample_of t \<noteq> None else colors h \<noteq> [])"

definition instances_mid :: "re \<Rightarrow> string list \<Rightarrow> string \<Rightarrow> instances_state \<Rightarrow> bool" where
  "instances_mid r h t s \<longleftrightarrow> instance_color s = colors (h @ [t]) \<and> ended_color s = ended r (h @ [t])
     \<and> samples_read_per_instance s \<le> length h \<and> samples_read_per_instance s < MAX_SAMPLES_READ
     \<and> colors (h @ [t]) \<noteq> [] \<and> (\<exists>color. sub_string s = None \<or> py_group (sub_string s) 1 = Inr color)"

definition all_ended :: "re \<Rightarrow> string list \<Rightarrow> bool" where
  "all_ended r h \<longleftrightarrow> colors h \<noteq> [] \<and> set (colors h) = set (ended r h)"

definition instances_good :: "re \<Rightarrow> string list \<Rightarrow> string \<Rightarrow> pat option \<Rightarrow> ReturnCode \<Rightarrow> bool" where
  "instances_good r h u how code \<longleftrightarrow>
     code = OK \<and> (all_ended r h \<or> all_ended r (h @ [u]))
   \<or> code = DATA_NOT_CORRECT \<and> \<not> all_ended r h \<and> MAX_SAMPLES_READ \<le> length h
   \<or> code = DATA_NOT_CORRECT \<and> \<not> all_ended r (h @ [u]) \<and> length (colors (h @ [u])) = length (ended r (h @ [u]))
   \<or> code = DATA_NOT_CORRECT \<and> \<not> all_ended r (h @ [u]) \<and> how = Some PTimeout
   \<or> code = DATA_NOT_RECEIVED \<and> how = Some PEof"

lemma colors_nonempty_append: "colors h \<noteq> [] \<Longrightarrow> colors (h @ h') \<noteq> []"
  by (simp add: colors_empty)

lemma instances_body_spec:
  assumes r: "is_state_re r" and inv: "instances_inv r h t s" and on: "samples_read_per_instance s < MAX_SAMPLES_READ"
  shows "flow_spec (instances_mid r h t) (\<lambda>s'. instance_color s' = colors (h @ [t]) \<and> colors (h @ [t]) \<noteq> []
      \<and> ended_color s' = ended r (h @ [t]) \<and> length (colors (h @ [t])) = length (ended r (h @ [t])))
    (\<lambda>_. False) (instances_body r (Inr t) s)"
proof (cases "re_search instance_re t")
  case None
  then have none: "sample_of t = None" by (simp add: sample_of_None)
  with inv have ne: "colors h \<noteq> []" by (auto simp: instances_inv_def split: if_splits)
  have same: "colors (h @ [t]) = colors h" using none by simp
  from r none show ?thesis
  proof (cases rule: ended_cases)
    case none
    with None inv on ne same show ?thesis
      by (simp add: instances_body_def instances_inv_def instances_mid_def)
  next
    case (some m k)
    with None inv on ne same show ?thesis
      by (simp add: instances_body_def instances_inv_def instances_mid_def Let_def)
  qed
next
  case (Some m)
  obtain color n where cn: "sample_of t = Some (color, n)" "py_group (Some m) 1 = Inr color"
    using instance_groups [OF Some] by blast
  then have "ended_in r t = None" by (simp add: ended_in_def)
  with Some cn inv on show ?thesis
    by (cases m) (auto simp: instances_body_def instances_inv_def instances_mid_def Let_def)
qed

lemma count_first_spec:
  assumes "instances_mid r h t s"
  shows "\<exists>s'. count_first s = Next s' \<and> instances_inv r (h @ [t]) t' s'"
proof (cases "sub_string s")
  case None
  with assms show ?thesis by (auto simp: count_first_def instances_mid_def instances_inv_def)
next
  case (Some m)
  with assms show ?thesis
    by (auto simp: count_first_def instances_mid_def instances_inv_def)
qed

lemma instances_contract: "is_state_re r \<Longrightarrow>
  loop_contract (instances_loop r) (instances_inv r) (instances_mid r) (instances_good r)"
proof unfold_locales
  fix h t s assume "instances_inv r h t s" "\<not> guard (instances_loop r) s"
  then show "instances_good r h t None (finish (instances_loop r) s)"
    by (auto simp: instances_loop_def instances_inv_def instances_good_def all_ended_def MAX_SAMPLES_READ_def split: if_splits)
next
  fix h t s assume r: "is_state_re r" and inv: "instances_inv r h t s" and on: "guard (instances_loop r) s"
  then have on: "samples_read_per_instance s < MAX_SAMPLES_READ" by (simp add: instances_loop_def)
  from instances_body_spec [OF r inv on]
  show "flow_spec (instances_mid r h t) (\<lambda>s'. instances_good r h t None (finish (instances_loop r) s'))
      (instances_good r h t None) (body (instances_loop r) (Inr t) s)"
    by (cases "instances_body r (Inr t) s") (auto simp: instances_loop_def instances_good_def all_ended_def)
next
  fix h t s i t' assume mid: "instances_mid r h t s"
    and i: "i < length (pats (instances_loop r))" "text_pat (pats (instances_loop r) ! i)"
  have "i = 0" using i by (auto simp: instances_loop_def text_pat_def nth_Cons' split: if_splits)
  with count_first_spec [OF mid, of t']
  show "flow_spec (instances_inv r (h @ [t]) t') (\<lambda>s'. instances_good r (h @ [t]) t' None (finish (instances_loop r) s'))
      (instances_good r (h @ [t]) t' None) (react (instances_loop r) i (Inr t') s)"
    by (auto simp: instances_loop_def)
next
  fix h t s i assume "instances_mid r h t s"
    and "i < length (pats (instances_loop r))" "\<not> text_pat (pats (instances_loop r) ! i)"
  then show "flow_spec (\<lambda>_. False) (\<lambda>s'. instances_good r h t (Some (pats (instances_loop r) ! i)) (finish (instances_loop r) s'))
      (instances_good r h t (Some (pats (instances_loop r) ! i))) (react (instances_loop r) i (Inl TypeError) s)"
    by (auto simp: instances_loop_def instances_mid_def instances_good_def all_ended_def
        text_pat_def nth_Cons' split: if_splits)
qed (simp_all add: instances_loop_def)

interpretation unregistering: loop_contract "instances_loop unregistered_re" "instances_inv unregistered_re"
  "instances_mid unregistered_re" "instances_good unregistered_re"
  by (rule instances_contract) (simp add: is_state_re_def)

interpretation disposing: loop_contract "instances_loop disposed_re" "instances_inv disposed_re"
  "instances_mid disposed_re" "instances_good disposed_re"
  by (rule instances_contract) (simp add: is_state_re_def)

section \<open>A child whose instance reaches the state\<close>

definition state_text :: "string \<Rightarrow> string" where
  "state_text state = ''Square'' @ ''     '' @ ''BLUE'' @ ''       '' @ state @ [CHR 0x0A]"

definition ended_child :: "string \<Rightarrow> child" where   \<comment> \<open>a sample, then the state of its instance\<close>
  "ended_child state = with_more [Matched 0 (state_text state) []] (printed [1])"

lemma no_bracket: "CHR ''['' \<notin> set t \<Longrightarrow> re_search instance_re t = None"
proof (rule ccontr)
  assume no: "CHR ''['' \<notin> set t" and "re_search instance_re t \<noteq> None"
  then obtain p w q where t: "t = p @ w @ q" and w: "w \<in> lang instance_re"
    using re_search_iff by blast
  from w have "CHR ''['' \<in> set w"
    unfolding instance_re_def lang_Seqs by (auto simp: list_all2_Cons2)
  with t no show False by simp
qed

lemma state_line: "re_search (state_re state) (state_text state)
    = Some (''Square'' @ ''     '' @ ''BLUE'' @ ''       '' @ state, [(1, ''BLUE'')], [CHR 0x0A])"
  if "state \<noteq> []" "is_word (hd state)"
proof -
  note part = first_Plus [where k = CWord] first_Plus [where k = CSpace]
  have "first (state_re state) (''Square'' @ ''     '' @ ''BLUE'' @ ''       '' @ state @ [CHR 0x0A])
    (''Square'' @ ''     '' @ ''BLUE'' @ ''       '' @ state, [] @ [] @ ([] @ [(1, ''BLUE'')]) @ [] @ [], [CHR 0x0A])"
    unfolding state_re_def Seqs.simps
    by (rule first_Seq first_Grp first_Lit part
        | use that word_not_space [OF that(2)] in \<open>simp add: stops_append is_word_def is_digit_def is_space_def\<close>)+
  then show ?thesis by (simp add: first_search state_text_def)
qed

lemma ended_child_run:
  assumes "is_state_re (state_re state)" "state \<noteq> []" "is_word (hd state)" "CHR ''['' \<notin> set state"
  shows "run_loop (instances_loop (state_re state)) instances_init (ended_child state) = Returned OK"
proof -
  obtain m where m: "re_search instance_re (sample_text 1) = Some m" "py_group (Some m) 1 = Inr ''BLUE''"
    using sample_of_text [of 1] instance_groups sample_of_None [of "sample_text 1"]
    by (cases "re_search instance_re (sample_text 1)") fastforce+
  have none: "re_search instance_re (state_text state) = None"
    by (rule no_bracket) (use assms(4) in \<open>simp add: state_text_def\<close>)
  note state = state_line [OF assms(2,3)]
  note parts = instances_loop_def [THEN arg_cong, of guard, simplified]
    instances_loop_def [THEN arg_cong, of body, simplified]
    instances_loop_def [THEN arg_cong, of pats, simplified]
    instances_loop_def [THEN arg_cong, of react, simplified]
    instances_loop_def [THEN arg_cong, of finish, simplified]
  let ?c = "\<lparr>before = state_text state, after = Some [], answers = []\<rparr>"
  let ?s = "\<lparr>instance_color = [''BLUE''], ended_color = [], samples_read_per_instance = 1, sub_string = Some m\<rparr>"
  have "run_loop (instances_loop (state_re state)) instances_init (ended_child state) =
      run_loop (instances_loop (state_re state)) ?s ?c"
    by (subst run_loop.simps)
       (simp add: parts instances_init_def instances_body_def ended_child_def with_more_def printed_def
          child_text_def expect_def text_pat_def count_first_def MAX_SAMPLES_READ_def m [simplified] Let_def)
  also have "\<dots> = Returned OK"
    by (subst run_loop.simps)
       (simp add: parts instances_body_def child_text_def MAX_SAMPLES_READ_def none state
          py_group_def group_def Let_def)
  finally show ?thesis .
qed

lemma basic_check_ended: "basic_check (ended_child state) = Returned OK"
proof -
  have "basic_check (ended_child state) = basic_check (printed [1])"
    by (simp add: basic_check_def ended_child_def)
  then show ?thesis by (simp add: basic_check_printed)
qed

section \<open>Properties\<close>

lemma instances_start: "re_search instance_re t \<noteq> None \<Longrightarrow> instances_inv r [] t instances_init"
  by (simp add: instances_inv_def instances_init_def sample_of_None)

lemma unregistering_verdict:
  assumes "test_unregistering_w_instances c = Returned code"
  obtains "basic_check c = Returned code" "code = DATA_NOT_RECEIVED \<or> code = DATA_NOT_CORRECT"
  | h u how where "prefix (h @ [u]) (texts c)" "instances_good unregistered_re h u how code"
      "\<And>p. how = Some p \<Longrightarrow> texts c = h @ [u] \<and> ending (answers c) = Some p"
  using assms unfolding test_unregistering_w_instances_def
proof (cases rule: after_basic_check_cases)
  case (2 t)
  with unregistering.justified_verdict [OF instances_start [OF 2(5)] 2(1)] that(2) show ?thesis
    by (auto simp: unregistering.justified_def)
qed (use that(1) in blast)

lemma disposing_verdict:
  assumes "test_disposing_w_instances c = Returned code"
  obtains "basic_check c = Returned code" "code = DATA_NOT_RECEIVED \<or> code = DATA_NOT_CORRECT"
  | h u how where "prefix (h @ [u]) (texts c)" "instances_good disposed_re h u how code"
      "\<And>p. how = Some p \<Longrightarrow> texts c = h @ [u] \<and> ending (answers c) = Some p"
  using assms unfolding test_disposing_w_instances_def
proof (cases rule: after_basic_check_cases)
  case (2 t)
  with disposing.justified_verdict [OF instances_start [OF 2(5)] 2(1)] that(2) show ?thesis
    by (auto simp: disposing.justified_def)
qed (use that(1) in blast)

lemma instances_good_OK:
  assumes "prefix (h @ [u]) ts" "instances_good r h u how OK"
  shows "\<exists>h. prefix h ts \<and> all_ended r h"
  using assms append_prefixD unfolding instances_good_def by blast

lemma instances_good_reject:
  assumes "prefix (h @ [u]) (texts c)" "instances_good r h u how DATA_NOT_CORRECT"
    "\<And>p. how = Some p \<Longrightarrow> texts c = h @ [u] \<and> ending (answers c) = Some p"
  shows "\<exists>h. prefix h (texts c) \<and> \<not> all_ended r h \<and> (MAX_SAMPLES_READ \<le> length h
      \<or> length (colors h) = length (ended r h) \<or> h = texts c \<and> ending (answers c) = Some PTimeout)"
proof -
  from assms(2) consider "\<not> all_ended r h" "MAX_SAMPLES_READ \<le> length h"
    | "\<not> all_ended r (h @ [u])" "length (colors (h @ [u])) = length (ended r (h @ [u])) \<or> how = Some PTimeout"
    unfolding instances_good_def by (simp only: ReturnCode.distinct simp_thms) blast
  then show ?thesis
  proof cases
    case 1
    with assms(1) show ?thesis using append_prefixD by blast
  next
    case 2
    with assms(1) assms(3) [of PTimeout] show ?thesis by metis
  qed
qed

text \<open>
  C4: \<open>test_unregistering_w_instances\<close> is sound. \<open>OK\<close> means that the child has printed texts \<open>h\<close> in which
  at least one instance was seen and the instances reported as \<open>NOT_ALIVE_NO_WRITERS\<close> are exactly the
  instances seen.
\<close>

theorem unregistering_sound:
  assumes "test_unregistering_w_instances c = Returned OK"
  shows "\<exists>h. prefix h (texts c) \<and> colors h \<noteq> [] \<and> set (colors h) = set (ended unregistered_re h)"
  using assms
proof (cases rule: unregistering_verdict)
  case (2 h u how)
  from instances_good_OK [OF this(1,2)] show ?thesis by (simp add: all_ended_def)
qed simp

theorem unregistering_sound_witness:
  "test_unregistering_w_instances (ended_child ''NOT_ALIVE_NO_WRITERS_INSTANCE_STATE'') = Returned OK
   \<and> (\<exists>h. prefix h (texts (ended_child ''NOT_ALIVE_NO_WRITERS_INSTANCE_STATE'')) \<and> colors h \<noteq> []
        \<and> set (colors h) = set (ended unregistered_re h))"
proof -
  have "run_loop (instances_loop unregistered_re) instances_init
      (ended_child ''NOT_ALIVE_NO_WRITERS_INSTANCE_STATE'') = Returned OK"
    unfolding unregistered_re_def
    by (rule ended_child_run) (simp_all add: is_state_re_def unregistered_re_def is_word_def)
  then have "test_unregistering_w_instances (ended_child ''NOT_ALIVE_NO_WRITERS_INSTANCE_STATE'') = Returned OK"
    by (simp add: test_unregistering_w_instances_def after_basic_check_pass basic_check_ended)
  with unregistering_sound [OF this] show ?thesis by blast
qed

text \<open>
  \<open>test_disposing_w_instances\<close> is sound. \<open>OK\<close> means that the child has printed texts \<open>h\<close> in which at
  least one instance was seen and the instances reported as \<open>NOT_ALIVE_DISPOSED\<close> are exactly the
  instances seen.
\<close>

theorem disposing_sound:
  assumes "test_disposing_w_instances c = Returned OK"
  shows "\<exists>h. prefix h (texts c) \<and> colors h \<noteq> [] \<and> set (colors h) = set (ended disposed_re h)"
  using assms
proof (cases rule: disposing_verdict)
  case (2 h u how)
  from instances_good_OK [OF this(1,2)] show ?thesis by (simp add: all_ended_def)
qed simp

theorem disposing_sound_witness:
  "test_disposing_w_instances (ended_child ''NOT_ALIVE_DISPOSED_INSTANCE_STATE'') = Returned OK
   \<and> (\<exists>h. prefix h (texts (ended_child ''NOT_ALIVE_DISPOSED_INSTANCE_STATE'')) \<and> colors h \<noteq> []
        \<and> set (colors h) = set (ended disposed_re h))"
proof -
  have "run_loop (instances_loop disposed_re) instances_init
      (ended_child ''NOT_ALIVE_DISPOSED_INSTANCE_STATE'') = Returned OK"
    unfolding disposed_re_def
    by (rule ended_child_run) (simp_all add: is_state_re_def disposed_re_def is_word_def)
  then have "test_disposing_w_instances (ended_child ''NOT_ALIVE_DISPOSED_INSTANCE_STATE'') = Returned OK"
    by (simp add: test_disposing_w_instances_def after_basic_check_pass basic_check_ended)
  with disposing_sound [OF this] show ?thesis by blast
qed

text \<open>
  A rejection by the instance checks is justified. On \<open>DATA_NOT_CORRECT\<close> the default check gave
  it, or the ended instances differ from the instances seen when the check stopped: after at least
  \<open>MAX_SAMPLES_READ\<close> texts, when both lists had the same length, or when the child fell silent.
\<close>

theorem unregistering_reject:
  assumes "test_unregistering_w_instances c = Returned DATA_NOT_CORRECT"
  shows "basic_check c = Returned DATA_NOT_CORRECT
    \<or> (\<exists>h. prefix h (texts c) \<and> \<not> all_ended unregistered_re h \<and> (MAX_SAMPLES_READ \<le> length h
        \<or> length (colors h) = length (ended unregistered_re h)
        \<or> h = texts c \<and> ending (answers c) = Some PTimeout))"
  using assms
proof (cases rule: unregistering_verdict)
  case (2 h u how)
  from instances_good_reject [OF this] show ?thesis by blast
qed simp

theorem unregistering_reject_witness:
  "test_unregistering_w_instances (with_more [TimedOut []] (printed [1, 2])) = Returned DATA_NOT_CORRECT
   \<and> (\<exists>h. prefix h (texts (with_more [TimedOut []] (printed [1, 2]))) \<and> \<not> all_ended unregistered_re h)"
proof -
  have "test_unregistering_w_instances (with_more [TimedOut []] (printed [1, 2])) = Returned DATA_NOT_CORRECT"
    and "basic_check (with_more [TimedOut []] (printed [1, 2])) = Returned OK"
    by code_simp+
  with unregistering_reject [OF this(1)] show ?thesis by auto
qed

end
