(* ===== verification/Check_Ordered.thy ===== *)
theory Check_Ordered
  imports Check_Order
begin

text \<open>
  \<open>ordered_access_w_instances\<close>: does a reader with ordered access get the samples instance by
  instance or as they were written.  The output is cut into read cycles by the message \<open>Reading with
  ordered access\<close>; each cycle that is long enough votes for one of the two behaviours.
\<close>

record ordered_state =
  instance_color :: "string list"
  samples_read_per_instance :: nat
  previous_sample_color :: "string option"
  current_color :: "string option"
  color_different_count :: nat
  color_equal_count :: nat
  samples_printed :: bool
  ordered_access_group_count :: nat
  behavior_mismatch_count :: nat
  produced_code :: ReturnCode

definition ordered_init :: ordered_state where
  "ordered_init = \<lparr>instance_color = [], samples_read_per_instance = 0, previous_sample_color = None,
     current_color = None, color_different_count = 0, color_equal_count = 0, samples_printed = False,
     ordered_access_group_count = 0, behavior_mismatch_count = 0, produced_code = OK\<rparr>"

definition behavior_mismatch_tolerance :: nat where
  "behavior_mismatch_tolerance = MAX_SAMPLES_READ div 100"   \<comment> \<open>\<open>int(0.01 * MAX_SAMPLES_READ)\<close> is 5\<close>

definition color_instance_re :: re where   \<comment> \<open>\<open>\\w+\\s+(\\w+)\\s+[0-9]+\\s+[0-9]+\\s+\\[[0-9]+\\]\<close>\<close>
  "color_instance_re = Seqs [Plus CWord, Plus CSpace, Grp 1 (Plus CWord), Plus CSpace, num, Plus CSpace,
                       num, Plus CSpace, Lit ''['', num, Lit '']'']"

definition reading_re :: re where "reading_re = Lit ''Reading with ordered access''"

definition current_behavior :: "nat \<Rightarrow> nat \<Rightarrow> ReturnCode option" where
  "current_behavior equal different =
     (if equal > different then Some ORDERED_ACCESS_INSTANCE
      else if equal < different then Some ORDERED_ACCESS_TOPIC else None)"

definition see_sample :: "string \<Rightarrow> ordered_state \<Rightarrow> ordered_state" where
  "see_sample color s =
     (let s1 = s\<lparr>samples_printed := True, current_color := Some color,
                 instance_color := (if color \<notin> set (instance_color s) then instance_color s @ [color]
                                    else instance_color s)\<rparr>;
          s2 = (case previous_sample_color s1 of
                  None \<Rightarrow> s1
                | Some previous \<Rightarrow>
                    if color \<noteq> previous then s1\<lparr>color_different_count := color_different_count s1 + 1\<rparr>
                    else s1\<lparr>color_equal_count := color_equal_count s1 + 1\<rparr>)
      in s2\<lparr>previous_sample_color := Some color\<rparr>)"

definition reset_counters :: "ordered_state \<Rightarrow> ordered_state" where
  "reset_counters s = s\<lparr>color_equal_count := 0, color_different_count := 0\<rparr>"

definition close_cycle :: "ordered_state \<Rightarrow> ordered_state flow" where
  "close_cycle s =
     (let behavior = current_behavior (color_equal_count s) (color_different_count s) in
      if samples_printed s \<and> color_equal_count s + color_different_count s > 5 then
        if produced_code s \<noteq> OK then
          if behavior \<noteq> Some (produced_code s) then
            if behavior_mismatch_count s > behavior_mismatch_tolerance
            then Break (s\<lparr>produced_code := DATA_NOT_CORRECT\<rparr>)
            else Next (reset_counters (s\<lparr>behavior_mismatch_count := behavior_mismatch_count s + 1\<rparr>))
          else Next (reset_counters s)
        else Next (reset_counters (case behavior of None \<Rightarrow> s | Some b \<Rightarrow> s\<lparr>produced_code := b\<rparr>))
      else Next (reset_counters s))"

definition ordered_body :: "string res \<Rightarrow> ordered_state \<Rightarrow> ordered_state flow" where
  "ordered_body text s0 = attempt text (\<lambda>t.
     let sub = re_search color_instance_re t; s = s0\<lparr>current_color := None\<rparr> in
     if sub = None then
       if re_search reading_re t = None then Next s else close_cycle s
     else attempt (py_group sub 1) (\<lambda>color. Next (see_sample color s)))"

text \<open>The exit condition at the end of the body.\<close>

definition exit_condition :: "ordered_state \<Rightarrow> ordered_state flow" where
  "exit_condition s =
     (if ordered_access_group_count s > MAX_SAMPLES_READ
      then Break (if samples_read_per_instance s < MAX_SAMPLES_READ
                  then s\<lparr>produced_code := DATA_NOT_RECEIVED\<rparr> else s)
      else Next s)"

definition ordered_loop :: "ordered_state check_loop" where
  "ordered_loop =
     \<lparr>guard = (\<lambda>s. samples_read_per_instance s < MAX_SAMPLES_READ),
      body = ordered_body,
      pats = [PRe bracket_re, PRe reading_ordered_re, PTimeout, PEof],
      react = (\<lambda>index _ s.
        if index = 0 then
          (case current_color s of
             None \<Rightarrow> exit_condition s
           | Some color \<Rightarrow> attempt (py_nth (instance_color s) 0) (\<lambda>first.
               exit_condition (if color = first
                 then s\<lparr>samples_read_per_instance := samples_read_per_instance s + 1\<rparr> else s)))
        else if index = 1 then
          exit_condition (s\<lparr>ordered_access_group_count := ordered_access_group_count s + 1\<rparr>)
        else if index = 2 then Break s
        else if index = 3 then Break (s\<lparr>produced_code := DATA_NOT_RECEIVED\<rparr>)
        else exit_condition s),
      finish = produced_code\<rparr>"

definition ordered_access_w_instances :: check_function where
  "ordered_access_w_instances child_sub =
     after_basic_check child_sub (run_loop ordered_loop ordered_init child_sub)"

section \<open>Read cycles and their votes\<close>

definition color_of :: "string \<Rightarrow> string option" where
  "color_of t = (case re_search color_instance_re t of None \<Rightarrow> None
     | Some m \<Rightarrow> (case py_group (Some m) 1 of Inl _ \<Rightarrow> None | Inr color \<Rightarrow> Some color))"

lemma color_of_cases:
  obtains (none) "re_search color_instance_re t = None" "color_of t = None"
  | (some) m k where "re_search color_instance_re t = Some m" "py_group (Some m) 1 = Inr k" "color_of t = Some k"
proof (cases "re_search color_instance_re t")
  case None
  with none show ?thesis by (simp add: color_of_def)
next
  case (Some m)
  have "\<exists>v. py_group (Some m) 1 = Inr v"
    by (rule py_group_ok [OF Some]) (simp_all add: color_instance_re_def num_def Seqs.simps)
  then obtain k where "py_group (Some m) 1 = Inr k" by blast
  with Some show ?thesis by (intro some [OF Some]) (simp_all add: color_of_def)
qed

text \<open>
  The cycles of a stream: how many samples had the colour of the sample before them and how many
  had another one, per closed cycle; and the same for the cycle still open.
\<close>

record cycles =
  closed :: "(nat \<times> nat) list"
  equal :: nat
  different :: nat
  last_color :: "string option"
  seen :: "string list"

definition next_cycle :: "cycles \<Rightarrow> string \<Rightarrow> cycles" where
  "next_cycle y t =
     (case color_of t of
        Some k \<Rightarrow> y\<lparr>equal := equal y + (if last_color y = Some k then 1 else 0),
                    different := different y + (if last_color y = None \<or> last_color y = Some k then 0 else 1),
                    last_color := Some k,
                    seen := (if k \<in> set (seen y) then seen y else seen y @ [k])\<rparr>
      | None \<Rightarrow> if re_search reading_re t = None then y
                else y\<lparr>closed := closed y @ [(equal y, different y)], equal := 0, different := 0\<rparr>)"

definition cycles_of :: "string list \<Rightarrow> cycles" where
  "cycles_of h = foldl next_cycle \<lparr>closed = [], equal = 0, different = 0, last_color = None, seen = []\<rparr> h"

lemma cycles_of_snoc [simp]: "cycles_of (h @ [t]) = next_cycle (cycles_of h) t"
  by (simp add: cycles_of_def)

text \<open>The votes of the cycles with more than 5 samples, the first clear one, and those against it.\<close>

definition votes :: "string list \<Rightarrow> ReturnCode option list" where
  "votes h = map (\<lambda>(e, d). current_behavior e d) (filter (\<lambda>(e, d). 5 < e + d) (closed (cycles_of h)))"

definition decided :: "ReturnCode option list \<Rightarrow> ReturnCode option" where
  "decided vs = (case dropWhile (\<lambda>v. v = None) vs of [] \<Rightarrow> None | v # _ \<Rightarrow> v)"

definition mismatches :: "ReturnCode option list \<Rightarrow> nat" where
  "mismatches vs = length (filter (\<lambda>v. v \<noteq> decided vs) (dropWhile (\<lambda>v. v = None) vs))"

lemma decided_snoc: "decided (vs @ [v]) = (if decided vs = None then v else decided vs)"
proof (induction vs)
  case (Cons w vs)
  then show ?case by (cases w) (auto simp: decided_def split: list.splits)
qed (simp add: decided_def)

lemma undecided: "decided vs = None \<longleftrightarrow> dropWhile (\<lambda>v. v = None) vs = []"
  by (induction vs) (auto simp: decided_def split: list.splits)

lemma mismatches_snoc:
  "mismatches (vs @ [v]) = (if decided vs = None then 0
     else mismatches vs + (if v = decided vs then 0 else 1))"
  by (auto simp: mismatches_def decided_snoc dropWhile_append undecided)

lemma mismatches_undecided: "decided vs = None \<Longrightarrow> mismatches vs = 0"
  unfolding mismatches_def undecided by (simp only: filter.simps list.size)

lemma decided_votes: "decided (votes h) = Some d \<Longrightarrow> d = ORDERED_ACCESS_INSTANCE \<or> d = ORDERED_ACCESS_TOPIC"
proof -
  assume "decided (votes h) = Some d"
  then have "Some d \<in> set (votes h)"
    unfolding decided_def by (auto split: list.splits dest: set_dropWhileD [of "Some d"] simp: eq_commute)
      (metis list.set_intros(1) set_dropWhileD)
  then show ?thesis by (auto simp: votes_def current_behavior_def split: if_splits)
qed

definition vote_code :: "string list \<Rightarrow> ReturnCode" where
  "vote_code h = (case decided (votes h) of None \<Rightarrow> OK | Some d \<Rightarrow> d)"

section \<open>The contract\<close>

definition ordered_repr :: "string list \<Rightarrow> ordered_state \<Rightarrow> bool" where
  "ordered_repr h s \<longleftrightarrow> instance_color s = seen (cycles_of h) \<and> color_equal_count s = equal (cycles_of h)
     \<and> color_different_count s = different (cycles_of h) \<and> previous_sample_color s = last_color (cycles_of h)
     \<and> samples_printed s = (seen (cycles_of h) \<noteq> [])
     \<and> (seen (cycles_of h) = [] \<longrightarrow> equal (cycles_of h) = 0 \<and> different (cycles_of h) = 0)
     \<and> produced_code s = vote_code h \<and> behavior_mismatch_count s = mismatches (votes h)
     \<and> mismatches (votes h) \<le> 6 \<and> ordered_access_group_count s \<le> MAX_SAMPLES_READ"

definition ordered_inv :: "string list \<Rightarrow> string \<Rightarrow> ordered_state \<Rightarrow> bool" where
  "ordered_inv h t s \<longleftrightarrow> ordered_repr h s \<and> samples_read_per_instance s \<le> length h"

definition ordered_mid :: "string list \<Rightarrow> string \<Rightarrow> ordered_state \<Rightarrow> bool" where
  "ordered_mid h t s \<longleftrightarrow> ordered_repr (h @ [t]) s \<and> samples_read_per_instance s \<le> length h
     \<and> samples_read_per_instance s < MAX_SAMPLES_READ
     \<and> (current_color s \<noteq> None \<longrightarrow> instance_color s \<noteq> [])"

definition ordered_good :: "string list \<Rightarrow> string \<Rightarrow> pat option \<Rightarrow> ReturnCode \<Rightarrow> bool" where
  "ordered_good h u how r \<longleftrightarrow>
     r = vote_code h \<and> mismatches (votes h) \<le> 6 \<and> MAX_SAMPLES_READ \<le> length h
   \<or> r = vote_code (h @ [u]) \<and> mismatches (votes (h @ [u])) \<le> 6 \<and> how = Some PTimeout
   \<or> r = DATA_NOT_CORRECT \<and> decided (votes h) \<noteq> None \<and> mismatches (votes (h @ [u])) = 7
   \<or> r = DATA_NOT_RECEIVED \<and> (how = Some PEof \<or> how = None)"

lemma ordered_body_spec:
  assumes H: "ordered_repr h s"
  shows "flow_spec (\<lambda>s'. ordered_repr (h @ [t]) s' \<and> samples_read_per_instance s' = samples_read_per_instance s
        \<and> (current_color s' \<noteq> None \<longrightarrow> instance_color s' \<noteq> []))
      (\<lambda>s'. produced_code s' = DATA_NOT_CORRECT \<and> decided (votes h) \<noteq> None \<and> mismatches (votes (h @ [t])) = 7)
      (\<lambda>_. False) (ordered_body (Inr t) s)"
proof (cases t rule: color_of_cases)
  case (some m k)
  have "votes (h @ [t]) = votes h" by (simp add: votes_def next_cycle_def some)
  with H some show ?thesis
    by (cases "last_color (cycles_of h)")
       (auto simp: ordered_body_def ordered_repr_def see_sample_def next_cycle_def vote_code_def Let_def)
next
  case none
  let ?y = "cycles_of h"
  show ?thesis
  proof (cases "re_search reading_re t")
    case None
    have "votes (h @ [t]) = votes h" by (simp add: votes_def next_cycle_def none None)
    with H none None show ?thesis
      by (auto simp: ordered_body_def ordered_repr_def next_cycle_def vote_code_def)
  next
    case (Some m)
    have votes: "votes (h @ [t]) = votes h @
        (if 5 < equal ?y + different ?y then [current_behavior (equal ?y) (different ?y)] else [])"
      by (simp add: votes_def next_cycle_def none Some)
    have body: "ordered_body (Inr t) s = close_cycle (s\<lparr>current_color := None\<rparr>)"
      using none Some by (simp add: ordered_body_def)
    show ?thesis
    proof (cases "5 < equal ?y + different ?y")
      case False
      with H none Some votes show ?thesis
        by (auto simp: body close_cycle_def reset_counters_def ordered_repr_def next_cycle_def vote_code_def)
    next
      case True
      note facts = H none Some votes True decided_snoc mismatches_snoc
      show ?thesis
      proof (cases "decided (votes h)")
        case None
        with facts mismatches_undecided [OF None] show ?thesis
          by (cases "current_behavior (equal ?y) (different ?y)")
             (auto simp: body close_cycle_def reset_counters_def ordered_repr_def next_cycle_def vote_code_def Let_def)
      next
        case (Some d)
        with facts decided_votes [OF Some] show ?thesis
          by (auto simp: body close_cycle_def reset_counters_def ordered_repr_def next_cycle_def vote_code_def
              behavior_mismatch_tolerance_def MAX_SAMPLES_READ_def Let_def)
      qed
    qed
  qed
qed

interpretation ordered: loop_contract ordered_loop ordered_inv ordered_mid ordered_good
proof unfold_locales
  fix h t s assume "ordered_inv h t s" "\<not> guard ordered_loop s"
  then show "ordered_good h t None (finish ordered_loop s)"
    by (auto simp: ordered_loop_def ordered_inv_def ordered_good_def ordered_repr_def)
next
  fix h t s assume inv: "ordered_inv h t s" and on: "guard ordered_loop s"
  then have "ordered_repr h s" by (simp add: ordered_inv_def)
  from ordered_body_spec [OF this, of t] inv on
  show "flow_spec (ordered_mid h t) (\<lambda>s'. ordered_good h t None (finish ordered_loop s'))
      (ordered_good h t None) (body ordered_loop (Inr t) s)"
    by (cases "ordered_body (Inr t) s")
       (auto simp: ordered_loop_def ordered_inv_def ordered_mid_def ordered_good_def)
next
  fix h t s i t' assume mid: "ordered_mid h t s"
    and i: "i < length (pats ordered_loop)" "text_pat (pats ordered_loop ! i)"
  have "i = 0 \<or> i = 1" using i by (auto simp: ordered_loop_def text_pat_def nth_Cons' split: if_splits)
  then show "flow_spec (ordered_inv (h @ [t]) t') (\<lambda>s'. ordered_good (h @ [t]) t' None (finish ordered_loop s'))
      (ordered_good (h @ [t]) t' None) (react ordered_loop i (Inr t') s)"
    using mid
    by (auto simp: ordered_loop_def ordered_mid_def ordered_inv_def ordered_repr_def exit_condition_def
        ordered_good_def split: option.splits)
next
  fix h t s i assume "ordered_mid h t s"
    and "i < length (pats ordered_loop)" "\<not> text_pat (pats ordered_loop ! i)"
  then show "flow_spec (\<lambda>_. False) (\<lambda>s'. ordered_good h t (Some (pats ordered_loop ! i)) (finish ordered_loop s'))
      (ordered_good h t (Some (pats ordered_loop ! i))) (react ordered_loop i (Inl TypeError) s)"
    by (auto simp: ordered_loop_def ordered_mid_def ordered_good_def ordered_repr_def
        text_pat_def nth_Cons' split: if_splits)
qed (simp_all add: ordered_loop_def)

section \<open>Properties\<close>

lemma ordered_start: "ordered_inv [] t ordered_init"
  by (simp add: ordered_inv_def ordered_repr_def ordered_init_def cycles_of_def vote_code_def votes_def
      decided_def mismatches_def)

lemma ordered_verdict:
  assumes "ordered_access_w_instances c = Returned r"
  obtains "basic_check c = Returned r" "r = DATA_NOT_RECEIVED \<or> r = DATA_NOT_CORRECT"
  | h u how where "prefix (h @ [u]) (texts c)" "ordered_good h u how r"
      "\<And>p. how = Some p \<Longrightarrow> texts c = h @ [u] \<and> ending (answers c) = Some p"
  using assms unfolding ordered_access_w_instances_def
proof (cases rule: after_basic_check_cases)
  case (2 t)
  with ordered.justified_verdict [OF ordered_start 2(1)] that(2) show ?thesis
    by (auto simp: ordered.justified_def)
qed (use that(1) in blast)

lemma vote_code_decided:
  "vote_code h = r \<Longrightarrow> r = ORDERED_ACCESS_INSTANCE \<or> r = ORDERED_ACCESS_TOPIC \<Longrightarrow> decided (votes h) = Some r"
  by (auto simp: vote_code_def split: option.splits)

text \<open>
  C5: \<open>ordered_access_w_instances\<close> reports the behaviour the read cycles show. When it answers
  \<open>ORDERED_ACCESS_INSTANCE\<close> or \<open>ORDERED_ACCESS_TOPIC\<close>, the first cycle of more than 5 samples that is not
  balanced shows that behaviour (more, or fewer, samples of the colour before them than of another
  one), and at most 6 such cycles after it disagree, in the texts \<open>h\<close> that were read: all of them when
  the child fell silent, otherwise at least \<open>MAX_SAMPLES_READ\<close>.
\<close>

theorem ordered_access_sound:
  assumes "ordered_access_w_instances c = Returned r"
    and "r = ORDERED_ACCESS_INSTANCE \<or> r = ORDERED_ACCESS_TOPIC"
  shows "\<exists>h. prefix h (texts c) \<and> decided (votes h) = Some r \<and> mismatches (votes h) \<le> 6
           \<and> (MAX_SAMPLES_READ \<le> length h \<or> h = texts c \<and> ending (answers c) = Some PTimeout)"
  using assms(1)
proof (cases rule: ordered_verdict)
  case 1
  with assms(2) show ?thesis by auto
next
  case (2 h u how)
  from 2(2) assms(2) consider "vote_code h = r" "mismatches (votes h) \<le> 6" "MAX_SAMPLES_READ \<le> length h"
    | "vote_code (h @ [u]) = r" "mismatches (votes (h @ [u])) \<le> 6" "how = Some PTimeout"
    by (auto simp: ordered_good_def)
  then show ?thesis
  proof cases
    case 1
    with 2(1) vote_code_decided [OF 1(1) assms(2)] show ?thesis using append_prefixD by blast
  next
    case c2: 2
    with 2(1) 2(3) [of PTimeout] vote_code_decided [OF c2(1) assms(2)] show ?thesis
      by (intro exI [of _ "h @ [u]"]) simp
  qed
qed

definition cyclic_child :: child where   \<comment> \<open>one cycle of seven samples of one instance\<close>
  "cyclic_child = with_more [Matched 1 ''Reading with ordered access'' [CHR 0x0A], TimedOut []]
     (printed [1, 2, 3, 4, 5, 6, 7])"

theorem ordered_access_sound_witness:
  "ordered_access_w_instances cyclic_child = Returned ORDERED_ACCESS_INSTANCE
   \<and> (\<exists>h. prefix h (texts cyclic_child) \<and> decided (votes h) = Some ORDERED_ACCESS_INSTANCE)"
proof -
  have "ordered_access_w_instances cyclic_child = Returned ORDERED_ACCESS_INSTANCE"
    by code_simp
  with ordered_access_sound [OF this] show ?thesis by blast
qed

text \<open>
  \<open>ordered_access_w_instances\<close> refuses only unsteady readers. On \<open>DATA_NOT_CORRECT\<close> the default
  check gave it, or seven cycles disagreed with the first one that was decided; one more than the six
  that are tolerated.
\<close>

theorem ordered_access_reject:
  assumes "ordered_access_w_instances c = Returned DATA_NOT_CORRECT"
  shows "basic_check c = Returned DATA_NOT_CORRECT
    \<or> (\<exists>h. prefix h (texts c) \<and> decided (votes h) \<noteq> None \<and> mismatches (votes h) = 7)"
  using assms
proof (cases rule: ordered_verdict)
  case (2 h u how)
  have "DATA_NOT_CORRECT \<noteq> vote_code h'" for h'
    using decided_votes [of h'] by (auto simp: vote_code_def split: option.splits)
  with 2(2) have "mismatches (votes (h @ [u])) = 7" by (auto simp: ordered_good_def)
  moreover from this have "decided (votes (h @ [u])) \<noteq> None" using mismatches_undecided by force
  ultimately show ?thesis using 2(1) by blast
qed simp

definition zero_size :: child where
  "zero_size = \<lparr>before = ''S B 1 2 [0]'', after = Some [], answers = []\<rparr>"

theorem ordered_access_reject_witness:
  "ordered_access_w_instances zero_size = Returned DATA_NOT_CORRECT \<and>
   (basic_check zero_size = Returned DATA_NOT_CORRECT
    \<or> (\<exists>h. prefix h (texts zero_size) \<and> decided (votes h) \<noteq> None \<and> mismatches (votes h) = 7))"
proof -
  have "ordered_access_w_instances zero_size = Returned DATA_NOT_CORRECT" by code_simp
  with ordered_access_reject [OF this] show ?thesis by blast
qed

end
