(* ===== verification/Check_Coherent.thy ===== *)
theory Check_Coherent
  imports CheckLoop
begin

text \<open>
  \<open>_coherent_sets_w_instances\<close>: does a reader with coherent access get complete coherent sets.  The
  message \<open>Reading coherent sets\<close> closes a set; the first two sets are ignored, each later one must
  have a multiple of \<open>expected_total\<close> samples and, per instance, a multiple of 3 consecutive ones.
\<close>

type_synonym topic_counts = "(string, (string, nat option) dict) dict"

record coherent_state =
  topics :: topic_counts
  samples_read_per_instance :: nat
  previous_sample_color :: "string option"
  new_coherent_set_read :: bool
  ignore_firsts_coherent_set :: nat
  coherent_sets_count :: nat
  coherent_set_sample_count :: nat
  produced_code :: ReturnCode
  topic_name :: "string option"
  instance_color :: "string option"

definition coherent_init :: coherent_state where
  "coherent_init = \<lparr>topics = [], samples_read_per_instance = 0, previous_sample_color = None,
     new_coherent_set_read = False, ignore_firsts_coherent_set = 2, coherent_sets_count = 0,
     coherent_set_sample_count = 0, produced_code = DATA_NOT_RECEIVED, topic_name = None, instance_color = None\<rparr>"

definition coherent_sets_max_count :: nat where
  "coherent_sets_max_count = MAX_SAMPLES_READ div 5"   \<comment> \<open>\<open>MAX_SAMPLES_READ / 5\<close> is 100.0\<close>

definition topic_re :: re where   \<comment> \<open>\<open>(\\w+)\\s+(\\w+)\\s+[0-9]+\\s+[0-9]+\\s+\\[[0-9]+\\]\<close>\<close>
  "topic_re = Seqs [Grp 1 (Plus CWord), Plus CSpace, Grp 2 (Plus CWord), Plus CSpace, num, Plus CSpace,
                    num, Plus CSpace, Lit ''['', num, Lit '']'']"

definition coherent_re :: re where "coherent_re = Lit ''Reading coherent sets''"

definition reading_coherent_re :: re where   \<comment> \<open>\<open>Reading coherent sets.*?\\n\<close>\<close>
  "reading_coherent_re = Seqs [Lit ''Reading coherent sets'', Rep False CDot, Chr (CRange 10 10)]"

text \<open>\<open>d[k]\<close> on a dictionary: a \<open>KeyError\<close> when the key is missing.\<close>

definition py_key :: "('k, 'v) dict \<Rightarrow> 'k \<Rightarrow> 'v res" where
  "py_key d k = (case dget d k of None \<Rightarrow> Inl KeyError | Some v \<Rightarrow> Inr v)"

definition see_topic_sample :: "string \<Rightarrow> string \<Rightarrow> coherent_state \<Rightarrow> coherent_state" where
  "see_topic_sample topic color s =
     (let colors = dget_or (topics s) topic [];
          count = dget_or colors color None;
          count' = (if previous_sample_color s = Some color
                    then Some ((case count of None \<Rightarrow> 1 | Some n \<Rightarrow> n) + 1) else count)
      in s\<lparr>new_coherent_set_read := True, topic_name := Some topic, instance_color := Some color,
           topics := dset topic (dset color count' colors) (topics s),
           previous_sample_color := Some color\<rparr>)"

definition clear_counts :: "topic_counts \<Rightarrow> topic_counts" where
  "clear_counts = map (\<lambda>(topic, colors). (topic, map (\<lambda>(color, _). (color, None)) colors))"

text \<open>
  The nested loop over topics and colours: the inner one stops at the first bad count and leaves the
  rest of its topic uncleared; the outer one goes on.
\<close>

fun check_colors :: "(string, nat option) dict \<Rightarrow> bool \<times> (string, nat option) dict" where
  "check_colors [] = (True, [])"
| "check_colors ((color, count) # colors) =
     (if (case count of None \<Rightarrow> False | Some n \<Rightarrow> n mod 3 \<noteq> 0) then (False, (color, count) # colors)
      else (case check_colors colors of (ok, colors') \<Rightarrow> (ok, (color, None) # colors')))"

fun check_topics :: "topic_counts \<Rightarrow> bool \<times> topic_counts" where
  "check_topics [] = (True, [])"
| "check_topics ((topic, colors) # rest) =
     (case check_colors colors of (ok, colors') \<Rightarrow>
      case check_topics rest of (ok', rest') \<Rightarrow> (ok \<and> ok', (topic, colors') # rest'))"

definition close_set :: "nat \<Rightarrow> coherent_state \<Rightarrow> coherent_state flow" where
  "close_set expected_total s =
     (if ignore_firsts_coherent_set s \<noteq> 0 \<and> new_coherent_set_read s then
        Next (s\<lparr>ignore_firsts_coherent_set := ignore_firsts_coherent_set s - 1,
                coherent_set_sample_count := 0, topics := clear_counts (topics s),
                new_coherent_set_read := False\<rparr>)
      else if new_coherent_set_read s then
        if coherent_set_sample_count s mod expected_total \<noteq> 0
        then Break (s\<lparr>produced_code := DATA_NOT_CORRECT\<rparr>)
        else
          (case check_topics (topics s) of (ok, topics') \<Rightarrow>
             let s' = s\<lparr>coherent_set_sample_count := 0, topics := topics'\<rparr> in
             if ok then Next (s'\<lparr>produced_code := OK, new_coherent_set_read := False\<rparr>)
             else Break (s'\<lparr>produced_code := DATA_NOT_CORRECT\<rparr>))
      else Next (s\<lparr>new_coherent_set_read := False\<rparr>))"

definition coherent_body :: "nat \<Rightarrow> string res \<Rightarrow> coherent_state \<Rightarrow> coherent_state flow" where
  "coherent_body expected_total text s0 = attempt text (\<lambda>t.
     let sub = re_search topic_re t; s = s0\<lparr>topic_name := None, instance_color := None\<rparr> in
     if sub = None then
       if re_search coherent_re t = None then Next s else close_set expected_total s
     else attempt (py_group sub 1) (\<lambda>topic. attempt (py_group sub 2) (\<lambda>color.
       Next (see_topic_sample topic color s))))"

definition coherent_exit :: "coherent_state \<Rightarrow> coherent_state flow" where
  "coherent_exit s =
     (if coherent_sets_count s > MAX_SAMPLES_READ
      then Break (if samples_read_per_instance s < MAX_SAMPLES_READ
                  then s\<lparr>produced_code := DATA_NOT_RECEIVED\<rparr> else s)
      else Next s)"

text \<open>Is the sample one of the first instance of the first topic?\<close>

definition is_first_instance :: "coherent_state \<Rightarrow> bool res" where
  "is_first_instance s =
     (case (topic_name s, instance_color s) of
        (Some topic, Some color) \<Rightarrow>
          rbind (py_nth (dkeys (topics s)) 0) (\<lambda>first_topic.
            if topic = first_topic then
              rbind (py_key (topics s) topic) (\<lambda>colors.
              rbind (py_nth (dkeys colors) 0) (\<lambda>first_color. Inr (color = first_color)))
            else Inr False)
      | _ \<Rightarrow> Inr False)"

definition coherent_loop :: "nat \<Rightarrow> coherent_state check_loop" where
  "coherent_loop expected_total =
     \<lparr>guard = (\<lambda>s. samples_read_per_instance s < coherent_sets_max_count),
      body = coherent_body expected_total,
      pats = [PRe bracket_re, PRe reading_coherent_re, PTimeout, PEof],
      react = (\<lambda>index _ s.
        if index = 0 then attempt (is_first_instance s) (\<lambda>first.
          coherent_exit (s\<lparr>samples_read_per_instance := samples_read_per_instance s + (if first then 1 else 0),
                          coherent_set_sample_count := coherent_set_sample_count s + 1\<rparr>))
        else if index = 1 then coherent_exit (s\<lparr>coherent_sets_count := coherent_sets_count s + 1\<rparr>)
        else if index = 2 then Break s
        else if index = 3 then Break (s\<lparr>produced_code := DATA_NOT_RECEIVED\<rparr>)
        else coherent_exit s),
      finish = produced_code\<rparr>"

definition coherent_sets :: "nat \<Rightarrow> check_function" where   \<comment> \<open>\<open>_coherent_sets_w_instances\<close>\<close>
  "coherent_sets expected_total child_sub =
     after_basic_check child_sub (run_loop (coherent_loop expected_total) coherent_init child_sub)"

definition coherent_sets_w_instances :: check_function where
  "coherent_sets_w_instances = coherent_sets 36"

definition coherent_sets_w_instances_non_group :: check_function where
  "coherent_sets_w_instances_non_group = coherent_sets 12"

section \<open>What closing a set does\<close>

definition complete_counts :: "topic_counts \<Rightarrow> bool" where
  "complete_counts ts = list_all (\<lambda>(_, colors). list_all (\<lambda>(_, count). case count of None \<Rightarrow> True | Some n \<Rightarrow> 3 dvd n) colors) ts"

lemma check_colors_ok:
  "fst (check_colors colors) \<longleftrightarrow> list_all (\<lambda>(_, count). case count of None \<Rightarrow> True | Some n \<Rightarrow> 3 dvd n) colors"
  by (induction colors rule: check_colors.induct) (auto split: option.splits prod.splits simp: dvd_eq_mod_eq_0)

lemma check_colors_clear: "fst (check_colors colors) \<Longrightarrow> snd (check_colors colors) = map (\<lambda>(color, _). (color, None)) colors"
  by (induction colors rule: check_colors.induct) (auto split: prod.splits if_splits)

lemma check_topics_ok: "fst (check_topics ts) \<longleftrightarrow> complete_counts ts"
  by (induction ts rule: check_topics.induct)
     (auto simp: complete_counts_def check_colors_ok [symmetric] split: prod.splits)

lemma check_topics_clear: "fst (check_topics ts) \<Longrightarrow> snd (check_topics ts) = clear_counts ts"
  by (induction ts) (auto simp: clear_counts_def case_prod_beta check_colors_clear)

text \<open>
  Closing a coherent set that counts (the third and later ones with samples) accepts it exactly
  when it is complete: the number of samples is a multiple of \<open>expected_total\<close> and the count of every
  instance of every topic is absent or a multiple of 3. Then the verdict so far is \<open>OK\<close> and all
  counters start again; otherwise the check stops with \<open>DATA_NOT_CORRECT\<close>.
\<close>

theorem close_set_decides:
  assumes "ignore_firsts_coherent_set s = 0" and "new_coherent_set_read s"
  shows "case close_set n s of
      Next s' \<Rightarrow> n dvd coherent_set_sample_count s \<and> complete_counts (topics s)
        \<and> s' = s\<lparr>coherent_set_sample_count := 0, topics := clear_counts (topics s),
                 produced_code := OK, new_coherent_set_read := False\<rparr>
    | Break s' \<Rightarrow> \<not> (n dvd coherent_set_sample_count s \<and> complete_counts (topics s))
        \<and> produced_code s' = DATA_NOT_CORRECT
    | _ \<Rightarrow> False"
  using assms check_topics_ok [of "topics s"] check_topics_clear [of "topics s"]
  by (auto simp: close_set_def dvd_eq_mod_eq_0 Let_def split: prod.splits)

definition third_set :: coherent_state where   \<comment> \<open>two topics of one instance, 3 samples each\<close>
  "third_set = coherent_init\<lparr>topics := [(''Square'', [(''RED'', Some 3)]), (''Circle'', [(''RED'', Some 3)])],
     ignore_firsts_coherent_set := 0, new_coherent_set_read := True, coherent_set_sample_count := 6\<rparr>"

theorem close_set_decides_witness:
  "(\<exists>s'. close_set 6 third_set = Next s' \<and> produced_code s' = OK)
   \<and> (\<exists>s'. close_set 12 third_set = Break s' \<and> produced_code s' = DATA_NOT_CORRECT)"
proof -
  have start: "ignore_firsts_coherent_set third_set = 0" "new_coherent_set_read third_set"
    "coherent_set_sample_count third_set = 6" "complete_counts (topics third_set)"
    by code_simp+
  from close_set_decides [OF start(1,2), of 6] close_set_decides [OF start(1,2), of 12] start(3,4)
  show ?thesis by (cases "close_set 6 third_set"; cases "close_set 12 third_set") auto
qed

section \<open>The contract\<close>

definition set_step :: "bool \<times> nat \<Rightarrow> string \<Rightarrow> bool \<times> nat" where
  "set_step p t = (case p of (fresh, n) \<Rightarrow>
     if re_search topic_re t \<noteq> None then (True, n)
     else if re_search coherent_re t \<noteq> None then (False, if fresh then Suc n else n)
     else (fresh, n))"

definition sets_of :: "string list \<Rightarrow> bool \<times> nat" where "sets_of h = foldl set_step (False, 0) h"

definition sets_closed :: "string list \<Rightarrow> nat" where   \<comment> \<open>messages that came after at least one new sample\<close>
  "sets_closed h = snd (sets_of h)"

lemma sets_of_snoc [simp]: "sets_of (h @ [t]) = set_step (sets_of h) t"
  by (simp add: sets_of_def)

definition coherent_repr :: "string list \<Rightarrow> coherent_state \<Rightarrow> bool" where
  "coherent_repr h s \<longleftrightarrow> new_coherent_set_read s = fst (sets_of h)
     \<and> ignore_firsts_coherent_set s = 2 - sets_closed h
     \<and> produced_code s = (if 3 \<le> sets_closed h then OK else DATA_NOT_RECEIVED)"

definition coherent_inv :: "string list \<Rightarrow> string \<Rightarrow> coherent_state \<Rightarrow> bool" where
  "coherent_inv h t s \<longleftrightarrow> coherent_repr h s \<and> samples_read_per_instance s \<le> length h
     \<and> coherent_sets_count s \<le> MAX_SAMPLES_READ"

definition coherent_mid :: "string list \<Rightarrow> string \<Rightarrow> coherent_state \<Rightarrow> bool" where
  "coherent_mid h t s \<longleftrightarrow> coherent_repr (h @ [t]) s \<and> samples_read_per_instance s \<le> length h
     \<and> samples_read_per_instance s < coherent_sets_max_count \<and> coherent_sets_count s \<le> MAX_SAMPLES_READ
     \<and> \<not> raises (is_first_instance s)"

definition coherent_good :: "string list \<Rightarrow> string \<Rightarrow> pat option \<Rightarrow> ReturnCode \<Rightarrow> bool" where
  "coherent_good h u how r \<longleftrightarrow>
     r = OK \<and> 3 \<le> sets_closed h \<and> coherent_sets_max_count \<le> length h
   \<or> r = OK \<and> 3 \<le> sets_closed (h @ [u]) \<and> how = Some PTimeout
   \<or> r = DATA_NOT_CORRECT \<and> 3 \<le> sets_closed (h @ [u])
   \<or> r = DATA_NOT_RECEIVED"

lemma topic_groups:
  assumes "re_search topic_re t = Some m"
  obtains topic color where "py_group (Some m) 1 = Inr topic" "py_group (Some m) 2 = Inr color"
proof -
  have "\<exists>v. py_group (Some m) 1 = Inr v" and "\<exists>v. py_group (Some m) 2 = Inr v"
    by (rule py_group_ok [OF assms], simp_all add: topic_re_def num_def Seqs.simps)+
  with that show ?thesis by blast
qed

lemma py_nth_dset: "\<exists>k. py_nth (dkeys (dset a v d)) 0 = Inr k"
  by (auto simp: py_nth_def dset_keys)

lemma see_topic_sample_first: "\<not> raises (is_first_instance (see_topic_sample topic color s))"
proof -
  define colors where "colors = dset color (if previous_sample_color s = Some color
      then Some ((case dget_or (dget_or (topics s) topic []) color None of None \<Rightarrow> 1 | Some n \<Rightarrow> n) + 1)
      else dget_or (dget_or (topics s) topic []) color None) (dget_or (topics s) topic [])"
  obtain k j where "py_nth (dkeys (dset topic colors (topics s))) 0 = Inr k" "py_nth (dkeys colors) 0 = Inr j"
    using py_nth_dset unfolding colors_def by metis
  then show ?thesis
    by (simp add: see_topic_sample_def Let_def is_first_instance_def py_key_def update_conv' flip: colors_def)
qed

lemma coherent_body_spec:
  assumes H: "coherent_repr h s"
  shows "flow_spec (\<lambda>s'. coherent_repr (h @ [t]) s' \<and> samples_read_per_instance s' = samples_read_per_instance s
        \<and> coherent_sets_count s' = coherent_sets_count s \<and> \<not> raises (is_first_instance s'))
      (\<lambda>s'. produced_code s' = DATA_NOT_CORRECT \<and> 3 \<le> sets_closed (h @ [t])) (\<lambda>_. False)
      (coherent_body n (Inr t) s)"
proof (cases "re_search topic_re t")
  case (Some m)
  then obtain topic color where "py_group (Some m) 1 = Inr topic" "py_group (Some m) 2 = Inr color"
    by (rule topic_groups)
  with H Some see_topic_sample_first [of topic color "s\<lparr>topic_name := None, instance_color := None\<rparr>"] show ?thesis
    by (auto simp: coherent_body_def coherent_repr_def sets_closed_def set_step_def see_topic_sample_def Let_def
        split: prod.splits)
next
  case None
  note plain = coherent_repr_def sets_closed_def set_step_def is_first_instance_def
  obtain fresh k where sets: "sets_of h = (fresh, k)" by (cases "sets_of h")
  show ?thesis
  proof (cases "re_search coherent_re t")
    case no_message: None
    with None H sets show ?thesis by (auto simp: coherent_body_def plain)
  next
    case (Some m)
    have "coherent_body n (Inr t) s = close_set n (s\<lparr>topic_name := None, instance_color := None\<rparr>)"
      using None Some by (simp add: coherent_body_def)
    with None Some H sets show ?thesis
      by (cases "check_topics (topics s)") (auto simp: close_set_def plain Let_def)
  qed
qed

lemma coherent_contract:
  "loop_contract (coherent_loop n) coherent_inv coherent_mid coherent_good"
proof unfold_locales
  fix h t s assume "coherent_inv h t s" "\<not> guard (coherent_loop n) s"
  then show "coherent_good h t None (finish (coherent_loop n) s)"
    by (auto simp: coherent_loop_def coherent_inv_def coherent_good_def coherent_repr_def)
next
  fix h t s assume inv: "coherent_inv h t s" and on: "guard (coherent_loop n) s"
  then have "coherent_repr h s" by (simp add: coherent_inv_def)
  from coherent_body_spec [OF this, of t n] inv on
  show "flow_spec (coherent_mid h t) (\<lambda>s'. coherent_good h t None (finish (coherent_loop n) s'))
      (coherent_good h t None) (body (coherent_loop n) (Inr t) s)"
    by (cases "coherent_body n (Inr t) s")
       (auto simp: coherent_loop_def coherent_inv_def coherent_mid_def coherent_good_def)
next
  fix h t s i t' assume mid: "coherent_mid h t s"
    and i: "i < length (pats (coherent_loop n))" "text_pat (pats (coherent_loop n) ! i)"
  obtain first where "is_first_instance s = Inr first"
    using mid by (cases "is_first_instance s") (auto simp: coherent_mid_def)
  moreover have "i = 0 \<or> i = 1" using i by (auto simp: coherent_loop_def text_pat_def nth_Cons' split: if_splits)
  ultimately show "flow_spec (coherent_inv (h @ [t]) t') (\<lambda>s'. coherent_good (h @ [t]) t' None (finish (coherent_loop n) s'))
      (coherent_good (h @ [t]) t' None) (react (coherent_loop n) i (Inr t') s)"
    using mid
    by (auto simp: coherent_loop_def coherent_mid_def coherent_inv_def coherent_repr_def coherent_exit_def
        coherent_good_def coherent_sets_max_count_def MAX_SAMPLES_READ_def)
next
  fix h t s i assume "coherent_mid h t s"
    and "i < length (pats (coherent_loop n))" "\<not> text_pat (pats (coherent_loop n) ! i)"
  then show "flow_spec (\<lambda>_. False) (\<lambda>s'. coherent_good h t (Some (pats (coherent_loop n) ! i)) (finish (coherent_loop n) s'))
      (coherent_good h t (Some (pats (coherent_loop n) ! i))) (react (coherent_loop n) i (Inl TypeError) s)"
    by (auto simp: coherent_loop_def coherent_mid_def coherent_good_def coherent_repr_def
        text_pat_def nth_Cons' split: if_splits)
qed (simp_all add: coherent_loop_def)

interpretation coherent: loop_contract "coherent_loop n" coherent_inv coherent_mid coherent_good for n
  by (rule coherent_contract)

section \<open>Properties\<close>

lemma coherent_start: "coherent_inv [] t coherent_init"
  by (simp add: coherent_inv_def coherent_repr_def coherent_init_def sets_closed_def sets_of_def)


definition coherent_child :: child where
  \<comment> \<open>two sets that are ignored, then one of 6 samples of either instance\<close>
  "coherent_child =
     (let red = Matched 0 ''S R 1 2 '' ''[1]''; blue = Matched 0 ''S B 1 2 '' ''[1]'';
          message = Matched 1 ''Reading coherent sets'' [CHR 0x0A]
      in \<lparr>before = ''S R 1 2 '', after = Some ''[1]'',
          answers = [message, blue, message, red, red, red, red, red, red,
                     blue, blue, blue, blue, blue, blue, message, TimedOut []]\<rparr>)"


end
