(* ===== verification/Checks.thy ===== *)
theory Checks
  imports Check_Durability Check_TimeFilter Check_Lifespan Check_Instances Check_Ordered Check_Coherent
begin

text \<open>
  All check functions together: the names under which \<open>test_suite.py\<close> uses them, the function each
  name stands for, the patterns it waits for and the codes it can give.  The properties here hold of
  every one of them.
\<close>

datatype check_name =
    No_Check | Basic_Check | Size_Receivers | Color_Receivers | Size_Less_Than_20 | Order_W_Instances
  | Reliability_No_Losses | Durability_Volatile | Durability_Transient_Local | Deadline_Missed
  | One_Sample_In_10 | Unregistering | Disposing | Large_Data | Lifespan_2_3 | Ordered_Access
  | Coherent_Sets | Coherent_Sets_Non_Group

fun run_check :: "check_name \<Rightarrow> check_function" where
  "run_check No_Check = no_check"
| "run_check Basic_Check = basic_check"
| "run_check Size_Receivers = test_size_receivers"
| "run_check Color_Receivers = test_color_receivers"
| "run_check Size_Less_Than_20 = test_size_less_than_20"
| "run_check Order_W_Instances = test_order_w_instances"
| "run_check Reliability_No_Losses = test_reliability_no_losses_w_instances"
| "run_check Durability_Volatile = test_durability_volatile"
| "run_check Durability_Transient_Local = test_durability_transient_local"
| "run_check Deadline_Missed = test_deadline_missed"
| "run_check One_Sample_In_10 = test_reading_1_sample_every_10_samples_w_instances"
| "run_check Unregistering = test_unregistering_w_instances"
| "run_check Disposing = test_disposing_w_instances"
| "run_check Large_Data = test_large_data"
| "run_check Lifespan_2_3 = test_lifespan_2_3_consecutive_samples_w_instances"
| "run_check Ordered_Access = ordered_access_w_instances"
| "run_check Coherent_Sets = coherent_sets_w_instances"
| "run_check Coherent_Sets_Non_Group = coherent_sets_w_instances_non_group"

text \<open>The patterns of the \<open>expect\<close> calls of each function that has a loop.\<close>

fun patterns_of :: "check_name \<Rightarrow> pat list" where
  "patterns_of Order_W_Instances = pats order_loop"
| "patterns_of Ordered_Access = pats ordered_loop"
| "patterns_of Unregistering = pats (instances_loop unregistered_re)"
| "patterns_of Disposing = pats (instances_loop disposed_re)"
| "patterns_of Large_Data = pats large_data_loop"
| "patterns_of Coherent_Sets = pats (coherent_loop 36)"
| "patterns_of Coherent_Sets_Non_Group = pats (coherent_loop 12)"
| "patterns_of _ = sample_pats"

fun own_codes :: "check_name \<Rightarrow> ReturnCode list" where
  "own_codes No_Check = [OK]"
| "own_codes Size_Receivers = [RECEIVING_FROM_ONE, RECEIVING_FROM_BOTH]"
| "own_codes Color_Receivers = [RECEIVING_FROM_ONE, RECEIVING_FROM_BOTH]"
| "own_codes Deadline_Missed = [OK, DEADLINE_MISSED]"
| "own_codes Ordered_Access = [OK, ORDERED_ACCESS_INSTANCE, ORDERED_ACCESS_TOPIC]"
| "own_codes _ = [OK]"

definition codes_of :: "check_name \<Rightarrow> ReturnCode list" where
  "codes_of f = (if f = No_Check then [OK] else own_codes f @ [DATA_NOT_RECEIVED, DATA_NOT_CORRECT])"

section \<open>No check raises, every check returns\<close>

text \<open>A check that runs a loop after the prologue, from a state its contract starts in.\<close>

definition settled :: "pat list \<Rightarrow> child \<Rightarrow> ReturnCode list \<Rightarrow> ReturnCode run \<Rightarrow> bool" where
  "settled ps c rs run = (case run of Raised _ \<Rightarrow> False | Waiting \<Rightarrow> \<not> complete_script ps (answers c)
     | Returned r \<Rightarrow> r \<in> set rs)"

lemma settled_simps [simp]:
  "settled ps c rs (Returned r) \<longleftrightarrow> r \<in> set rs" "\<not> settled ps c rs (Raised e)"
  "settled ps c rs Waiting \<longleftrightarrow> \<not> complete_script ps (answers c)"
  by (simp_all add: settled_def)

lemma settled_loop:
  assumes "loop_contract L Inv Mid good" "Inv [] t s" "child_text c = Inr t" "ps = pats L"
    and "\<And>h u how r. good h u how r \<Longrightarrow> r \<in> set rs"
  shows "settled ps c rs (run_loop L s c)"
  using loop_contract.run_justified [OF assms(1-3)] assms(4,5)
  by (auto simp: settled_def loop_contract.justified_def [OF assms(1)] loop_contract.stalled_def [OF assms(1)]
      split: run.splits)

lemma settled_after:
  assumes "child_text c = Inr t" "set [DATA_NOT_RECEIVED, DATA_NOT_CORRECT] \<subseteq> set rs"
    and "re_search basic_re t \<noteq> None \<Longrightarrow> basic_check c = Returned OK \<Longrightarrow> settled ps c rs rest"
  shows "settled ps c rs (after_basic_check c rest)"
proof (cases "basic_check c = Returned OK")
  case True
  with basic_check_OK [OF True] assms show ?thesis by (auto simp: after_basic_check_pass)
next
  case False
  with basic_fails [OF assms(1)] assms(2) show ?thesis by auto
qed

lemma settled_simple:
  assumes "child_text c = Inr t"
  shows "settled ps c (codes_of No_Check) (no_check c)"
    and "settled ps c (codes_of Basic_Check) (basic_check c)"
    and "settled ps c (codes_of Durability_Volatile) (test_durability_volatile c)"
    and "settled ps c (codes_of Durability_Transient_Local) (test_durability_transient_local c)"
proof -
  show "settled ps c (codes_of No_Check) (no_check c)" by (simp add: no_check_def codes_of_def)
  show "settled ps c (codes_of Basic_Check) (basic_check c)"
    by (simp add: basic_check_text [OF assms] codes_of_def split: option.splits)
  have "\<exists>m n. re_search size_re t = Some m \<and> group_int (Some m) 1 = Inr n" if "basic_check c = Returned OK"
    using first_size [OF assms that] by metis
  with assms show "settled ps c (codes_of Durability_Volatile) (test_durability_volatile c)"
    and "settled ps c (codes_of Durability_Transient_Local) (test_durability_transient_local c)"
    unfolding test_durability_volatile_def test_durability_transient_local_def
    by (auto intro!: settled_after [OF assms] simp: codes_of_def)
qed

lemma settled_receivers:
  assumes "child_text c = Inr t"
  shows "settled sample_pats c (codes_of Size_Receivers) (test_size_receivers c)"
    and "settled sample_pats c (codes_of Color_Receivers) (test_color_receivers c)"
    and "settled sample_pats c (codes_of Size_Less_Than_20) (test_size_less_than_20 c)"
    and "settled (pats large_data_loop) c (codes_of Large_Data) (test_large_data c)"
proof -
  show "settled sample_pats c (codes_of Size_Receivers) (test_size_receivers c)"
    unfolding test_size_receivers_def
  proof (rule settled_after [OF assms])
    assume "basic_check c = Returned OK"
    then obtain m n where m: "re_search basic_re t = Some m" "size_in t = Some n" "group_int (Some m) 1 = Inr n"
      using basic_check_OK assms by (cases t rule: basic_number) force+
    have "settled sample_pats c (codes_of Size_Receivers) (run_loop size_receivers_loop (size_receivers_init (Some m) n) c)"
      by (rule settled_loop [OF size_receivers.loop_contract_axioms _ assms])
         (auto simp: size_inv_def m size_receivers_init_def size_receivers_loop_def codes_of_def size_good_def)
    with assms m show "settled sample_pats c (codes_of Size_Receivers) (from_res (child_text c) (\<lambda>t.
        let sub_string = re_search basic_re t in if sub_string = None then Returned DATA_NOT_RECEIVED
        else from_res (group_int sub_string 1) (\<lambda>n. run_loop size_receivers_loop (size_receivers_init sub_string n) c)))"
      by simp
  qed (simp add: codes_of_def)
  show "settled sample_pats c (codes_of Color_Receivers) (test_color_receivers c)"
    unfolding test_color_receivers_def
  proof (rule settled_after [OF assms])
    assume "basic_check c = Returned OK"
    then obtain m k where m: "re_search color_re t = Some m" "color_in t = Some k" "py_group (Some m) 1 = Inr k"
      using basic_check_OK assms by (cases t rule: color_word) force+
    have "settled sample_pats c (codes_of Color_Receivers) (run_loop color_receivers_loop
           \<lparr>color_match = Some m, first_sample_color = k, colors_read = 0\<rparr> c)"
      by (rule settled_loop [OF color_receivers.loop_contract_axioms [of k] _ assms])
         (auto simp: color_inv_def m color_receivers_loop_def codes_of_def color_good_def)
    with assms m show "settled sample_pats c (codes_of Color_Receivers)
        (from_res (child_text c) (\<lambda>t. let sub_string = re_search color_re t in
           from_res (py_group sub_string 1) (\<lambda>first_sample_color. run_loop color_receivers_loop
             \<lparr>color_match = sub_string, first_sample_color = first_sample_color, colors_read = 0\<rparr> c)))"
      by simp
  qed (simp add: codes_of_def)
  show "settled sample_pats c (codes_of Size_Less_Than_20) (test_size_less_than_20 c)"
    unfolding test_size_less_than_20_def
    by (rule settled_after [OF assms], simp add: codes_of_def, simp only: assms from_res_simps,
        rule settled_loop [OF size_filter.loop_contract_axioms _ assms])
       (auto simp: filter_inv_def size_less_than_20_loop_def codes_of_def filter_good_def)
  show "settled (pats large_data_loop) c (codes_of Large_Data) (test_large_data c)"
    unfolding test_large_data_def
    by (rule settled_after [OF assms], simp add: codes_of_def,
        rule settled_loop [OF large_data.loop_contract_axioms _ assms])
       (auto simp: large_inv_def codes_of_def large_good_def)
qed

lemma codes_of_loop: "f \<noteq> No_Check \<Longrightarrow> set [DATA_NOT_RECEIVED, DATA_NOT_CORRECT] \<subseteq> set (codes_of f)"
  by (simp add: codes_of_def)

text \<open>The codes that the contracts allow.\<close>

lemma good_codes:
  "order.good h u how r \<Longrightarrow> r \<in> set (codes_of Order_W_Instances)"
  "reliability.good h u how r \<Longrightarrow> r \<in> set (codes_of Reliability_No_Losses)"
  "filtered_good h u how r \<Longrightarrow> r \<in> set (codes_of One_Sample_In_10)"
  "lifespan_good h u how r \<Longrightarrow> r \<in> set (codes_of Lifespan_2_3)"
  "coherent_good h u how r \<Longrightarrow> r \<in> set (codes_of Coherent_Sets)"
  "instances_good unregistered_re h u how r \<Longrightarrow> r \<in> set (codes_of Unregistering)"
  "instances_good disposed_re h u how r \<Longrightarrow> r \<in> set (codes_of Disposing)"
  unfolding codes_of_def order.good_def reliability.good_def filtered_good_def lifespan_good_def
    coherent_good_def instances_good_def
  by (simp_all, blast+)

lemma patterns_loops:
  "pats reliability_loop = sample_pats" "pats time_filter_loop = sample_pats" "pats lifespan_loop = sample_pats"
  by (simp_all add: reliability_loop_def time_filter_loop_def lifespan_loop_def sample_pats_def)

lemma settled_instances:
  assumes "child_text c = Inr t"
  shows "settled (pats order_loop) c (codes_of Order_W_Instances) (test_order_w_instances c)"
    and "settled sample_pats c (codes_of Reliability_No_Losses) (test_reliability_no_losses_w_instances c)"
    and "settled sample_pats c (codes_of One_Sample_In_10) (test_reading_1_sample_every_10_samples_w_instances c)"
    and "settled sample_pats c (codes_of Lifespan_2_3) (test_lifespan_2_3_consecutive_samples_w_instances c)"
    and "settled (pats ordered_loop) c (codes_of Ordered_Access) (ordered_access_w_instances c)"
    and "settled (pats (coherent_loop n)) c (codes_of Coherent_Sets) (coherent_sets n c)"
proof -
  note after = settled_after [OF assms codes_of_loop]
  show "settled (pats order_loop) c (codes_of Order_W_Instances) (test_order_w_instances c)"
    unfolding test_order_w_instances_def
    by (rule after, simp, rule settled_loop [OF order.loop_contract_axioms order.H_init assms])
       (simp_all add: good_codes)
  show "settled sample_pats c (codes_of Reliability_No_Losses) (test_reliability_no_losses_w_instances c)"
    unfolding test_reliability_no_losses_w_instances_def
    by (rule after, simp, rule settled_loop [OF reliability.loop_contract_axioms reliability.H_init assms])
       (simp_all add: good_codes patterns_loops)
  show "settled sample_pats c (codes_of One_Sample_In_10) (test_reading_1_sample_every_10_samples_w_instances c)"
    unfolding test_reading_1_sample_every_10_samples_w_instances_def
    by (rule after, simp, rule settled_loop [OF time_filter.loop_contract_axioms time_filter_start assms])
       (simp_all add: good_codes patterns_loops)
  show "settled sample_pats c (codes_of Lifespan_2_3) (test_lifespan_2_3_consecutive_samples_w_instances c)"
    unfolding test_lifespan_2_3_consecutive_samples_w_instances_def
    by (rule after, simp, rule settled_loop [OF lifespan.loop_contract_axioms lifespan_start assms])
       (simp_all add: good_codes patterns_loops)
  show "settled (pats ordered_loop) c (codes_of Ordered_Access) (ordered_access_w_instances c)"
    unfolding ordered_access_w_instances_def
    by (rule after, simp, rule settled_loop [OF ordered.loop_contract_axioms ordered_start assms])
       (auto simp: codes_of_def ordered_good_def vote_code_def dest: decided_votes split: option.splits)
  show "settled (pats (coherent_loop n)) c (codes_of Coherent_Sets) (coherent_sets n c)"
    unfolding coherent_sets_def
    by (rule after, simp, rule settled_loop [OF coherent.loop_contract_axioms coherent_start assms])
       (simp_all add: good_codes)
qed

lemma settled_ends:
  assumes "child_text c = Inr t"
  shows "settled (pats (instances_loop unregistered_re)) c (codes_of Unregistering) (test_unregistering_w_instances c)"
    and "settled (pats (instances_loop disposed_re)) c (codes_of Disposing) (test_disposing_w_instances c)"
proof -
  have start: "instances_inv r [] t instances_init" if "basic_check c = Returned OK" for r
    by (rule instances_start, rule basic_check_OK [OF that]) (use assms in simp)
  show "settled (pats (instances_loop unregistered_re)) c (codes_of Unregistering) (test_unregistering_w_instances c)"
    unfolding test_unregistering_w_instances_def
    by (rule settled_after [OF assms codes_of_loop], simp,
        rule settled_loop [OF unregistering.loop_contract_axioms start assms])
       (simp_all add: good_codes)
  show "settled (pats (instances_loop disposed_re)) c (codes_of Disposing) (test_disposing_w_instances c)"
    unfolding test_disposing_w_instances_def
    by (rule settled_after [OF assms codes_of_loop], simp,
        rule settled_loop [OF disposing.loop_contract_axioms start assms])
       (simp_all add: good_codes)
qed

lemma deadline_settled:
  assumes "child_text c = Inr t"
  shows "test_deadline_missed c \<noteq> Raised e \<and> (test_deadline_missed c = Returned r \<longrightarrow> r \<in> set (codes_of Deadline_Missed))"
proof (cases "basic_check c = Returned OK")
  case True
  have "test_deadline_missed c \<in> {Waiting, Returned DEADLINE_MISSED, Returned DATA_NOT_RECEIVED, Returned OK}"
    unfolding test_deadline_missed_def after_basic_check_pass [OF True]
    by (auto simp: expect_def split: list.splits answer.splits)
  then show ?thesis by (auto simp: codes_of_def)
next
  case False
  with basic_fails [OF assms] show ?thesis by (auto simp: test_deadline_missed_def codes_of_def)
qed

lemma run_check_settled:
  assumes "child_text c = Inr t" "f \<noteq> Deadline_Missed"
  shows "settled (patterns_of f) c (codes_of f) (run_check f c)"
  using assms settled_simple [OF assms(1)] settled_receivers [OF assms(1)] settled_instances [OF assms(1)]
    settled_ends [OF assms(1)]
  by (cases f)
     (simp_all add: coherent_sets_w_instances_def coherent_sets_w_instances_non_group_def codes_of_def)





end
