(* ===== verification/Interop_Run.thy ===== *)
theory Interop_Run
  imports Checks
begin

text \<open>
  The two processes of \<open>interoperability_report.py\<close>: \<open>run_subscriber_shape_main\<close> and
  \<open>run_publisher_shape_main\<close> follow the start of a \<open>shape_main\<close> application step by step and turn
  what it prints into a return code; \<open>stop_process\<close> ends it.  The result a process writes to
  \<open>produced_code[produced_code_index]\<close> is the value of the function here.
\<close>

definition MAX_SAMPLES_SAVED :: nat where "MAX_SAMPLES_SAVED = 500"

definition not_supported :: pat where "not_supported = PNoCase ''not supported''"

text \<open>The strings handed to \<open>expect\<close> are regular expressions; a final \<open>()\<close> is an empty group.\<close>

definition call_re :: "string \<Rightarrow> re" where "call_re name = Seq (Lit name) (Grp 1 Eps)"

section \<open>The subscriber\<close>

definition sub_topic_pats :: "pat list" where
  "sub_topic_pats = [PStr ''Create topic:'', not_supported, PTimeout, PEof]"

definition sub_reader_pats :: "pat list" where
  "sub_reader_pats = [PStr ''Create reader for topic:'', PStr ''failed to create content filtered topic'',
     not_supported, PTimeout, PEof]"

definition sub_data_pats :: "pat list" where
  "sub_data_pats = [PRe bracket_re, PRe (call_re ''on_requested_incompatible_qos''),
     PRe (call_re ''on_requested_deadline_missed''), not_supported, PTimeout, PEof]"

definition run_subscriber_shape_main :: "check_function \<Rightarrow> child \<Rightarrow> ReturnCode run" where
  "run_subscriber_shape_main check child_sub =
     run_bind (expect sub_topic_pats child_sub) (\<lambda>(index, child_sub).
       if index = 2 \<or> index = 3 then Returned TOPIC_NOT_CREATED
       else if index = 1 then Returned SUB_UNSUPPORTED_FEATURE
       else run_bind (expect sub_reader_pats child_sub) (\<lambda>(index, child_sub).
         if index = 3 \<or> index = 4 then Returned READER_NOT_CREATED
         else if index = 1 then Returned FILTER_NOT_CREATED
         else if index = 2 then Returned SUB_UNSUPPORTED_FEATURE
         else run_bind (expect sub_data_pats child_sub) (\<lambda>(index, child_sub).
           if index = 1 then Returned INCOMPATIBLE_QOS
           else if index = 2 then Returned DEADLINE_MISSED
           else if index = 4 \<or> index = 5 then Returned DATA_NOT_RECEIVED
           else if index = 3 then Returned SUB_UNSUPPORTED_FEATURE
           else check child_sub)))"

section \<open>The publisher\<close>

definition pub_topic_pats :: "pat list" where
  "pub_topic_pats = [PStr ''Create topic:'', not_supported, PTimeout, PEof]"

definition pub_writer_pats :: "pat list" where
  "pub_writer_pats = [PStr ''Create writer for topic'', not_supported, PTimeout, PEof]"

definition pub_match_pats :: "pat list" where
  "pub_match_pats = [PRe (call_re ''on_publication_matched''), PStr ''on_offered_incompatible_qos'',
     not_supported, PTimeout, PEof]"

definition pub_sample_pats :: "pat list" where
  "pub_sample_pats = [PRe bracket_re, PRe (call_re ''on_offered_deadline_missed''), not_supported, PTimeout, PEof]"

definition pub_string_re :: re where   \<comment> \<open>\<open>[0-9]+ [0-9]+ \\[[0-9]+\\]\<close>\<close>
  "pub_string_re = Seqs [num, Lit '' '', num, Lit '' ['', num, Lit '']'']"

record publication =
  code :: ReturnCode
  samples_sent :: "string list"           \<comment> \<open>the queue of this publisher\<close>
  last_sample_saved :: "string option"    \<comment> \<open>its other queue, when something was put into it\<close>

text \<open>\<open>'-w ' in parameters or parameters.endswith('-w')\<close>, and the same test for \<open>-P\<close> and \<open>-S\<close>.\<close>

definition has_option :: "string \<Rightarrow> string \<Rightarrow> bool" where
  "has_option opt parameters = (str_in (opt @ '' '') parameters \<or> ends_with opt parameters)"

text \<open>The loop that saves the samples: \<open>n\<close> iterations are left.\<close>

fun save_samples :: "nat \<Rightarrow> string list \<Rightarrow> string \<Rightarrow> child \<Rightarrow> publication run" where
  "save_samples 0 sent last_sample child_pub =
     Returned \<lparr>code = OK, samples_sent = sent, last_sample_saved = Some last_sample\<rparr>"
| "save_samples (Suc n) sent last_sample child_pub =
     from_res (child_text child_pub) (\<lambda>t.
       let pub_string = re_search pub_string_re t in
       if pub_string = None
       then Returned \<lparr>code = DATA_NOT_CORRECT, samples_sent = sent, last_sample_saved = Some last_sample\<rparr>
       else from_res (py_group pub_string 0) (\<lambda>last_sample.
         let sent = sent @ [last_sample];
             stop = (\<lambda>c. Returned \<lparr>code = c, samples_sent = sent, last_sample_saved = Some last_sample\<rparr>) in
         run_bind (expect pub_sample_pats child_pub) (\<lambda>(index, child_pub).
           if index = 1 then stop DEADLINE_MISSED
           else if index = 2 then stop PUB_UNSUPPORTED_FEATURE
           else if index = 3 \<or> index = 4 then stop DATA_NOT_SENT
           else save_samples n sent last_sample child_pub)))"

definition no_samples :: "ReturnCode \<Rightarrow> publication" where
  "no_samples c = \<lparr>code = c, samples_sent = [], last_sample_saved = None\<rparr>"

text \<open>Step 5, taken with the option \<open>-w\<close>: does the writer send samples.\<close>

definition publish_samples :: "child \<Rightarrow> publication run" where
  "publish_samples child_pub =
     run_bind (expect pub_sample_pats child_pub) (\<lambda>(index, child_pub).
       if index = 1 then Returned (no_samples DEADLINE_MISSED)
       else if index = 3 \<or> index = 4 then Returned (no_samples DATA_NOT_SENT)
       else if index = 2 then Returned (no_samples PUB_UNSUPPORTED_FEATURE)
       else save_samples MAX_SAMPLES_SAVED [] [] child_pub)"

definition run_publisher_shape_main :: "string \<Rightarrow> child \<Rightarrow> publication run" where
  "run_publisher_shape_main parameters child_pub =
     run_bind (expect pub_topic_pats child_pub) (\<lambda>(index, child_pub).
       if index = 2 \<or> index = 3 then Returned (no_samples TOPIC_NOT_CREATED)
       else if index = 1 then Returned (no_samples PUB_UNSUPPORTED_FEATURE)
       else run_bind (expect pub_writer_pats child_pub) (\<lambda>(index, child_pub).
         if index = 2 \<or> index = 3 then Returned (no_samples WRITER_NOT_CREATED)
         else if index = 1 then Returned (no_samples PUB_UNSUPPORTED_FEATURE)
         else run_bind (expect pub_match_pats child_pub) (\<lambda>(index, child_pub).
           if index = 3 \<or> index = 4 then Returned (no_samples READER_NOT_MATCHED)
           else if index = 1 then Returned (no_samples INCOMPATIBLE_QOS)
           else if index = 2 then Returned (no_samples PUB_UNSUPPORTED_FEATURE)
           else if has_option ''-w'' parameters then publish_samples child_pub
           else Returned (no_samples OK))))"

section \<open>Stopping a process\<close>

text \<open>
  \<open>stop_process\<close>: what the operating system answers is the argument: whether the process is alive at
  the start, whether \<open>sendintr\<close> succeeds, the results of the polls of the waiting loop (is it alive, is
  there time left), the last of which ends it, and whether the final \<open>expect(pexpect.EOF)\<close> sees the end of the
  output.  The result is \<open>return_value\<close> together with whether \<open>terminate(force=True)\<close> was called.
\<close>

fun wait_for_exit :: "(bool \<times> bool) list \<Rightarrow> bool option" where   \<comment> \<open>is it alive after the loop?\<close>
  "wait_for_exit [] = None"
| "wait_for_exit ((alive, in_time) # polls) =
     (if alive \<and> in_time then wait_for_exit polls else Some alive)"

definition stop_process :: "bool \<Rightarrow> bool \<Rightarrow> (bool \<times> bool) list \<Rightarrow> bool \<Rightarrow> (bool \<times> bool) run" where
  "stop_process alive intr_ok polls got_eof =
     (if \<not> alive \<or> \<not> intr_ok then Returned (True, False)
      else case wait_for_exit polls of
        None \<Rightarrow> Waiting
      | Some still_alive \<Rightarrow>
          if \<not> got_eof then Raised (RuntimeError ''TIMEOUT'')
          else Returned (if still_alive then (False, True) else (True, False)))"

section \<open>Lemmas\<close>

lemma expect_index:
  assumes "expect ps c = Returned (i, c')"
  shows "i < length ps" "text_pat (ps ! i) \<longleftrightarrow> (\<exists>t. child_text c' = Inr t)"
  using expect_text [OF assms] by (auto simp: child_text_def split: option.splits)

lemmas process_pats = sub_topic_pats_def sub_reader_pats_def sub_data_pats_def pub_topic_pats_def
  pub_writer_pats_def pub_match_pats_def pub_sample_pats_def

lemma no_expect_raises [simp]:
  "expect sub_topic_pats c \<noteq> Raised e" "expect sub_reader_pats c \<noteq> Raised e" "expect sub_data_pats c \<noteq> Raised e"
  "expect pub_topic_pats c \<noteq> Raised e" "expect pub_writer_pats c \<noteq> Raised e" "expect pub_match_pats c \<noteq> Raised e"
  "expect pub_sample_pats c \<noteq> Raised e"
  by (rule expect_complete; simp add: process_pats)+

lemma data_index_text:
  assumes "expect sub_data_pats c = Returned (i, c')" "i \<noteq> 1" "i \<noteq> 2" "i \<noteq> 3" "i \<noteq> 4" "i \<noteq> 5"
  shows "\<exists>t. child_text c' = Inr t"
proof -
  have "i = 0" using expect_index(1) [OF assms(1)] assms(2-) by (simp add: process_pats)
  then have "text_pat (sub_data_pats ! i)" by (simp add: process_pats text_pat_def)
  with expect_index(2) [OF assms(1)] show ?thesis by simp
qed

lemma sample_index_text:
  assumes "expect pub_sample_pats c = Returned (i, c')" "i \<noteq> 1" "i \<noteq> 2" "i \<noteq> 3" "i \<noteq> 4"
  shows "\<exists>t. child_text c' = Inr t"
proof -
  have "i = 0" using expect_index(1) [OF assms(1)] assms(2-) by (simp add: process_pats)
  then have "text_pat (pub_sample_pats ! i)" by (simp add: process_pats text_pat_def)
  with expect_index(2) [OF assms(1)] show ?thesis by simp
qed

definition start_codes :: "ReturnCode list" where   \<comment> \<open>what a subscriber can get before its first sample\<close>
  "start_codes = [TOPIC_NOT_CREATED, SUB_UNSUPPORTED_FEATURE, READER_NOT_CREATED, FILTER_NOT_CREATED,
     INCOMPATIBLE_QOS, DEADLINE_MISSED, DATA_NOT_RECEIVED]"

lemma subscriber_cases:
  assumes "run_subscriber_shape_main check c = Returned r"
  obtains "r \<in> set start_codes" | t c' where "child_text c' = Inr t" "check c' = Returned r"
proof (cases "r \<in> set start_codes")
  case False
  then have "\<exists>i c1 c2. expect sub_data_pats c1 = Returned (i, c2) \<and> i \<notin> {1, 2, 3, 4, 5} \<and> check c2 = Returned r"
    using assms unfolding run_subscriber_shape_main_def start_codes_def
    by (auto simp: run_bind_Returned_iff split: if_splits)
  then obtain i c1 c2 where c: "expect sub_data_pats c1 = Returned (i, c2)" "i \<notin> {1, 2, 3, 4, 5}" "check c2 = Returned r"
    by blast
  with data_index_text [OF c(1)] that(2) show ?thesis by auto
qed

lemma subscriber_codes:
  assumes "run_subscriber_shape_main (run_check f) c = Returned r"
  shows "r \<in> set (start_codes @ codes_of f)"
  using assms
proof (cases rule: subscriber_cases)
  case (2 t c')
  show ?thesis
  proof (cases "f = Deadline_Missed")
    case True
    with 2 deadline_settled [OF 2(1), of undefined r] show ?thesis by simp
  next
    case False
    from run_check_settled [OF 2(1) this] 2(2) show ?thesis by simp
  qed
qed simp

lemma save_samples_safe: "child_text c = Inr t \<Longrightarrow> save_samples n sent l c \<noteq> Raised e"
proof (induction n arbitrary: sent l c t)
  case (Suc n)
  show ?case
  proof (cases "re_search pub_string_re t")
    case (Some m)
    then obtain v where "py_group (Some m) 0 = Inr v" by (cases m) (simp add: py_group_def group_def)
    with Suc Some show ?thesis
      by (auto simp: Let_def run_bind_Raised_iff split: if_splits dest!: sample_index_text)
  qed (use Suc.prems in simp)
qed simp

definition well_saved :: "publication \<Rightarrow> bool" where
  "well_saved p \<longleftrightarrow> length (samples_sent p) \<le> MAX_SAMPLES_SAVED
     \<and> (\<forall>x \<in> set (samples_sent p). x \<in> lang pub_string_re)
     \<and> (\<forall>x. last_sample_saved p = Some x \<longrightarrow> x = (if samples_sent p = [] then [] else last (samples_sent p)))"

lemma save_samples_saved:
  assumes "save_samples n sent l c = Returned p"
    and "length sent + n = N" "\<forall>x \<in> set sent. x \<in> lang pub_string_re" "l = (if sent = [] then [] else last sent)"
  shows "length (samples_sent p) \<le> N \<and> (\<forall>x \<in> set (samples_sent p). x \<in> lang pub_string_re)
     \<and> last_sample_saved p = Some (if samples_sent p = [] then [] else last (samples_sent p))
     \<and> (code p = OK \<longrightarrow> length (samples_sent p) = N)"
  using assms
proof (induction n arbitrary: sent l c)
  case (Suc n)
  from Suc.prems(1) obtain t where t: "child_text c = Inr t"
    by (auto simp: from_res_def split: sum.splits)
  show ?case
  proof (cases "re_search pub_string_re t")
    case None
    with Suc.prems t show ?thesis by auto
  next
    case (Some m)
    obtain w cs u where m: "m = (w, cs, u)" by (cases m)
    have w: "w \<in> lang pub_string_re"
      using re_search_sound [of pub_string_re t w cs u] Some m mt_sound by blast
    have group: "py_group (Some m) 0 = Inr w" by (simp add: py_group_def group_def m)
    have ih: "length (samples_sent p) \<le> N \<and> (\<forall>x \<in> set (samples_sent p). x \<in> lang pub_string_re)
     \<and> last_sample_saved p = Some (if samples_sent p = [] then [] else last (samples_sent p))
     \<and> (code p = OK \<longrightarrow> length (samples_sent p) = N)" if "save_samples n (sent @ [w]) w c' = Returned p" for c'
      by (rule Suc.IH [OF that]) (use Suc.prems w in auto)
    from Suc.prems(1) t Some group show ?thesis
      using Suc.prems(2,3) w
      by (auto simp: Let_def run_bind_Returned_iff split: if_splits dest!: ih)
  qed
qed auto

lemma publish_samples_ok:
  "run_ok (\<lambda>p. well_saved p \<and> (code p = OK \<longrightarrow> length (samples_sent p) = MAX_SAMPLES_SAVED)) (publish_samples c)"
  unfolding publish_samples_def
proof (intro run_ok_expect run_ok_if no_expect_raises)
  fix i c' assume i: "expect pub_sample_pats c = Returned (i, c')" "i \<noteq> 1" "\<not> (i = 3 \<or> i = 4)" "i \<noteq> 2"
  then obtain t where t: "child_text c' = Inr t" using sample_index_text by blast
  show "run_ok (\<lambda>p. well_saved p \<and> (code p = OK \<longrightarrow> length (samples_sent p) = MAX_SAMPLES_SAVED))
      (save_samples MAX_SAMPLES_SAVED [] [] c')"
  proof (cases "save_samples MAX_SAMPLES_SAVED [] [] c'")
    case (Raised e)
    with save_samples_safe [OF t] show ?thesis by blast
  next
    case (Returned p)
    with save_samples_saved [OF this, of MAX_SAMPLES_SAVED] show ?thesis by (simp add: well_saved_def)
  qed simp
qed (simp_all add: no_samples_def well_saved_def)

text \<open>The codes a publisher can get.\<close>

definition publisher_failures :: "ReturnCode list" where
  "publisher_failures = [TOPIC_NOT_CREATED, PUB_UNSUPPORTED_FEATURE, WRITER_NOT_CREATED, READER_NOT_MATCHED,
     INCOMPATIBLE_QOS, DEADLINE_MISSED, DATA_NOT_SENT, DATA_NOT_CORRECT]"

definition publisher_codes :: "ReturnCode list" where
  "publisher_codes = OK # publisher_failures"

lemma save_samples_codes:
  "save_samples n sent l c = Returned p \<Longrightarrow> code p \<in> set publisher_codes"
proof (induction n arbitrary: sent l c)
  case (Suc n)
  from Suc(2) show ?case
    by (auto simp: publisher_codes_def publisher_failures_def from_res_Returned_iff run_bind_Returned_iff Let_def
        dest!: Suc(1) split: if_splits)
qed (auto simp: publisher_codes_def publisher_failures_def)

lemma publisher_codes_only:
  "run_publisher_shape_main parameters c = Returned p \<Longrightarrow> code p \<in> set publisher_codes"
  unfolding run_publisher_shape_main_def publish_samples_def
  by (auto simp: run_bind_Returned_iff no_samples_def publisher_codes_def publisher_failures_def
      dest!: save_samples_codes split: if_splits)

section \<open>Properties\<close>



end
