(* ===== verification/Interop_Report.thy ===== *)
theory Interop_Report
  imports Interop_Run
begin

text \<open>
  \<open>interoperability_report.py\<close> above the processes: \<open>run_test\<close> names the entities of a test case, runs
  one process per entity, compares the codes and writes the report of a case; \<open>main\<close> selects the
  cases of a suite and completes their parameters.  Console output and the files are not modelled.
\<close>

section \<open>The entities of a test case\<close>

text \<open>\<open>entity_type\<close>: \<open>publisher_number\<close> and \<open>subscriber_number\<close> are the counters of the loop.\<close>

fun entity_types :: "nat \<Rightarrow> nat \<Rightarrow> string list \<Rightarrow> string list res" where
  "entity_types publisher_number subscriber_number [] = Inr []"
| "entity_types publisher_number subscriber_number (element # parameters) =
     (if has_option ''-P'' element then
        rbind (entity_types (publisher_number + 1) subscriber_number parameters) (\<lambda>names.
          Inr ((''Publisher_'' @ show_nat (publisher_number + 1)) # names))
      else if has_option ''-S'' element then
        rbind (entity_types publisher_number (subscriber_number + 1) parameters) (\<lambda>names.
          Inr ((''Subscriber_'' @ show_nat (subscriber_number + 1)) # names))
      else Inl (RuntimeError ''Error in the definition of shape_main application parameters. Neither Publisher or Subscriber defined.''))"

text \<open>One process per entity; \<open>return_codes\<close> is what they leave in their slots.\<close>

fun run_entities :: "check_function \<Rightarrow> (string \<times> child) list \<Rightarrow> ReturnCode list run" where
  "run_entities check [] = Returned []"
| "run_entities check ((parameters, c) # rest) =
     run_bind (if has_option ''-P'' parameters
               then run_bind (run_publisher_shape_main parameters c) (\<lambda>p. Returned (code p))
               else run_subscriber_shape_main check c) (\<lambda>r.
     run_bind (run_entities check rest) (\<lambda>rs. Returned (r # rs)))"

section \<open>The report of a test case\<close>

datatype case_result = Passed | Skipped string | Failure string

definition is_unsupported :: "ReturnCode list \<Rightarrow> bool" where
  "is_unsupported return_codes =
     list_ex (\<lambda>rc. rc = PUB_UNSUPPORTED_FEATURE \<or> rc = SUB_UNSUPPORTED_FEATURE) return_codes"

definition newline :: char where "newline = CHR 0x0A"

text \<open>\<open>.replace('\n', '<br>').replace(chr(3), '<br>')\<close>\<close>

definition edit_output :: "string \<Rightarrow> string" where
  "edit_output out = replace_char (CHR 0x03) ''<br>'' (replace_char newline ''<br>'' out)"

definition table_row :: "string \<times> ReturnCode \<times> ReturnCode \<Rightarrow> string" where
  "table_row row = (case row of (entity, expected, produced) \<Rightarrow>
     ''<tr> <th> '' @ entity @ '' </th> <th> '' @ code_name expected @ '' </th> <th> ''
       @ code_name produced @ '' </th> </tr>'')"

definition table_head :: string where
  "table_head = ''<table> <tr> <th/> <th> Expected Code </th> <th> Code Produced </th> </tr> ''"

definition information :: "string \<times> string \<Rightarrow> string" where
  "information p = (case p of (entity, out) \<Rightarrow>
     ''<strong> Information '' @ entity @ '' </strong><br> '' @ edit_output out @ '' <br>'')"

definition report_message :: "(string \<times> ReturnCode \<times> ReturnCode) list \<Rightarrow> string list \<Rightarrow> string" where
  "report_message rows outputs =
     remove_ansi_colors
       (table_head @ concat (map table_row rows) @ ''</table>''
        @ concat (map information (zip (map fst rows) outputs)))"

record test_report =
  case_name :: string
  attributes :: "(string \<times> string) list"   \<comment> \<open>one XML attribute per entity: its parameters\<close>
  case_result :: case_result

definition judge :: "(string \<times> ReturnCode \<times> ReturnCode) list \<Rightarrow> string list \<Rightarrow> case_result" where
  "judge rows outputs =
     (if list_all (\<lambda>(_, expected, produced). expected = produced) rows then Passed
      else if is_unsupported (map (snd \<circ> snd) rows) then Skipped (report_message rows outputs)
      else Failure (report_message rows outputs))"

text \<open>
  \<open>run_test\<close>: the children are the spawned applications, \<open>outputs\<close> what their temporary files hold in
  the end.
\<close>

definition run_test :: "string \<Rightarrow> string list \<Rightarrow> ReturnCode list \<Rightarrow> check_function \<Rightarrow>
    child list \<Rightarrow> string list \<Rightarrow> test_report run" where
  "run_test name parameters expected_codes check children outputs =
     from_res (entity_types 0 0 parameters) (\<lambda>entity_type.
     run_bind (run_entities check (zip parameters children)) (\<lambda>return_codes.
     from_res (rmap (py_nth expected_codes) [0..<length parameters]) (\<lambda>expected.
       Returned \<lparr>case_name = name, attributes = zip entity_type parameters,
         case_result = judge (zip entity_type (zip expected return_codes)) outputs\<rparr>)))"

section \<open>The selection of the cases\<close>

record options =
  publisher :: string
  subscriber :: string
  test_cases :: "string list option"
  test_cases_disabled :: "string list option"
  data_representation :: string
  periodic_announcement_ms :: nat

text \<open>One entry of a suite; \<open>check_function\<close> is optional there.\<close>

record test_entry =
  apps :: "string list"
  expected_codes :: "ReturnCode list"
  check_function :: "check_name option"

type_synonym suite = "(string, test_entry) dict"

text \<open>The part of an executable's name that the report shows.\<close>

definition product_name :: "string \<Rightarrow> string" where
  "product_name executable =
     after_last (CHR ''/'') (before_first ''-shape'' (before_first ''_shape'' executable))"

definition are_tests_in_test_suite :: "suite \<Rightarrow> string list option \<Rightarrow> bool" where
  "are_tests_in_test_suite test_suite names =
     (case names of None \<Rightarrow> True
      | Some ns \<Rightarrow> list_all (\<lambda>i. i \<in> set (dkeys test_suite)) ns)"

text \<open>The parameters \<open>main\<close> adds to an application.\<close>

definition add_representation :: "options \<Rightarrow> string \<Rightarrow> string" where
  "add_representation opts element =
     (if \<not> str_in ''-x '' element then element @ '' -x '' @ data_representation opts else element)"

definition add_announcement :: "options \<Rightarrow> string \<Rightarrow> string" where
  "add_announcement opts element =
     (if periodic_announcement_ms opts > 0 \<and> \<not> str_in ''--periodic-announcement '' element
         \<and> str_in ''connext'' (py_lower (publisher opts)) \<and> str_in ''-P'' element
      then element @ '' --periodic-announcement '' @ show_nat (periodic_announcement_ms opts) else element)"

definition complete_parameters :: "options \<Rightarrow> string \<Rightarrow> string" where
  "complete_parameters opts element = add_announcement opts (add_representation opts element)"

definition selected :: "options \<Rightarrow> string \<Rightarrow> bool" where
  "selected opts name =
     (if (case test_cases_disabled opts of None \<Rightarrow> False | Some ns \<Rightarrow> name \<in> set ns) then False
      else if (case test_cases opts of None \<Rightarrow> False | Some ns \<Rightarrow> name \<notin> set ns) then False
      else True)"

text \<open>A case that is ready to be run.\<close>

record job =
  job_name :: string
  job_parameters :: "string list"
  job_codes :: "ReturnCode list"
  job_check :: check_name

definition prepare_case :: "options \<Rightarrow> string \<Rightarrow> string \<times> test_entry \<Rightarrow> job res" where
  "prepare_case opts suite_name entry = (case entry of (name, test) \<Rightarrow>
     if length (apps test) \<noteq> length (expected_codes test) then Inl AssertionError
     else Inr \<lparr>job_name = suite_name @ ''_'' @ name,
               job_parameters = map (complete_parameters opts) (apps test),
               job_codes = expected_codes test,
               job_check = (case check_function test of None \<Rightarrow> Basic_Check | Some f \<Rightarrow> f)\<rparr>)"

definition select_cases :: "options \<Rightarrow> string \<Rightarrow> suite \<Rightarrow> job list res" where
  "select_cases opts suite_name test_suite =
     (if \<not> are_tests_in_test_suite test_suite (test_cases opts)
      then Inl (RuntimeError ''Cannot process test cases.'')
      else if \<not> are_tests_in_test_suite test_suite (test_cases_disabled opts)
      then Inl (RuntimeError ''Disabled test cases not found.'')
      else rmap (prepare_case opts suite_name) (filter (\<lambda>(name, _). selected opts name) test_suite))"

text \<open>The cases one after the other: what the \<open>junitparser.TestSuite\<close> holds in the end.\<close>

fun run_jobs :: "(job \<times> child list \<times> string list) list \<Rightarrow> test_report list run" where
  "run_jobs [] = Returned []"
| "run_jobs ((j, children, outputs) # rest) =
     run_bind (run_test (job_name j) (job_parameters j) (job_codes j) (run_check (job_check j)) children outputs)
       (\<lambda>report. run_bind (run_jobs rest) (\<lambda>reports. Returned (report # reports)))"

definition suite_title :: "options \<Rightarrow> string" where
  "suite_title opts = product_name (publisher opts) @ ''---'' @ product_name (subscriber opts)"

section \<open>Lemmas\<close>

definition entity_name :: "nat \<Rightarrow> nat \<Rightarrow> string \<Rightarrow> bool" where
  "entity_name p s x \<longleftrightarrow> (\<exists>k > p. x = ''Publisher_'' @ show_nat k) \<or> (\<exists>k > s. x = ''Subscriber_'' @ show_nat k)"

lemma entity_name_later:
  "entity_name (Suc p) s x \<Longrightarrow> entity_name p s x \<and> x \<noteq> ''Publisher_'' @ show_nat (Suc p)"
  "entity_name p (Suc s) x \<Longrightarrow> entity_name p s x \<and> x \<noteq> ''Subscriber_'' @ show_nat (Suc s)"
  unfolding entity_name_def by (auto dest: show_nat_inj Suc_lessD)

lemma entity_name_now:
  "entity_name p s (''Publisher_'' @ show_nat (Suc p))" "entity_name p s (''Subscriber_'' @ show_nat (Suc s))"
  unfolding entity_name_def by auto

lemma entity_types_names:
  "entity_types p s params = Inr names \<Longrightarrow>
   length names = length params \<and> distinct names \<and> (\<forall>x \<in> set names. entity_name p s x)"
proof (induction p s params arbitrary: names rule: entity_types.induct)
  case (2 p s element params)
  show ?case
  proof (cases "has_option ''-P'' element")
    case True
    with 2(3) obtain ns where ns: "entity_types (Suc p) s params = Inr ns" "names = (''Publisher_'' @ show_nat (Suc p)) # ns"
      by (auto simp: rbind_Inr_iff)
    with 2(1) [OF True, of ns] have "distinct ns" "length ns = length params" "\<forall>x \<in> set ns. entity_name (Suc p) s x"
      by auto
    with ns(2) entity_name_later(1) [of p s] entity_name_now(1) [of p s] show ?thesis by auto
  next
    case False
    with 2(3) obtain ns where ns: "has_option ''-S'' element" "entity_types p (Suc s) params = Inr ns"
      "names = (''Subscriber_'' @ show_nat (Suc s)) # ns"
      by (auto simp: rbind_Inr_iff split: if_splits)
    with 2(2) [OF False ns(1), of ns] have "distinct ns" "length ns = length params"
      "\<forall>x \<in> set ns. entity_name p (Suc s) x"
      by auto
    with ns(3) entity_name_later(2) [of p s] entity_name_now(2) [of p s] show ?thesis by auto
  qed
qed simp

text \<open>An option word has no blank, so that it cannot lie across one.\<close>

lemma str_in_blank:
  assumes "CHR '' '' \<notin> set opt"
  shows "str_in (opt @ '' '') (e @ CHR '' '' # z) \<longleftrightarrow> str_in (opt @ '' '') e \<or> ends_with opt e \<or> str_in (opt @ '' '') z"
proof
  assume "str_in (opt @ '' '') (e @ CHR '' '' # z)"
  then obtain p q where eq: "(p @ opt) @ CHR '' '' # q = e @ CHR '' '' # z" by (auto simp: str_in_iff)
  then consider r where "p @ opt = e @ r" "r @ CHR '' '' # q = CHR '' '' # z"
    | r where "(p @ opt) @ r = e" "CHR '' '' # q = r @ CHR '' '' # z"
    using append_eq_append_conv2 [THEN iffD1, OF eq] by blast
  then show "str_in (opt @ '' '') e \<or> ends_with opt e \<or> str_in (opt @ '' '') z"
  proof cases
    case (1 r)
    show ?thesis
    proof (cases r)
      case Nil
      with 1 show ?thesis by (auto simp: ends_with_iff)
    next
      case (Cons a r')
      with 1 have r: "p @ opt = e @ CHR '' '' # r'" "r' @ CHR '' '' # q = z" by auto
      with assms obtain p' where "p = e @ CHR '' '' # p'" "r' = p' @ opt"
        by (auto simp: append_eq_append_conv2 Cons_eq_append_conv append_eq_Cons_conv)
      with r(2) have "z = p' @ (opt @ '' '') @ q" by simp
      then show ?thesis unfolding str_in_iff by blast
    qed
  next
    case (2 r)
    then show ?thesis
      by (cases r) (auto simp: str_in_iff ends_with_iff)
  qed
next
  assume "str_in (opt @ '' '') e \<or> ends_with opt e \<or> str_in (opt @ '' '') z"
  then show "str_in (opt @ '' '') (e @ CHR '' '' # z)"
    unfolding str_in_iff ends_with_iff
    by (elim disjE exE) (metis append.assoc append_Cons append_Nil)+
qed

lemma ends_with_blank:
  assumes "CHR '' '' \<notin> set opt"
  shows "ends_with opt (e @ CHR '' '' # z) \<longleftrightarrow> ends_with opt z"
proof
  assume "ends_with opt (e @ CHR '' '' # z)"
  then obtain p where "p @ opt = e @ CHR '' '' # z" by (auto simp: ends_with_iff)
  with assms show "ends_with opt z"
    by (auto simp: ends_with_iff append_eq_append_conv2 Cons_eq_append_conv append_eq_Cons_conv)
qed (metis append.assoc append_Cons ends_with_iff)

lemma has_option_blank:
  "CHR '' '' \<notin> set opt \<Longrightarrow> has_option opt (e @ CHR '' '' # z) \<longleftrightarrow> has_option opt e \<or> has_option opt z"
  by (auto simp: has_option_def str_in_blank ends_with_blank)

lemma has_option_digits:
  "list_all is_digit z \<Longrightarrow> opt \<noteq> [] \<Longrightarrow> \<not> is_digit (hd opt) \<Longrightarrow> \<not> has_option opt z"
  unfolding has_option_def str_in_iff ends_with_iff by (cases opt) auto

definition kind_option :: "string \<Rightarrow> bool" where
  "kind_option opt \<longleftrightarrow> opt = ''-P'' \<or> opt = ''-S'' \<or> opt = ''-w''"

lemma complete_parameters_kind:
  assumes "kind_option opt" "data_representation opts = ''1'' \<or> data_representation opts = ''2''"
  shows "has_option opt (complete_parameters opts e) = has_option opt e"
proof -
  have blank: "CHR '' '' \<notin> set opt" "opt \<noteq> []" "\<not> is_digit (hd opt)"
    using assms(1) by (auto simp: kind_option_def is_digit_def)
  have word: "\<not> has_option opt ''-x''" "\<not> has_option opt ''--periodic-announcement''"
    using assms(1) by (auto simp: kind_option_def has_option_def ends_with_def)
  have rep: "\<not> has_option opt (data_representation opts)"
    using assms(1,2) by (auto simp: kind_option_def has_option_def ends_with_def)
  have num: "\<not> has_option opt (show_nat n)" for n
    using show_nat_digits [of n] blank by (intro has_option_digits) auto
  have x: "has_option opt (e @ '' -x '' @ data_representation opts) = has_option opt e" for e
    using has_option_blank [OF blank(1), of e "''-x '' @ data_representation opts"]
      has_option_blank [OF blank(1), of "''-x''" "data_representation opts"] word rep by simp
  have a: "has_option opt (e @ '' --periodic-announcement '' @ show_nat n) = has_option opt e" for e n
    using has_option_blank [OF blank(1), of e "''--periodic-announcement '' @ show_nat n"]
      has_option_blank [OF blank(1), of "''--periodic-announcement''" "show_nat n"] word num by simp
  show ?thesis
    by (simp add: complete_parameters_def add_announcement_def add_representation_def x a del: append.simps)
qed

text \<open>What is in a text stays in it when something is appended.\<close>

lemma complete_parameters_idem:
  "complete_parameters opts (complete_parameters opts e) = complete_parameters opts e"
proof -
  have "str_in ''-x '' (add_representation opts e)"
    by (auto simp: add_representation_def str_in_iff intro: exI [of _ "e @ '' ''"])
  then have "str_in ''-x '' (complete_parameters opts e)"
    by (auto simp: complete_parameters_def add_announcement_def intro: str_in_appendI1)
  then have 1: "add_representation opts (complete_parameters opts e) = complete_parameters opts e"
    by (simp add: add_representation_def)
  have "str_in ''--periodic-announcement '' (f @ '' --periodic-announcement '' @ n)" for f n
    by (auto simp: str_in_iff intro: exI [of _ "f @ '' ''"])
  then have "add_announcement opts (add_announcement opts f) = add_announcement opts f" for f
    by (simp add: add_announcement_def)
  with 1 show ?thesis unfolding complete_parameters_def by simp
qed

lemma rmap_nth: "rmap (py_nth xs) ks = Inr ys \<Longrightarrow> ys = map ((!) xs) ks \<and> (\<forall>k \<in> set ks. k < length xs)"
  by (induction ks arbitrary: ys) (auto simp: rbind_Inr_iff py_nth_def split: if_splits)

lemma nth_take_upt:
  "\<forall>k < n. k < length xs \<Longrightarrow> map ((!) xs) [0..<n] = take n xs" "\<forall>k < n. k < length xs \<Longrightarrow> min (length xs) n = n"
proof -
  assume "\<forall>k < n. k < length xs"
  then have "n \<le> length xs" by (meson leI less_irrefl)
  then show "map ((!) xs) [0..<n] = take n xs" "min (length xs) n = n"
    by (auto intro: nth_equalityI)
qed

lemma run_entities_length: "run_entities check ps = Returned rs \<Longrightarrow> length rs = length ps"
  by (induction check ps arbitrary: rs rule: run_entities.induct) (auto simp: run_bind_Returned_iff)

lemma judge_cases:
  assumes "length names = n" "length expected = n" "length codes = n"
  shows "case judge (zip names (zip expected codes)) outputs of
      Passed \<Rightarrow> expected = codes
    | Skipped _ \<Rightarrow> expected \<noteq> codes \<and> is_unsupported codes
    | Failure _ \<Rightarrow> expected \<noteq> codes \<and> \<not> is_unsupported codes"
proof -
  have "list_all (\<lambda>(_, e, c). e = c) (zip names (zip expected codes)) \<longleftrightarrow> expected = codes"
    using assms by (auto simp: list_all_length intro: nth_equalityI)
  moreover have "map (snd \<circ> snd) (zip names (zip expected codes)) = codes"
    using assms by (simp flip: map_map)
  ultimately show ?thesis by (simp add: judge_def)
qed

section \<open>Properties\<close>

text \<open>
  C13: \<open>run_test\<close> gives the right verdict. When it ends, every entity has its own name and its code;
  the case is passed exactly when all the codes are the expected ones, skipped exactly when they are
  not and some entity reported an unsupported feature, and failed otherwise.
\<close>

theorem run_test_verdict:
  assumes "run_test name parameters expected check children outputs = Returned rep"
    and "length children = length parameters"
  shows "\<exists>names codes. entity_types 0 0 parameters = Inr names \<and> distinct names
    \<and> attributes rep = zip names parameters
    \<and> run_entities check (zip parameters children) = Returned codes
    \<and> (case case_result rep of
         Passed \<Rightarrow> take (length parameters) expected = codes
       | Skipped _ \<Rightarrow> take (length parameters) expected \<noteq> codes \<and> is_unsupported codes
       | Failure _ \<Rightarrow> take (length parameters) expected \<noteq> codes \<and> \<not> is_unsupported codes)"
proof -
  let ?n = "length parameters"
  from assms(1) obtain names codes ex where r: "entity_types 0 0 parameters = Inr names"
    "run_entities check (zip parameters children) = Returned codes"
    "rmap (py_nth expected) [0..<?n] = Inr ex"
    "rep = \<lparr>case_name = name, attributes = zip names parameters,
       case_result = judge (zip names (zip ex codes)) outputs\<rparr>"
    by (auto simp: run_test_def from_res_Returned_iff run_bind_Returned_iff)
  from rmap_nth [OF r(3)] have ex: "ex = take ?n expected" "length ex = ?n"
    by (auto simp: nth_take_upt)
  from entity_types_names [OF r(1)] have names: "length names = ?n" "distinct names" by auto
  have "length codes = ?n" using run_entities_length [OF r(2)] assms(2) by simp
  from judge_cases [OF names(1) ex(2) this, of outputs] r names(2) ex(1) show ?thesis by auto
qed

definition plain_suite :: suite where
  "plain_suite = [(''T'', \<lparr>apps = [''-P -t Square'', ''-S -t Square''], expected_codes = [TOPIC_NOT_CREATED, TOPIC_NOT_CREATED],
     check_function = None\<rparr>)]"

definition silent_child :: child where "silent_child = \<lparr>before = [], after = None, answers = [TimedOut []]\<rparr>"

lemma run_test_verdict_witness:
  "\<exists>rep. run_test ''T'' [''-P -t Square'', ''-S -t Square''] [TOPIC_NOT_CREATED, TOPIC_NOT_CREATED] basic_check
       [silent_child, silent_child] [[], []] = Returned rep \<and> case_result rep = Passed
     \<and> attributes rep = [(''Publisher_1'', ''-P -t Square''), (''Subscriber_1'', ''-S -t Square'')]"
  (is "\<exists>rep. ?run = Returned rep \<and> _")
proof -
  have "?run = Returned \<lparr>case_name = ''T'', attributes = [(''Publisher_1'', ''-P -t Square''), (''Subscriber_1'', ''-S -t Square'')],
      case_result = Passed\<rparr>" by code_simp
  from this and run_test_verdict [OF this] show ?thesis by auto
qed

text \<open>
  Completing the parameters changes no test. For both data representations the completed
  applications are the same entities, with the same names and the same option \<open>-w\<close>; and completing
  them again (the lists of the suite are updated in place) adds nothing.
\<close>

theorem completion_keeps_entities:
  assumes "data_representation opts = ''1'' \<or> data_representation opts = ''2''"
  shows "entity_types p s (map (complete_parameters opts) params) = entity_types p s params
    \<and> map (has_option ''-w'' \<circ> complete_parameters opts) params = map (has_option ''-w'') params
    \<and> map (complete_parameters opts) (map (complete_parameters opts) params) = map (complete_parameters opts) params"
proof (intro conjI)
  have same: "has_option ''-P'' (complete_parameters opts e) = has_option ''-P'' e"
    "has_option ''-S'' (complete_parameters opts e) = has_option ''-S'' e"
    "has_option ''-w'' (complete_parameters opts e) = has_option ''-w'' e" for e
    by (rule complete_parameters_kind [OF _ assms]; simp add: kind_option_def)+
  show "entity_types p s (map (complete_parameters opts) params) = entity_types p s params"
    by (induction p s params rule: entity_types.induct) (simp_all add: same)
  show "map (has_option ''-w'' \<circ> complete_parameters opts) params = map (has_option ''-w'') params"
    by (simp add: same)
  show "map (complete_parameters opts) (map (complete_parameters opts) params) = map (complete_parameters opts) params"
    by (simp add: complete_parameters_idem)
qed

definition xcdr2 :: options where
  "xcdr2 = \<lparr>publisher = ''connext_shape_main'', subscriber = ''opendds_shape_main'', test_cases = None,
     test_cases_disabled = Some [''U''], data_representation = ''2'', periodic_announcement_ms = 100\<rparr>"

lemma completion_keeps_entities_witness:
  "entity_types 0 0 (map (complete_parameters xcdr2) [''-P -t Square'', ''-S -w'']) = Inr [''Publisher_1'', ''Subscriber_1'']
   \<and> complete_parameters xcdr2 ''-P -t Square'' = ''-P -t Square -x 2 --periodic-announcement 100''"
proof -
  have "data_representation xcdr2 = ''1'' \<or> data_representation xcdr2 = ''2''" by (simp add: xcdr2_def)
  from completion_keeps_entities [OF this, of 0 0 "[''-P -t Square'', ''-S -w'']"]
  have "entity_types 0 0 (map (complete_parameters xcdr2) [''-P -t Square'', ''-S -w'']) = entity_types 0 0 [''-P -t Square'', ''-S -w'']"
    by (rule conjunct1)
  moreover have "entity_types 0 0 [''-P -t Square'', ''-S -w''] = Inr [''Publisher_1'', ''Subscriber_1'']" by code_simp
  moreover have "complete_parameters xcdr2 ''-P -t Square'' = ''-P -t Square -x 2 --periodic-announcement 100''" by code_simp
  ultimately show ?thesis by simp
qed

lemma rmap_Inr_iff: "rmap f xs = Inr ys \<longleftrightarrow> list_all2 (\<lambda>x y. f x = Inr y) xs ys"
  by (induction xs arbitrary: ys) (auto simp: rbind_Inr_iff list_all2_Cons1)

lemma selected_iff:
  "selected opts name \<longleftrightarrow> (\<forall>ns. test_cases_disabled opts = Some ns \<longrightarrow> name \<notin> set ns)
     \<and> (\<forall>ns. test_cases opts = Some ns \<longrightarrow> name \<in> set ns)"
  by (simp add: selected_def split: option.splits)

lemma prepare_case_Inr:
  "prepare_case opts s (name, test) = Inr j \<longleftrightarrow> length (apps test) = length (expected_codes test)
    \<and> j = \<lparr>job_name = s @ ''_'' @ name, job_parameters = map (complete_parameters opts) (apps test),
           job_codes = expected_codes test,
           job_check = (case check_function test of None \<Rightarrow> Basic_Check | Some f \<Rightarrow> f)\<rparr>"
  by (auto simp: prepare_case_def)

lemma selection_facts:
  assumes "select_cases opts suite_name test_suite = Inr jobs"
  shows "map job_name jobs = map (\<lambda>name. suite_name @ ''_'' @ name) (filter (selected opts) (dkeys test_suite))
    \<and> (\<forall>ns. test_cases opts = Some ns \<or> test_cases_disabled opts = Some ns \<longrightarrow> set ns \<subseteq> set (dkeys test_suite))
    \<and> list_all2 (\<lambda>(name, test) j. job_codes j = expected_codes test
          \<and> job_parameters j = map (complete_parameters opts) (apps test)
          \<and> length (job_parameters j) = length (job_codes j)
          \<and> job_check j = (case check_function test of None \<Rightarrow> Basic_Check | Some f \<Rightarrow> f))
        (filter (\<lambda>(name, _). selected opts name) test_suite) jobs"
proof (intro conjI)
  from assms have known: "are_tests_in_test_suite test_suite (test_cases opts)"
    "are_tests_in_test_suite test_suite (test_cases_disabled opts)"
    and prepared: "list_all2 (\<lambda>x j. prepare_case opts suite_name x = Inr j) (filter (\<lambda>(name, _). selected opts name) test_suite) jobs"
    by (auto simp: select_cases_def rmap_Inr_iff split: if_splits)
  from known show "\<forall>ns. test_cases opts = Some ns \<or> test_cases_disabled opts = Some ns \<longrightarrow> set ns \<subseteq> set (dkeys test_suite)"
    by (auto simp: are_tests_in_test_suite_def list_all_iff)
  have "map job_name jobs = map (\<lambda>x. suite_name @ ''_'' @ fst x) (filter (\<lambda>(name, _). selected opts name) test_suite)"
    using prepared by (induction rule: list_all2_induct) (auto simp: prepare_case_Inr)
  moreover have "map fst (filter (\<lambda>(name, _). selected opts name) test_suite) = filter (selected opts) (dkeys test_suite)"
    by (simp add: filter_map comp_def case_prod_beta')
  ultimately show "map job_name jobs = map (\<lambda>name. suite_name @ ''_'' @ name) (filter (selected opts) (dkeys test_suite))"
    by (metis (no_types, lifting) map_map comp_def map_eq_conv)
  show "list_all2 (\<lambda>(name, test) j. job_codes j = expected_codes test
          \<and> job_parameters j = map (complete_parameters opts) (apps test)
          \<and> length (job_parameters j) = length (job_codes j)
          \<and> job_check j = (case check_function test of None \<Rightarrow> Basic_Check | Some f \<Rightarrow> f))
        (filter (\<lambda>(name, _). selected opts name) test_suite) jobs"
    using prepared by (rule list_all2_mono) (auto simp: prepare_case_Inr)
qed



end
