(* ===== verification/Py_Text.thy ===== *)
theory Py_Text
  imports Prelude "HOL-Library.List_Lexorder" "HOL-Library.Char_ord" "HOL-Library.Product_Lexorder"
begin

text \<open>
  More of Python's text functions, which the report modules use: \<open>repr\<close> and \<open>str\<close> of strings and tuples,
  the order of strings and pairs that \<open>sorted\<close> uses (the lexicographic orders of the library), and
  the format specifications \<open>:,\<close>, \<open>:5\<close> and \<open>:20\<close>.
\<close>

section \<open>\<open>repr\<close>\<close>

definition hex_digit :: "nat \<Rightarrow> char" where
  "hex_digit n = char_of (if n < 10 then 48 + n else 87 + n)"

definition repr_char :: "char \<Rightarrow> char \<Rightarrow> string" where
  "repr_char quote c =
     (if c = quote \<or> code_of c = 92 then [CHR 0x5C, c]
      else if code_of c = 9 then [CHR 0x5C, CHR ''t'']
      else if code_of c = 10 then [CHR 0x5C, CHR ''n'']
      else if code_of c = 13 then [CHR 0x5C, CHR ''r'']
      else if code_of c < 32 \<or> 127 \<le> code_of c \<and> code_of c \<le> 160 \<or> code_of c = 173
      then [CHR 0x5C, CHR ''x'', hex_digit (code_of c div 16), hex_digit (code_of c mod 16)]
      else [c])"

definition quote_for :: "string \<Rightarrow> char" where   \<comment> \<open>double quotes when there is an apostrophe and no double quote\<close>
  "quote_for s = (if CHR 0x27 \<in> set s \<and> CHR 0x22 \<notin> set s then CHR 0x22 else CHR 0x27)"

definition py_repr :: "string \<Rightarrow> string" where
  "py_repr s = (let q = quote_for s in [q] @ concat (map (repr_char q) s) @ [q])"

definition repr_tuple :: "string list \<Rightarrow> string" where   \<comment> \<open>the parts are given as their \<open>repr\<close>\<close>
  "repr_tuple xs = ''('' @ join '', '' xs @ (if length xs = 1 then '','' else []) @ '')''"

section \<open>Order\<close>

text \<open>
  \<open>sorted(xs, key=f)\<close> is stable, as is the library's \<open>sort_key\<close>.  A key that is negated in the source
  (\<open>-x\<close>) is an integer here.
\<close>

section \<open>Format specifications\<close>

fun group3 :: "string \<Rightarrow> string" where   \<comment> \<open>of the reversed digits\<close>
  "group3 (a # b # c # d # s) = a # b # c # CHR '','' # group3 (d # s)"
| "group3 s = s"

definition show_thousands :: "nat \<Rightarrow> string" where   \<comment> \<open>\<open>{n:,}\<close>\<close>
  "show_thousands n = rev (group3 (rev (show_nat n)))"

definition pad_left :: "nat \<Rightarrow> string \<Rightarrow> string" where   \<comment> \<open>\<open>{n:5}\<close> of a number\<close>
  "pad_left w s = replicate (w - length s) (CHR '' '') @ s"

definition pad_right :: "nat \<Rightarrow> string \<Rightarrow> string" where   \<comment> \<open>\<open>{s:20}\<close> of a string\<close>
  "pad_right w s = s @ replicate (w - length s) (CHR '' '')"

lemma pad_length: "length (pad_left w s) = max w (length s)" "length (pad_right w s) = max w (length s)"
  by (simp_all add: pad_left_def pad_right_def)

text \<open>Taking the separators out gives the digits back.\<close>

lemma group3_digits: "CHR '','' \<notin> set s \<Longrightarrow> filter (\<lambda>c. c \<noteq> CHR '','') (group3 s) = s"
  by (induction s rule: group3.induct) (auto simp: filter_id_conv)

lemma show_thousands_value: "digits_val (filter (\<lambda>c. c \<noteq> CHR '','') (show_thousands n)) = int n"
proof -
  have "CHR '','' \<notin> set (rev (show_nat n))"
    using show_nat_digits [of n] by (auto simp: list_all_iff is_digit_def)
  from group3_digits [OF this] show ?thesis
    by (simp add: show_thousands_def digits_val_show_nat flip: rev_filter)
qed

definition unlines :: "string list \<Rightarrow> string" where   \<comment> \<open>\<open>"\n".join(lines) + "\n"\<close>\<close>
  "unlines xs = join [CHR 0x0A] xs @ [CHR 0x0A]"

section \<open>\<open>repr\<close> is injective\<close>

lemma hex_digit_code: "n < 16 \<Longrightarrow> code_of (hex_digit n) = (if n < 10 then 48 + n else 87 + n)"
  by (simp add: hex_digit_def take_bit_eq_mod)

lemma hex_digit_inj: "m < 16 \<Longrightarrow> n < 16 \<Longrightarrow> hex_digit m = hex_digit n \<Longrightarrow> m = n"
proof -
  assume less: "m < 16" "n < 16" and "hex_digit m = hex_digit n"
  then have "code_of (hex_digit m) = code_of (hex_digit n)" by simp
  then have "(if m < 10 then 48 + m else 87 + m) = (if n < 10 then 48 + n else 87 + n)"
    unfolding hex_digit_code [OF less(1)] hex_digit_code [OF less(2)] .
  with less show ?thesis by (simp split: if_splits)
qed

definition quote_ok :: "char \<Rightarrow> bool" where "quote_ok q \<longleftrightarrow> q = CHR 0x27 \<or> q = CHR 0x22"

lemma char_by_code: "code_of c = code_of d \<Longrightarrow> c = d" by simp

lemma repr_char_cases:
  obtains "repr_char q c = [c]" "c \<noteq> q" "c \<noteq> CHR 0x5C"
  | "repr_char q c = [CHR 0x5C, c]" "c = q \<or> c = CHR 0x5C"
  | "repr_char q c = [CHR 0x5C, CHR ''t'']" "c = CHR 0x09"
  | "repr_char q c = [CHR 0x5C, CHR ''n'']" "c = CHR 0x0A"
  | "repr_char q c = [CHR 0x5C, CHR ''r'']" "c = CHR 0x0D"
  | "repr_char q c = [CHR 0x5C, CHR ''x'', hex_digit (code_of c div 16), hex_digit (code_of c mod 16)]"
proof -
  have codes: "code_of c = 92 \<longleftrightarrow> c = CHR 0x5C" "code_of c = 9 \<longleftrightarrow> c = CHR 0x09" "code_of c = 10 \<longleftrightarrow> c = CHR 0x0A"
    "code_of c = 13 \<longleftrightarrow> c = CHR 0x0D"
    using char_by_code [of c "CHR 0x5C"] char_by_code [of c "CHR 0x09"] char_by_code [of c "CHR 0x0A"] char_by_code [of c "CHR 0x0D"]
    by auto
  note d = repr_char_def [of q c]
  show ?thesis
  proof (cases "c = q \<or> c = CHR 0x5C")
    case True
    with d codes show ?thesis by (intro that(2)) auto
  next
    case special: False
    show ?thesis
    proof (cases "code_of c = 9 \<or> code_of c = 10 \<or> code_of c = 13")
      case True
      with special d codes that(3-5) show ?thesis by auto
    next
      case False
      with special d codes that(1,6) show ?thesis
        by (cases "code_of c < 32 \<or> 127 \<le> code_of c \<and> code_of c \<le> 160 \<or> code_of c = 173") simp_all
    qed
  qed
qed

lemma hex_pair_inj:
  assumes "hex_digit (code_of c div 16) = hex_digit (code_of d div 16)" "hex_digit (code_of c mod 16) = hex_digit (code_of d mod 16)"
  shows "c = d"
proof -
  have lt: "code_of e div 16 < 16" for e :: char
    using char_of_quasi_inj by (simp add: div_less_iff_less_mult)
  have "code_of c div 16 = code_of d div 16" "code_of c mod 16 = code_of d mod 16"
    using hex_digit_inj assms lt by auto
  then have "code_of c = code_of d" by (metis div_mult_mod_eq)
  then show ?thesis by simp
qed

lemma repr_char_prefix:
  assumes "quote_ok q" "repr_char q c @ u = repr_char q d @ v"
  shows "c = d \<and> u = v"
  using assms
  by (cases rule: repr_char_cases [of q c]; cases rule: repr_char_cases [of q d])
     (auto simp: quote_ok_def dest: hex_pair_inj)

lemma repr_char_not_quote: "repr_char q c @ u \<noteq> q # v" if "quote_ok q"
  using that by (cases rule: repr_char_cases [of q c]) (auto simp: quote_ok_def)

lemma repr_body:
  assumes "quote_ok q"
  shows "concat (map (repr_char q) s) @ q # x = concat (map (repr_char q) t) @ q # y \<Longrightarrow> s = t \<and> x = y"
proof (induction s arbitrary: t)
  case Nil
  then show ?case using repr_char_not_quote [OF assms] by (cases t) (auto dest: sym)
next
  case (Cons c s)
  show ?case
  proof (cases t)
    case Nil
    with Cons.prems repr_char_not_quote [OF assms] show ?thesis by auto
  next
    case (Cons d t')
    with Cons.prems have "repr_char q c @ (concat (map (repr_char q) s) @ q # x)
        = repr_char q d @ (concat (map (repr_char q) t') @ q # y)" by simp
    from repr_char_prefix [OF assms this] Cons.IH [of t'] Cons show ?thesis by simp
  qed
qed

lemma py_repr_prefix: "py_repr s @ x = py_repr t @ y \<Longrightarrow> s = t \<and> x = y"
proof -
  assume eq: "py_repr s @ x = py_repr t @ y"
  then have "quote_for s = quote_for t" by (simp add: py_repr_def Let_def)
  moreover have "quote_ok (quote_for t)" by (simp add: quote_ok_def quote_for_def)
  moreover from eq calculation(1) have "concat (map (repr_char (quote_for t)) s) @ quote_for t # x
      = concat (map (repr_char (quote_for t)) t) @ quote_for t # y" by (simp add: py_repr_def Let_def)
  ultimately show ?thesis using repr_body by blast
qed

lemma join_Cons: "join sep (x # xs) = x @ concat (map (\<lambda>y. sep @ y) xs)"
  by (induction xs arbitrary: x) simp_all

definition repr_pair :: "string \<times> string \<Rightarrow> string" where
  "repr_pair p = (case p of (k, v) \<Rightarrow> repr_tuple [py_repr k, py_repr v])"

lemma repr_pair_prefix: "repr_pair p @ x = repr_pair r @ y \<Longrightarrow> p = r \<and> x = y"
proof -
  obtain k v l w where pr: "p = (k, v)" "r = (l, w)" by (cases p; cases r)
  assume "repr_pair p @ x = repr_pair r @ y"
  then have "py_repr k @ ('', '' @ py_repr v @ '')'' @ x) = py_repr l @ ('', '' @ py_repr w @ '')'' @ y)"
    by (simp add: pr repr_pair_def repr_tuple_def)
  from py_repr_prefix [OF this] have "k = l" "py_repr v @ '')'' @ x = py_repr w @ '')'' @ y" by simp_all
  with py_repr_prefix [OF this(2)] pr show ?thesis by simp
qed

lemma repr_pairs_rest:
  "concat (map (\<lambda>p. '', '' @ repr_pair p) ps) @ '')'' @ x = concat (map (\<lambda>p. '', '' @ repr_pair p) rs) @ '')'' @ y
   \<Longrightarrow> ps = rs \<and> x = y"
proof (induction ps arbitrary: rs)
  case Nil
  then show ?case by (cases rs) simp_all
next
  case (Cons p ps)
  then obtain r rs' where rs: "rs = r # rs'" by (cases rs) auto
  with Cons.prems have "repr_pair p @ (concat (map (\<lambda>p. '', '' @ repr_pair p) ps) @ '')'' @ x)
      = repr_pair r @ (concat (map (\<lambda>p. '', '' @ repr_pair p) rs') @ '')'' @ y)" by simp
  from repr_pair_prefix [OF this] Cons.IH [of rs'] rs show ?case by simp
qed

lemma repr_pairs_Cons:
  "repr_tuple (map repr_pair (p # ps)) = ''('' @ repr_pair p
     @ (if ps = [] then '',)'' else concat (map (\<lambda>p. '', '' @ repr_pair p) ps) @ '')'')"
  by (cases ps) (simp_all add: repr_tuple_def join_Cons comp_def)

lemma repr_pair_start: "\<exists>t. repr_pair p = CHR ''('' # t"
  by (cases p) (simp add: repr_pair_def repr_tuple_def)

lemma repr_pairs_inj: "repr_tuple (map repr_pair ps) = repr_tuple (map repr_pair rs) \<Longrightarrow> ps = rs"
proof (cases ps; cases rs)
  fix p ps' r rs'
  assume eq: "repr_tuple (map repr_pair ps) = repr_tuple (map repr_pair rs)" and c: "ps = p # ps'" "rs = r # rs'"
  let ?rest = "\<lambda>ps. if ps = [] then '',)'' else concat (map (\<lambda>p. '', '' @ repr_pair p) ps) @ '')''"
  from eq have "repr_pair p @ ?rest ps' = repr_pair r @ ?rest rs'" unfolding c repr_pairs_Cons by simp
  from repr_pair_prefix [OF this] have "p = r" "?rest ps' = ?rest rs'" by simp_all
  moreover from this(2) have "ps' = rs'"
    using repr_pairs_rest [of ps' "[]" rs' "[]"] by (cases ps'; cases rs') simp_all
  ultimately show ?thesis by (simp add: c)
next
  fix r rs'
  assume "repr_tuple (map repr_pair ps) = repr_tuple (map repr_pair rs)" "ps = []" "rs = r # rs'"
  with repr_pairs_Cons [of r rs'] repr_pair_start [of r] show ?thesis by (auto simp: repr_tuple_def)
next
  fix p ps'
  assume "repr_tuple (map repr_pair ps) = repr_tuple (map repr_pair rs)" "ps = p # ps'" "rs = []"
  with repr_pairs_Cons [of p ps'] repr_pair_start [of p] show ?thesis by (auto simp: repr_tuple_def)
qed simp

end
