(* ===== verification/Difflib.thy ===== *)
theory Difflib
  imports Py_Text
begin

text \<open>
  The functions of Python's \<open>difflib\<close> and \<open>str\<close> that the detail of a comparison is printed with:
  \<open>splitlines\<close> and \<open>unified_diff\<close> with three lines of context, which rests on \<open>SequenceMatcher\<close>.  No
  element is junk; elements that a long text repeats often (\<open>autojunk\<close>) do not start a match.
\<close>

section \<open>\<open>splitlines\<close>\<close>

definition line_break :: "char \<Rightarrow> bool" where
  "line_break c \<longleftrightarrow> code_of c \<in> {10, 11, 12, 13, 28, 29, 30, 133}"

fun split_at_breaks :: "string \<Rightarrow> string \<Rightarrow> string list" where
  "split_at_breaks line [] = (if line = [] then [] else [line])"
| "split_at_breaks line (c # s) =
     (if line_break c
      then line # split_at_breaks [] (if c = CHR 0x0D \<and> starts_with [CHR 0x0A] s then tl s else s)
      else split_at_breaks (line @ [c]) s)"

definition splitlines :: "string \<Rightarrow> string list" where "splitlines s = split_at_breaks [] s"

section \<open>The longest match\<close>

definition b2j :: "'a list \<Rightarrow> 'a \<Rightarrow> nat list" where
  "b2j b x =
     (let js = filter (\<lambda>j. b ! j = x) [0..<length b] in
      if 200 \<le> length b \<and> length b div 100 + 1 < length js then [] else js)"

definition match_row :: "nat \<Rightarrow> nat list \<Rightarrow> (nat, nat) dict \<Rightarrow> nat \<times> nat \<times> nat \<Rightarrow> (nat, nat) dict \<times> (nat \<times> nat \<times> nat)" where
  "match_row i js j2len best =
     foldl (\<lambda>(new, (bi, bj, bs)) j.
       let k = (case j of 0 \<Rightarrow> 0 | Suc j' \<Rightarrow> dget_or j2len j' 0) + 1 in
       (dset j k new, if k > bs then (Suc i - k, Suc j - k, k) else (bi, bj, bs))) ([], best) js"

definition longest_run :: "'a list \<Rightarrow> 'a list \<Rightarrow> nat \<Rightarrow> nat \<Rightarrow> nat \<Rightarrow> nat \<Rightarrow> nat \<times> nat \<times> nat" where
  "longest_run a b alo ahi blo bhi =
     snd (foldl (\<lambda>(j2len, best) i. match_row i (filter (\<lambda>j. blo \<le> j \<and> j < bhi) (b2j b (a ! i))) j2len best)
       ([], (alo, blo, 0)) [alo..<ahi])"

fun extend_back :: "'a list \<Rightarrow> 'a list \<Rightarrow> nat \<Rightarrow> nat \<Rightarrow> nat \<times> nat \<times> nat \<Rightarrow> nat \<times> nat \<times> nat" where
  "extend_back a b alo blo (Suc i, Suc j, k) =
     (if alo \<le> i \<and> blo \<le> j \<and> a ! i = b ! j then extend_back a b alo blo (i, j, Suc k) else (Suc i, Suc j, k))"
| "extend_back a b alo blo x = x"

function extend_on :: "'a list \<Rightarrow> 'a list \<Rightarrow> nat \<Rightarrow> nat \<Rightarrow> nat \<times> nat \<times> nat \<Rightarrow> nat \<times> nat \<times> nat" where
  "extend_on a b ahi bhi (i, j, k) =
     (if i + k < ahi \<and> j + k < bhi \<and> a ! (i + k) = b ! (j + k) then extend_on a b ahi bhi (i, j, Suc k) else (i, j, k))"
  by pat_completeness auto
termination by (relation "measure (\<lambda>(_, _, ahi, _, i, _, k). ahi - (i + k))") auto

declare extend_on.simps [simp del]

definition find_longest_match :: "'a list \<Rightarrow> 'a list \<Rightarrow> nat \<Rightarrow> nat \<Rightarrow> nat \<Rightarrow> nat \<Rightarrow> nat \<times> nat \<times> nat" where
  "find_longest_match a b alo ahi blo bhi =
     extend_on a b ahi bhi (extend_back a b alo blo (longest_run a b alo ahi blo bhi))"

text \<open>A match lies in the given ranges.\<close>

fun in_range :: "nat \<Rightarrow> nat \<Rightarrow> nat \<Rightarrow> nat \<Rightarrow> nat \<times> nat \<times> nat \<Rightarrow> bool" where
  "in_range alo ahi blo bhi (i, j, k) \<longleftrightarrow>
     alo \<le> i \<and> blo \<le> j \<and> (if k = 0 then i = alo \<and> j = blo else i + k \<le> ahi \<and> j + k \<le> bhi)"

definition rows_in_range :: "nat \<Rightarrow> nat \<Rightarrow> nat \<Rightarrow> (nat, nat) dict \<Rightarrow> bool" where
  "rows_in_range n alo blo d \<longleftrightarrow> (\<forall>j k. dget d j = Some k \<longrightarrow> k \<le> n \<and> blo + k \<le> Suc j)"

lemma match_row_in_range:
  assumes "rows_in_range (i - alo) alo blo j2len" "alo \<le> i" "i < ahi" "in_range alo ahi blo bhi best"
    and "\<And>j. j \<in> set js \<Longrightarrow> blo \<le> j \<and> j < bhi"
  shows "rows_in_range (Suc i - alo) alo blo (fst (match_row i js j2len best))
    \<and> in_range alo ahi blo bhi (snd (match_row i js j2len best))"
  using assms(5)
proof (induction js rule: rev_induct)
  case Nil
  with assms show ?case by (simp add: match_row_def rows_in_range_def)
next
  case (snoc j js)
  obtain new bi bj bs where st: "match_row i js j2len best = (new, (bi, bj, bs))" by (rule prod_cases4)
  let ?k = "(case j of 0 \<Rightarrow> 0 | Suc j' \<Rightarrow> dget_or j2len j' 0) + 1"
  have k: "?k \<le> Suc i - alo" "blo + ?k \<le> Suc j"
    using assms(1,2) snoc.prems [of j] by (auto simp: rows_in_range_def dget_or_def split: nat.splits option.splits) force+
  have j: "blo \<le> j" "j < bhi" using snoc.prems [of j] by simp_all
  have "rows_in_range (Suc i - alo) alo blo new" "in_range alo ahi blo bhi (bi, bj, bs)"
    using snoc st by simp_all
  with st assms(2,3) j k show ?case
    by (auto simp: match_row_def Let_def rows_in_range_def dget_dset split: if_splits)
qed

lemma longest_run_in_range: "in_range alo ahi blo bhi (longest_run a b alo ahi blo bhi)"
proof -
  let ?row = "\<lambda>(j2len, best) i. match_row i (filter (\<lambda>j. blo \<le> j \<and> j < bhi) (b2j b (a ! i))) j2len best"
  have "alo + n \<le> ahi \<Longrightarrow> (let st = foldl ?row ([], (alo, blo, 0)) [alo..<alo + n] in
      rows_in_range n alo blo (fst st) \<and> in_range alo ahi blo bhi (snd st))" for n
  proof (induction n)
    case 0
    then show ?case by (simp add: rows_in_range_def)
  next
    case (Suc n)
    obtain d best where st: "foldl ?row ([], (alo, blo, 0)) [alo..<alo + n] = (d, best)"
      by (rule prod.exhaust)
    from Suc st have "rows_in_range (Suc (alo + n) - alo) alo blo (fst (?row (d, best) (alo + n)))
        \<and> in_range alo ahi blo bhi (snd (?row (d, best) (alo + n)))"
      unfolding prod.case by (intro match_row_in_range) (auto simp: Let_def)
    with st show ?case by (simp add: Let_def)
  qed
  from this [of "ahi - alo"] show ?thesis by (cases "alo \<le> ahi") (simp_all add: longest_run_def Let_def)
qed

lemma extend_back_in_range: "in_range alo ahi blo bhi x \<Longrightarrow> in_range alo ahi blo bhi (extend_back a b alo blo x)"
  by (induction a b alo blo x rule: extend_back.induct) (auto split: if_splits)

lemma extend_on_in_range: "in_range alo ahi blo bhi x \<Longrightarrow> in_range alo ahi blo bhi (extend_on a b ahi bhi x)"
  by (induction a b ahi bhi x rule: extend_on.induct) (subst extend_on.simps, auto)

lemma find_longest_match_in_range: "in_range alo ahi blo bhi (find_longest_match a b alo ahi blo bhi)"
  unfolding find_longest_match_def by (intro extend_on_in_range extend_back_in_range longest_run_in_range)

section \<open>The operations that turn one list into the other\<close>

text \<open>The matching blocks in order: what the source collects with a stack and sorts.\<close>

function match_blocks :: "'a list \<Rightarrow> 'a list \<Rightarrow> nat \<Rightarrow> nat \<Rightarrow> nat \<Rightarrow> nat \<Rightarrow> (nat \<times> nat \<times> nat) list" where
  "match_blocks a b alo ahi blo bhi =
     (case find_longest_match a b alo ahi blo bhi of (i, j, k) \<Rightarrow>
        if k = 0 then []
        else (if alo < i \<and> blo < j then match_blocks a b alo i blo j else [])
          @ (i, j, k) # (if i + k < ahi \<and> j + k < bhi then match_blocks a b (i + k) ahi (j + k) bhi else []))"
  by pat_completeness auto
termination
proof (relation "measure (\<lambda>(_, _, alo, ahi, _, _). ahi - alo)", goal_cases)
  case (2 a b alo ahi blo bhi i y j k)
  with find_longest_match_in_range [of alo ahi blo bhi a b] show ?case by (cases y) (auto dest!: sym [of "(_, _)"])
next
  case (3 a b alo ahi blo bhi i y j k)
  with find_longest_match_in_range [of alo ahi blo bhi a b] show ?case by (cases y) (auto dest!: sym [of "(_, _)"])
qed simp

declare match_blocks.simps [simp del]

fun merge_adjacent :: "nat \<times> nat \<times> nat \<Rightarrow> (nat \<times> nat \<times> nat) list \<Rightarrow> (nat \<times> nat \<times> nat) list" where
  "merge_adjacent (i1, j1, k1) [] = (if k1 = 0 then [] else [(i1, j1, k1)])"
| "merge_adjacent (i1, j1, k1) ((i2, j2, k2) # bs) =
     (if i1 + k1 = i2 \<and> j1 + k1 = j2 then merge_adjacent (i1, j1, k1 + k2) bs
      else (if k1 = 0 then [] else [(i1, j1, k1)]) @ merge_adjacent (i2, j2, k2) bs)"

definition get_matching_blocks :: "'a list \<Rightarrow> 'a list \<Rightarrow> (nat \<times> nat \<times> nat) list" where
  "get_matching_blocks a b =
     merge_adjacent (0, 0, 0) (match_blocks a b 0 (length a) 0 (length b)) @ [(length a, length b, 0)]"

datatype tag = Equal | Replace | Delete | Insert

type_synonym opcode = "tag \<times> nat \<times> nat \<times> nat \<times> nat"

fun opcodes_from :: "nat \<Rightarrow> nat \<Rightarrow> (nat \<times> nat \<times> nat) list \<Rightarrow> opcode list" where
  "opcodes_from i j [] = []"
| "opcodes_from i j ((ai, bj, n) # bs) =
     (if i < ai \<and> j < bj then [(Replace, i, ai, j, bj)]
      else if i < ai then [(Delete, i, ai, j, bj)]
      else if j < bj then [(Insert, i, ai, j, bj)] else [])
     @ (if n = 0 then [] else [(Equal, ai, ai + n, bj, bj + n)])
     @ opcodes_from (ai + n) (bj + n) bs"

definition get_opcodes :: "'a list \<Rightarrow> 'a list \<Rightarrow> opcode list" where
  "get_opcodes a b = opcodes_from 0 0 (get_matching_blocks a b)"

section \<open>The text of the difference\<close>

definition trim_first :: "opcode list \<Rightarrow> opcode list" where
  "trim_first codes = (case codes of (Equal, i1, i2, j1, j2) # cs \<Rightarrow> (Equal, max i1 (i2 - 3), i2, max j1 (j2 - 3), j2) # cs | _ \<Rightarrow> codes)"

definition trim_last :: "opcode list \<Rightarrow> opcode list" where
  "trim_last codes =
     (case rev codes of (Equal, i1, i2, j1, j2) # cs \<Rightarrow> rev ((Equal, i1, min i2 (i1 + 3), j1, min j2 (j1 + 3)) # cs) | _ \<Rightarrow> codes)"

fun group_opcodes :: "opcode list \<Rightarrow> opcode list \<Rightarrow> opcode list list" where
  "group_opcodes grp [] = (if grp = [] \<or> length grp = 1 \<and> fst (hd grp) = Equal then [] else [grp])"
| "group_opcodes grp ((tag, i1, i2, j1, j2) # cs) =
     (if tag = Equal \<and> 6 < i2 - i1
      then (grp @ [(Equal, i1, min i2 (i1 + 3), j1, min j2 (j1 + 3))])
        # group_opcodes [(Equal, max i1 (i2 - 3), i2, max j1 (j2 - 3), j2)] cs
      else group_opcodes (grp @ [(tag, i1, i2, j1, j2)]) cs)"

definition get_grouped_opcodes :: "'a list \<Rightarrow> 'a list \<Rightarrow> opcode list list" where
  "get_grouped_opcodes a b =
     (let codes = get_opcodes a b in
      group_opcodes [] (trim_last (trim_first (if codes = [] then [(Equal, 0, 1, 0, 1)] else codes))))"

definition format_range :: "nat \<Rightarrow> nat \<Rightarrow> string" where
  "format_range start stop =
     (let len = stop - start in
      if len = 1 then show_nat (start + 1)
      else show_nat (if len = 0 then start else start + 1) @ '','' @ show_nat len)"

definition slice :: "'a list \<Rightarrow> nat \<Rightarrow> nat \<Rightarrow> 'a list" where "slice xs i j = drop i (take j xs)"

fun opcode_lines :: "string list \<Rightarrow> string list \<Rightarrow> opcode \<Rightarrow> string list" where
  "opcode_lines a b (tag, i1, i2, j1, j2) =
     (if tag = Equal then map (\<lambda>l. '' '' @ l) (slice a i1 i2)
      else (if tag = Replace \<or> tag = Delete then map (\<lambda>l. ''-'' @ l) (slice a i1 i2) else [])
        @ (if tag = Replace \<or> tag = Insert then map (\<lambda>l. ''+'' @ l) (slice b j1 j2) else []))"

definition group_lines :: "string list \<Rightarrow> string list \<Rightarrow> opcode list \<Rightarrow> string list" where
  "group_lines a b grp =
     (case (hd grp, last grp) of ((_, i1, _, j1, _), (_, _, i2, _, j2)) \<Rightarrow>
        (''@@ -'' @ format_range i1 i2 @ '' +'' @ format_range j1 j2 @ '' @@'') # concat (map (opcode_lines a b) grp))"

definition unified_diff :: "string list \<Rightarrow> string list \<Rightarrow> string \<Rightarrow> string \<Rightarrow> string list" where   \<comment> \<open>with an empty \<open>lineterm\<close>\<close>
  "unified_diff a b fromfile tofile =
     (let groups = get_grouped_opcodes a b in
      if groups = [] then [] else (''--- '' @ fromfile) # (''+++ '' @ tofile) # concat (map (group_lines a b) groups))"

end
