(* ===== verification/Console.thy ===== *)
theory Console
  imports Interop_Report Difflib
begin

text \<open>
  What \<open>run_test\<close> prints about a test case on the console: the verdict with its reasons, the codes, and
  the first line of an application's output that tells why it failed.
\<close>

definition reason_words :: "string list" where
  "reason_words = [''failed to'', ''error allocating'', ''[error]'', ''error:'']"

definition clean_lines :: "string \<Rightarrow> string list" where
  "clean_lines out = map (\<lambda>l. py_strip (remove_ansi_colors l)) (splitlines out)"

type_synonym entity_run = "(string \<times> ReturnCode \<times> ReturnCode) \<times> string"   \<comment> \<open>entity, expected, produced; output\<close>

definition unsupported_reasons :: "entity_run list \<Rightarrow> string list" where
  "unsupported_reasons rs = concat (map (\<lambda>((entity, expected, produced), out).
     if produced \<in> {PUB_UNSUPPORTED_FEATURE, SUB_UNSUPPORTED_FEATURE}
     then [case List.find (\<lambda>l. str_in ''not supported'' (py_lower l)) (clean_lines out) of
             Some line \<Rightarrow> entity @ '': '' @ line
           | None \<Rightarrow> entity @ '': '' @ code_name produced]
     else []) rs)"

definition failure_reasons :: "entity_run list \<Rightarrow> string list" where
  "failure_reasons rs = concat (map (\<lambda>((entity, expected, produced), out).
     if produced \<noteq> expected then [entity @ '': got '' @ code_name produced @ '', expected '' @ code_name expected] else []) rs)"

definition code_line :: "entity_run \<Rightarrow> string" where
  "code_line run = (case run of ((entity, expected, produced), out) \<Rightarrow>
     entity @ '' expected code: '' @ code_name expected @ ''; Code found: '' @ code_name produced)"

definition failure_lines :: "entity_run \<Rightarrow> string list" where
  "failure_lines run = (case run of ((entity, expected, produced), out) \<Rightarrow>
     code_line run #
     (if produced \<noteq> expected
      then (case List.find (\<lambda>l. list_ex (\<lambda>kw. str_in kw (py_lower l)) reason_words) (clean_lines out) of
              Some line \<Rightarrow> [''  -> Reason from '' @ entity @ '': '' @ line]
            | None \<Rightarrow> [])
      else []))"

definition console_lines :: "string \<Rightarrow> entity_run list \<Rightarrow> string list" where
  "console_lines name rs =
     (if list_all (\<lambda>((_, expected, produced), _). expected = produced) rs then [name @ '' : OK'']
      else if is_unsupported (map (\<lambda>((_, _, produced), _). produced) rs) then
        (let reasons = unsupported_reasons rs;
             reason_str = (if reasons \<noteq> [] then join ''; '' reasons else ''Feature not supported by DDS vendor'') in
         (name @ '' : UNSUPPORTED ('' @ reason_str @ '')'') # map code_line rs)
      else (name @ '' : FAILED ('' @ join ''; '' (failure_reasons rs) @ '')'') # concat (map failure_lines rs))"

text \<open>There is always a reason to print: the text for no reason is never used.\<close>

lemma reason_of_entity:
  "x \<in> set rs \<Longrightarrow> snd (snd (fst x)) \<in> {PUB_UNSUPPORTED_FEATURE, SUB_UNSUPPORTED_FEATURE} \<Longrightarrow> unsupported_reasons rs \<noteq> []"
  by (induction rs) (auto simp: unsupported_reasons_def)

lemma unsupported_has_reason:
  "is_unsupported (map (\<lambda>((_, _, produced), _). produced) rs) \<Longrightarrow> unsupported_reasons rs \<noteq> []"
  using reason_of_entity [of _ rs] by (fastforce simp: is_unsupported_def list_ex_iff)

end
