(* ===== verification/Models.thy ===== *)
theory Models
  imports Utilities Py_Text
begin

text \<open>
  \<open>benchmarking/junit_compare/models.py\<close>: the refined status of a test result, the sets of codes the
  classification uses, a test result, its key and its label.
\<close>

datatype RichStatus =
    PASSED | PASSED_AS_SKIPPED | SKIPPED_UNSUPPORTED | SKIPPED_OTHER | FAILURE_QOS_UNEXPECTED
  | FAILURE_FALSE_PASS | FAILURE_DATA | FAILURE_ORDERING | FAILURE_INFRASTRUCTURE | FAILURE_OTHER | ERROR

fun rich_value :: "RichStatus \<Rightarrow> string" where
  "rich_value PASSED = ''passed''"
| "rich_value PASSED_AS_SKIPPED = ''passed_as_skipped''"
| "rich_value SKIPPED_UNSUPPORTED = ''skipped_unsupported''"
| "rich_value SKIPPED_OTHER = ''skipped_other''"
| "rich_value FAILURE_QOS_UNEXPECTED = ''failure_qos_unexpected''"
| "rich_value FAILURE_FALSE_PASS = ''failure_false_pass''"
| "rich_value FAILURE_DATA = ''failure_data''"
| "rich_value FAILURE_ORDERING = ''failure_ordering''"
| "rich_value FAILURE_INFRASTRUCTURE = ''failure_infrastructure''"
| "rich_value FAILURE_OTHER = ''failure_other''"
| "rich_value ERROR = ''error''"

text \<open>A member of the enumeration is its string (\<open>class RichStatus(str, Enum)\<close>), also in comparisons.\<close>

lemma rich_value_inj: "rich_value r = rich_value s \<Longrightarrow> r = s"
  by (cases r; cases s) simp_all

instantiation RichStatus :: linorder
begin

definition less_eq_RichStatus :: "RichStatus \<Rightarrow> RichStatus \<Rightarrow> bool" where
  "less_eq_RichStatus r s \<longleftrightarrow> rich_value r \<le> rich_value s"

definition less_RichStatus :: "RichStatus \<Rightarrow> RichStatus \<Rightarrow> bool" where
  "less_RichStatus r s \<longleftrightarrow> rich_value r < rich_value s"

instance
  by standard (auto simp: less_eq_RichStatus_def less_RichStatus_def dest: rich_value_inj)

end

definition UNSUPPORTED_CODES :: "string list" where
  "UNSUPPORTED_CODES = [''SUB_UNSUPPORTED_FEATURE'', ''PUB_UNSUPPORTED_FEATURE'']"

definition DATA_CODES :: "string list" where
  "DATA_CODES = [''DATA_NOT_CORRECT'', ''DATA_NOT_RECEIVED'', ''DATA_NOT_SENT'']"

definition ORDERING_CODES :: "string list" where
  "ORDERING_CODES = [''ORDERED_ACCESS_INSTANCE'', ''ORDERED_ACCESS_TOPIC'', ''RECEIVING_FROM_ONE'',
     ''RECEIVING_FROM_BOTH'', ''DEADLINE_MISSED'']"

definition INFRA_CODES :: "string list" where
  "INFRA_CODES = [''READER_NOT_CREATED'', ''WRITER_NOT_CREATED'', ''TOPIC_NOT_CREATED'', ''READER_NOT_MATCHED'']"

type_synonym OutcomeRow = "string \<times> string \<times> string"   \<comment> \<open>role, expected code, produced code\<close>

type_synonym test_key = "string \<times> string \<times> (string \<times> string) list"

record TestResult =
  result_suite :: string
  result_name :: string
  result_attributes :: "(string \<times> string) list"
  result_status :: string
  rich_status :: RichStatus
  result_detail :: string
  result_time :: string
  outcome_rows :: "OutcomeRow list"

definition result_key :: "TestResult \<Rightarrow> test_key" where
  "result_key r = (result_suite r, result_name r, result_attributes r)"

definition key_label :: "test_key \<Rightarrow> string" where
  "key_label key = (case key of (suite, name, attributes) \<Rightarrow>
     let config = join '', '' (map (\<lambda>(k, v). k @ ''='' @ v) attributes) in
     suite @ '' / '' @ name @ (if config \<noteq> [] then '' ['' @ config @ '']'' else []))"

definition test_label :: "TestResult \<Rightarrow> string" where
  "test_label result = key_label (result_key result)"

text \<open>\<open>str(key)\<close>, the sort key of \<open>compare\<close>.\<close>

definition key_str :: "test_key \<Rightarrow> string" where
  "key_str key = (case key of (suite, name, attributes) \<Rightarrow>
     repr_tuple [py_repr suite, py_repr name,
                 repr_tuple (map (\<lambda>(k, v). repr_tuple [py_repr k, py_repr v]) attributes)])"

text \<open>Different keys have different texts, so that the order of \<open>compare\<close> is determined.\<close>

lemma key_str_inj: "key_str k = key_str l \<Longrightarrow> k = l"
proof -
  obtain s n a where k: "k = (s, n, a)" by (cases k)
  obtain s' n' a' where l: "l = (s', n', a')" by (cases l)
  have pairs: "map (\<lambda>(k, v). repr_tuple [py_repr k, py_repr v]) a = map repr_pair a" for a
    by (simp add: repr_pair_def)
  assume "key_str k = key_str l"
  then have "py_repr s @ ('', '' @ py_repr n @ '', '' @ repr_tuple (map repr_pair a) @ '')'')
      = py_repr s' @ ('', '' @ py_repr n' @ '', '' @ repr_tuple (map repr_pair a') @ '')'')"
    by (simp add: k l key_str_def pairs repr_tuple_def [of "[_, _, _]"])
  from py_repr_prefix [OF this] have "s = s'"
    "py_repr n @ ('', '' @ repr_tuple (map repr_pair a) @ '')'') = py_repr n' @ ('', '' @ repr_tuple (map repr_pair a') @ '')'')"
    by simp_all
  moreover from py_repr_prefix [OF this(2)] have "n = n'" "repr_tuple (map repr_pair a) = repr_tuple (map repr_pair a')"
    by simp_all
  ultimately show ?thesis using repr_pairs_inj k l by simp
qed

end
