(* ===== verification/Loader.thy ===== *)
theory Loader
  imports Models Interop_Report
begin

text \<open>
  \<open>benchmarking/junit_compare/loader.py\<close>: the rows of the result table in a message, the
  classification of an outcome, and \<open>load_results\<close> on the element tree that
  \<open>xml.etree.ElementTree\<close> parses a report into (the tree is the input here).
\<close>

section \<open>The result table\<close>

definition cell :: "nat \<Rightarrow> re" where   \<comment> \<open>\<open><th>([^<]+)</th>\<close>\<close>
  "cell n = Seqs [Lit ''<th>'', Grp n (Plus (CNot (CChar (CHR ''<'')))), Lit ''</th>'']"

definition table_row_re :: re where
  "table_row_re = Seqs [cell 1, Rep True CSpace, cell 2, Rep True CSpace, cell 3]"

definition group_text :: "re_match \<Rightarrow> nat \<Rightarrow> string" where   \<comment> \<open>a group of a tuple \<open>findall\<close> gives\<close>
  "group_text m n = (case group m n of None \<Rightarrow> [] | Some w \<Rightarrow> w)"

definition parse_outcome_rows :: "string \<Rightarrow> OutcomeRow list" where
  "parse_outcome_rows message =
     concat (map (\<lambda>m. let role = py_strip (group_text m 1) in
         if role = [] \<or> role = ''Expected Code'' then []
         else [(role, py_strip (group_text m 2), py_strip (group_text m 3))])
       (re_findall table_row_re message))"

section \<open>Classification\<close>

text \<open>\<open>Counter(xs).most_common(1)[0][0]\<close>: of the most frequent elements the one seen first.\<close>

definition counter :: "string list \<Rightarrow> (string, nat) dict" where
  "counter xs = foldl (\<lambda>d x. dadd x 1 d) [] xs"

fun first_max :: "(string \<times> nat) \<Rightarrow> (string, nat) dict \<Rightarrow> string \<times> nat" where
  "first_max best [] = best"
| "first_max best (p # d) = first_max (if snd p > snd best then p else best) d"

definition most_common :: "string list \<Rightarrow> string res" where
  "most_common xs = (case counter xs of [] \<Rightarrow> Inl IndexError | p # d \<Rightarrow> Inr (fst (first_max p d)))"

definition classify_failure :: "string \<Rightarrow> RichStatus" where
  "classify_failure dominant =
     (if dominant = ''INCOMPATIBLE_QOS'' then FAILURE_QOS_UNEXPECTED
      else if dominant = ''OK'' then FAILURE_FALSE_PASS
      else if dominant \<in> set DATA_CODES then FAILURE_DATA
      else if dominant \<in> set ORDERING_CODES then FAILURE_ORDERING
      else if dominant \<in> set INFRA_CODES then FAILURE_INFRASTRUCTURE
      else FAILURE_OTHER)"

definition mismatch_codes :: "OutcomeRow list \<Rightarrow> string list" where
  "mismatch_codes rows = map (snd \<circ> snd) (filter (\<lambda>(_, e, p). e \<noteq> p) rows)"

definition classify_outcome :: "string \<Rightarrow> OutcomeRow list \<Rightarrow> RichStatus res" where
  "classify_outcome xml_tag rows =
     (if xml_tag = ''passed'' then Inr PASSED
      else if xml_tag = ''error'' then Inr ERROR
      else
        let unsupported = list_ex (\<lambda>(_, _, p). p \<in> set UNSUPPORTED_CODES) rows in
        if xml_tag = ''skipped'' then
          Inr (if unsupported then SKIPPED_UNSUPPORTED
               else if list_all (\<lambda>(_, e, p). e = p) rows then PASSED_AS_SKIPPED
               else SKIPPED_OTHER)
        else if unsupported then Inr SKIPPED_UNSUPPORTED
        else if mismatch_codes rows = [] then Inr FAILURE_OTHER
        else rbind (most_common (mismatch_codes rows)) (\<lambda>dominant. Inr (classify_failure dominant)))"

section \<open>The element tree\<close>

datatype xml = Element (el_tag: string) (el_attrib: "(string, string) dict") (el_text: string)
    (el_children: "xml list") (el_tail: string)

fun inner_text :: "xml \<Rightarrow> string" where   \<comment> \<open>\<open>"".join(node.itertext())\<close>\<close>
  "inner_text (Element _ _ text children _) = text @ concat (map (\<lambda>c. inner_text c @ el_tail c) children)"

fun descendants :: "xml \<Rightarrow> xml list" where   \<comment> \<open>in document order, without the element itself\<close>
  "descendants (Element _ _ _ children _) = concat (map (\<lambda>c. c # descendants c) children)"

definition attr :: "xml \<Rightarrow> string \<Rightarrow> string" where   \<comment> \<open>\<open>node.get(key, "")\<close>\<close>
  "attr node key = dget_or (el_attrib node) key []"

definition find_child :: "string \<Rightarrow> xml \<Rightarrow> xml option" where
  "find_child name node = List.find (\<lambda>c. el_tag c = name) (el_children node)"

definition node_detail :: "xml \<Rightarrow> string" where
  "node_detail node =
     (let text = py_strip (inner_text node); message = py_strip (attr node ''message'') in
      if message \<noteq> [] \<and> text \<noteq> [] then py_strip (message @ [CHR 0x0A] @ text)
      else if message \<noteq> [] then message else text)"

section \<open>Loading\<close>

definition case_outcome :: "xml \<Rightarrow> string \<times> string \<times> OutcomeRow list" where   \<comment> \<open>\<open>xml_tag, detail, outcome_rows\<close>\<close>
  "case_outcome testcase =
     (case find_child ''failure'' testcase of
        Some failure \<Rightarrow> (''failure'', node_detail failure, parse_outcome_rows (attr failure ''message''))
      | None \<Rightarrow> (case find_child ''error'' testcase of
          Some error \<Rightarrow> (''error'', node_detail error, [])
        | None \<Rightarrow> (case find_child ''skipped'' testcase of
            Some skipped \<Rightarrow> (''skipped'', node_detail skipped, parse_outcome_rows (attr skipped ''message''))
          | None \<Rightarrow> (''passed'', [], []))))"

definition load_case :: "string \<Rightarrow> xml \<Rightarrow> TestResult res" where
  "load_case suite_name testcase =
     (case case_outcome testcase of (xml_tag, detail, rows) \<Rightarrow>
        rbind (classify_outcome xml_tag rows) (\<lambda>rich. Inr
          \<lparr>result_suite = suite_name,
           result_name = attr testcase ''name'',
           result_attributes = sort (filter (\<lambda>(key, _). key \<noteq> ''name'' \<and> key \<noteq> ''time'') (el_attrib testcase)),
           result_status = xml_tag, rich_status = rich, result_detail = detail,
           result_time = attr testcase ''time'', outcome_rows = rows\<rparr>))"

type_synonym results = "(test_key, TestResult) dict"

definition add_result :: "TestResult \<Rightarrow> results \<Rightarrow> results res" where
  "add_result result results =
     (if result_key result \<in> set (dkeys results) then Inl ValueError   \<comment> \<open>duplicate testcase key\<close>
      else Inr (dset (result_key result) result results))"

definition report_cases :: "xml \<Rightarrow> (string \<times> xml) list" where   \<comment> \<open>the cases with the name of their suite\<close>
  "report_cases root =
     concat (map (\<lambda>suite. map (\<lambda>c. (attr suite ''name'', c)) (filter (\<lambda>c. el_tag c = ''testcase'') (el_children suite)))
       (filter (\<lambda>e. el_tag e = ''testsuite'') (descendants root)))"

definition load_results :: "xml \<Rightarrow> ((string, string) dict \<times> results) res" where
  "load_results root =
     rbind (rfold (\<lambda>(suite_name, testcase) results.
         rbind (load_case suite_name testcase) (\<lambda>result. add_result result results))
       (report_cases root) [])
     (\<lambda>results. Inr (el_attrib root, results))"

section \<open>Classification never fails\<close>

lemma counter_snoc: "counter (xs @ [x]) = dadd x 1 (counter xs)"
  by (simp add: counter_def)

lemma counter_keys: "set (dkeys (counter xs)) = set xs"
  by (induction xs rule: rev_induct) (auto simp: counter_snoc dadd_def dset_keys counter_def)

lemma first_max_in: "first_max best d \<in> insert best (set d)"
  by (induction best d rule: first_max.induct) (auto split: if_splits)

lemma most_common_in:
  assumes "xs \<noteq> []"
  shows "\<exists>x \<in> set xs. most_common xs = Inr x"
proof -
  from assms counter_keys [of xs] obtain p d where c: "counter xs = p # d" by (cases "counter xs") auto
  then have "first_max p d \<in> set (counter xs)" using first_max_in [of p d] by auto
  then have "fst (first_max p d) \<in> set xs" using counter_keys [of xs] by (metis imageI list.set_map)
  then show ?thesis by (simp add: most_common_def c)
qed

lemma classify_outcome_ok: "\<exists>r. classify_outcome tag rows = Inr r"
  using most_common_in [of "mismatch_codes rows"] by (auto simp: classify_outcome_def Let_def)

lemma load_case_ok: "\<exists>r. load_case s c = Inr r"
proof -
  obtain tag detail rows where o: "case_outcome c = (tag, detail, rows)" by (cases "case_outcome c")
  obtain rich where "classify_outcome tag rows = Inr rich" using classify_outcome_ok by blast
  with o show ?thesis by (simp add: load_case_def)
qed

section \<open>Loading a report\<close>

definition loaded :: "xml \<Rightarrow> TestResult list" where
  "loaded root = map (\<lambda>(s, c). projr (load_case s c)) (report_cases root)"

abbreviation keyed :: "TestResult list \<Rightarrow> results" where
  "keyed rs \<equiv> map (\<lambda>r. (result_key r, r)) rs"

lemma dset_new: "k \<notin> set (dkeys d) \<Longrightarrow> dset k v d = d @ [(k, v)]"
  by (induction d) auto

lemma load_fold:
  "rfold (\<lambda>(s, c) results. rbind (load_case s c) (\<lambda>r. add_result r results)) cs d =
   rfold add_result (map (\<lambda>(s, c). projr (load_case s c)) cs) d"
proof (induction cs arbitrary: d)
  case (Cons p cs)
  obtain r where "load_case (fst p) (snd p) = Inr r" using load_case_ok by blast
  with Cons.IH show ?case by (cases p; cases "add_result r d") simp_all
qed simp

lemma add_results:
  "distinct (dkeys d) \<Longrightarrow> rfold add_result rs d =
   (if distinct (dkeys d @ map result_key rs) then Inr (d @ keyed rs) else Inl ValueError)"
proof (induction rs arbitrary: d)
  case (Cons r rs)
  show ?case
  proof (cases "result_key r \<in> set (dkeys d)")
    case False
    with Cons.prems have "distinct (dkeys (d @ [(result_key r, r)]))" by simp
    from Cons.IH [OF this] False show ?thesis by (simp add: add_result_def dset_new)
  qed (auto simp: add_result_def)
qed simp

lemma load_results_cases:
  "load_results root =
     (if distinct (map result_key (loaded root)) then Inr (el_attrib root, keyed (loaded root))
      else Inl ValueError)"
  by (simp add: load_results_def load_fold add_results loaded_def)

section \<open>Properties\<close>

text \<open>
  C21: \<open>load_results\<close> keeps every test case. Whatever the report holds, classification raises nothing:
  the only failure is the \<open>ValueError\<close> for two cases with the same suite, name and attributes, and
  without one the result has exactly the cases of the report, in document order, each under its key.
\<close>

theorem load_results_complete:
  "load_results root =
     (if distinct (map result_key (loaded root)) then Inr (el_attrib root, keyed (loaded root))
      else Inl ValueError)"
  by (rule load_results_cases)

end
