(* ===== verification/Read_Back.thy ===== *)
theory Read_Back
  imports Loader
begin

text \<open>
  What \<open>interoperability_report.py\<close> writes into a report, \<open>junit_compare\<close> reads back: the table that
  \<open>run_test\<close> builds is parsed by \<open>parse_outcome_rows\<close>, and the outcome is classified by it.
\<close>

section \<open>ANSI removal and text without table cells\<close>

lemma ansi_needs_esc: "code_of c \<noteq> 27 \<Longrightarrow> mt ansi_escape (c # s) = []"
  by (auto simp: ansi_escape_def)

lemma remove_ansi_prefix:
  "(\<And>c. c \<in> set p \<Longrightarrow> code_of c \<noteq> (27::nat)) \<Longrightarrow> remove_ansi_colors (p @ s) = p @ remove_ansi_colors s"
  by (induction p) (simp_all add: remove_ansi_colors_def sub_skip ansi_needs_esc)

text \<open>Every \<open><\<close> opens one of the tags of the text part of a message.\<close>

fun tags_ok :: "string \<Rightarrow> bool" where
  "tags_ok [] = True"
| "tags_ok (c # s) = ((c \<noteq> CHR ''<'' \<or> (s \<noteq> [] \<and> hd s \<in> {CHR ''b'', CHR ''s'', CHR ''/''})) \<and> tags_ok s)"

lemma tags_ok_append: "tags_ok p \<Longrightarrow> tags_ok s \<Longrightarrow> tags_ok (p @ s)"
  by (induction p) (auto simp: hd_append)

lemma tags_ok_suffix: "tags_ok (p @ s) \<Longrightarrow> tags_ok s"
  by (induction p) auto

lemma tags_ok_concat: "(\<And>p. p \<in> set ps \<Longrightarrow> tags_ok p) \<Longrightarrow> tags_ok (concat ps)"
  by (induction ps) (auto intro: tags_ok_append)

lemma tags_ok_plain: "CHR ''<'' \<notin> set s \<Longrightarrow> tags_ok s"
  by (induction s) auto

lemma tags_ok_remove: "tags_ok s \<Longrightarrow> tags_ok (re_sub ansi_escape [] s)"
proof (induction "length s" arbitrary: s rule: less_induct)
  case less
  show ?case
  proof (cases "mt ansi_escape s")
    case Nil
    show ?thesis
    proof (cases s)
      case (Cons c u)
      then have sub: "re_sub ansi_escape [] s = c # re_sub ansi_escape [] u"
        using Nil sub_skip by simp
      have u: "tags_ok (re_sub ansi_escape [] u)" using less Cons by simp
      show ?thesis
      proof (cases "c = CHR ''<''")
        case True
        with less.prems Cons obtain d v where "u = d # v" "d \<in> {CHR ''b'', CHR ''s'', CHR ''/''}"
          by (cases u) auto
        then have "mt ansi_escape (d # v) = []" by (intro ansi_needs_esc) auto
        with \<open>u = d # v\<close> have "re_sub ansi_escape [] u = d # re_sub ansi_escape [] v" by (simp add: sub_skip)
        with sub u \<open>d \<in> _\<close> show ?thesis by auto
      qed (use sub u in auto)
    qed (use Nil in \<open>simp add: re_sub.simps\<close>)
  next
    case (Cons m ms)
    obtain w cs t where m: "m = (w, cs, t)" by (cases m)
    with Cons have in_mt: "(w, cs, t) \<in> set (mt ansi_escape s)" by simp
    from mt_sound [OF this] have s: "s = w @ t" and w: "w \<in> lang ansi_escape" by auto
    from w have "w \<noteq> []" by (auto simp: ansi_escape_def lang.simps(3))
    with Cons m have "re_sub ansi_escape [] s = re_sub ansi_escape [] t"
      by (subst re_sub.simps) simp
    moreover from \<open>w \<noteq> []\<close> less s have "tags_ok (re_sub ansi_escape [] t)" using tags_ok_suffix by simp
    ultimately show ?thesis by simp
  qed
qed

section \<open>Matches of the row pattern\<close>

lemma row_starts:
  assumes "mt table_row_re s \<noteq> []"
  shows "\<exists>t. s = ''<th>'' @ t"
proof -
  obtain q p where re: "table_row_re = Seq (Seq (Lit ''<th>'') q) p"
    by (simp add: table_row_re_def cell_def Seqs.simps)
  obtain w cs t ms where "mt table_row_re s = (w, cs, t) # ms"
    using assms by (cases "mt table_row_re s") auto
  then have "s = w @ t \<and> w \<in> lang table_row_re" using mt_sound by (metis list.set_intros(1))
  then show ?thesis unfolding re lang.simps(3) lang_Lit by fastforce
qed

lemma findall_none: "tags_ok s \<Longrightarrow> re_findall table_row_re s = []"
proof (induction s)
  case Nil
  have "mt table_row_re [] = []" using row_starts [of "[]"] by auto
  then show ?case by (simp add: re_findall.simps)
next
  case (Cons c s)
  then have "\<not> (\<exists>t. c # s = ''<th>'' @ t)" by auto
  with row_starts [of "c # s"] have "mt table_row_re (c # s) = []" by blast
  with Cons show ?case by (simp add: findall_skip)
qed

lemma findall_char: "\<not> starts_with ''<th>'' (c # s) \<Longrightarrow> re_findall table_row_re (c # s) = re_findall table_row_re s"
  using row_starts [of "c # s"] by (intro findall_skip) (auto simp: starts_with_iff)

lemma head_no_row:
  "re_findall table_row_re (table_head @ s) = re_findall table_row_re s"
proof -
  have cells: "mt table_row_re (''<th> Expected Code </th> <th> Code Produced </th> </tr> '' @ s) = []"
    "mt table_row_re (''<th> Code Produced </th> </tr> '' @ s) = []"
    by (simp_all add: table_row_re_def cell_def Seqs.simps Lit.simps Plus_def Let_def is_space_def)
  then have "re_findall table_row_re (''<th> Code Produced </th> </tr> '' @ s) = re_findall table_row_re s"
    by (simp add: findall_skip findall_char)
  with cells(1) have "re_findall table_row_re (''<th> Expected Code </th> <th> Code Produced </th> </tr> '' @ s) = re_findall table_row_re s"
    by (simp add: findall_skip findall_char)
  then show ?thesis by (simp add: table_head_def findall_char)
qed

lemma cell_first:
  assumes "x \<noteq> []" "CHR ''<'' \<notin> set x"
  shows "first (cell n) (''<th>'' @ x @ ''</th>'' @ s) (''<th>'' @ x @ ''</th>'', [(n, x)], s)"
proof -
  have "first (Plus (CNot (CChar (CHR ''<'')))) (x @ ''</th>'' @ s) (x, [], ''</th>'' @ s)"
    by (rule first_Plus) (use assms in \<open>auto simp: list_all_iff\<close>)
  from first_Seq [OF first_Lit [of "''<th>''"] first_Seq [OF first_Grp [OF this] first_Lit], of n] show ?thesis
    by (simp add: cell_def Seqs.simps)
qed

lemma space_first: "first (Rep True CSpace) ('' '' @ ''<th>'' @ s) ('' '', [], ''<th>'' @ s)"
  by (rule first_Rep) (simp_all add: is_space_def)

abbreviation padded :: "string \<Rightarrow> string" where "padded x \<equiv> '' '' @ x @ '' ''"

lemma row_first:
  assumes "CHR ''<'' \<notin> set x" "CHR ''<'' \<notin> set y" "CHR ''<'' \<notin> set z"
  shows "first table_row_re
      (''<th>'' @ padded x @ ''</th>'' @ '' '' @ ''<th>'' @ padded y @ ''</th>'' @ '' '' @ ''<th>'' @ padded z @ ''</th>'' @ s)
      (''<th>'' @ padded x @ ''</th>'' @ '' '' @ ''<th>'' @ padded y @ ''</th>'' @ '' '' @ ''<th>'' @ padded z @ ''</th>'',
       [(1, padded x), (2, padded y), (3, padded z)], s)"
proof -
  have "first (cell n) (''<th>'' @ padded w @ ''</th>'' @ t) (''<th>'' @ padded w @ ''</th>'', [(n, padded w)], t)"
    if "CHR ''<'' \<notin> set w" for n w t
    by (rule cell_first) (use that in auto)
  note cells = this [OF assms(1)] this [OF assms(2)] this [OF assms(3)]
  from first_Seq [OF cells(1) first_Seq [OF space_first first_Seq [OF cells(2) first_Seq [OF space_first cells(3)]]]]
  show ?thesis by (simp add: table_row_re_def Seqs.simps)
qed

definition cell_ok :: "string \<Rightarrow> bool" where
  "cell_ok x \<longleftrightarrow> x \<noteq> [] \<and> CHR ''<'' \<notin> set x \<and> \<not> is_space (hd x) \<and> \<not> is_space (last x) \<and> x \<noteq> ''Expected Code''"

lemma strip_cell: "cell_ok x \<Longrightarrow> py_strip (padded x) = x"
  unfolding cell_ok_def by (intro strip_padded) (simp_all add: is_space_def)

lemma code_cell: "cell_ok (code_name r)"
  by (cases r) (simp_all add: cell_ok_def is_space_def)

definition read_row :: "string \<times> ReturnCode \<times> ReturnCode \<Rightarrow> OutcomeRow" where
  "read_row row = (case row of (n, e, p) \<Rightarrow> (n, code_name e, code_name p))"

lemma parse_table:
  assumes "\<And>row. row \<in> set rows \<Longrightarrow> cell_ok (fst row)" and "tags_ok s"
  shows "parse_outcome_rows (concat (map table_row rows) @ ''</table>'' @ s) = map read_row rows"
  using assms(1)
proof (induction rows)
  case Nil
  have "tags_ok (''</table>'' @ s)" using assms(2) by (auto intro: tags_ok_append)
  from findall_none [OF this] show ?case by (simp add: parse_outcome_rows_def)
next
  case (Cons row rows)
  obtain n e p where row: "row = (n, e, p)" by (cases row)
  let ?rest = "concat (map table_row rows) @ ''</table>'' @ s"
  let ?w = "''<th>'' @ padded n @ ''</th>'' @ '' '' @ ''<th>'' @ padded (code_name e) @ ''</th>'' @ '' '' @ ''<th>'' @ padded (code_name p) @ ''</th>''"
  have shape: "concat (map table_row (row # rows)) @ ''</table>'' @ s = ''<tr> '' @ ?w @ '' </tr>'' @ ?rest"
    by (simp add: row table_row_def)
  have ok: "cell_ok n" using Cons.prems [of row] row by simp
  have "first table_row_re (?w @ '' </tr>'' @ ?rest)
      (?w, [(1, padded n), (2, padded (code_name e)), (3, padded (code_name p))], '' </tr>'' @ ?rest)"
    using row_first [of n "code_name e" "code_name p" "'' </tr>'' @ ?rest"] ok code_cell by (simp add: cell_ok_def)
  from findall_first [OF this]
  have "re_findall table_row_re (''<tr> '' @ ?w @ '' </tr>'' @ ?rest) =
      (?w, [(1, padded n), (2, padded (code_name e)), (3, padded (code_name p))], '' </tr>'' @ ?rest)
        # re_findall table_row_re ?rest"
    by (simp add: findall_char)
  with Cons ok code_cell show ?case
    unfolding shape parse_outcome_rows_def
    by (simp add: group_text_def group_def strip_cell [simplified] read_row_def row cell_ok_def)
qed

definition name_ok :: "string \<Rightarrow> bool" where
  "name_ok x \<longleftrightarrow> cell_ok x \<and> (\<forall>c \<in> set x. code_of c \<noteq> (27::nat))"

lemma edit_output_pieces:
  "edit_output out = concat (map (\<lambda>d. if d = newline \<or> d = CHR 0x03 then ''<br>'' else [d]) out)"
  by (induction out) (auto simp: edit_output_def replace_char_def newline_def)

lemma tags_ok_edit: "CHR ''<'' \<notin> set out \<Longrightarrow> tags_ok (edit_output out)"
  unfolding edit_output_pieces by (rule tags_ok_concat) (auto simp: tags_ok_plain)

lemma tags_ok_information:
  assumes "cell_ok n" "CHR ''<'' \<notin> set out"
  shows "tags_ok (information (n, out))"
proof -
  have "tags_ok (''<strong> Information '' @ n @ '' </strong><br> '' @ edit_output out @ '' <br>'')"
    using assms tags_ok_plain [of n]
    by (intro tags_ok_append tags_ok_edit) (simp_all add: cell_ok_def)
  then show ?thesis by (simp add: information_def)
qed

lemma row_plain: "name_ok (fst row) \<Longrightarrow> c \<in> set (table_row row) \<Longrightarrow> code_of c \<noteq> (27::nat)"
proof -
  have "code_of c \<noteq> (27::nat)" if "c \<in> set (code_name r)" for c r
    using that by (cases r) auto
  then show "name_ok (fst row) \<Longrightarrow> c \<in> set (table_row row) \<Longrightarrow> code_of c \<noteq> (27::nat)"
    by (cases row) (auto simp: table_row_def name_ok_def)
qed

lemma numbered_ok:
  assumes "u = ''Publisher_'' \<or> u = ''Subscriber_''"
  shows "name_ok (u @ show_nat k)"
proof -
  have ne: "show_nat k \<noteq> []" and d: "\<forall>c \<in> set (show_nat k). is_digit c"
    using show_nat_digits [of k] by (auto simp: list_all_iff)
  then have "is_digit (last (show_nat k))" by simp
  then have end_ok: "\<not> is_space (last (u @ show_nat k))" using ne digit_not_space by simp
  have "\<forall>c \<in> set (show_nat k). code_of c \<noteq> (27::nat) \<and> c \<noteq> CHR ''<''"
    using d by (auto simp: is_digit_def)
  moreover have "u \<noteq> []" "\<not> is_space (hd u)" "hd u \<noteq> CHR ''E''" "CHR ''<'' \<notin> set u" "\<forall>c \<in> set u. code_of c \<noteq> (27::nat)"
    using assms by (auto simp: is_space_def)
  moreover from this have "hd (u @ show_nat k) = hd u" "u @ show_nat k \<noteq> []" by simp_all
  moreover from this have "u @ show_nat k \<noteq> ''Expected Code''"
    using \<open>hd u \<noteq> CHR ''E''\<close> by (metis list.sel(1))
  ultimately show ?thesis
    using end_ok unfolding name_ok_def cell_ok_def by (metis Un_iff set_append)
qed

lemma entity_name_ok: "entity_name p s x \<Longrightarrow> name_ok x"
  unfolding entity_name_def using numbered_ok by blast

lemma message_parsed:
  assumes "list_all (\<lambda>row. name_ok (fst row)) rows" "list_all (\<lambda>out. CHR ''<'' \<notin> set out) outputs"
  shows "parse_outcome_rows (report_message rows outputs) = map read_row rows"
proof -
  let ?table = "table_head @ concat (map table_row rows) @ ''</table>''"
  let ?info = "concat (map information (zip (map fst rows) outputs))"
  have esc: "code_of c \<noteq> (27::nat)" if "c \<in> set ?table" for c
    using that row_plain assms(1) by (auto simp: table_head_def list_all_iff)
  have "tags_ok (information (n, out))" if "(n, out) \<in> set (zip (map fst rows) outputs)" for n out
  proof (rule tags_ok_information)
    from that have "n \<in> set (map fst rows)" "out \<in> set outputs" by (rule set_zip_leftD, rule set_zip_rightD)
    with assms show "cell_ok n" "CHR ''<'' \<notin> set out" by (auto simp: list_all_iff name_ok_def)
  qed
  then have "tags_ok ?info" by (intro tags_ok_concat) auto
  then have info: "tags_ok (remove_ansi_colors ?info)"
    unfolding remove_ansi_colors_def by (rule tags_ok_remove)
  have "report_message rows outputs = ?table @ remove_ansi_colors ?info"
    unfolding report_message_def using remove_ansi_prefix [of ?table ?info] esc by simp
  then have "parse_outcome_rows (report_message rows outputs) =
      parse_outcome_rows (table_head @ concat (map table_row rows) @ ''</table>'' @ remove_ansi_colors ?info)"
    by simp
  also have "\<dots> = parse_outcome_rows (concat (map table_row rows) @ ''</table>'' @ remove_ansi_colors ?info)"
    unfolding parse_outcome_rows_def head_no_row ..
  also have "\<dots> = map read_row rows"
    by (rule parse_table [OF _ info]) (use assms(1) in \<open>auto simp: list_all_iff name_ok_def\<close>)
  finally show ?thesis .
qed

text \<open>The reports of \<open>run_test\<close>.\<close>

lemma run_test_parts:
  assumes "run_test name parameters expected check children outputs = Returned rep"
    and "length children = length parameters"
  obtains names codes where "entity_types 0 0 parameters = Inr names"
    "run_entities check (zip parameters children) = Returned codes"
    "length names = length parameters" "length codes = length parameters" "length parameters \<le> length expected"
    "list_all (\<lambda>row. name_ok (fst row)) (zip names (zip expected codes))"
    "case_result rep = judge (zip names (zip expected codes)) outputs"
proof -
  let ?n = "length parameters"
  from assms(1) obtain names codes ex where r: "entity_types 0 0 parameters = Inr names"
    "run_entities check (zip parameters children) = Returned codes"
    "rmap (py_nth expected) [0..<?n] = Inr ex" "case_result rep = judge (zip names (zip ex codes)) outputs"
    by (auto simp: run_test_def from_res_Returned_iff run_bind_Returned_iff)
  from rmap_nth [OF r(3)] have short: "\<forall>k < ?n. k < length expected" and "ex = map ((!) expected) [0..<?n]" by auto
  then have ex: "ex = take ?n expected" and le: "?n \<le> length expected"
    using nth_take_upt by (auto simp: not_less intro: leI)
  have n: "length names = ?n" "\<forall>x \<in> set names. entity_name 0 0 x" using entity_types_names [OF r(1)] by auto
  have c: "length codes = ?n" using run_entities_length [OF r(2)] assms(2) by simp
  have "zip ex codes = zip expected codes" using ex c le by (intro nth_equalityI) simp_all
  moreover have "list_all (\<lambda>row. name_ok (fst row)) (zip names (zip expected codes))"
    unfolding list_all_iff using n(2) entity_name_ok by (metis prod.collapse set_zip_leftD)
  ultimately show ?thesis using that r n(1) c le by metis
qed

lemma judge_message:
  assumes "judge rows outputs = Skipped m \<or> judge rows outputs = Failure m"
  shows "m = report_message rows outputs"
  using assms by (auto simp: judge_def split: if_splits)

section \<open>Properties\<close>

text \<open>
  C19: What a report says is read back. The message that \<open>run_test\<close> stores with a case that is not
  passed, whatever ANSI colours and line breaks the applications printed (but no \<open><\<close>), gives with
  \<open>parse_outcome_rows\<close> exactly one row per entity, in order: its name, the expected and the produced code.
\<close>

theorem report_read_back:
  assumes "run_test name parameters expected check children outputs = Returned rep"
    and "length children = length parameters"
    and "list_all (\<lambda>out. CHR ''<'' \<notin> set out) outputs"
    and "case_result rep = Skipped m \<or> case_result rep = Failure m"
  shows "\<exists>names codes. entity_types 0 0 parameters = Inr names
    \<and> run_entities check (zip parameters children) = Returned codes
    \<and> parse_outcome_rows m = zip names (zip (map code_name expected) (map code_name codes))
    \<and> length (parse_outcome_rows m) = length parameters"
proof -
  from run_test_parts [OF assms(1,2)] obtain names codes where r:
    "entity_types 0 0 parameters = Inr names" "run_entities check (zip parameters children) = Returned codes"
    "length names = length parameters" "length codes = length parameters" "length parameters \<le> length expected"
    "list_all (\<lambda>row. name_ok (fst row)) (zip names (zip expected codes))"
    "case_result rep = judge (zip names (zip expected codes)) outputs" by metis
  have "m = report_message (zip names (zip expected codes)) outputs"
    using judge_message assms(4) r(7) by metis
  with message_parsed [OF r(6) assms(3)] have "parse_outcome_rows m = map read_row (zip names (zip expected codes))" by simp
  also have "\<dots> = zip names (zip (map code_name expected) (map code_name codes))"
    by (auto simp: read_row_def zip_map1 zip_map2 map_zip_map2 intro!: nth_equalityI)
  finally show ?thesis using r by auto
qed

definition coloured_output :: string where   \<comment> \<open>a red line of an application\<close>
  "coloured_output = [CHR 0x1B] @ ''[31mfailed'' @ [CHR 0x1B] @ ''[0m'' @ [CHR 0x0A]"

lemma report_read_back_witness:
  "parse_outcome_rows (report_message [(''Publisher_1'', TOPIC_NOT_CREATED, TOPIC_NOT_CREATED), (''Subscriber_1'', OK, TOPIC_NOT_CREATED)]
      [coloured_output, []])
   = [(''Publisher_1'', ''TOPIC_NOT_CREATED'', ''TOPIC_NOT_CREATED''), (''Subscriber_1'', ''OK'', ''TOPIC_NOT_CREATED'')]"
proof -
  let ?ps = "[''-P -t Square'', ''-S -t Square'']" and ?ex = "[TOPIC_NOT_CREATED, OK]"
  let ?m = "report_message [(''Publisher_1'', TOPIC_NOT_CREATED, TOPIC_NOT_CREATED), (''Subscriber_1'', OK, TOPIC_NOT_CREATED)] [coloured_output, []]"
  have e: "entity_types 0 0 ?ps = Inr [''Publisher_1'', ''Subscriber_1'']" by code_simp
  have c: "run_entities basic_check (zip ?ps [silent_child, silent_child]) = Returned [TOPIC_NOT_CREATED, TOPIC_NOT_CREATED]"
    by code_simp
  have ex: "rmap (py_nth ?ex) [0..<length ?ps] = Inr ?ex" by (simp add: upt_rec)
  have "judge (zip [''Publisher_1'', ''Subscriber_1''] (zip ?ex [TOPIC_NOT_CREATED, TOPIC_NOT_CREATED])) [coloured_output, []] = Failure ?m"
    by (simp add: judge_def is_unsupported_def)
  then have "\<exists>rep. run_test ''T'' ?ps ?ex basic_check [silent_child, silent_child] [coloured_output, []] = Returned rep
      \<and> case_result rep = Failure ?m"
    unfolding run_test_def e from_res_simps c run_bind_simps ex by simp
  then obtain rep where run: "run_test ''T'' ?ps ?ex basic_check [silent_child, silent_child] [coloured_output, []] = Returned rep"
    and m: "case_result rep = Failure ?m" by blast
  from report_read_back [OF run _ _ disjI2 [OF m]] e c show ?thesis by (simp add: coloured_output_def)
qed

fun failure_class :: "ReturnCode \<Rightarrow> RichStatus" where
  "failure_class INCOMPATIBLE_QOS = FAILURE_QOS_UNEXPECTED"
| "failure_class OK = FAILURE_FALSE_PASS"
| "failure_class DATA_NOT_CORRECT = FAILURE_DATA"
| "failure_class DATA_NOT_RECEIVED = FAILURE_DATA"
| "failure_class DATA_NOT_SENT = FAILURE_DATA"
| "failure_class ORDERED_ACCESS_INSTANCE = FAILURE_ORDERING"
| "failure_class ORDERED_ACCESS_TOPIC = FAILURE_ORDERING"
| "failure_class RECEIVING_FROM_ONE = FAILURE_ORDERING"
| "failure_class RECEIVING_FROM_BOTH = FAILURE_ORDERING"
| "failure_class DEADLINE_MISSED = FAILURE_ORDERING"
| "failure_class READER_NOT_CREATED = FAILURE_INFRASTRUCTURE"
| "failure_class WRITER_NOT_CREATED = FAILURE_INFRASTRUCTURE"
| "failure_class TOPIC_NOT_CREATED = FAILURE_INFRASTRUCTURE"
| "failure_class READER_NOT_MATCHED = FAILURE_INFRASTRUCTURE"
| "failure_class _ = FAILURE_OTHER"

lemma classify_failure_code: "classify_failure (code_name r) = failure_class r"
  by (cases r) (simp_all add: classify_failure_def DATA_CODES_def ORDERING_CODES_def INFRA_CODES_def)

lemma code_name_unsupported:
  "code_name r \<in> set UNSUPPORTED_CODES \<longleftrightarrow> r = PUB_UNSUPPORTED_FEATURE \<or> r = SUB_UNSUPPORTED_FEATURE"
  by (cases r) (simp_all add: UNSUPPORTED_CODES_def)

lemma code_name_inj: "code_name r = code_name s \<Longrightarrow> r = s"
  by (cases r; cases s) simp_all

lemma row_codes:
  assumes "length names = length codes" "length codes \<le> length expected"
  shows "map (snd \<circ> snd) (zip names (zip expected codes)) = codes"
  using assms by (intro nth_equalityI) simp_all

lemma read_rows_unsupported:
  "list_ex (\<lambda>(_, _, p). p \<in> set UNSUPPORTED_CODES) (map read_row rows) \<longleftrightarrow> is_unsupported (map (snd \<circ> snd) rows)"
proof (induction rows)
  case (Cons row rows)
  obtain n e p where "row = (n, e, p)" by (cases row)
  with Cons code_name_unsupported [of p] show ?case by (simp add: is_unsupported_def read_row_def)
qed (simp add: is_unsupported_def)

text \<open>
  C20: The classification of a report agrees with the verdict it comes from. A case that \<open>run_test\<close> skips
  is read back as an unsupported feature; one that it fails is read back as a failure of the class
  of a code that was produced where another was expected (data, ordering, infrastructure, ...), and
  never as unsupported, skipped or passed.
\<close>

theorem report_classified:
  assumes "run_test name parameters expected check children outputs = Returned rep"
    and "length children = length parameters"
    and "list_all (\<lambda>out. CHR ''<'' \<notin> set out) outputs"
  shows "case case_result rep of
      Passed \<Rightarrow> classify_outcome ''passed'' [] = Inr PASSED
    | Skipped m \<Rightarrow> classify_outcome ''skipped'' (parse_outcome_rows m) = Inr SKIPPED_UNSUPPORTED
    | Failure m \<Rightarrow> \<exists>codes i. run_entities check (zip parameters children) = Returned codes
        \<and> i < length codes \<and> codes ! i \<noteq> expected ! i
        \<and> classify_outcome ''failure'' (parse_outcome_rows m) = Inr (failure_class (codes ! i))"
proof -
  from run_test_parts [OF assms(1,2)] obtain names codes where r:
    "run_entities check (zip parameters children) = Returned codes"
    "length names = length codes" "length codes \<le> length expected"
    "list_all (\<lambda>row. name_ok (fst row)) (zip names (zip expected codes))"
    "case_result rep = judge (zip names (zip expected codes)) outputs" by metis
  let ?rows = "zip names (zip expected codes)"
  let ?read = "map read_row ?rows"
  note parsed = message_parsed [OF r(4) assms(3)]
  note codes = row_codes [OF r(2,3)]
  note unsup = read_rows_unsupported [of ?rows, unfolded codes]
  show ?thesis
  proof (cases "case_result rep")
    case Passed
    then show ?thesis by (simp add: classify_outcome_def)
  next
    case (Skipped m)
    with r(5) have "is_unsupported codes" "m = report_message ?rows outputs"
      using codes by (auto simp: judge_def split: if_splits)
    with parsed unsup Skipped show ?thesis by (simp add: classify_outcome_def Let_def)
  next
    case (Failure m)
    with r(5) have no: "\<not> is_unsupported codes" and m: "m = report_message ?rows outputs"
      and bad: "\<not> list_all (\<lambda>(_, e, c). e = c) ?rows"
      using codes by (auto simp: judge_def split: if_splits)
    have mis: "mismatch_codes ?read = map (code_name \<circ> snd \<circ> snd) (filter (\<lambda>(_, e, c). e \<noteq> c) ?rows)"
      by (auto simp: mismatch_codes_def filter_map comp_def read_row_def case_prod_beta dest: code_name_inj
          intro!: arg_cong [where f = "map _"] filter_cong)
    have "mismatch_codes ?read \<noteq> []" unfolding mis using bad by (auto simp: list_all_iff filter_empty_conv)
    from most_common_in [OF this] obtain x where x: "x \<in> set (mismatch_codes ?read)" "most_common (mismatch_codes ?read) = Inr x"
      by blast
    from x(1) obtain n e c where row: "(n, e, c) \<in> set ?rows" "e \<noteq> c" "x = code_name c" unfolding mis by auto
    from row(1) r(2,3) obtain i where i: "i < length codes" "c = codes ! i" "e = expected ! i"
      by (auto simp: set_zip)
    have "classify_outcome ''failure'' ?read = Inr (failure_class (codes ! i))"
      using no unsup \<open>mismatch_codes ?read \<noteq> []\<close> x(2) row(3) i(2)
      by (simp add: classify_outcome_def Let_def classify_failure_code)
    with Failure r(1) i row(2) parsed m show ?thesis by auto
  qed
qed

lemma report_classified_witness:
  "\<exists>m codes i. judge [(''Publisher_1'', TOPIC_NOT_CREATED, TOPIC_NOT_CREATED), (''Subscriber_1'', OK, TOPIC_NOT_CREATED)]
      [coloured_output, []] = Failure m
    \<and> i < length codes
    \<and> classify_outcome ''failure'' (parse_outcome_rows m) = Inr (failure_class (codes ! i))"
proof -
  let ?ps = "[''-P -t Square'', ''-S -t Square'']" and ?ex = "[TOPIC_NOT_CREATED, OK]"
  let ?judge = "judge [(''Publisher_1'', TOPIC_NOT_CREATED, TOPIC_NOT_CREATED), (''Subscriber_1'', OK, TOPIC_NOT_CREATED)] [coloured_output, []]"
  have e: "entity_types 0 0 ?ps = Inr [''Publisher_1'', ''Subscriber_1'']" by code_simp
  have c: "run_entities basic_check (zip ?ps [silent_child, silent_child]) = Returned [TOPIC_NOT_CREATED, TOPIC_NOT_CREATED]"
    by code_simp
  have ex: "rmap (py_nth ?ex) [0..<length ?ps] = Inr ?ex" by (simp add: upt_rec)
  have "\<exists>rep. run_test ''T'' ?ps ?ex basic_check [silent_child, silent_child] [coloured_output, []] = Returned rep
      \<and> case_result rep = ?judge"
    unfolding run_test_def e from_res_simps c run_bind_simps ex by simp
  then obtain rep where run: "run_test ''T'' ?ps ?ex basic_check [silent_child, silent_child] [coloured_output, []] = Returned rep"
    and m: "case_result rep = ?judge" by blast
  have "\<exists>m. ?judge = Failure m" by (simp add: judge_def is_unsupported_def)
  then obtain m where j: "?judge = Failure m" by blast
  have "list_all (\<lambda>out. CHR ''<'' \<notin> set out) [coloured_output, []]" by (simp add: coloured_output_def)
  from report_classified [OF run _ this] m j show ?thesis by fastforce
qed

end
