(* ===== verification/Py_Float.thy ===== *)
theory Py_Float
  imports Py_Text Complex_Main "HOL-Library.Log_Nat"
begin

text \<open>
  The floating-point numbers of the reports: quotients and percentages of counts, which are printed
  with one decimal.  A Python float is the rational number it stands for; \<open>fl\<close> rounds to the nearest
  number with 53 significant bits (ties to even), as IEEE double arithmetic does, \<open>round_half_even\<close> is
  the rounding of the format \<open>:.1f\<close>.  The exponent is not bounded: quotients of counts come nowhere near
  the limits of the format.
\<close>

definition round_half_even :: "rat \<Rightarrow> int" where
  "round_half_even x =
     (let f = \<lfloor>x\<rfloor>; r = x - of_int f in
      if r < 1 / 2 then f else if r > 1 / 2 then f + 1 else if even f then f else f + 1)"

definition fl_exponent :: "rat \<Rightarrow> int" where   \<comment> \<open>\<open>2 ^ 52 \<le> x / 2 ^ e < 2 ^ 53\<close>\<close>
  "fl_exponent x =
     (case quotient_of x of (n, d) \<Rightarrow>
        let e = bitlen n - bitlen d - 53 in
        if x / 2 powi e < 2 ^ 53 then e else e + 1)"

definition fl :: "rat \<Rightarrow> rat" where   \<comment> \<open>of a number that is not negative\<close>
  "fl x = (if x \<le> 0 then 0
           else let e = fl_exponent x in of_int (round_half_even (x / 2 powi e)) * 2 powi e)"

definition fl_div :: "nat \<Rightarrow> nat \<Rightarrow> rat" where   \<comment> \<open>\<open>n / d\<close>\<close>
  "fl_div n d = fl (of_nat n / of_nat d)"

definition percent_of :: "nat \<Rightarrow> nat \<Rightarrow> rat" where   \<comment> \<open>\<open>n / d * 100 if d else 0\<close>\<close>
  "percent_of n d = (if d \<noteq> 0 then fl (fl_div n d * 100) else 0)"

definition show1 :: "rat \<Rightarrow> string" where   \<comment> \<open>\<open>{x:.1f}\<close>\<close>
  "show1 x = (let t = nat (round_half_even (x * 10)) in show_nat (t div 10) @ ''.'' @ show_nat (t mod 10))"

lemma round_half_even_bounds: "of_int (round_half_even x) \<le> x + 1 / 2" "x - 1 / 2 \<le> of_int (round_half_even x)"
  by (auto simp: round_half_even_def Let_def; linarith)+

lemma round_half_even_int [simp]: "round_half_even (of_int k) = k"
  by (simp add: round_half_even_def)

lemma round_half_even_le: "x \<le> of_int k \<Longrightarrow> round_half_even x \<le> k"
proof -
  assume x: "x \<le> of_int k"
  have f: "\<lfloor>x\<rfloor> \<le> k" using x by (simp add: floor_le_iff)
  have "round_half_even x \<le> \<lfloor>x\<rfloor> + 1" by (auto simp: round_half_even_def Let_def)
  moreover have "round_half_even x = k" if "\<lfloor>x\<rfloor> = k"
  proof -
    from that x have "x = of_int k" using of_int_floor_le [of x] by simp
    then show ?thesis by simp
  qed
  ultimately show ?thesis using f by linarith
qed

lemma round_half_even_nonneg: "0 \<le> x \<Longrightarrow> 0 \<le> round_half_even x"
  by (auto simp: round_half_even_def Let_def)

lemma fl_exponent_low:
  assumes "0 < x"
  shows "2 ^ 52 \<le> x / 2 powi fl_exponent x"
proof -
  obtain n d where q: "quotient_of x = (n, d)" by (cases "quotient_of x")
  have d: "0 < d" using quotient_of_denom_pos [OF q] .
  have x: "x = of_int n / of_int d" using quotient_of_div [OF q] .
  with assms d have n: "0 < n" by (simp add: zero_less_divide_iff)
  let ?e = "bitlen n - bitlen d - 53"
  have "2 ^ nat (bitlen n - 1) \<le> n" "d < 2 ^ nat (bitlen d)"
    using bitlen_bounds [of n] bitlen_bounds [of d] n d by auto
  then have "(2::rat) ^ nat (bitlen n - 1) \<le> of_int n" "of_int d \<le> (2::rat) ^ nat (bitlen d)"
    by (metis of_int_le_iff of_int_numeral of_int_power)
       (metis \<open>d < 2 ^ nat (bitlen d)\<close> less_imp_le of_int_le_iff of_int_numeral of_int_power)
  then have b: "(2::rat) powi (bitlen n - 1) \<le> of_int n" "of_int d \<le> (2::rat) powi bitlen d"
    using n d bitlen_nonneg [of n] bitlen_nonneg [of d] bitlen_eq_zero_iff [of n]
    by (auto simp: power_int_def)
  have "2 powi (bitlen n - 1) / 2 powi bitlen d \<le> x"
    unfolding x using b d n by (intro frac_le) auto
  then have "2 powi (bitlen n - 1) / 2 powi bitlen d / 2 powi ?e \<le> x / 2 powi ?e"
    by (intro divide_right_mono) auto
  also have "(2::rat) powi (bitlen n - 1) / 2 powi bitlen d / 2 powi ?e = 2 powi 52"
    by (simp flip: power_int_diff)
  finally have low: "2 ^ 52 \<le> x / 2 powi ?e" by simp
  show ?thesis
  proof (cases "x / 2 powi ?e < 2 ^ 53")
    case True
    with low show ?thesis by (simp add: fl_exponent_def q Let_def)
  next
    case False
    have "(2::rat) powi (?e + 1) = 2 powi ?e * 2" by (rule power_int_add_1) simp
    then have half: "x / 2 powi (?e + 1) = x / 2 powi ?e / 2" by (metis divide_divide_eq_left)
    have "fl_exponent x = ?e + 1" using False unfolding fl_exponent_def q prod.case Let_def by (rule if_not_P)
    moreover have "\<not> y < 2 ^ 53 \<Longrightarrow> 2 ^ 52 \<le> y / 2" for y :: rat by simp
    from this [OF False] have "2 ^ 52 \<le> x / 2 powi ?e / 2" .
    ultimately show ?thesis using half by metis
  qed
qed

lemma fl_nonneg: "0 \<le> fl x"
  by (auto simp: fl_def Let_def intro!: mult_nonneg_nonneg round_half_even_nonneg)

text \<open>Rounding does not pass a whole number that has a representation.\<close>

lemma fl_le_nat:
  assumes "x \<le> of_nat c" "c \<le> 2 ^ 52"
  shows "fl x \<le> of_nat c"
proof (cases "x \<le> 0")
  case False
  let ?e = "fl_exponent x"
  from False have x: "0 < x" by simp
  have "2 powi ?e * 2 ^ 52 \<le> x" using fl_exponent_low [OF x] by (simp add: field_simps)
  also have "\<dots> \<le> of_nat (2 ^ 52)" using assms by (meson of_nat_le_iff order_trans)
  finally have "(2::rat) powi ?e \<le> 1" by simp
  then have e: "?e \<le> 0"
    by (metis linorder_not_le one_less_numeral_iff power_int_0_right power_int_strict_increasing semiring_norm(76) zero_le)
  have k: "of_nat c / (2::rat) powi ?e = of_int (int c * 2 ^ nat (- ?e))"
    using e by (simp add: power_int_def power_one_over field_simps)
  have "x / 2 powi ?e \<le> of_int (int c * 2 ^ nat (- ?e))"
    unfolding k [symmetric] using assms(1) by (intro divide_right_mono) auto
  then have "round_half_even (x / 2 powi ?e) \<le> int c * 2 ^ nat (- ?e)" by (rule round_half_even_le)
  then have "of_int (round_half_even (x / 2 powi ?e)) \<le> of_nat c / (2::rat) powi ?e"
    unfolding k by (rule of_int_le_iff [THEN iffD2])
  then show ?thesis using False by (simp add: fl_def Let_def field_simps)
qed (simp add: fl_def)

lemma percent_of_bounds: "n \<le> d \<Longrightarrow> 0 \<le> percent_of n d \<and> percent_of n d \<le> 100"
proof (cases "d = 0")
  case False
  assume "n \<le> d"
  then have "of_nat n / of_nat d \<le> (of_nat 1 :: rat)" using False by (simp add: divide_le_eq)
  then have "fl_div n d \<le> of_nat 1" unfolding fl_div_def by (rule fl_le_nat) simp
  then have "fl_div n d * 100 \<le> of_nat 100" by simp
  then have "fl (fl_div n d * 100) \<le> of_nat 100" by (rule fl_le_nat) simp
  with False show ?thesis by (simp add: percent_of_def fl_nonneg)
qed (simp add: percent_of_def)

end
