(* ===== verification/Py_Literal.thy ===== *)
theory Py_Literal
  imports Py_Float
begin

text \<open>
  Numbers as Python reads and writes them (\<open>int(s, base)\<close>, \<open>float(s)\<close>, \<open>repr\<close> of a float, the format
  \<open>:0wx\<close>), and the text of a JSON string.  A float is a rational with a sign, an infinity or a NaN;
  subnormal numbers are not rounded to fewer digits.
\<close>

section \<open>Integers\<close>

definition show_int :: "int \<Rightarrow> string" where
  "show_int b = (if b < 0 then ''-'' @ show_nat (nat (- b)) else show_nat (nat b))"

fun show_hex :: "nat \<Rightarrow> string" where
  "show_hex n = (if n < 16 then [hex_digit n] else show_hex (n div 16) @ [hex_digit (n mod 16)])"

declare show_hex.simps [simp del]

definition zeros :: "nat \<Rightarrow> string \<Rightarrow> string" where
  "zeros w s = replicate (w - length s) (CHR ''0'') @ s"

definition format_hex :: "nat \<Rightarrow> int \<Rightarrow> string" where   \<comment> \<open>\<open>{i:0wx}\<close>; the sign counts for the width\<close>
  "format_hex w i = (if i < 0 then CHR ''-'' # zeros (w - 1) (show_hex (nat (- i))) else zeros w (show_hex (nat i)))"

fun zfill :: "nat \<Rightarrow> string \<Rightarrow> string" where
  "zfill w (c # s) = (if c = CHR ''+'' \<or> c = CHR ''-'' then c # zeros (w - 1) s else zeros w (c # s))"
| "zfill w [] = zeros w []"

definition digit_of :: "char \<Rightarrow> nat option" where
  "digit_of c =
     (let n = code_of c in
      if 48 \<le> n \<and> n \<le> 57 then Some (n - 48)
      else if 65 \<le> n \<and> n \<le> 90 then Some (n - 55)
      else if 97 \<le> n \<and> n \<le> 122 then Some (n - 87)
      else None)"

text \<open>Digits of a base, with single underscores between them; \<open>after\<close> says whether a digit comes before.\<close>

fun read_digits :: "nat \<Rightarrow> bool \<Rightarrow> nat \<Rightarrow> string \<Rightarrow> nat option" where
  "read_digits b after n [] = (if after then Some n else None)"
| "read_digits b after n (c # s) =
     (if c = CHR ''_'' then (if after then read_digits b False n s else None)
      else (case digit_of c of
              None \<Rightarrow> None
            | Some d \<Rightarrow> if d < b then read_digits b True (b * n + d) s else None))"

fun read_sign :: "string \<Rightarrow> bool \<times> string" where
  "read_sign (c # s) = (if c = CHR ''-'' then (True, s) else if c = CHR ''+'' then (False, s) else (False, c # s))"
| "read_sign [] = (False, [])"

definition after_prefix :: "string \<Rightarrow> string" where   \<comment> \<open>an underscore may follow the prefix\<close>
  "after_prefix s = (case drop 2 s of c # t \<Rightarrow> if c = CHR ''_'' then t else c # t | [] \<Rightarrow> [])"

definition magnitude :: "nat \<Rightarrow> string \<Rightarrow> nat option" where
  "magnitude base u =
     (let p = py_lower (take 2 u) in
      if p = ''0x'' \<and> (base = 0 \<or> base = 16) then read_digits 16 False 0 (after_prefix u)
      else if p = ''0o'' \<and> base = 0 then read_digits 8 False 0 (after_prefix u)
      else if p = ''0b'' \<and> base = 0 then read_digits 2 False 0 (after_prefix u)
      else if base = 0 then
        (case read_digits 10 False 0 u of
           Some n \<Rightarrow> if take 1 u = ''0'' \<and> n \<noteq> 0 then None else Some n   \<comment> \<open>no leading zeros\<close>
         | None \<Rightarrow> None)
      else read_digits base False 0 u)"

definition py_int_base :: "nat \<Rightarrow> string \<Rightarrow> int res" where   \<comment> \<open>\<open>int(s, base)\<close>\<close>
  "py_int_base base s =
     (case read_sign (py_strip s) of (negative, u) \<Rightarrow>
        (case magnitude base u of
           None \<Rightarrow> Inl ValueError
         | Some n \<Rightarrow> Inr (if negative then - int n else int n)))"

section \<open>Floats\<close>

datatype pyfloat = Finite bool rat | Infinite bool | Not_A_Number   \<comment> \<open>negative?\<close>

definition overflow_error :: py_error where "overflow_error = RuntimeError ''OverflowError''"

definition float_limit :: rat where "float_limit = 2 ^ 1024"

definition as_float :: "bool \<Rightarrow> rat \<Rightarrow> pyfloat" where
  "as_float negative x = (if float_limit \<le> fl x then Infinite negative else Finite negative (fl x))"

definition digits_or_zero :: "string \<Rightarrow> nat option" where
  "digits_or_zero s = (if s = [] then Some 0 else read_digits 10 False 0 s)"

definition read_exponent :: "string \<Rightarrow> int option" where
  "read_exponent s =
     (case s of
        [] \<Rightarrow> Some 0
      | _ # t \<Rightarrow> (case read_sign t of (negative, d) \<Rightarrow>
          map_option (\<lambda>n. if negative then - int n else int n) (read_digits 10 False 0 d)))"

definition read_float :: "string \<Rightarrow> pyfloat res" where   \<comment> \<open>\<open>float(s)\<close>\<close>
  "read_float s =
     (case read_sign (py_lower (py_strip s)) of (negative, u) \<Rightarrow>
        if u = ''inf'' \<or> u = ''infinity'' then Inr (Infinite negative)
        else if u = ''nan'' then Inr Not_A_Number
        else
          (let mantissa = takeWhile (\<lambda>c. c \<noteq> CHR ''e'') u;
               whole = takeWhile (\<lambda>c. c \<noteq> CHR ''.'') mantissa;
               fraction = drop 1 (dropWhile (\<lambda>c. c \<noteq> CHR ''.'') mantissa) in
           if whole = [] \<and> fraction = [] then Inl ValueError
           else (case (digits_or_zero whole, digits_or_zero fraction, read_exponent (dropWhile (\<lambda>c. c \<noteq> CHR ''e'') u)) of
                   (Some w, Some f, Some e) \<Rightarrow>
                     (let k = length (filter is_digit fraction) in
                      Inr (as_float negative (of_nat (w * 10 ^ k + f) * 10 powi (e - int k))))
                 | _ \<Rightarrow> Inl ValueError)))"

definition float_of_int :: "int \<Rightarrow> pyfloat res" where   \<comment> \<open>\<open>float(i)\<close>\<close>
  "float_of_int i =
     (if float_limit \<le> fl (of_int \<bar>i\<bar>) then Inl overflow_error else Inr (Finite (i < 0) (fl (of_int \<bar>i\<bar>))))"

definition trunc_float :: "pyfloat \<Rightarrow> int res" where   \<comment> \<open>\<open>int(x)\<close>\<close>
  "trunc_float x =
     (case x of
        Finite negative r \<Rightarrow> Inr (if negative then - \<lfloor>r\<rfloor> else \<lfloor>r\<rfloor>)
      | Infinite _ \<Rightarrow> Inl overflow_error
      | Not_A_Number \<Rightarrow> Inl ValueError)"

definition float_true :: "pyfloat \<Rightarrow> bool" where
  "float_true x = (case x of Finite _ r \<Rightarrow> r \<noteq> 0 | _ \<Rightarrow> True)"

text \<open>\<open>repr\<close> takes the least number of digits that is read back as the same float.\<close>

definition exponent10 :: "rat \<Rightarrow> int" where
  "exponent10 x =
     (case quotient_of x of (n, d) \<Rightarrow>
        let e = int (length (show_nat (nat n))) - int (length (show_nat (nat d))) in
        if 10 powi e \<le> x then e else e - 1)"

definition to_digits :: "rat \<Rightarrow> nat \<Rightarrow> int" where   \<comment> \<open>the first \<open>k\<close> digits, rounded\<close>
  "to_digits x k = round_half_even (x / 10 powi (exponent10 x - int k + 1))"

definition shortest :: "rat \<Rightarrow> nat" where
  "shortest x =
     (case find (\<lambda>k. fl (of_int (to_digits x k) * 10 powi (exponent10 x - int k + 1)) = x) [1..<17] of
        Some k \<Rightarrow> k | None \<Rightarrow> 17)"

definition show_exponent :: "int \<Rightarrow> string" where
  "show_exponent e = ''e'' @ (if e < 0 then ''-'' else ''+'') @ zeros 2 (show_nat (nat \<bar>e\<bar>))"

definition place_point :: "string \<Rightarrow> int \<Rightarrow> string" where   \<comment> \<open>of the digits and the exponent of the first\<close>
  "place_point ds e =
     (if e < -4 \<or> 16 \<le> e
      then take 1 ds @ (if length ds = 1 then [] else ''.'' @ drop 1 ds) @ show_exponent e
      else if e < 0 then ''0.'' @ replicate (nat (- e - 1)) (CHR ''0'') @ ds
      else (let n = nat e + 1; fraction = drop n ds in
            take n ds @ replicate (n - length ds) (CHR ''0'') @ ''.'' @ (if fraction = [] then ''0'' else fraction)))"

definition show_float :: "pyfloat \<Rightarrow> string" where
  "show_float x =
     (case x of
        Finite negative r \<Rightarrow> (if negative then ''-'' else []) @
          (if r = 0 then ''0.0''
           else (let k = shortest r; m = to_digits r k in
                 if m = 10 ^ k then place_point ''1'' (exponent10 r + 1) else place_point (show_nat (nat m)) (exponent10 r)))
      | Infinite negative \<Rightarrow> (if negative then ''-inf'' else ''inf'')
      | Not_A_Number \<Rightarrow> ''nan'')"

section \<open>JSON strings\<close>

definition json_char :: "char \<Rightarrow> string" where
  "json_char c =
     (if c = CHR 0x22 \<or> c = CHR 0x5C then [CHR 0x5C, c]
      else if c = CHR 0x0A then [CHR 0x5C, CHR ''n'']
      else if c = CHR 0x0D then [CHR 0x5C, CHR ''r'']
      else if c = CHR 0x09 then [CHR 0x5C, CHR ''t'']
      else if c = CHR 0x0C then [CHR 0x5C, CHR ''f'']
      else if c = CHR 0x08 then [CHR 0x5C, CHR ''b'']
      else if code_of c < 32 \<or> 126 < code_of c
      then [CHR 0x5C, CHR ''u'', CHR ''0'', CHR ''0'', hex_digit (code_of c div 16), hex_digit (code_of c mod 16)]
      else [c])"

definition json_string :: "string \<Rightarrow> string" where
  "json_string s = [CHR 0x22] @ concat (map json_char s) @ [CHR 0x22]"

section \<open>Reading hexadecimal digits back\<close>

lemma digit_of_hex: "n < 16 \<Longrightarrow> digit_of (hex_digit n) = Some n"
  using hex_digit_code [of n] by (auto simp: digit_of_def Let_def)

lemma hex_digit_plain: "n < 16 \<Longrightarrow> hex_digit n \<noteq> CHR ''_'' \<and> \<not> is_space (hex_digit n) \<and> hex_digit n \<notin> {CHR ''+'', CHR ''-'', CHR ''x'', CHR '':'', CHR ''.''}"
proof -
  assume less: "n < 16"
  have "hex_digit n \<noteq> c" if "code_of c \<noteq> (if n < 10 then 48 + n else 87 + n)" for c
    using that hex_digit_code [OF less] by auto
  then show ?thesis using less hex_digit_code [OF less] by (auto simp: is_space_def)
qed

definition hex_text :: "string \<Rightarrow> bool" where   \<comment> \<open>lower-case digits\<close>
  "hex_text s \<longleftrightarrow> (\<forall>c \<in> set s. \<exists>n < 16. c = hex_digit n)"

lemma hex_text_simps [simp]:
  "hex_text []" "hex_text (c # s) \<longleftrightarrow> (\<exists>n < 16. c = hex_digit n) \<and> hex_text s" "hex_text (s @ t) \<longleftrightarrow> hex_text s \<and> hex_text t"
  by (auto simp: hex_text_def)

lemma zero_digit: "CHR ''0'' = hex_digit 0"
  by (rule char_by_code) (simp add: hex_digit_code)

lemma hex_digit_text [simp]: "n < 16 \<Longrightarrow> \<exists>m < 16. hex_digit n = hex_digit m"
  by blast

lemma show_hex_text: "hex_text (show_hex n) \<and> show_hex n \<noteq> []"
proof (induction n rule: show_hex.induct)
  case (1 n)
  then show ?case by (cases "n < 16") (auto simp: show_hex.simps [of n])
qed

lemma hex_text_zeros: "hex_text s \<Longrightarrow> hex_text (zeros w s)"
  by (auto simp: zeros_def hex_text_def zero_digit intro: exI [of _ 0])

lemma read_digits_append:
  "read_digits 16 True m s = Some n \<Longrightarrow> hex_text s \<Longrightarrow> d < 16 \<Longrightarrow>
    read_digits 16 True m (s @ [hex_digit d]) = Some (16 * n + d)"
proof (induction s arbitrary: m)
  case Nil
  then show ?case using hex_digit_plain [of d] by (simp add: digit_of_hex)
next
  case (Cons c s)
  then obtain e where e: "e < 16" "c = hex_digit e" by auto
  with Cons show ?case using hex_digit_plain [of e] by (simp add: digit_of_hex)
qed

lemma read_digits_start: "hex_text s \<Longrightarrow> s \<noteq> [] \<Longrightarrow> read_digits 16 False m s = read_digits 16 True m s"
  using hex_digit_plain by (cases s) auto

lemma read_show_hex: "read_digits 16 True 0 (show_hex n) = Some n"
proof (induction n rule: show_hex.induct)
  case (1 n)
  show ?case
  proof (cases "n < 16")
    case True
    then show ?thesis using hex_digit_plain [of n] by (subst show_hex.simps) (simp add: digit_of_hex)
  next
    case False
    with 1 have "read_digits 16 True 0 (show_hex (n div 16)) = Some (n div 16)" by simp
    from read_digits_append [OF this] show_hex_text False show ?thesis by (subst show_hex.simps) simp
  qed
qed

lemma read_zeros: "read_digits 16 True 0 (zeros w s) = read_digits 16 True 0 s"
proof -
  have "read_digits 16 True 0 (replicate k (CHR ''0'') @ s) = read_digits 16 True 0 s" for k
    by (induction k) (simp_all add: digit_of_def)
  then show ?thesis by (simp add: zeros_def)
qed

lemma strip_hex: "hex_text s \<Longrightarrow> s \<noteq> [] \<Longrightarrow> py_strip (''0x'' @ s) = ''0x'' @ s"
proof -
  assume s: "hex_text s" "s \<noteq> []"
  then obtain t n where t: "s = t @ [hex_digit n]" "n < 16" by (cases s rule: rev_cases) auto
  then have "\<not> is_space (hex_digit n)" "\<not> is_space (CHR ''0'')" using hex_digit_plain by (auto simp: is_space_def)
  with t show ?thesis by (simp add: py_strip_def lstrip_def)
qed

lemma int_of_hex: "py_int_base 16 (''0x'' @ zeros w (show_hex n)) = Inr (int n)"
proof -
  have ht: "hex_text (zeros w (show_hex n))" "zeros w (show_hex n) \<noteq> []"
    using show_hex_text [of n] by (auto simp: hex_text_zeros) (simp add: zeros_def)
  obtain d t where z: "zeros w (show_hex n) = hex_digit d # t" "d < 16"
    using ht by (cases "zeros w (show_hex n)") auto
  have "after_prefix (''0x'' @ zeros w (show_hex n)) = zeros w (show_hex n)"
    using hex_digit_plain [OF z(2)] by (simp add: after_prefix_def z)
  then have "magnitude 16 (''0x'' @ zeros w (show_hex n)) = Some n"
    using read_digits_start [OF ht] read_show_hex [of n]
    by (simp add: magnitude_def Let_def read_zeros py_lower_def lower_char_def)
  with strip_hex [OF ht] show ?thesis by (simp add: py_int_base_def)
qed

text \<open>\<open>int(str(n))\<close> is \<open>n\<close>.\<close>

lemma decimal_digit:
  "is_digit c \<Longrightarrow> digit_of c = Some (code_of c - 48) \<and> code_of c - 48 < 10 \<and> c \<notin> {CHR ''_'', CHR ''+'', CHR ''-''}"
  by (auto simp: is_digit_def digit_of_def Let_def)

lemma read_decimal_append:
  "read_digits 10 True m s = Some n \<Longrightarrow> list_all is_digit s \<Longrightarrow> is_digit c \<Longrightarrow>
    read_digits 10 True m (s @ [c]) = Some (10 * n + (code_of c - 48))"
proof (induction s arbitrary: m)
  case (Cons d s)
  then show ?case using decimal_digit [of d] by simp
qed (use decimal_digit in simp)

lemma read_show_nat: "read_digits 10 True 0 (show_nat n) = Some n"
proof (induction n rule: show_nat.induct)
  case (1 n)
  have digit: "is_digit (char_of (48 + d))" "code_of (char_of (48 + d) :: char) = 48 + d" if "d < 10" for d :: nat
    using that by (simp_all add: is_digit_def)
  show ?case
  proof (cases "n < 10")
    case True
    then show ?thesis using decimal_digit [OF digit(1) [OF True]] digit [OF True] by (subst show_nat.simps) simp
  next
    case False
    with 1 have "read_digits 10 True 0 (show_nat (n div 10)) = Some (n div 10)" by simp
    from read_decimal_append [OF this, of "char_of (48 + n mod 10)"] show_nat_digits digit [of "n mod 10"] False
    show ?thesis by (subst show_nat.simps) simp
  qed
qed

lemma int_of_nat_text: "py_int_base 10 (show_nat n) = Inr (int n)"
proof -
  note d = show_nat_digits [of n]
  then have space: "\<forall>c \<in> set (show_nat n). \<not> is_space c" using digit_not_space by (auto simp: list_all_iff)
  have "lstrip s = s" if "set s \<subseteq> set (show_nat n)" for s using that space by (cases s) (auto simp: lstrip_def)
  then have "py_strip (show_nat n) = show_nat n" by (simp add: py_strip_def)
  moreover obtain c u where cu: "show_nat n = c # u" "is_digit c" using d by (cases "show_nat n") auto
  moreover have "read_digits 10 False 0 (show_nat n) = Some n"
    using read_show_nat [of n] decimal_digit [OF cu(2)] by (simp add: cu)
  ultimately show ?thesis
    using decimal_digit [OF cu(2)] by (simp add: py_int_base_def magnitude_def)
qed

end
