(* ===== verification/Py_Argparse.thy ===== *)
theory Py_Argparse
  imports Py_Literal Regex
begin

text \<open>
  \<open>argparse\<close>, the standard library's reader of command lines, on what the sources declare: options with one
  argument, with one or more, without (\<open>store_true\<close>) and \<open>-h\<close>; positional arguments with \<open>nargs='?'\<close>; groups of
  which one option at most may be given.  Abbreviations, \<open>--option=value\<close>, options in one word (\<open>-vx1\<close>), \<open>--\<close>
  and the order in which errors and \<open>-h\<close> end the program are those of Python 3.11, which the project runs on.
  The printed usage is left out.
\<close>

section \<open>Declarations\<close>

datatype arity = One | One_Or_More | Store_True | Help
datatype arg_type = Any_Text | An_Integer | A_Path
datatype arg_value = No_Value | Text_Value string | Int_Value int | Switch bool | Texts "string list"

record arg_action =
  option_strings :: "string list"
  dest :: string
  nargs :: arity   \<comment> \<open>of an option; a positional argument is \<open>nargs='?'\<close>\<close>
  arg_kind :: arg_type
  choices :: "string list option"
  default_value :: arg_value
  required :: bool

record arg_parser =
  optionals :: "arg_action list"
  positionals :: "arg_action list"
  exclusive :: "string list list"   \<comment> \<open>the \<open>dest\<close>s of each mutually exclusive group\<close>

definition optional_arg :: "string list \<Rightarrow> string \<Rightarrow> arg_action" where
  "optional_arg strings d =
     \<lparr>option_strings = strings, dest = d, nargs = One, arg_kind = Any_Text, choices = None, default_value = No_Value, required = False\<rparr>"

definition switch_arg :: "string list \<Rightarrow> string \<Rightarrow> arg_action" where   \<comment> \<open>\<open>action='store_true'\<close>\<close>
  "switch_arg strings d = (optional_arg strings d)\<lparr>nargs := Store_True, default_value := Switch False\<rparr>"

definition help_arg :: arg_action where   \<comment> \<open>\<open>add_help=True\<close>\<close>
  "help_arg = (optional_arg [''-h'', ''--help''] ''help'')\<lparr>nargs := Help\<rparr>"

definition positional_arg :: "string \<Rightarrow> arg_action" where   \<comment> \<open>\<open>nargs='?'\<close>\<close>
  "positional_arg d = optional_arg [] d"

definition find_option :: "arg_parser \<Rightarrow> string \<Rightarrow> arg_action option" where   \<comment> \<open>\<open>_option_string_actions\<close>\<close>
  "find_option p s = find (\<lambda>a. s \<in> set (option_strings a)) (optionals p)"

section \<open>Which words are options\<close>

abbreviation usage :: "'a res" where "usage \<equiv> Inl (SystemExit 2)"   \<comment> \<open>\<open>parser.error\<close>\<close>

text \<open>The action if the parser has it, the option string, whether a \<open>=\<close> was seen, and the argument in the word.\<close>

type_synonym option_tuple = "arg_action option \<times> string \<times> bool \<times> string option"

definition until :: "char \<Rightarrow> string \<Rightarrow> string" where "until c s = takeWhile (\<lambda>d. d \<noteq> c) s"
definition past :: "char \<Rightarrow> string \<Rightarrow> string" where "past c s = drop 1 (dropWhile (\<lambda>d. d \<noteq> c) s)"

definition option_tuples :: "arg_parser \<Rightarrow> string \<Rightarrow> option_tuple list" where   \<comment> \<open>\<open>_get_option_tuples\<close>\<close>
  "option_tuples p s =
     (let found = concat (map (\<lambda>a. map (\<lambda>opt. (a, opt)) (option_strings a)) (optionals p)); sep = (CHR ''='' \<in> set s) in
      if starts_with ''--'' s
      then map (\<lambda>(a, opt). (Some a, opt, sep, if sep then Some (past (CHR ''='') s) else None))
             (filter (\<lambda>(a, opt). starts_with (until (CHR ''='') s) opt) found)
      else concat (map (\<lambda>(a, opt).
             if opt = take 2 s then [(Some a, opt, False, Some (drop 2 s))]
             else if starts_with s opt then [(Some a, opt, False, None)] else []) found))"

definition negative_number_re :: re where   \<comment> \<open>\<open>^-\\d+$|^-\\d*\\.\\d+$\<close>\<close>
  "negative_number_re = Seq (Lit ''-'') (Alt (Plus CDigit) (Seqs [Rep True CDigit, Lit ''.'', Plus CDigit]))"

definition negative_number :: "string \<Rightarrow> bool" where   \<comment> \<open>\<open>$\<close> stands before a final line feed, too\<close>
  "negative_number s = list_ex (\<lambda>(w, cs, t). t = [] \<or> t = [CHR 0x0A]) (mt negative_number_re s)"

definition parse_optional :: "arg_parser \<Rightarrow> string \<Rightarrow> option_tuple option res" where   \<comment> \<open>\<open>None\<close>: no option\<close>
  "parse_optional p s =
     (if \<not> starts_with ''-'' s then Inr None
      else case find_option p s of
        Some a \<Rightarrow> Inr (Some (Some a, s, False, None))
      | None \<Rightarrow>
          if s = ''-'' then Inr None
          else case (if CHR ''='' \<in> set s then find_option p (until (CHR ''='') s) else None) of
            Some a \<Rightarrow> Inr (Some (Some a, until (CHR ''='') s, True, Some (past (CHR ''='') s)))
          | None \<Rightarrow>
              (case option_tuples p s of
                 _ # _ # _ \<Rightarrow> usage   \<comment> \<open>ambiguous\<close>
               | [t] \<Rightarrow> Inr (Some t)
               | [] \<Rightarrow> if negative_number s \<or> CHR '' '' \<in> set s then Inr None else Inr (Some (None, s, False, None))))"

datatype word_kind = Arg | Dashes | Option option_tuple   \<comment> \<open>\<open>A\<close>, \<open>-\<close> and \<open>O\<close> of the pattern\<close>

type_synonym arg_words = "(word_kind \<times> string) list"

fun classify_words :: "arg_parser \<Rightarrow> string list \<Rightarrow> arg_words res" where
  "classify_words p [] = Inr []"
| "classify_words p (s # ss) =
     (if s = ''--'' then Inr ((Dashes, s) # map (Pair Arg) ss)
      else rbind (parse_optional p s) (\<lambda>t. rbind (classify_words p ss) (\<lambda>ws.
        Inr (((case t of None \<Rightarrow> Arg | Some t \<Rightarrow> Option t), s) # ws))))"

section \<open>Values\<close>

fun split_on :: "char \<Rightarrow> string \<Rightarrow> string list" where   \<comment> \<open>\<open>s.split(c)\<close>\<close>
  "split_on c [] = [[]]"
| "split_on c (d # s) = (if d = c then [] # split_on c s else (case split_on c s of w # ws \<Rightarrow> (d # w) # ws | [] \<Rightarrow> [[d]]))"

definition py_path :: "string \<Rightarrow> string" where   \<comment> \<open>\<open>str(Path(s))\<close>\<close>
  "py_path s =
     (let anchor = (if starts_with ''//'' s \<and> \<not> starts_with ''///'' s then ''//'' else if starts_with ''/'' s then ''/'' else []);
          parts = filter (\<lambda>w. w \<noteq> [] \<and> w \<noteq> ''.'') (split_on (CHR ''/'') s) in
      if anchor = [] \<and> parts = [] then ''.'' else anchor @ join ''/'' parts)"

text \<open>\<open>_get_value\<close>; \<open>int\<close> refuses more than 4300 digits.\<close>

definition convert_arg :: "arg_type \<Rightarrow> string \<Rightarrow> arg_value res" where
  "convert_arg k s =
     (case k of
        Any_Text \<Rightarrow> Inr (Text_Value s)
      | A_Path \<Rightarrow> Inr (Text_Value (py_path s))
      | An_Integer \<Rightarrow>
          if 4300 < length (filter is_digit s) then usage
          else (case py_int_base 10 s of Inl _ \<Rightarrow> usage | Inr i \<Rightarrow> Inr (Int_Value i)))"

definition check_value :: "arg_action \<Rightarrow> arg_value \<Rightarrow> arg_value res" where
  "check_value a v =
     (case choices a of
        None \<Rightarrow> Inr v
      | Some cs \<Rightarrow> if v \<in> set (map Text_Value cs) then Inr v else usage)"

definition get_values :: "arg_action \<Rightarrow> string list \<Rightarrow> arg_value res" where
  "get_values a ss =
     (case nargs a of
        One \<Rightarrow> (case ss of s # _ \<Rightarrow> rbind (convert_arg (arg_kind a) s) (check_value a) | [] \<Rightarrow> Inr (default_value a))
      | One_Or_More \<Rightarrow> Inr (Texts ss)   \<comment> \<open>all of type \<open>str\<close>, without \<open>choices\<close>\<close>
      | Store_True \<Rightarrow> Inr (Switch True)
      | Help \<Rightarrow> Inl (SystemExit 0))"

section \<open>The state of a parse\<close>

record parse_state =
  namespace :: "(string, arg_value) dict"
  seen_actions :: "string list"
  seen_non_default :: "string list"
  extras :: "string list"

text \<open>
  The sources have exclusive groups only of options whose default is \<open>None\<close>, for which a value that is not the
  default is the same as one that differs from it.
\<close>

definition take_action :: "arg_parser \<Rightarrow> arg_action \<times> string list \<Rightarrow> parse_state \<Rightarrow> parse_state res" where
  "take_action p act st = (case act of (a, ss) \<Rightarrow>
     rbind (get_values a ss) (\<lambda>v.
       let plain = (v = default_value a); st = st\<lparr>seen_actions := dest a # seen_actions st\<rparr> in
       if \<not> plain \<and> list_ex (\<lambda>g. dest a \<in> set g \<and> list_ex (\<lambda>d. d \<noteq> dest a \<and> d \<in> set (seen_non_default st)) g) (exclusive p)
       then usage
       else Inr (st\<lparr>namespace := dset (dest a) v (namespace st),
                    seen_non_default := (if plain then seen_non_default st else dest a # seen_non_default st)\<rparr>)))"

definition take_actions :: "arg_parser \<Rightarrow> (arg_action \<times> string list) list \<Rightarrow> parse_state \<Rightarrow> parse_state res" where
  "take_actions p = rfold (take_action p)"

section \<open>Consuming the words\<close>

definition is_arg :: "word_kind \<times> string \<Rightarrow> bool" where "is_arg w = (fst w = Arg)"
definition is_option :: "word_kind \<times> string \<Rightarrow> bool" where "is_option w = (case fst w of Option _ \<Rightarrow> True | _ \<Rightarrow> False)"

text \<open>The actions of one word, the words it cannot read, and what is left behind it.\<close>

type_synonym consumed = "(arg_action \<times> string list) list \<times> string list \<times> arg_words"

definition following :: "arg_action \<Rightarrow> arg_words \<Rightarrow> consumed res" where   \<comment> \<open>\<open>match_argument\<close> on the words behind\<close>
  "following a ws =
     (case nargs a of
        One \<Rightarrow> (case ws of w # ws' \<Rightarrow> if is_arg w then Inr ([(a, [snd w])], [], ws') else usage | [] \<Rightarrow> usage)
      | One_Or_More \<Rightarrow>
          (case takeWhile is_arg ws of [] \<Rightarrow> usage | us \<Rightarrow> Inr ([(a, map snd us)], [], dropWhile is_arg ws))
      | _ \<Rightarrow> Inr ([(a, [])], [], ws))"

definition with_action :: "arg_action \<times> string list \<Rightarrow> consumed res \<Rightarrow> consumed res" where
  "with_action act r = rbind r (\<lambda>(acts, rest). Inr (act # acts, rest))"

text \<open>An argument in the word itself, which may be further options of one letter.\<close>

fun explicit_arg :: "arg_parser \<Rightarrow> arg_action \<Rightarrow> string \<Rightarrow> bool \<Rightarrow> string \<Rightarrow> arg_words \<Rightarrow> consumed res" where
  "explicit_arg p a opt sep [] ws =
     (if nargs a = One \<or> nargs a = One_Or_More then Inr ([(a, [[]])], [], ws) else usage)"
| "explicit_arg p a opt sep (c # cs) ws =
     (if nargs a = One \<or> nargs a = One_Or_More then Inr ([(a, [c # cs])], [], ws)
      else if starts_with ''--'' opt \<or> sep \<or> c = CHR ''-'' then usage
      else with_action (a, [])
        (case find_option p [CHR ''-'', c] of
           None \<Rightarrow> Inr ([], [CHR ''-'' # c # cs], ws)
         | Some b \<Rightarrow>
             (case cs of
                [] \<Rightarrow> following b ws
              | d # ds \<Rightarrow> if d = CHR ''='' then explicit_arg p b [CHR ''-'', c] True ds ws
                  else explicit_arg p b [CHR ''-'', c] False (d # ds) ws)))"

definition consume_optional :: "arg_parser \<Rightarrow> option_tuple \<Rightarrow> string \<Rightarrow> arg_words \<Rightarrow> consumed res" where
  "consume_optional p t s ws =
     (case t of
        (None, _) \<Rightarrow> Inr ([], [s], ws)
      | (Some a, opt, sep, Some ex) \<Rightarrow> explicit_arg p a opt sep ex ws
      | (Some a, opt, sep, None) \<Rightarrow> following a ws)"

text \<open>
  Each positional argument takes one word or none, and the \<open>--\<close> around it: all of them are used up the first
  time.  The first \<open>--\<close> among the words is removed from the values.
\<close>

definition take_dashes :: "arg_words \<Rightarrow> arg_words \<times> arg_words" where
  "take_dashes ws = (takeWhile (\<lambda>w. fst w = Dashes) ws, dropWhile (\<lambda>w. fst w = Dashes) ws)"

definition positional_chunk :: "arg_words \<Rightarrow> string list \<times> arg_words" where
  "positional_chunk ws =
     (case take_dashes ws of (u, ws) \<Rightarrow>
      case (case ws of w # ws' \<Rightarrow> if is_arg w then ([w], ws') else ([], ws) | [] \<Rightarrow> ([], [])) of (v, ws) \<Rightarrow>
      case take_dashes ws of (x, ws) \<Rightarrow> (remove1 ''--'' (map snd (u @ v @ x)), ws))"

fun consume_positionals :: "arg_action list \<Rightarrow> arg_words \<Rightarrow> (arg_action \<times> string list) list \<times> arg_words" where
  "consume_positionals [] ws = ([], ws)"
| "consume_positionals (a # as) ws =
     (case positional_chunk ws of (ss, ws) \<Rightarrow>
      case consume_positionals as ws of (acts, ws) \<Rightarrow> ((a, ss) # acts, ws))"

lemma with_action_Inr: "with_action act r = Inr (acts, rest) \<longleftrightarrow> (\<exists>bs. r = Inr (bs, rest) \<and> acts = act # bs)"
  by (cases rest) (auto simp: with_action_def rbind_Inr_iff)

lemma following_rest: "following a ws = Inr (acts, es, ws') \<Longrightarrow> length ws' \<le> length ws"
  by (auto simp: following_def length_dropWhile_le split: arity.splits list.splits if_splits)

lemma rbind_cong [fundef_cong]: "m = n \<Longrightarrow> (\<And>x. n = Inr x \<Longrightarrow> f x = g x) \<Longrightarrow> rbind m f = rbind n g"
  by (cases n) simp_all

lemma explicit_arg_rest: "explicit_arg p a opt sep ex ws = Inr (acts, es, ws') \<Longrightarrow> length ws' \<le> length ws"
proof (induction p a opt sep ex ws arbitrary: acts rule: explicit_arg.induct)
  case (2 p a opt sep c cs ws)
  show ?case
  proof (cases "nargs a = One \<or> nargs a = One_Or_More")
    case False
    with 2(3) obtain bs where bs: "\<not> (starts_with ''--'' opt \<or> sep \<or> c = CHR ''-'')" "(case find_option p [CHR ''-'', c] of
           None \<Rightarrow> Inr ([], [CHR ''-'' # c # cs], ws)
         | Some b \<Rightarrow>
             (case cs of
                [] \<Rightarrow> following b ws
              | d # ds \<Rightarrow> if d = CHR ''='' then explicit_arg p b [CHR ''-'', c] True ds ws
                  else explicit_arg p b [CHR ''-'', c] False (d # ds) ws)) = Inr (bs, es, ws')"
      by (auto simp: with_action_Inr split: if_splits)
    show ?thesis
    proof (cases "find_option p [CHR ''-'', c]")
      case (Some b)
      note rec = bs(2) [unfolded Some option.case]
      show ?thesis
      proof (cases cs)
        case Nil
        with rec show ?thesis by (simp add: following_rest)
      next
        case (Cons d ds)
        with rec 2(1) [OF False bs(1) Some Cons] 2(2) [OF False bs(1) Some Cons] show ?thesis
          by (simp split: if_splits)
      qed
    qed (use bs(2) in simp)
  qed (use 2(3) in auto)
qed (auto simp: split: if_splits)

lemma consume_optional_rest: "consume_optional p t s ws = Inr (acts, es, ws') \<Longrightarrow> length ws' \<le> length ws"
  by (auto simp: consume_optional_def dest: explicit_arg_rest following_rest split: prod.splits option.splits)

text \<open>
  \<open>_parse_known_args\<close> on the words that are left: up to the last option, positional arguments and options in turn;
  words in front of an option that nothing takes are left over.
\<close>

function parse_words :: "arg_parser \<Rightarrow> arg_action list \<Rightarrow> arg_words \<Rightarrow> parse_state \<Rightarrow> parse_state res" where
  "parse_words p pos ws st =
     (if \<not> list_ex is_option ws then
        (case consume_positionals pos ws of (acts, ws') \<Rightarrow>
           rbind (take_actions p acts st) (\<lambda>st. Inr (st\<lparr>extras := extras st @ map snd ws'\<rparr>)))
      else
        (let front = takeWhile (\<lambda>w. \<not> is_option w) ws in
         case (if front = [] then ([], ws) else consume_positionals pos ws) of (acts, ws') \<Rightarrow>
         let pos' = (if front = [] then pos else []) in
         rbind (take_actions p acts st) (\<lambda>st.
           if length ws' < length ws then parse_words p pos' ws' st
           else
             (let st = st\<lparr>extras := extras st @ map snd front\<rparr> in
              case dropWhile (\<lambda>w. \<not> is_option w) ws of
                (Option t, s) # rest \<Rightarrow>
                  rbind (consume_optional p t s rest) (\<lambda>(acts, es, rest').
                  rbind (take_actions p acts st) (\<lambda>st.
                    parse_words p pos' rest' (st\<lparr>extras := extras st @ es\<rparr>)))
              | _ \<Rightarrow> Inr st))))"
  by pat_completeness auto
termination
  apply (relation "measure (\<lambda>(p, pos, ws, st). length ws)")
    apply simp
   apply (auto)[1]
  subgoal for p pos ws st
    using length_dropWhile_le [of "\<lambda>w. \<not> is_option w" ws] by (auto dest!: consume_optional_rest)
  done

declare parse_words.simps [simp del]

definition parser_defaults :: "arg_parser \<Rightarrow> (string, arg_value) dict" where
  "parser_defaults p = map (\<lambda>a. (dest a, default_value a)) (filter (\<lambda>a. nargs a \<noteq> Help) (optionals p) @ positionals p)"

definition parse_args :: "arg_parser \<Rightarrow> string list \<Rightarrow> (string, arg_value) dict res" where
  "parse_args p argv =
     rbind (classify_words p argv) (\<lambda>ws.
     rbind (parse_words p (positionals p) ws
         \<lparr>namespace = parser_defaults p, seen_actions = [], seen_non_default = [], extras = []\<rparr>) (\<lambda>st.
       if list_ex (\<lambda>a. required a \<and> dest a \<notin> set (seen_actions st)) (optionals p) then usage
       else if extras st \<noteq> [] then usage   \<comment> \<open>unrecognized arguments\<close>
       else Inr (namespace st)))"

text \<open>What a program reads out of the result.\<close>

definition text_of :: "(string, arg_value) dict \<Rightarrow> string \<Rightarrow> string option" where
  "text_of ns d = (case dget ns d of Some (Text_Value s) \<Rightarrow> Some s | _ \<Rightarrow> None)"

definition texts_of :: "(string, arg_value) dict \<Rightarrow> string \<Rightarrow> string list option" where
  "texts_of ns d = (case dget ns d of Some (Texts ss) \<Rightarrow> Some ss | _ \<Rightarrow> None)"

definition int_of :: "(string, arg_value) dict \<Rightarrow> string \<Rightarrow> int option" where
  "int_of ns d = (case dget ns d of Some (Int_Value i) \<Rightarrow> Some i | _ \<Rightarrow> None)"

definition switch_of :: "(string, arg_value) dict \<Rightarrow> string \<Rightarrow> bool" where
  "switch_of ns d = (dget ns d = Some (Switch True))"

end
