(* ===== verification/Argparse_Facts.thy ===== *)
theory Argparse_Facts
  imports Py_Argparse
begin

text \<open>
  What every parser guarantees: a command line is refused with exit status 2, answered with the help and exit
  status 0, or gives each argument its default or a value of its declaration; the required options are given and
  at most one of each exclusive group is.
\<close>

section \<open>Ways to end\<close>

text \<open>A computation that leaves the program with status 0 or 2, or returns what \<open>Q\<close> allows.\<close>

definition ends :: "('a \<Rightarrow> bool) \<Rightarrow> 'a res \<Rightarrow> bool" where
  "ends Q r \<longleftrightarrow> (case r of Inl e \<Rightarrow> e = SystemExit 0 \<or> e = SystemExit 2 | Inr x \<Rightarrow> Q x)"

named_theorems ends_rules "rules for the ways a computation ends"

lemma ends_simps [simp]: "ends Q (Inr x) \<longleftrightarrow> Q x" "ends Q (Inl e) \<longleftrightarrow> e = SystemExit 0 \<or> e = SystemExit 2"
  by (simp_all add: ends_def)

lemma ends_bind [ends_rules]: "ends P m \<Longrightarrow> (\<And>x. m = Inr x \<Longrightarrow> P x \<Longrightarrow> ends Q (f x)) \<Longrightarrow> ends Q (rbind m f)"
  by (cases m) simp_all

lemma ends_mono: "ends P m \<Longrightarrow> (\<And>x. P x \<Longrightarrow> Q x) \<Longrightarrow> ends Q m"
  by (cases m) simp_all

lemma ends_fold: "(\<And>x s. x \<in> set xs \<Longrightarrow> P s \<Longrightarrow> ends P (f x s)) \<Longrightarrow> P s \<Longrightarrow> ends P (rfold f xs s)"
  by (induction xs arbitrary: s) (auto intro!: ends_bind [of P])

section \<open>Words\<close>

definition word_ok :: "arg_parser \<Rightarrow> word_kind \<times> string \<Rightarrow> bool" where   \<comment> \<open>options are the parser's own\<close>
  "word_ok p w \<longleftrightarrow> (case fst w of Option (Some a, _) \<Rightarrow> a \<in> set (optionals p) | _ \<Rightarrow> True)"

lemma word_ok_simps [simp]:
  "word_ok p (Arg, s)" "word_ok p (Dashes, s)" 
  "word_ok p (Option (x, u), s) \<longleftrightarrow> (\<forall>a. x = Some a \<longrightarrow> a \<in> set (optionals p))"
  by (simp_all add: word_ok_def split: option.splits)

lemma find_option_in: "find_option p s = Some a \<Longrightarrow> a \<in> set (optionals p)"
  by (auto simp: find_option_def find_Some_iff)

lemma parse_optional_ok: "ends (\<lambda>t. \<forall>a u. t = Some (Some a, u) \<longrightarrow> a \<in> set (optionals p)) (parse_optional p s)"
proof -
  have found: "a \<in> set (optionals p)" if "(Some a, u) \<in> set (option_tuples p s)" for a u
    using that by (auto simp: option_tuples_def Let_def split: if_splits)
  show ?thesis
    by (auto simp: parse_optional_def find_option_in intro: found split: option.splits list.splits if_splits)
qed

lemma classify_words_ok: "ends (list_all (word_ok p)) (classify_words p ss)"
proof (induction ss)
  case (Cons s ss)
  have "ends (list_all (word_ok p)) (rbind (parse_optional p s) (\<lambda>t. rbind (classify_words p ss) (\<lambda>ws.
      Inr (((case t of None \<Rightarrow> Arg | Some t \<Rightarrow> Option t), s) # ws))))"
    by (rule ends_bind [OF parse_optional_ok], rule ends_bind [OF Cons]) (auto split: option.splits)
  moreover have "list_all (word_ok p) (map (Pair Arg) ss)" by (induction ss) simp_all
  ultimately show ?case by simp
qed simp

section \<open>Consumed words\<close>

definition action_ok :: "arg_parser \<Rightarrow> arg_action \<times> string list \<Rightarrow> bool" where
  "action_ok p act \<longleftrightarrow> (case act of (a, ss) \<Rightarrow> a \<in> set (optionals p) \<and> ss \<noteq> [] \<or> a \<in> set (positionals p)
     \<or> a \<in> set (optionals p) \<and> (nargs a = Store_True \<or> nargs a = Help))"

definition consumed_ok :: "arg_parser \<Rightarrow> arg_words \<Rightarrow> consumed \<Rightarrow> bool" where
  "consumed_ok p ws r \<longleftrightarrow> (case r of (acts, _, ws') \<Rightarrow> list_all (action_ok p) acts \<and> set ws' \<subseteq> set ws)"

lemma consumed_ok_simps [simp]: "consumed_ok p ws (acts, es, ws') \<longleftrightarrow> list_all (action_ok p) acts \<and> set ws' \<subseteq> set ws"
  by (simp add: consumed_ok_def)

lemma following_ok: "a \<in> set (optionals p) \<Longrightarrow> ends (consumed_ok p ws) (following a ws)"
  by (auto simp: following_def action_ok_def dest: set_dropWhileD split: arity.splits list.splits)

lemma with_action_ok: "action_ok p act \<Longrightarrow> ends (consumed_ok p ws) r \<Longrightarrow> ends (consumed_ok p ws) (with_action act r)"
  by (cases r) (auto simp: with_action_def)

lemma explicit_arg_ok: "a \<in> set (optionals p) \<Longrightarrow> ends (consumed_ok p ws) (explicit_arg p a opt sep ex ws)"
proof (induction p a opt sep ex ws rule: explicit_arg.induct)
  case (2 p a opt sep c cs ws)
  show ?case
  proof (cases "(nargs a = One \<or> nargs a = One_Or_More) \<or> starts_with ''--'' opt \<or> sep \<or> c = CHR ''-''")
    case False
    then have act: "action_ok p (a, [])" using 2(3) by (cases "nargs a") (auto simp: action_ok_def)
    have "ends (consumed_ok p ws) (case cs of [] \<Rightarrow> following b ws
        | d # ds \<Rightarrow> if d = CHR ''='' then explicit_arg p b [CHR ''-'', c] True ds ws
            else explicit_arg p b [CHR ''-'', c] False (d # ds) ws)" if b: "find_option p [CHR ''-'', c] = Some b" for b
    proof (cases cs)
      case Nil
      with find_option_in [OF b] show ?thesis by (simp add: following_ok)
    next
      case (Cons d ds)
      with False b find_option_in [OF b] show ?thesis using 2(1,2) by simp
    qed
    with False act show ?thesis
      by (auto intro!: with_action_ok split: option.splits simp del: list.case)
  qed (use 2(3) in \<open>auto simp: action_ok_def\<close>)
qed (auto simp: action_ok_def)

lemma consume_optional_ok: "word_ok p (Option t, s) \<Longrightarrow> ends (consumed_ok p ws) (consume_optional p t s ws)"
  by (cases t) (auto simp: consume_optional_def following_ok explicit_arg_ok split: option.splits prod.splits)

lemma take_dashes_rest: "take_dashes ws = (u, vs) \<Longrightarrow> set vs \<subseteq> set ws"
  by (auto simp: take_dashes_def dest: set_dropWhileD)

lemma positional_chunk_rest: "positional_chunk ws = (ss, vs) \<Longrightarrow> set vs \<subseteq> set ws"
  by (auto simp: positional_chunk_def dest!: take_dashes_rest split: prod.splits list.splits if_splits; blast)

lemma consume_positionals_ok:
  "consume_positionals pos ws = (acts, ws') \<Longrightarrow> set pos \<subseteq> set (positionals p)
   \<Longrightarrow> list_all (action_ok p) acts \<and> set ws' \<subseteq> set ws"
proof (induction pos arbitrary: ws acts)
  case (Cons a pos)
  obtain ss vs where chunk: "positional_chunk ws = (ss, vs)" by (cases "positional_chunk ws")
  then have "set vs \<subseteq> set ws" by (rule positional_chunk_rest)
  moreover obtain bs where "consume_positionals pos vs = (bs, ws')" "acts = (a, ss) # bs"
    using Cons.prems(1) chunk by (auto split: prod.splits)
  ultimately show ?case using Cons.IH [of vs bs] Cons.prems(2) by (auto simp: action_ok_def)
qed auto

section \<open>Values\<close>

definition admissible :: "arg_action \<Rightarrow> arg_value \<Rightarrow> bool" where   \<comment> \<open>a value read from the command line\<close>
  "admissible a v \<longleftrightarrow>
     (case nargs a of
        One \<Rightarrow> (if arg_kind a = An_Integer then \<exists>i. v = Int_Value i else \<exists>s. v = Text_Value s)
          \<and> (case choices a of None \<Rightarrow> True | Some cs \<Rightarrow> v \<in> set (map Text_Value cs))
      | One_Or_More \<Rightarrow> \<exists>ss. ss \<noteq> [] \<and> v = Texts ss
      | Store_True \<Rightarrow> v = Switch True
      | Help \<Rightarrow> False)"

lemma convert_arg_ok: "ends (\<lambda>v. if k = An_Integer then \<exists>i. v = Int_Value i else \<exists>s. v = Text_Value s) (convert_arg k s)"
  by (auto simp: convert_arg_def split: arg_type.splits sum.splits)

lemma check_value_ok: "ends (\<lambda>w. w = v \<and> (case choices a of None \<Rightarrow> True | Some cs \<Rightarrow> v \<in> set (map Text_Value cs))) (check_value a v)"
  by (auto simp: check_value_def split: option.splits)

text \<open>Positional arguments have one value or none.\<close>

definition parser_ok :: "arg_parser \<Rightarrow> bool" where
  "parser_ok p \<longleftrightarrow> distinct (map dest (optionals p @ positionals p)) \<and> list_all (\<lambda>a. nargs a = One) (positionals p)"

lemma get_values_ok:
  assumes "action_ok p (a, ss)" "parser_ok p"
  shows "ends (\<lambda>v. nargs a \<noteq> Help \<and> (admissible a v \<or> a \<in> set (positionals p) \<and> v = default_value a)) (get_values a ss)"
proof (cases "nargs a = One \<and> ss \<noteq> []")
  case True
  then obtain s ts where ss: "ss = s # ts" by (cases ss) auto
  have "ends (admissible a) (rbind (convert_arg (arg_kind a) s) (check_value a))"
    by (rule ends_bind [OF convert_arg_ok], rule ends_mono [OF check_value_ok])
       (use True in \<open>auto simp: admissible_def split: option.splits\<close>)
  with True ss show ?thesis by (auto simp: get_values_def elim: ends_mono)
qed (use assms in \<open>auto simp: get_values_def admissible_def action_ok_def parser_ok_def list_all_iff split: arity.splits list.splits\<close>)

section \<open>The state of a parse\<close>

definition value_in :: "parse_state \<Rightarrow> arg_action \<Rightarrow> arg_value \<Rightarrow> bool" where
  "value_in st a v \<longleftrightarrow> dget (namespace st) (dest a) = Some v"

definition values_ok :: "arg_parser \<Rightarrow> parse_state \<Rightarrow> bool" where
  "values_ok p st \<longleftrightarrow>
     (\<forall>a \<in> set (optionals p @ positionals p). nargs a \<noteq> Help \<longrightarrow> (\<exists>v. value_in st a v
        \<and> (v = default_value a \<or> admissible a v)
        \<and> (a \<in> set (optionals p) \<and> dest a \<in> set (seen_actions st) \<longrightarrow> admissible a v)
        \<and> (v \<noteq> default_value a \<longrightarrow> dest a \<in> set (seen_non_default st))))"

definition exclusive_ok :: "arg_parser \<Rightarrow> string list \<Rightarrow> bool" where
  "exclusive_ok p seen \<longleftrightarrow> (\<forall>g \<in> set (exclusive p). \<forall>d \<in> set g. \<forall>e \<in> set g. d \<in> set seen \<and> e \<in> set seen \<longrightarrow> d = e)"

definition state_ok :: "arg_parser \<Rightarrow> parse_state \<Rightarrow> bool" where
  "state_ok p st \<longleftrightarrow> values_ok p st \<and> exclusive_ok p (seen_non_default st)"

lemma exclusive_ok_Cons:
  "exclusive_ok p seen \<Longrightarrow> \<not> list_ex (\<lambda>g. d \<in> set g \<and> list_ex (\<lambda>e. e \<noteq> d \<and> e \<in> set seen) g) (exclusive p)
   \<Longrightarrow> exclusive_ok p (d # seen)"
  unfolding exclusive_ok_def list_ex_iff
proof (intro ballI impI, elim conjE)
  fix g x y
  assume old: "\<forall>g\<in>set (exclusive p). \<forall>d\<in>set g. \<forall>e\<in>set g. d \<in> set seen \<and> e \<in> set seen \<longrightarrow> d = e"
    and new: "\<not> (\<exists>g\<in>set (exclusive p). d \<in> set g \<and> (\<exists>e\<in>set g. e \<noteq> d \<and> e \<in> set seen))"
    and g: "g \<in> set (exclusive p)" "x \<in> set g" "y \<in> set g" "x \<in> set (d # seen)" "y \<in> set (d # seen)"
  from g new have "\<not> (x = d \<and> y \<noteq> d)" "\<not> (y = d \<and> x \<noteq> d)" by auto
  moreover from old [rule_format, OF g(1-3)] g(4,5) have "x \<noteq> d \<Longrightarrow> y \<noteq> d \<Longrightarrow> x = y" by simp
  ultimately show "x = y" by auto
qed

lemma values_ok_set:
  assumes "parser_ok p" "values_ok p st" "a \<in> set (optionals p @ positionals p)"
    and v: "admissible a v \<or> a \<in> set (positionals p) \<and> v = default_value a"
    and seen: "set seen \<subseteq> insert (dest a) (set (seen_actions st))"
      "set (seen_non_default st) \<subseteq> set non_default" "v \<noteq> default_value a \<Longrightarrow> dest a \<in> set non_default"
  shows "values_ok p (st\<lparr>seen_actions := seen, namespace := dset (dest a) v (namespace st), seen_non_default := non_default\<rparr>)"
    (is "values_ok p ?st")
proof -
  have one: "v = default_value b \<or> admissible b v" "b \<in> set (optionals p) \<Longrightarrow> admissible b v"
    "v \<noteq> default_value b \<Longrightarrow> dest b \<in> set non_default"
    if "b \<in> set (optionals p @ positionals p)" "dest b = dest a" for b
  proof -
    have b: "b = a" using assms(1,3) that unfolding parser_ok_def distinct_map by (meson inj_onD)
    have "a \<in> set (optionals p) \<Longrightarrow> a \<notin> set (positionals p)" using assms(1) by (auto simp: parser_ok_def)
    with v show "v = default_value b \<or> admissible b v" "b \<in> set (optionals p) \<Longrightarrow> admissible b v"
      unfolding b by blast+
    show "dest b \<in> set non_default" if "v \<noteq> default_value b" using seen(3) that unfolding b .
  qed
  show ?thesis
    unfolding values_ok_def
  proof (intro ballI impI)
    fix b assume b: "b \<in> set (optionals p @ positionals p)" "nargs b \<noteq> Help"
    show "\<exists>w. value_in ?st b w \<and> (w = default_value b \<or> admissible b w)
        \<and> (b \<in> set (optionals p) \<and> dest b \<in> set (seen_actions ?st) \<longrightarrow> admissible b w)
        \<and> (w \<noteq> default_value b \<longrightarrow> dest b \<in> set (seen_non_default ?st))"
    proof (cases "dest b = dest a")
      case True
      with one [OF b(1) True] show ?thesis by (intro exI [of _ v]) (auto simp: value_in_def dict_simps)
    next
      case False
      from assms(2) b obtain w where "value_in st b w" "w = default_value b \<or> admissible b w"
        "b \<in> set (optionals p) \<and> dest b \<in> set (seen_actions st) \<longrightarrow> admissible b w"
        "w \<noteq> default_value b \<longrightarrow> dest b \<in> set (seen_non_default st)"
        unfolding values_ok_def by blast
      with False seen(1,2) show ?thesis by (intro exI [of _ w]) (auto simp: value_in_def dict_simps)
    qed
  qed
qed

lemma take_action_ok:
  assumes act: "action_ok p act" and p: "parser_ok p" and st: "state_ok p st"
  shows "ends (state_ok p) (take_action p act st)"
proof -
  obtain a ss where a: "act = (a, ss)" by (cases act)
  have own: "a \<in> set (optionals p @ positionals p)" using act by (auto simp: a action_ok_def)
  show ?thesis
    unfolding a take_action_def prod.case
  proof (rule ends_bind [OF get_values_ok [OF act [unfolded a] p]])
    fix v assume v: "nargs a \<noteq> Help \<and> (admissible a v \<or> a \<in> set (positionals p) \<and> v = default_value a)"
    have "values_ok p (st\<lparr>seen_actions := dest a # seen_actions st, namespace := dset (dest a) v (namespace st),
        seen_non_default := (if v = default_value a then seen_non_default st else dest a # seen_non_default st)\<rparr>)"
      by (rule values_ok_set [OF p _ own]) (use v st in \<open>auto simp: state_ok_def\<close>)
    with st exclusive_ok_Cons [of p "seen_non_default st" "dest a"]
    show "ends (state_ok p) (let plain = v = default_value a; st = st\<lparr>seen_actions := dest a # seen_actions st\<rparr>
        in if \<not> plain \<and> list_ex (\<lambda>g. dest a \<in> set g \<and> list_ex (\<lambda>d. d \<noteq> dest a \<and> d \<in> set (seen_non_default st)) g) (exclusive p)
           then usage
           else Inr (st\<lparr>namespace := dset (dest a) v (namespace st),
                        seen_non_default := if plain then seen_non_default st else dest a # seen_non_default st\<rparr>))"
      by (cases st; cases "v = default_value a") (simp_all add: state_ok_def Let_def)
  qed
qed

lemma take_actions_ok:
  "list_all (action_ok p) acts \<Longrightarrow> parser_ok p \<Longrightarrow> state_ok p st \<Longrightarrow> ends (state_ok p) (take_actions p acts st)"
  unfolding take_actions_def by (rule ends_fold) (auto simp: list_all_iff take_action_ok)

lemma state_ok_extras [simp]: "state_ok p (st\<lparr>extras := es\<rparr>) = state_ok p st"
  by (simp add: state_ok_def values_ok_def value_in_def)

lemma option_step_ok:
  assumes p: "parser_ok p" and st: "state_ok p st"
    and rec: "\<And>ws' st. length ws' < length ws \<Longrightarrow> set ws' \<subseteq> set ws \<Longrightarrow> state_ok p st \<Longrightarrow> ends (state_ok p) (k ws' st)"
    and ws: "list_all (word_ok p) ws"
  shows "ends (state_ok p) (case dropWhile (\<lambda>w. \<not> is_option w) ws of
      (Option t, s) # rest \<Rightarrow>
        rbind (consume_optional p t s rest) (\<lambda>(acts, es, rest').
        rbind (take_actions p acts st) (\<lambda>st. k rest' (st\<lparr>extras := extras st @ es\<rparr>)))
    | _ \<Rightarrow> Inr st)"
proof -
  have "ends (state_ok p) (rbind (consume_optional p t s rest) (\<lambda>(acts, es, rest').
        rbind (take_actions p acts st) (\<lambda>st. k rest' (st\<lparr>extras := extras st @ es\<rparr>))))"
    if d: "dropWhile (\<lambda>w. \<not> is_option w) ws = (Option t, s) # rest" for t s rest
  proof -
    from d have sub: "set ((Option t, s) # rest) \<subseteq> set ws" "length rest < length ws"
      using set_dropWhileD [of _ "\<lambda>w. \<not> is_option w" ws] length_dropWhile_le [of "\<lambda>w. \<not> is_option w" ws] by auto
    with ws have "word_ok p (Option t, s)" by (auto simp: list_all_iff)
    from consume_optional_ok [OF this] show ?thesis
    proof (rule ends_bind)
      fix r assume "consume_optional p t s rest = Inr r" "consumed_ok p rest r"
      moreover obtain bs es rest' where r: "r = (bs, es, rest')" by (cases r)
      ultimately have "list_all (action_ok p) bs" "set rest' \<subseteq> set ws" "length rest' < length ws"
        using sub consume_optional_rest by fastforce+
      with rec show "ends (state_ok p) (case r of (acts, es, rest') \<Rightarrow> rbind (take_actions p acts st) (\<lambda>st.
          k rest' (st\<lparr>extras := extras st @ es\<rparr>)))"
        by (simp add: r) (rule ends_bind [OF take_actions_ok [OF _ p st]]; simp)
    qed
  qed
  with st show ?thesis by (auto split: list.splits word_kind.splits)
qed

lemma parse_words_ok:
  "parser_ok p \<Longrightarrow> list_all (word_ok p) ws \<Longrightarrow> set pos \<subseteq> set (positionals p) \<Longrightarrow> state_ok p st
   \<Longrightarrow> ends (state_ok p) (parse_words p pos ws st)"
proof (induction "length ws" arbitrary: pos ws st rule: less_induct)
  case less
  note acts = take_actions_ok [OF _ less.prems(1)]
  show ?case
  proof (cases "list_ex is_option ws")
    case False
    obtain acts' ws' where c: "consume_positionals pos ws = (acts', ws')" by (cases "consume_positionals pos ws")
    from consume_positionals_ok [OF c less.prems(3)] False c show ?thesis
      by (auto simp: parse_words.simps [of p pos ws st] less.prems(4) intro!: ends_bind [OF acts])
  next
    case True
    define front where "front = takeWhile (\<lambda>w. \<not> is_option w) ws"
    define pos' where "pos' = (if front = [] then pos else [])"
    obtain acts' ws' where c: "(if front = [] then ([], ws) else consume_positionals pos ws) = (acts', ws')"
      by (cases "if front = [] then ([], ws) else consume_positionals pos ws")
    then have taken: "list_all (action_ok p) acts'" "set ws' \<subseteq> set ws"
      using consume_positionals_ok [OF _ less.prems(3)] by (auto split: if_splits)
    have pos': "set pos' \<subseteq> set (positionals p)" using less.prems(3) by (auto simp: pos'_def)
    have words: "list_all (word_ok p) vs" if "set vs \<subseteq> set ws" for vs
      using less.prems(2) that by (auto simp: list_all_iff)
    have rec: "ends (state_ok p) (parse_words p pos' vs st)" if "length vs < length ws" "set vs \<subseteq> set ws" "state_ok p st" for vs st
      using less.hyps [OF that(1) less.prems(1) words [OF that(2)] pos' that(3)] .
    have "ends (state_ok p) (rbind (take_actions p acts' st) (\<lambda>st.
           if length ws' < length ws then parse_words p pos' ws' st
           else
             (let st = st\<lparr>extras := extras st @ map snd front\<rparr> in
              case dropWhile (\<lambda>w. \<not> is_option w) ws of
                (Option t, s) # rest \<Rightarrow>
                  rbind (consume_optional p t s rest) (\<lambda>(acts, es, rest').
                  rbind (take_actions p acts st) (\<lambda>st.
                    parse_words p pos' rest' (st\<lparr>extras := extras st @ es\<rparr>)))
              | _ \<Rightarrow> Inr st)))"
    proof (rule ends_bind [OF acts [OF taken(1) less.prems(4)]], unfold Let_def, split if_split, intro conjI impI)
      fix st1 assume st1: "state_ok p st1"
      then show "ends (state_ok p) (parse_words p pos' ws' st1)" if "length ws' < length ws"
        using rec [OF that taken(2)] by simp
      from st1 show "ends (state_ok p) (case dropWhile (\<lambda>w. \<not> is_option w) ws of
                (Option t, s) # rest \<Rightarrow>
                  rbind (consume_optional p t s rest) (\<lambda>(acts, es, rest').
                  rbind (take_actions p acts (st1\<lparr>extras := extras st1 @ map snd front\<rparr>)) (\<lambda>st.
                    parse_words p pos' rest' (st\<lparr>extras := extras st @ es\<rparr>)))
              | _ \<Rightarrow> Inr (st1\<lparr>extras := extras st1 @ map snd front\<rparr>))"
        by (intro option_step_ok [OF less.prems(1) _ rec less.prems(2)]) simp
    qed
    then show ?thesis
      by (subst parse_words.simps)
         (simp only: True not_True_eq_False if_False Let_def front_def [symmetric] pos'_def [symmetric] c prod.case)
  qed
qed

section \<open>What a parser guarantees\<close>

definition options_ok :: "arg_parser \<Rightarrow> (string, arg_value) dict \<Rightarrow> bool" where
  "options_ok p ns \<longleftrightarrow>
     (\<forall>a \<in> set (optionals p @ positionals p). nargs a \<noteq> Help \<longrightarrow> (\<exists>v. dget ns (dest a) = Some v
        \<and> (admissible a v \<or> v = default_value a \<and> \<not> (a \<in> set (optionals p) \<and> required a))))
     \<and> (\<forall>g \<in> set (exclusive p). \<forall>a \<in> set (optionals p). \<forall>b \<in> set (optionals p).
          dest a \<in> set g \<and> dest b \<in> set g \<and> a \<noteq> b \<and> nargs a \<noteq> Help \<and> nargs b \<noteq> Help
          \<longrightarrow> dget ns (dest a) = Some (default_value a) \<or> dget ns (dest b) = Some (default_value b))"

lemma start_ok:
  assumes "parser_ok p"
  shows "state_ok p \<lparr>namespace = parser_defaults p, seen_actions = [], seen_non_default = [], extras = []\<rparr>"
proof -
  let ?as = "filter (\<lambda>a. nargs a \<noteq> Help) (optionals p @ positionals p)"
  have all_used: "filter (\<lambda>a. nargs a \<noteq> Help) (positionals p) = positionals p"
    using assms by (auto simp: parser_ok_def list_all_iff intro!: filter_True)
  have "distinct (map dest ?as)" using assms unfolding parser_ok_def by (blast intro: distinct_map_filter)
  then have "dget (parser_defaults p) (dest a) = Some (default_value a)" if "a \<in> set ?as" for a
    unfolding parser_defaults_def using that by (intro map_of_is_SomeI) (auto simp: comp_def all_used)
  then show ?thesis by (auto simp: state_ok_def values_ok_def value_in_def exclusive_ok_def)
qed

lemma state_ok_options:
  assumes p: "parser_ok p" and st: "state_ok p st"
    and given: "\<not> list_ex (\<lambda>a. required a \<and> dest a \<notin> set (seen_actions st)) (optionals p)"
  shows "options_ok p (namespace st)"
  unfolding options_ok_def
proof (intro conjI ballI impI)
  fix a assume a: "a \<in> set (optionals p @ positionals p)" "nargs a \<noteq> Help"
  with st obtain v where "dget (namespace st) (dest a) = Some v" "v = default_value a \<or> admissible a v"
    "a \<in> set (optionals p) \<and> dest a \<in> set (seen_actions st) \<longrightarrow> admissible a v"
    by (auto simp: state_ok_def values_ok_def value_in_def)
  moreover have "dest a \<in> set (seen_actions st)" if "a \<in> set (optionals p)" "required a"
    using given that by (auto simp: list_ex_iff)
  ultimately show "\<exists>v. dget (namespace st) (dest a) = Some v
      \<and> (admissible a v \<or> v = default_value a \<and> \<not> (a \<in> set (optionals p) \<and> required a))" by blast
next
  fix g a b
  assume g: "g \<in> set (exclusive p)" "a \<in> set (optionals p)" "b \<in> set (optionals p)"
    and ab: "dest a \<in> set g \<and> dest b \<in> set g \<and> a \<noteq> b \<and> nargs a \<noteq> Help \<and> nargs b \<noteq> Help"
  from p g ab have "dest a \<noteq> dest b" unfolding parser_ok_def distinct_map inj_on_def by auto
  with st g ab have "\<not> (dest a \<in> set (seen_non_default st) \<and> dest b \<in> set (seen_non_default st))"
    unfolding state_ok_def exclusive_ok_def by blast
  moreover have "dget (namespace st) (dest c) = Some (default_value c) \<or> dest c \<in> set (seen_non_default st)"
    if "c \<in> set (optionals p)" "nargs c \<noteq> Help" for c
    using st that by (auto simp: state_ok_def values_ok_def value_in_def)
  ultimately show "dget (namespace st) (dest a) = Some (default_value a) \<or> dget (namespace st) (dest b) = Some (default_value b)"
    using g ab by blast
qed

lemma parse_args_ok:
  assumes "parser_ok p"
  shows "ends (options_ok p) (parse_args p argv)"
  unfolding parse_args_def
proof (rule ends_bind [OF classify_words_ok], rule ends_bind [OF parse_words_ok])
  fix st assume "state_ok p st"
  from state_ok_options [OF assms this]
  show "ends (options_ok p) (if list_ex (\<lambda>a. required a \<and> dest a \<notin> set (seen_actions st)) (optionals p) then usage
      else if extras st \<noteq> [] then usage else Inr (namespace st))"
    by simp
qed (use assms start_ok in auto)

section \<open>Reading \<open>--option=value\<close>\<close>

definition no_sign :: "arg_parser \<Rightarrow> bool" where   \<comment> \<open>no option string has a \<open>=\<close>\<close>
  "no_sign p \<longleftrightarrow> list_all (\<lambda>a. list_all (\<lambda>s. CHR ''='' \<notin> set s) (option_strings a)) (optionals p)"

lemma parse_optional_found:
  "find_option p s = Some a \<Longrightarrow> starts_with ''-'' s \<Longrightarrow> parse_optional p s = Inr (Some (Some a, s, False, None))"
  by (simp add: parse_optional_def)

lemma parse_optional_sign:
  assumes "find_option p s = Some a" "starts_with ''-'' s" "no_sign p"
  shows "parse_optional p (s @ CHR ''='' # v) = Inr (Some (Some a, s, True, Some v))"
proof -
  have free: "CHR ''='' \<notin> set s"
    using assms(1,3) by (fastforce simp: find_option_def find_Some_iff no_sign_def list_all_iff in_set_conv_nth)
  have "find_option p (s @ CHR ''='' # v) = None"
    using assms(3) by (fastforce simp: find_option_def find_None_iff no_sign_def list_all_iff)
  moreover have "until (CHR ''='') (s @ CHR ''='' # v) = s" "past (CHR ''='') (s @ CHR ''='' # v) = v"
    using free by (induction s) (auto simp: until_def past_def)
  moreover have "starts_with ''-'' (s @ CHR ''='' # v)" using assms(2) by (auto simp: starts_with_iff)
  moreover have "s @ CHR ''='' # v \<noteq> ''-''" by (cases s) simp_all
  ultimately show ?thesis using assms(1) by (simp add: parse_optional_def)
qed

lemma parse_optional_plain: "\<not> starts_with ''-'' s \<Longrightarrow> parse_optional p s = Inr None"
  by (simp add: parse_optional_def)

lemma classify_plain:
  "list_all (\<lambda>s. \<not> starts_with ''-'' s) ss \<Longrightarrow> classify_words p ss = Inr (map (Pair Arg) ss)"
  by (induction ss) (auto simp: parse_optional_plain)

lemma classify_append:
  "classify_words p ss = Inr ws \<Longrightarrow> ''--'' \<notin> set ss \<Longrightarrow> classify_words p (ss @ ts) = rbind (classify_words p ts) (\<lambda>vs. Inr (ws @ vs))"
proof (induction ss arbitrary: ws)
  case (Cons s ss)
  then show ?case by (cases "classify_words p ts") (auto simp: rbind_Inr_iff)
next
  case Nil
  then show ?case by (cases "classify_words p ts") simp_all
qed

lemma parse_words_option:
  "parse_words p pos ((Option t, s) # ws) st =
     rbind (consume_optional p t s ws) (\<lambda>(acts, es, ws'). rbind (take_actions p acts st) (\<lambda>st.
       parse_words p pos ws' (st\<lparr>extras := extras st @ es\<rparr>)))"
  by (subst parse_words.simps) (simp add: is_option_def take_actions_def)

lemma consume_explicit:
  "nargs a = One \<or> nargs a = One_Or_More \<Longrightarrow> consume_optional p (Some a, opt, sep, Some v) s ws = Inr ([(a, [v])], [], ws)"
  by (cases v) (auto simp: consume_optional_def)

lemma parse_words_nothing: "parse_words p [] [] st = Inr st"
  by (subst parse_words.simps) (simp add: take_actions_def)

section \<open>Reading a command line word by word\<close>

definition read_words :: "arg_parser \<Rightarrow> string list \<Rightarrow> parse_state \<Rightarrow> parse_state res" where
  "read_words p ss st = rbind (classify_words p ss) (\<lambda>ws. parse_words p [] ws st)"

lemma read_nothing: "read_words p [] st = Inr st"
  by (simp add: read_words_def parse_words_nothing)

lemma read_value:
  assumes "find_option p s = Some a" "starts_with ''-'' s" "no_sign p" "nargs a = One"
    and "take_action p (a, [v]) st = Inr st'"
  shows "read_words p ((s @ CHR ''='' # v) # ss) st = read_words p ss st'"
proof -
  have "s @ CHR ''='' # v \<noteq> ''--''" using assms(2) by (cases s; cases "tl s") auto
  with parse_optional_sign [OF assms(1-3)] assms(4,5) show ?thesis
    by (cases "classify_words p ss")
       (simp_all add: read_words_def parse_words_option consume_explicit take_actions_def)
qed

lemma read_list:
  assumes "find_option p s = Some a" "starts_with ''-'' s" "nargs a = One_Or_More" "s \<noteq> ''--''"
    and "ns \<noteq> []" "list_all (\<lambda>n. \<not> starts_with ''-'' n) ns"
    and "take_action p (a, ns) st = Inr st'"
  shows "read_words p (s # ns) st = Inr st'"
proof -
  have "takeWhile is_arg (map (Pair Arg) ns) = map (Pair Arg) ns" "dropWhile is_arg (map (Pair Arg) ns) = []"
    by (simp_all add: is_arg_def)
  with assms(3,5) have "following a (map (Pair Arg) ns) = Inr ([(a, ns)], [], [])"
    by (cases ns) (simp_all add: following_def comp_def)
  with parse_optional_found [OF assms(1,2)] classify_plain [OF assms(6)] assms(4,7) show ?thesis
    by (simp add: read_words_def parse_words_option consume_optional_def take_actions_def parse_words_nothing)
qed

lemma parse_args_read:
  "positionals p = [] \<Longrightarrow> read_words p argv
      \<lparr>namespace = parser_defaults p, seen_actions = [], seen_non_default = [], extras = []\<rparr> = Inr st \<Longrightarrow>
    parse_args p argv = (if list_ex (\<lambda>a. required a \<and> dest a \<notin> set (seen_actions st)) (optionals p) then usage
      else if extras st \<noteq> [] then usage else Inr (namespace st))"
  by (cases "classify_words p argv") (simp_all add: parse_args_def read_words_def)

end
