(* ===== verification/Test_Suite.thy ===== *)
theory Test_Suite
  imports Interop_Report
begin

text \<open>
  \<open>test_suite.py\<close>: the suite \<open>rtps_test_suite_1\<close>, case by case in the order of the file and grouped
  by feature.  The titles and descriptions, which only the report generators show, are in \<open>Test_Texts\<close>.
\<close>

definition test_case :: "string \<Rightarrow> string list \<Rightarrow> ReturnCode list \<Rightarrow> check_name option \<Rightarrow> string \<times> test_entry" where
  "test_case name parameters codes check =
     (name, \<lparr>apps = parameters, expected_codes = codes, check_function = check\<rparr>)"

section \<open>The cases\<close>

definition suite_Domain :: suite where
  "suite_Domain = [
    test_case ''Test_Domain_0''
      [''-P -t Square -d 0'', ''-S -t Square -d 0 -b'']
      [OK, OK] None,
    test_case ''Test_Domain_1''
      [''-P -t Square -d 0'', ''-S -t Square -d 1'']
      [READER_NOT_MATCHED, DATA_NOT_RECEIVED] None,
    test_case ''Test_Domain_2''
      [''-P -t Square -d 1'', ''-S -t Square -d 1 -b'']
      [OK, OK] None]"

definition suite_DataRepresentation :: suite where
  "suite_DataRepresentation = [
    test_case ''Test_DataRepresentation_0''
      [''-P -t Square -x 1'', ''-S -t Square -x 1'']
      [OK, OK] None,
    test_case ''Test_DataRepresentation_1''
      [''-P -t Square -x 1'', ''-S -t Square -x 2'']
      [INCOMPATIBLE_QOS, INCOMPATIBLE_QOS] None,
    test_case ''Test_DataRepresentation_2''
      [''-P -t Square -x 2'', ''-S -t Square -x 1'']
      [INCOMPATIBLE_QOS, INCOMPATIBLE_QOS] None,
    test_case ''Test_DataRepresentation_3''
      [''-P -t Square -x 2'', ''-S -t Square -x 2 -b'']
      [OK, OK] None]"

definition suite_Reliability :: suite where
  "suite_Reliability = [
    test_case ''Test_Reliability_0''
      [''-P -t Square -b -z 0'', ''-S -t Square -b'']
      [OK, OK] (Some Order_W_Instances),
    test_case ''Test_Reliability_1''
      [''-P -t Square -b'', ''-S -t Square -r'']
      [INCOMPATIBLE_QOS, INCOMPATIBLE_QOS] None,
    test_case ''Test_Reliability_2''
      [''-P -t Square -r'', ''-S -t Square -b'']
      [OK, OK] None,
    test_case ''Test_Reliability_3''
      [''-P -t Square -r'', ''-S -t Square -r'']
      [OK, OK] None,
    test_case ''Test_Reliability_4''
      [''-P -t Square -r -k 0 -z 0'', ''-S -t Square -r -k 0'']
      [OK, OK] (Some Reliability_No_Losses),
    test_case ''Test_Reliability_5''
      [''-P -t Square -r -k 0 -z 0 --num-instances 4'', ''-S -t Square -r -k 0'']
      [OK, OK] (Some Reliability_No_Losses)]"

definition suite_History :: suite where
  "suite_History = [
    test_case ''Test_History_0''
      [''-P -t Square -r -k 5 -z 0 --write-period 50'',
       ''-S -t Square -r -k 5 --read-period 200'']
      [OK, OK] (Some Reliability_No_Losses),
    test_case ''Test_History_1''
      [''-P -t Square -r -k 5 -z 0 --write-period 50 --num-instances 4'',
       ''-S -t Square -r -k 5 --read-period 200'']
      [OK, OK] (Some Reliability_No_Losses)]"

definition suite_Ownership :: suite where
  "suite_Ownership = [
    test_case ''Test_Ownership_0''
      [''-P -t Square -s -1'', ''-S -t Square -s -1'']
      [OK, OK] None,
    test_case ''Test_Ownership_1''
      [''-P -t Square -s -1'', ''-S -t Square -s 1'']
      [INCOMPATIBLE_QOS, INCOMPATIBLE_QOS] None,
    test_case ''Test_Ownership_2''
      [''-P -t Square -s 3'', ''-S -t Square -s -1'']
      [INCOMPATIBLE_QOS, INCOMPATIBLE_QOS] None,
    test_case ''Test_Ownership_3''
      [''-P -t Square -s 3 -r -k 0 -c BLUE -z 20'',
       ''-P -t Square -s 4 -r -k 0 -c BLUE -z 30'',
       ''-S -t Square -s 1 -r -k 0'']
      [OK, OK, RECEIVING_FROM_ONE] (Some Size_Receivers),
    test_case ''Test_Ownership_4''
      [''-P -t Square -s 3 -r -k 0 -c BLUE -z 20'',
       ''-P -t Square -s 4 -r -k 0 -c RED -z 30'',
       ''-S -t Square -s 1 -r -k 0'']
      [OK, OK, RECEIVING_FROM_BOTH] (Some Size_Receivers),
    test_case ''Test_Ownership_5''
      [''-P -t Square -s -1 -r -k 0 -c BLUE -z 20'',
       ''-P -t Square -s -1 -r -k 0 -c BLUE -z 30'',
       ''-S -t Square -s -1 -r -k 0'']
      [OK, OK, RECEIVING_FROM_BOTH] (Some Size_Receivers),
    test_case ''Test_Ownership_6''
      [''-P -t Square -s -1 -r -k 0 -c BLUE -z 20'',
       ''-P -t Square -s -1 -r -k 0 -c RED -z 30'',
       ''-S -t Square -s -1 -r -k 0'']
      [OK, OK, RECEIVING_FROM_BOTH] (Some Size_Receivers)]"

definition suite_Deadline :: suite where
  "suite_Deadline = [
    test_case ''Test_Deadline_0''
      [''-P -t Square -f 3000'', ''-S -t Square -f 5000'']
      [OK, OK] None,
    test_case ''Test_Deadline_1''
      [''-P -t Square -f 5000'', ''-S -t Square -f 5000'']
      [OK, OK] None,
    test_case ''Test_Deadline_2''
      [''-P -t Square -f 7000'', ''-S -t Square -f 5000'']
      [INCOMPATIBLE_QOS, INCOMPATIBLE_QOS] None,
    test_case ''Test_Deadline_3''
      [''-P -t Square -f 2000 -w --write-period 3000'', ''-S -t Square -f 2000'']
      [DEADLINE_MISSED, DEADLINE_MISSED] (Some Deadline_Missed)]"

definition suite_Topic :: suite where
  "suite_Topic = [
    test_case ''Test_Topic_0''
      [''-P -t Circle'', ''-S -t Circle'']
      [OK, OK] None,
    test_case ''Test_Topic_1''
      [''-P -t Square'', ''-S -t Circle'']
      [READER_NOT_MATCHED, DATA_NOT_RECEIVED] None]"

definition suite_Cft :: suite where
  "suite_Cft = [
    test_case ''Test_Cft_0''
      [''-P -t Square -r -k 0 -c BLUE'',
       ''-P -t Square -r -k 0 -c RED'',
       ''-S -t Square -r -k 0 -c RED'']
      [OK, OK, RECEIVING_FROM_ONE] (Some Color_Receivers),
    test_case ''Test_Cft_1''
      [''-P -t Square -r -k 0 -z 0 --size-modulo 50'',
       ''-S -t Square -r -k 0 --cft \"shapesize <= 20\"'']
      [OK, OK] (Some Size_Less_Than_20)]"

definition suite_Partition :: suite where
  "suite_Partition = [
    test_case ''Test_Partition_0''
      [''-P -t Square -p \"p1\"'', ''-S -t Square -p \"p1\"'']
      [OK, OK] None,
    test_case ''Test_Partition_1''
      [''-P -t Square -p \"p1\"'', ''-S -t Square -p \"p2\"'']
      [READER_NOT_MATCHED, DATA_NOT_RECEIVED] None,
    test_case ''Test_Partition_2''
      [''-P -t Square -p \"p1\" -c BLUE'',
       ''-P -t Square -p \"x1\" -c RED'',
       ''-S -t Square -p \"p*\"'']
      [OK, READER_NOT_MATCHED, RECEIVING_FROM_ONE] (Some Color_Receivers)]"

definition suite_Durability :: suite where
  "suite_Durability = [
    test_case ''Test_Durability_0''
      [''-P -t Square -D v'', ''-S -t Square -D v'']
      [OK, OK] None,
    test_case ''Test_Durability_1''
      [''-P -t Square -D v'', ''-S -t Square -D l'']
      [INCOMPATIBLE_QOS, INCOMPATIBLE_QOS] None,
    test_case ''Test_Durability_2''
      [''-P -t Square -D v'', ''-S -t Square -D t'']
      [INCOMPATIBLE_QOS, INCOMPATIBLE_QOS] None,
    test_case ''Test_Durability_3''
      [''-P -t Square -D v'', ''-S -t Square -D p'']
      [INCOMPATIBLE_QOS, INCOMPATIBLE_QOS] None,
    test_case ''Test_Durability_4''
      [''-P -t Square -D l'', ''-S -t Square -D v'']
      [OK, OK] None,
    test_case ''Test_Durability_5''
      [''-P -t Square -D l'', ''-S -t Square -D l'']
      [OK, OK] None,
    test_case ''Test_Durability_6''
      [''-P -t Square -D l'', ''-S -t Square -D t'']
      [INCOMPATIBLE_QOS, INCOMPATIBLE_QOS] None,
    test_case ''Test_Durability_7''
      [''-P -t Square -D l'', ''-S -t Square -D p'']
      [INCOMPATIBLE_QOS, INCOMPATIBLE_QOS] None,
    test_case ''Test_Durability_8''
      [''-P -t Square -D t'', ''-S -t Square -D v'']
      [OK, OK] None,
    test_case ''Test_Durability_9''
      [''-P -t Square -D t'', ''-S -t Square -D l'']
      [OK, OK] None,
    test_case ''Test_Durability_10''
      [''-P -t Square -D t'', ''-S -t Square -D t'']
      [OK, OK] None,
    test_case ''Test_Durability_11''
      [''-P -t Square -D t'', ''-S -t Square -D p'']
      [INCOMPATIBLE_QOS, INCOMPATIBLE_QOS] None,
    test_case ''Test_Durability_12''
      [''-P -t Square -D p'', ''-S -t Square -D v'']
      [OK, OK] None,
    test_case ''Test_Durability_13''
      [''-P -t Square -D p'', ''-S -t Square -D l'']
      [OK, OK] None,
    test_case ''Test_Durability_14''
      [''-P -t Square -D p'', ''-S -t Square -D t'']
      [OK, OK] None,
    test_case ''Test_Durability_15''
      [''-P -t Square -D p'', ''-S -t Square -D p'']
      [OK, OK] None,
    test_case ''Test_Durability_16''
      [''-P -t Square -z 0 -r -k 0 -D v -w'', ''-S -t Square -r -k 0 -D v'']
      [OK, OK] (Some Durability_Volatile),
    test_case ''Test_Durability_17''
      [''-P -t Square -z 0 -r -k 0 -D l -w'', ''-S -t Square -r -k 0 -D l'']
      [OK, OK] (Some Durability_Transient_Local)]"

definition suite_TimeBasedFilter :: suite where
  "suite_TimeBasedFilter = [
    test_case ''Test_TimeBasedFilter_0''
      [''-P -t Square -z 0 --write-period 100'', ''-S -t Square --time-filter 1000'']
      [OK, OK] (Some One_Sample_In_10),
    test_case ''Test_TimeBasedFilter_1''
      [''-P -t Square -z 0 --write-period 100 --num-instances 4'',
       ''-S -t Square --time-filter 1000'']
      [OK, OK] (Some One_Sample_In_10)]"

definition suite_FinalInstanceState :: suite where
  "suite_FinalInstanceState = [
    test_case ''Test_FinalInstanceState_0''
      [''-P -t Square --num-iterations 200 --num-instances 4 --final-instance-state u'',
       ''-S -t Square'']
      [OK, OK] (Some Unregistering),
    test_case ''Test_FinalInstanceState_1''
      [''-P -t Square --num-iterations 200 --num-instances 4 --final-instance-state d'',
       ''-S -t Square'']
      [OK, OK] (Some Disposing),
    test_case ''Test_FinalInstanceState_2''
      [''-P -t Square --num-iterations 200 --num-instances 4'', ''-S -t Square'']
      [OK, OK] (Some Unregistering)]"

definition suite_LargeData :: suite where
  "suite_LargeData = [
    test_case ''Test_LargeData_0''
      [''-P -t Square -r -k 0 --additional-payload-size 100000'', ''-S -t Square -r -k 0'']
      [OK, OK] (Some Large_Data)]"

definition suite_Lifespan :: suite where
  "suite_Lifespan = [
    test_case ''Test_Lifespan_0''
      [''-P -t Square -r -k 0 -z 0 --write-period 100 --lifespan 250'',
       ''-S -t Square -r -k 0 --read-period 500'']
      [OK, OK] (Some Lifespan_2_3),
    test_case ''Test_Lifespan_1''
      [''-P -t Square -r -k 0 -z 0 --write-period 100 --lifespan 250 --num-instances 4'',
       ''-S -t Square -r -k 0 --read-period 500'']
      [OK, OK] (Some Lifespan_2_3),
    test_case ''Test_Lifespan_2''
      [''-P -t Square -r -k 0 -z 0 --write-period 400 --lifespan 1000'',
       ''-S -t Square -r -k 0 --read-period 2000'']
      [OK, OK] (Some Lifespan_2_3),
    test_case ''Test_Lifespan_3''
      [''-P -t Square -r -k 0 -z 0 --write-period 400 --lifespan 1000 --num-instances 4'',
       ''-S -t Square -r -k 0 --read-period 2000'']
      [OK, OK] (Some Lifespan_2_3),
    test_case ''Test_Lifespan_4''
      [''-P -t Square -b -z 0 --write-period 100 --lifespan 250'',
       ''-S -t Square -b -k 0 --read-period 500'']
      [OK, OK] (Some Lifespan_2_3),
    test_case ''Test_Lifespan_5''
      [''-P -t Square -b -z 0 --write-period 100 --lifespan 250 --num-instances 4'',
       ''-S -t Square -b -k 0 --read-period 500'']
      [OK, OK] (Some Lifespan_2_3),
    test_case ''Test_Lifespan_6''
      [''-P -t Square -b -z 0 --write-period 400 --lifespan 1000'',
       ''-S -t Square -b -k 0 --read-period 2000'']
      [OK, OK] (Some Lifespan_2_3),
    test_case ''Test_Lifespan_7''
      [''-P -t Square -b -z 0 --write-period 400 --lifespan 1000 --num-instances 4'',
       ''-S -t Square -b -k 0 --read-period 2000'']
      [OK, OK] (Some Lifespan_2_3)]"

definition suite_OrderedAccess :: suite where
  "suite_OrderedAccess = [
    test_case ''Test_OrderedAccess_0''
      [''-P -t Square -r -k 0 --ordered --access-scope i'',
       ''-S -t Square -r -k 0 --ordered --access-scope i'']
      [OK, OK] None,
    test_case ''Test_OrderedAccess_1''
      [''-P -t Square -r -k 0 --ordered --access-scope i'',
       ''-S -t Square -r -k 0 --ordered --access-scope t'']
      [INCOMPATIBLE_QOS, INCOMPATIBLE_QOS] None,
    test_case ''Test_OrderedAccess_2''
      [''-P -t Square -r -k 0 --ordered --access-scope i'',
       ''-S -t Square -r -k 0 --ordered --access-scope g'']
      [INCOMPATIBLE_QOS, INCOMPATIBLE_QOS] None,
    test_case ''Test_OrderedAccess_3''
      [''-P -t Square -r -k 0 --ordered --access-scope t'',
       ''-S -t Square -r -k 0 --ordered --access-scope i'']
      [OK, OK] None,
    test_case ''Test_OrderedAccess_4''
      [''-P -t Square -r -k 0 --ordered --access-scope t'',
       ''-S -t Square -r -k 0 --ordered --access-scope t'']
      [OK, OK] None,
    test_case ''Test_OrderedAccess_5''
      [''-P -t Square -r -k 0 --ordered --access-scope t'',
       ''-S -t Square -r -k 0 --ordered --access-scope g'']
      [INCOMPATIBLE_QOS, INCOMPATIBLE_QOS] None,
    test_case ''Test_OrderedAccess_6''
      [''-P -t Square -r -k 0 --ordered --access-scope g'',
       ''-S -t Square -r -k 0 --ordered --access-scope i'']
      [OK, OK] None,
    test_case ''Test_OrderedAccess_7''
      [''-P -t Square -r -k 0 --ordered --access-scope g'',
       ''-S -t Square -r -k 0 --ordered --access-scope t'']
      [OK, OK] None,
    test_case ''Test_OrderedAccess_8''
      [''-P -t Square -r -k 0 --ordered --access-scope g'',
       ''-S -t Square -r -k 0 --ordered --access-scope g'']
      [OK, OK] None,
    test_case ''Test_OrderedAccess_9''
      [''-P -t Square -r -k 0 --access-scope t'',
       ''-S -t Square -r -k 0 --ordered --access-scope t'']
      [INCOMPATIBLE_QOS, INCOMPATIBLE_QOS] None,
    test_case ''Test_OrderedAccess_10''
      [''-P -t Square -r -k 0 --ordered --access-scope t -z 0 --num-instances 4 --write-period 100'',
       ''-S -t Square -r -k 0 --ordered --access-scope i --take-read --read-period 400'',
       ''-S -t Square -r -k 0 --ordered --access-scope t --take-read --read-period 400'']
      [OK, ORDERED_ACCESS_INSTANCE, ORDERED_ACCESS_TOPIC] (Some Ordered_Access),
    test_case ''Test_OrderedAccess_11''
      [''-P -t Square -r -k 0 -D l --ordered --access-scope i'',
       ''-S -t Square -r -k 0 -D l --ordered --access-scope i'']
      [OK, OK] None,
    test_case ''Test_OrderedAccess_12''
      [''-P -t Square -r -k 0 -D l --ordered --access-scope t'',
       ''-S -t Square -r -k 0 -D l --ordered --access-scope i'']
      [OK, OK] None,
    test_case ''Test_OrderedAccess_13''
      [''-P -t Square -r -k 0 -D l --ordered --access-scope t'',
       ''-S -t Square -r -k 0 -D l --ordered --access-scope t'']
      [OK, OK] None,
    test_case ''Test_OrderedAccess_14''
      [''-P -t Square -r -k 0 -D l --ordered --access-scope g'',
       ''-S -t Square -r -k 0 -D l --ordered --access-scope i'']
      [OK, OK] None,
    test_case ''Test_OrderedAccess_15''
      [''-P -t Square -r -k 0 -D l --ordered --access-scope g'',
       ''-S -t Square -r -k 0 -D l --ordered --access-scope t'']
      [OK, OK] None,
    test_case ''Test_OrderedAccess_16''
      [''-P -t Square -r -k 0 -D l --ordered --access-scope g'',
       ''-S -t Square -r -k 0 -D l --ordered --access-scope g'']
      [OK, OK] None,
    test_case ''Test_OrderedAccess_17''
      [''-P -t Square -r -k 0 -D l --ordered --access-scope t -z 0 --num-instances 4 --write-period 100'',
       ''-S -t Square -r -k 0 -D l --ordered --access-scope i --take-read --read-period 400'',
       ''-S -t Square -r -k 0 -D l --ordered --access-scope t --take-read --read-period 400'']
      [OK, ORDERED_ACCESS_INSTANCE, ORDERED_ACCESS_TOPIC] (Some Ordered_Access)]"

definition suite_CoherentSets :: suite where
  "suite_CoherentSets = [
    test_case ''Test_CoherentSets_0''
      [''-P -t Square -r -k 0 --coherent --access-scope i'',
       ''-S -t Square -r -k 0 --coherent --access-scope i'']
      [OK, OK] None,
    test_case ''Test_CoherentSets_1''
      [''-P -t Square -r -k 0 --coherent --access-scope i'',
       ''-S -t Square -r -k 0 --coherent --access-scope t'']
      [INCOMPATIBLE_QOS, INCOMPATIBLE_QOS] None,
    test_case ''Test_CoherentSets_2''
      [''-P -t Square -r -k 0 --coherent --access-scope i'',
       ''-S -t Square -r -k 0 --coherent --access-scope g'']
      [INCOMPATIBLE_QOS, INCOMPATIBLE_QOS] None,
    test_case ''Test_CoherentSets_3''
      [''-P -t Square -r -k 0 --coherent --access-scope t'',
       ''-S -t Square -r -k 0 --coherent --access-scope i'']
      [OK, OK] None,
    test_case ''Test_CoherentSets_4''
      [''-P -t Square -r -k 0 --coherent --access-scope t'',
       ''-S -t Square -r -k 0 --coherent --access-scope t'']
      [OK, OK] None,
    test_case ''Test_CoherentSets_5''
      [''-P -t Square -r -k 0 --coherent --access-scope t'',
       ''-S -t Square -r -k 0 --coherent --access-scope g'']
      [INCOMPATIBLE_QOS, INCOMPATIBLE_QOS] None,
    test_case ''Test_CoherentSets_6''
      [''-P -t Square -r -k 0 --coherent --access-scope g'',
       ''-S -t Square -r -k 0 --coherent --access-scope i'']
      [OK, OK] None,
    test_case ''Test_CoherentSets_7''
      [''-P -t Square -r -k 0 --coherent --access-scope g'',
       ''-S -t Square -r -k 0 --coherent --access-scope t'']
      [OK, OK] None,
    test_case ''Test_CoherentSets_8''
      [''-P -t Square -r -k 0 --coherent --access-scope g'',
       ''-S -t Square -r -k 0 --coherent --access-scope g'']
      [OK, OK] None,
    test_case ''Test_CoherentSets_9''
      [''-P -t Square -r -k 0 --access-scope t'',
       ''-S -t Square -r -k 0 --coherent --access-scope t'']
      [INCOMPATIBLE_QOS, INCOMPATIBLE_QOS] None,
    test_case ''Test_CoherentSets_10''
      [''-P -t Square -r -k 0 --coherent --access-scope i --num-topics 3 --num-instances 4 --coherent-sample-count 3 --write-period 100 -z 0'',
       ''-S -t Square -r -k 0 --coherent --access-scope i --num-topics 3 --take-read --read-period 100'']
      [OK, OK] (Some Coherent_Sets_Non_Group),
    test_case ''Test_CoherentSets_11''
      [''-P -t Square -r -k 0 --coherent --access-scope t --num-topics 3 --num-instances 4 --coherent-sample-count 3 --write-period 100 -z 0'',
       ''-S -t Square -r -k 0 --coherent --access-scope t --num-topics 3 --take-read --read-period 100'']
      [OK, OK] (Some Coherent_Sets_Non_Group),
    test_case ''Test_CoherentSets_12''
      [''-P -t Square -r -k 0 --coherent --access-scope g --num-topics 3 --num-instances 4 --coherent-sample-count 3 --write-period 100 -z 0'',
       ''-S -t Square -r -k 0 --coherent --access-scope g --num-topics 3 --take-read --read-period 100'']
      [OK, OK] (Some Coherent_Sets),
    test_case ''Test_CoherentSets_13''
      [''-P -t Square -r -k 0 -D l --coherent --access-scope i'',
       ''-S -t Square -r -k 0 -D l --coherent --access-scope i'']
      [OK, OK] None,
    test_case ''Test_CoherentSets_14''
      [''-P -t Square -r -k 0 -D l --coherent --access-scope t'',
       ''-S -t Square -r -k 0 -D l --coherent --access-scope i'']
      [OK, OK] None,
    test_case ''Test_CoherentSets_15''
      [''-P -t Square -r -k 0 -D l --coherent --access-scope t'',
       ''-S -t Square -r -k 0 -D l --coherent --access-scope t'']
      [OK, OK] None,
    test_case ''Test_CoherentSets_16''
      [''-P -t Square -r -k 0 -D l --coherent --access-scope g'',
       ''-S -t Square -r -k 0 -D l --coherent --access-scope i'']
      [OK, OK] None,
    test_case ''Test_CoherentSets_17''
      [''-P -t Square -r -k 0 -D l --coherent --access-scope g'',
       ''-S -t Square -r -k 0 -D l --coherent --access-scope t'']
      [OK, OK] None,
    test_case ''Test_CoherentSets_18''
      [''-P -t Square -r -k 0 -D l --coherent --access-scope g'',
       ''-S -t Square -r -k 0 -D l --coherent --access-scope g'']
      [OK, OK] None,
    test_case ''Test_CoherentSets_19''
      [''-P -t Square -r -k 0 -D l --coherent --access-scope i --num-topics 3 --num-instances 4 --coherent-sample-count 3 --write-period 100 -z 0'',
       ''-S -t Square -r -k 0 -D l --coherent --access-scope i --num-topics 3 --take-read --read-period 100'']
      [OK, OK] (Some Coherent_Sets_Non_Group),
    test_case ''Test_CoherentSets_20''
      [''-P -t Square -r -k 0 -D l --coherent --access-scope t --num-topics 3 --num-instances 4 --coherent-sample-count 3 --write-period 100 -z 0'',
       ''-S -t Square -r -k 0 -D l --coherent --access-scope t --num-topics 3 --take-read --read-period 100'']
      [OK, OK] (Some Coherent_Sets_Non_Group),
    test_case ''Test_CoherentSets_21''
      [''-P -t Square -r -k 0 -D l --coherent --access-scope g --num-topics 3 --num-instances 4 --coherent-sample-count 3 --write-period 100 -z 0'',
       ''-S -t Square -r -k 0 -D l --coherent --access-scope g --num-topics 3 --take-read --read-period 100'']
      [OK, OK] (Some Coherent_Sets)]"

definition rtps_test_suite_1 :: suite where
  "rtps_test_suite_1 = concat [suite_Domain, suite_DataRepresentation, suite_Reliability, suite_History,
     suite_Ownership, suite_Deadline, suite_Topic, suite_Cft,
     suite_Partition, suite_Durability, suite_TimeBasedFilter, suite_FinalInstanceState,
     suite_LargeData, suite_Lifespan, suite_OrderedAccess, suite_CoherentSets]"

lemmas suite_defs = rtps_test_suite_1_def test_case_def suite_Domain_def suite_DataRepresentation_def suite_Reliability_def suite_History_def
  suite_Ownership_def suite_Deadline_def suite_Topic_def suite_Cft_def
  suite_Partition_def suite_Durability_def suite_TimeBasedFilter_def suite_FinalInstanceState_def
  suite_LargeData_def suite_Lifespan_def suite_OrderedAccess_def suite_CoherentSets_def

section \<open>What the suite relies on\<close>

definition check_of :: "test_entry \<Rightarrow> check_name" where
  "check_of test = (case check_function test of None \<Rightarrow> Basic_Check | Some f \<Rightarrow> f)"

text \<open>Can the process that runs an application end with this code?\<close>

definition code_possible :: "check_name \<Rightarrow> string \<Rightarrow> ReturnCode \<Rightarrow> bool" where
  "code_possible f parameters r =
     (if has_option ''-P'' parameters then List.member publisher_codes r
      else List.member start_codes r \<or> List.member (codes_of f) r)"

definition entry_ok :: "test_entry \<Rightarrow> bool" where
  "entry_ok test \<longleftrightarrow> length (apps test) = length (expected_codes test)
     \<and> (\<not> raises (entity_types 0 0 (apps test)))
     \<and> list_all2 (code_possible (check_of test)) (apps test) (expected_codes test)"

lemma suite_entries_ok:
  "list_all (\<lambda>(_, test). entry_ok test) rtps_test_suite_1" "distinct (dkeys rtps_test_suite_1)"
  by code_simp+

lemma entry_prepared:
  assumes "entry_ok test"
  shows "\<exists>j. prepare_case opts s (name, test) = Inr j \<and> job_parameters j = map (complete_parameters opts) (apps test)"
  using assms by (simp add: entry_ok_def prepare_case_Inr)

lemma entity_types_complete:
  assumes "data_representation opts = ''1'' \<or> data_representation opts = ''2''"
  shows "entity_types p s (map (complete_parameters opts) params) = entity_types p s params"
  by (induction p s params rule: entity_types.induct)
     (simp_all add: complete_parameters_kind [OF _ assms] kind_option_def)

section \<open>Properties\<close>

lemma suite_ready:
  assumes "data_representation opts = ''1'' \<or> data_representation opts = ''2''"
    and "are_tests_in_test_suite rtps_test_suite_1 (test_cases opts)"
    and "are_tests_in_test_suite rtps_test_suite_1 (test_cases_disabled opts)"
  shows "\<exists>jobs. select_cases opts n rtps_test_suite_1 = Inr jobs \<and> distinct (map job_name jobs)
    \<and> list_all (\<lambda>j. \<not> raises (entity_types 0 0 (job_parameters j))) jobs"
proof -
  let ?entries = "filter (\<lambda>(name, _). selected opts name) rtps_test_suite_1"
  let ?job = "\<lambda>x. projr (prepare_case opts n x)"
  have ok: "entry_ok test" if "(name, test) \<in> set ?entries" for name test
    using suite_entries_ok(1) that by (auto simp: list_all_iff)
  have job: "prepare_case opts n x = Inr (?job x) \<and> job_name (?job x) = n @ ''_'' @ fst x
      \<and> \<not> raises (entity_types 0 0 (job_parameters (?job x)))" if "x \<in> set ?entries" for x
    using ok [of "fst x" "snd x"] that
    by (cases x) (auto simp: prepare_case_def entry_ok_def entity_types_complete [OF assms(1)])
  then have "rmap (prepare_case opts n) ?entries = Inr (map ?job ?entries)" by (intro rmap_Inr) blast
  with assms(2,3) have "select_cases opts n rtps_test_suite_1 = Inr (map ?job ?entries)"
    by (simp add: select_cases_def)
  moreover have names: "map job_name (map ?job ?entries) = map ((\<lambda>m. n @ ''_'' @ m) \<circ> fst) ?entries"
    using job by auto
  have "distinct (map ((\<lambda>m. n @ ''_'' @ m) \<circ> fst) ?entries)"
    using suite_entries_ok(2) distinct_map_filter [of fst] by (auto simp: distinct_map inj_on_def)
  then have "distinct (map job_name (map ?job ?entries))" unfolding names .
  moreover have "list_all (\<lambda>j. \<not> raises (entity_types 0 0 (job_parameters j))) (map ?job ?entries)"
    using job by (auto simp: list_all_iff)
  ultimately show ?thesis by blast
qed

text \<open>
  C15: \<open>main\<close> runs the suite of the repository. With the names of \<open>-t\<close> and \<open>-d\<close> taken from it, no
  assertion and no exception stops the selection, the selected cases have different names, and the
  entities of each are found, so that \<open>run_test\<close> does not raise on them.
\<close>

theorem suite_accepted:
  assumes "data_representation opts = ''1'' \<or> data_representation opts = ''2''"
    and "are_tests_in_test_suite rtps_test_suite_1 (test_cases opts)"
    and "are_tests_in_test_suite rtps_test_suite_1 (test_cases_disabled opts)"
  shows "\<exists>jobs. select_cases opts n rtps_test_suite_1 = Inr jobs \<and> distinct (map job_name jobs)
    \<and> list_all (\<lambda>j. \<not> raises (entity_types 0 0 (job_parameters j))) jobs"
  by (rule suite_ready [OF assms])

lemma suite_accepted_witness:
  "\<exists>jobs. select_cases \<lparr>publisher = [], subscriber = [], test_cases = Some [''Test_Domain_0''],
       test_cases_disabled = None, data_representation = ''2'', periodic_announcement_ms = 0\<rparr> ''s'' rtps_test_suite_1 = Inr jobs"
  (is "\<exists>jobs. select_cases ?o _ _ = _")
proof -
  have "are_tests_in_test_suite rtps_test_suite_1 (test_cases ?o)"
    "are_tests_in_test_suite rtps_test_suite_1 (test_cases_disabled ?o)"
    by (simp_all add: are_tests_in_test_suite_def suite_defs)
  from suite_accepted [OF _ this, of "''s''"] show ?thesis by auto
qed

text \<open>
  The suite asks for what can happen. The cases have different names, and in every case each
  expected code is one that the process of its application can end with: for a subscriber, a code of
  the start-up or of the check function of the case.
\<close>

theorem suite_codes_possible:
  "distinct (dkeys rtps_test_suite_1)
   \<and> list_all (\<lambda>(_, test). list_all2 (code_possible (check_of test)) (apps test) (expected_codes test)) rtps_test_suite_1"
  using suite_entries_ok by (auto simp: list_all_iff entry_ok_def)

end
