(* ===== verification/Report_Data.thy ===== *)
theory Report_Data
  imports Models Py_Float
begin

text \<open>
  \<open>benchmarking/junit_compare/report_data.py\<close>: the data the analysis produces, with the derived
  counts of a status row, and \<open>to_dict\<close> and \<open>from_dict\<close> of a comparison on a JSON value.
\<close>

section \<open>The comparison of two reports\<close>

record ChangedTest =
  changed_test :: string
  differences :: "(string, (string, string) dict) dict"   \<comment> \<open>field to \<open>{first, second}\<close>\<close>

record CompareReport =
  first_file :: string
  second_file :: string
  first_summary :: "(string, string) dict"
  second_summary :: "(string, string) dict"
  first_count :: nat
  second_count :: nat
  added :: "string list"
  removed :: "string list"
  changed :: "ChangedTest list"

datatype json = JString string | JNumber nat | JList "json list" | JObject "(string \<times> json) list"

definition json_strings :: "(string, string) dict \<Rightarrow> json" where
  "json_strings d = JObject (map (\<lambda>(k, v). (k, JString v)) d)"

definition to_dict :: "CompareReport \<Rightarrow> json" where
  "to_dict r = JObject
     [(''first'', JObject [(''file'', JString (first_file r)), (''summary'', json_strings (first_summary r))]),
      (''second'', JObject [(''file'', JString (second_file r)), (''summary'', json_strings (second_summary r))]),
      (''counts'', JObject [(''first'', JNumber (first_count r)), (''second'', JNumber (second_count r))]),
      (''added'', JList (map JString (added r))),
      (''removed'', JList (map JString (removed r))),
      (''changed'', JList (map (\<lambda>c. JObject
         [(''test'', JString (changed_test c)),
          (''differences'', JObject (map (\<lambda>(f, d). (f, json_strings d)) (differences c)))]) (changed r)))]"

text \<open>Reading a field of a value and its parts: a \<open>KeyError\<close> or \<open>TypeError\<close> where the value has not the form.\<close>

fun entry :: "json \<Rightarrow> string \<Rightarrow> json res" where   \<comment> \<open>\<open>d[key]\<close>\<close>
  "entry (JObject d) key = (case dget d key of None \<Rightarrow> Inl KeyError | Some v \<Rightarrow> Inr v)"
| "entry _ _ = Inl TypeError"

fun as_string :: "json \<Rightarrow> string res" where "as_string (JString s) = Inr s" | "as_string _ = Inl TypeError"
fun as_number :: "json \<Rightarrow> nat res" where "as_number (JNumber n) = Inr n" | "as_number _ = Inl TypeError"
fun as_list :: "json \<Rightarrow> json list res" where "as_list (JList xs) = Inr xs" | "as_list _ = Inl TypeError"

fun as_object :: "(json \<Rightarrow> 'a res) \<Rightarrow> json \<Rightarrow> (string, 'a) dict res" where
  "as_object f (JObject d) = rmap (\<lambda>(k, v). rbind (f v) (\<lambda>x. Inr (k, x))) d"
| "as_object f _ = Inl TypeError"

definition as_strings :: "json \<Rightarrow> string list res" where
  "as_strings v = rbind (as_list v) (rmap as_string)"

definition changed_from :: "json \<Rightarrow> ChangedTest res" where
  "changed_from c =
     rbind (rbind (entry c ''test'') as_string) (\<lambda>test.
     rbind (rbind (entry c ''differences'') (as_object (as_object as_string))) (\<lambda>diffs.
       Inr \<lparr>changed_test = test, differences = diffs\<rparr>))"

definition from_dict :: "json \<Rightarrow> CompareReport res" where
  "from_dict d =
     rbind (entry d ''first'') (\<lambda>first. rbind (entry d ''second'') (\<lambda>second. rbind (entry d ''counts'') (\<lambda>counts.
     rbind (rbind (entry first ''file'') as_string) (\<lambda>file1.
     rbind (rbind (entry second ''file'') as_string) (\<lambda>file2.
     rbind (rbind (entry first ''summary'') (as_object as_string)) (\<lambda>summary1.
     rbind (rbind (entry second ''summary'') (as_object as_string)) (\<lambda>summary2.
     rbind (rbind (entry counts ''first'') as_number) (\<lambda>count1.
     rbind (rbind (entry counts ''second'') as_number) (\<lambda>count2.
     rbind (rbind (entry d ''added'') as_strings) (\<lambda>add.
     rbind (rbind (entry d ''removed'') as_strings) (\<lambda>rem.
     rbind (rbind (rbind (entry d ''changed'') as_list) (rmap changed_from)) (\<lambda>ch.
       Inr \<lparr>first_file = file1, second_file = file2, first_summary = summary1, second_summary = summary2,
            first_count = count1, second_count = count2, added = add, removed = rem, changed = ch\<rparr>))))))))))))"

section \<open>Status counts of one test\<close>

record StatusSummaryRow =
  row_label :: string
  rich_counts :: "(RichStatus, nat) dict"

definition new_row :: "string \<Rightarrow> StatusSummaryRow" where
  "new_row label = \<lparr>row_label = label, rich_counts = []\<rparr>"

definition row_add :: "RichStatus \<Rightarrow> StatusSummaryRow \<Rightarrow> StatusSummaryRow" where
  "row_add rs row = row\<lparr>rich_counts := dadd rs 1 (rich_counts row)\<rparr>"

definition sum_counts :: "(RichStatus \<Rightarrow> bool) \<Rightarrow> (RichStatus, nat) dict \<Rightarrow> nat" where
  "sum_counts P d = sum_list (map snd (filter (P \<circ> fst) d))"

definition passed :: "StatusSummaryRow \<Rightarrow> nat" where
  "passed row = dget_or (rich_counts row) PASSED 0 + dget_or (rich_counts row) PASSED_AS_SKIPPED 0"

definition skipped_unsupported :: "StatusSummaryRow \<Rightarrow> nat" where
  "skipped_unsupported row = dget_or (rich_counts row) SKIPPED_UNSUPPORTED 0"

definition real_fail :: "RichStatus \<Rightarrow> bool" where
  "real_fail rs \<longleftrightarrow> rs \<notin> {PASSED, PASSED_AS_SKIPPED, SKIPPED_UNSUPPORTED, SKIPPED_OTHER}"

definition total_real_fail :: "StatusSummaryRow \<Rightarrow> nat" where
  "total_real_fail row = sum_counts real_fail (rich_counts row)"

definition failure :: "StatusSummaryRow \<Rightarrow> nat" where
  "failure row = sum_counts (\<lambda>rs. starts_with ''failure'' (rich_value rs)) (rich_counts row)"

definition errors :: "StatusSummaryRow \<Rightarrow> nat" where   \<comment> \<open>the property \<open>error\<close>\<close>
  "errors row = dget_or (rich_counts row) ERROR 0"

definition skipped :: "StatusSummaryRow \<Rightarrow> nat" where
  "skipped row = dget_or (rich_counts row) SKIPPED_UNSUPPORTED 0 + dget_or (rich_counts row) SKIPPED_OTHER 0"

definition total_fail :: "StatusSummaryRow \<Rightarrow> nat" where
  "total_fail row = failure row + errors row"

definition is_flaky :: "StatusSummaryRow \<Rightarrow> bool" where
  "is_flaky row \<longleftrightarrow> passed row > 0 \<and> total_real_fail row > 0"

definition row_fail_rate :: "StatusSummaryRow \<Rightarrow> rat" where
  "row_fail_rate row = percent_of (total_real_fail row) (passed row + total_real_fail row)"

section \<open>The reports of the parallel analysis\<close>

record FlakyTestRow =
  flaky_label :: string
  pass_count :: nat
  fail_count :: nat

definition fail_rate :: "FlakyTestRow \<Rightarrow> rat" where
  "fail_rate row = percent_of (fail_count row) (pass_count row + fail_count row)"

record ParallelGroupReport =
  parallel_count :: nat
  run_count :: nat
  file_paths :: "string list"
  total_fail_raw :: nat
  total_pass_raw :: nat
  total_skip_raw :: nat
  total_unique_tests :: nat
  rich_status_totals :: "(RichStatus, nat) dict"
  flaky_tests :: "FlakyTestRow list"
  flaky_pub :: "(string, nat) dict"
  flaky_sub :: "(string, nat) dict"
  flaky_pub_test_count :: "(string, nat) dict"
  flaky_sub_test_count :: "(string, nat) dict"
  flaky_feat :: "(string, nat) dict"
  feature_fails :: "(string, nat) dict"
  pub_fails :: "(string, nat) dict"
  sub_fails :: "(string, nat) dict"

definition norm_per_run :: "ParallelGroupReport \<Rightarrow> nat \<Rightarrow> rat" where
  "norm_per_run grp value = (if run_count grp \<noteq> 0 then fl_div value (run_count grp) else 0)"

definition flaky_count :: "ParallelGroupReport \<Rightarrow> nat" where
  "flaky_count grp = length (flaky_tests grp)"

definition flaky_pct :: "ParallelGroupReport \<Rightarrow> rat" where
  "flaky_pct grp = percent_of (flaky_count grp) (total_unique_tests grp)"

definition rich_norm :: "ParallelGroupReport \<Rightarrow> RichStatus \<Rightarrow> rat" where
  "rich_norm grp rs = norm_per_run grp (dget_or (rich_status_totals grp) rs 0)"

record ExplainParallelReport =
  groups :: "ParallelGroupReport list"
  ungrouped_files :: "string list"

section \<open>Lemmas\<close>

lemma sum_counts_dadd [dict_simps]:
  "dvalid d \<Longrightarrow> sum_counts P (dadd k n d) = sum_counts P d + (if P k then n else 0)"
proof (induction d)
  case Nil
  then show ?case by (simp add: sum_counts_def dadd_def dget_or_def)
next
  case (Cons p d)
  then have "dvalid d" by (simp add: dvalid_def)
  with Cons.IH show ?case by (cases p) (auto simp: sum_counts_def dadd_def dget_or_def)
qed

lemma sum_counts_single: "dvalid d \<Longrightarrow> sum_counts (\<lambda>rs. rs = k) d = dget_or d k 0"
proof (induction d)
  case (Cons p d)
  then have "dvalid d" "fst p = k \<Longrightarrow> dget d k = None"
    by (auto simp: dvalid_def map_of_eq_None_iff)
  with Cons.IH show ?case by (cases p) (auto simp: sum_counts_def dget_or_def)
qed (simp add: sum_counts_def dget_or_def)

lemma sum_counts_disj:
  "(\<And>rs. \<not> (P rs \<and> Q rs)) \<Longrightarrow> sum_counts (\<lambda>rs. P rs \<or> Q rs) d = sum_counts P d + sum_counts Q d"
  by (induction d) (auto simp: sum_counts_def)

lemma sum_counts_all: "sum_counts (\<lambda>_. True) d = sum_list (map snd d)"
  by (simp add: sum_counts_def comp_def)

definition row_ok :: "StatusSummaryRow \<Rightarrow> bool" where
  "row_ok row \<longleftrightarrow> dvalid (rich_counts row)"

lemma row_ok_add [simp]: "row_ok (new_row l)" "row_ok row \<Longrightarrow> row_ok (row_add rs row)"
  by (simp_all add: row_ok_def new_row_def row_add_def dvalid_def [of "[]"])

lemma row_counts:
  assumes "row_ok row"
  shows "passed row = sum_counts (\<lambda>rs. rs = PASSED \<or> rs = PASSED_AS_SKIPPED) (rich_counts row)"
    and "skipped row = sum_counts (\<lambda>rs. rs = SKIPPED_UNSUPPORTED \<or> rs = SKIPPED_OTHER) (rich_counts row)"
    and "errors row = sum_counts (\<lambda>rs. rs = ERROR) (rich_counts row)"
  using assms by (simp_all add: row_ok_def passed_def skipped_def errors_def sum_counts_disj sum_counts_single)

lemma real_fail_value: "real_fail rs \<longleftrightarrow> starts_with ''failure'' (rich_value rs) \<or> rs = ERROR"
  by (cases rs) (simp_all add: real_fail_def)

lemma failure_not_error: "\<not> (starts_with ''failure'' (rich_value rs) \<and> rs = ERROR)"
  by (cases rs) simp_all

lemma total_fail_real: "row_ok row \<Longrightarrow> total_fail row = total_real_fail row"
proof -
  assume ok: "row_ok row"
  have "real_fail = (\<lambda>rs. starts_with ''failure'' (rich_value rs) \<or> rs = ERROR)"
    by (rule ext) (rule real_fail_value)
  then show ?thesis
    unfolding total_fail_def total_real_fail_def failure_def row_counts(3) [OF ok]
    using sum_counts_disj [of "\<lambda>rs. starts_with ''failure'' (rich_value rs)" "\<lambda>rs. rs = ERROR" "rich_counts row"]
      failure_not_error by simp
qed

lemma row_total:
  assumes "row_ok row"
  shows "passed row + total_real_fail row + skipped row = sum_list (map snd (rich_counts row))"
proof -
  have "passed row + total_real_fail row = sum_counts (\<lambda>rs. (rs = PASSED \<or> rs = PASSED_AS_SKIPPED) \<or> real_fail rs) (rich_counts row)"
    unfolding total_real_fail_def row_counts(1) [OF assms] by (rule sum_counts_disj [symmetric]) (auto simp: real_fail_def)
  then have "passed row + total_real_fail row + skipped row
      = sum_counts (\<lambda>rs. ((rs = PASSED \<or> rs = PASSED_AS_SKIPPED) \<or> real_fail rs) \<or> (rs = SKIPPED_UNSUPPORTED \<or> rs = SKIPPED_OTHER)) (rich_counts row)"
    unfolding row_counts(2) [OF assms] by (subst sum_counts_disj) (auto simp: real_fail_def)
  also have "\<dots> = sum_counts (\<lambda>_. True) (rich_counts row)"
    by (rule arg_cong [where f = "\<lambda>P. sum_counts P _"]) (auto simp: real_fail_def)
  finally show ?thesis by (simp add: sum_counts_all)
qed

section \<open>Properties\<close>

lemma as_object_strings: "as_object as_string (json_strings d) = Inr d"
  unfolding json_strings_def by (induction d) auto

lemma as_object_nested: "as_object (as_object as_string) (JObject (map (\<lambda>(f, d). (f, json_strings d)) ds)) = Inr ds"
  by (induction ds) (auto simp: as_object_strings)

lemma as_strings_list: "as_strings (JList (map JString xs)) = Inr xs"
  unfolding as_strings_def by (induction xs) auto

lemma changed_back:
  "rmap changed_from (map (\<lambda>c. JObject [(''test'', JString (changed_test c)),
      (''differences'', JObject (map (\<lambda>(f, d). (f, json_strings d)) (differences c)))]) cs) = Inr cs"
  by (induction cs) (simp_all add: changed_from_def as_object_nested del: as_object.simps)

text \<open>
  A comparison survives its dictionary form. \<open>CompareReport.from_dict\<close> gives back exactly the
  report that \<open>to_dict\<close> was called on, with every field, count and difference.
\<close>

theorem compare_report_round_trip: "from_dict (to_dict r) = Inr r"
  by (cases r)
     (simp add: from_dict_def to_dict_def as_object_strings as_strings_list changed_back del: as_object.simps)

text \<open>
  The legacy counts and the semantic ones agree. For the row of a test that was seen with the
  statuses \<open>rss\<close>, in any order and number, \<open>failure + error\<close> (\<open>total_fail\<close>) is the number of genuine
  failures; passed, genuinely failed and skipped add up to all of them, and the failure rate is a percentage.
\<close>

theorem row_counts_agree:
  "let row = foldl (\<lambda>row rs. row_add rs row) (new_row l) rss in
   total_fail row = total_real_fail row
   \<and> total_real_fail row = length (filter real_fail rss)
   \<and> passed row + total_real_fail row + skipped row = length rss
   \<and> 0 \<le> row_fail_rate row \<and> row_fail_rate row \<le> 100"
proof -
  let ?row = "\<lambda>rss. foldl (\<lambda>row rs. row_add rs row) (new_row l) rss"
  have ok: "row_ok (?row rss)" for rss by (induction rss rule: rev_induct) simp_all
  have count: "sum_counts P (rich_counts (?row rss)) = length (filter P rss)" for P rss
  proof (induction rss rule: rev_induct)
    case Nil
    then show ?case by (simp add: new_row_def sum_counts_def)
  next
    case (snoc rs rss)
    with ok [of rss] show ?case by (simp add: row_ok_def row_add_def sum_counts_dadd)
  qed
  have "sum_list (map snd (rich_counts (?row rss))) = length rss"
    using count [of "\<lambda>_. True" rss] by (simp add: sum_counts_all)
  then show ?thesis
    using row_total [OF ok, of rss] total_fail_real [OF ok, of rss] count [of real_fail rss]
    by (simp add: Let_def total_real_fail_def row_fail_rate_def percent_of_bounds)
qed

end
