(* ===== verification/File_Registry.thy ===== *)
theory File_Registry
  imports Models "HOL-Library.Multiset"
begin

text \<open>
  \<open>benchmarking/junit_compare/file_registry.py\<close>: what a report's file name says, the chronological
  order of the reports, and the choice of the files to compare.  A path is its string; the directory
  listing that \<open>glob\<close> gives is the input.
\<close>

section \<open>Paths\<close>

definition path_name :: "string \<Rightarrow> string" where "path_name path = after_last (CHR ''/'') path"

definition path_stem :: "string \<Rightarrow> string" where   \<comment> \<open>without the last suffix, unless the name starts or ends with its dot\<close>
  "path_stem path =
     (let name = path_name path; suffix = after_last (CHR ''.'') name; i = length name - Suc (length suffix) in
      if CHR ''.'' \<in> set name \<and> 0 < i \<and> suffix \<noteq> [] then take i name else name)"

definition glob_junit :: "string \<Rightarrow> bool" where   \<comment> \<open>\<open>glob("junit_*.xml")\<close>\<close>
  "glob_junit name \<longleftrightarrow> starts_with ''junit_'' name \<and> ends_with ''.xml'' name \<and> 10 \<le> length name"

section \<open>The metadata of a file name\<close>

definition digits :: "nat \<Rightarrow> re" where "digits n = Seqs (replicate n (Chr CDigit))"   \<comment> \<open>\<open>\\d{n}\<close>\<close>

definition new_fname_re :: re where
  "new_fname_re = Seqs
     [Chr (COr (CChar (CHR ''-'')) (CChar (CHR ''_''))), Grp 1 (digits 2), Grp 2 (digits 2), Grp 3 (digits 4),
      Lit ''-'', Grp 4 (digits 4), Lit ''-par'', Grp 5 num,
      Opt (Seqs [Lit ''-'', Grp 6 num, Lit ''sec'']),
      Opt (Seqs [Lit ''-'', Grp 7 (Alt (Lit ''self-hosted'') (Lit ''ubuntu''))]),
      Opt (Seqs [Lit ''-run'', Grp 8 num])]"

definition old_stamp_re :: re where   \<comment> \<open>\<open>(\\d{4}-\\d{2}-\\d{2}-\\d{2}_\\d{2}_\\d{2})\<close>\<close>
  "old_stamp_re = Grp 1 (Seqs [digits 4, Lit ''-'', digits 2, Lit ''-'', digits 2, Lit ''-'', digits 2,
     Lit ''_'', digits 2, Lit ''_'', digits 2])"

record file_meta =
  date :: string
  time :: string
  parallel :: int
  duration_sec :: int
  runner :: "string option"
  batch :: "int option"
  meta_sort_key :: string

definition group_or :: "re_match \<Rightarrow> nat \<Rightarrow> string" where   \<comment> \<open>a group that always takes part\<close>
  "group_or m n = (case group m n of None \<Rightarrow> [] | Some w \<Rightarrow> w)"

text \<open>\<open>int(...)\<close> is applied to groups of digits only, on which it is \<open>digits_val\<close>.\<close>

definition parse_filename_meta :: "string \<Rightarrow> file_meta option" where
  "parse_filename_meta path =
     (case re_search new_fname_re (path_stem path) of
        None \<Rightarrow> None
      | Some m \<Rightarrow>
          let day = group_or m 1; month = group_or m 2; year = group_or m 3; hhmm = group_or m 4 in
          Some \<lparr>date = day @ month @ year, time = hhmm, parallel = digits_val (group_or m 5),
            duration_sec = (case group m 6 of None \<Rightarrow> 0 | Some d \<Rightarrow> digits_val d),
            runner = group m 7,
            batch = (case group m 8 of None \<Rightarrow> None | Some b \<Rightarrow> Some (digits_val b)),
            meta_sort_key = year @ month @ day @ ''-'' @ hhmm\<rparr>)"

definition file_sort_key :: "string \<Rightarrow> string \<times> string" where
  "file_sort_key path =
     (case parse_filename_meta path of
        Some meta \<Rightarrow> (meta_sort_key meta, path_name path)
      | None \<Rightarrow>
          (case re_search old_stamp_re (path_stem path) of
             Some m \<Rightarrow> (group_or m 1, path_name path)
           | None \<Rightarrow> (path_name path, [])))"

text \<open>\<open>re.search\<close> of a pattern that ends with \<open>$\<close>: at the end of the text or before a final line break.\<close>

fun re_search_end :: "re \<Rightarrow> string \<Rightarrow> re_match option" where
  "re_search_end r s =
     (case filter (\<lambda>(w, cs, t). t = [] \<or> t = [CHR 0x0A]) (mt r s) of
        m # _ \<Rightarrow> Some m
      | [] \<Rightarrow> (case s of [] \<Rightarrow> None | _ # t \<Rightarrow> re_search_end r t))"

declare re_search_end.simps [simp del]

definition report_label :: "string \<Rightarrow> string" where
  "report_label path =
     (case parse_filename_meta path of
        Some meta \<Rightarrow> date meta @ ''-'' @ time meta
      | None \<Rightarrow>
          let filename = path_stem path in
          (case re_search_end old_stamp_re filename of Some m \<Rightarrow> group_or m 1 | None \<Rightarrow> filename))"

section \<open>Choosing files\<close>

definition choose_all_files :: "string list \<Rightarrow> int option \<Rightarrow> string list" where
  "choose_all_files listing only =
     (let files = sort_key file_sort_key (filter (\<lambda>f. glob_junit (path_name f)) listing) in
      case only of
        None \<Rightarrow> files
      | Some b \<Rightarrow> filter (\<lambda>f. case parse_filename_meta f of None \<Rightarrow> False | Some meta \<Rightarrow> batch meta = Some b) files)"

definition choose_files :: "string list \<Rightarrow> int option \<Rightarrow> (string \<times> string) res" where
  "choose_files listing only =
     (let files = choose_all_files listing only in
      if length files < 2 then Inl ValueError
      else Inr (files ! (length files - 2), files ! (length files - 1)))"

section \<open>Lemmas\<close>

text \<open>Strings of digits of one length compare as the numbers they stand for.\<close>

lemma digits_val_bounds:
  "list_all is_digit s \<Longrightarrow> 0 \<le> digits_val s \<and> digits_val s < 10 ^ length s"
proof (induction s rule: rev_induct)
  case (snoc c s)
  then have "0 \<le> digit_val c" "digit_val c \<le> 9" by (auto simp: is_digit_def digit_val_def)
  with snoc show ?case by (auto simp: digits_val_snoc)
qed (simp add: digits_val_def)

lemma digits_val_append: "digits_val (s @ t) = digits_val s * 10 ^ length t + digits_val t"
proof (induction t rule: rev_induct)
  case Nil
  then show ?case by (simp add: digits_val_def)
next
  case (snoc c t)
  then show ?case by (simp add: digits_val_snoc algebra_simps flip: append_assoc)
qed

lemma digits_val_Cons: "digits_val (c # s) = digit_val c * 10 ^ length s + digits_val s"
  using digits_val_append [of "[c]" s] by (simp add: digits_val_def)

lemma digit_le: "is_digit c \<Longrightarrow> is_digit d \<Longrightarrow> c < d \<longleftrightarrow> digit_val c < digit_val d"
  by (auto simp: less_char_def digit_val_def)

lemma digit_inj: "is_digit c \<Longrightarrow> is_digit d \<Longrightarrow> digit_val c = digit_val d \<Longrightarrow> c = d"
  by (simp add: digit_val_def)

lemma digits_less:
  "list_all is_digit s \<Longrightarrow> list_all is_digit t \<Longrightarrow> length s = length t \<Longrightarrow> s < t \<longleftrightarrow> digits_val s < digits_val t"
proof (induction s arbitrary: t)
  case (Cons c s)
  then obtain d u where t: "t = d # u" "length u = length s" by (cases t) auto
  let ?p = "10 ^ length s :: int"
  have b: "0 \<le> digits_val s" "digits_val s < ?p" "0 \<le> digits_val u" "digits_val u < ?p"
    using digits_val_bounds [of s] digits_val_bounds [of u] Cons.prems t by auto
  have vals: "digits_val (c # s) = digit_val c * ?p + digits_val s" "digits_val t = digit_val d * ?p + digits_val u"
    using t by (simp_all add: digits_val_Cons)
  consider "c = d" | "c < d" | "d < c" by (meson linorder_cases)
  then show ?case
  proof cases
    case 1
    with Cons t show ?thesis by (simp add: digits_val_Cons)
  next
    case 2
    with Cons.prems t digit_le have "digit_val c + 1 \<le> digit_val d" by simp
    then have "digit_val c * ?p + ?p \<le> digit_val d * ?p"
      using mult_right_mono [of "digit_val c + 1" "digit_val d" ?p] by (simp add: algebra_simps)
    with 2 t b show ?thesis unfolding vals by auto
  next
    case 3
    with Cons.prems t digit_le have "digit_val d + 1 \<le> digit_val c" by simp
    then have "digit_val d * ?p + ?p \<le> digit_val c * ?p"
      using mult_right_mono [of "digit_val d + 1" "digit_val c" ?p] by (simp add: algebra_simps)
    with 3 t b show ?thesis unfolding vals by auto
  qed
qed simp

lemma digits_eq:
  "list_all is_digit s \<Longrightarrow> list_all is_digit t \<Longrightarrow> length s = length t \<Longrightarrow> digits_val s = digits_val t \<longleftrightarrow> s = t"
  using digits_less [of s t] digits_less [of t s] by (metis linorder_neq_iff)

lemma append_less:
  "length a = length b \<Longrightarrow> a @ x < b @ y \<longleftrightarrow> a < b \<or> a = b \<and> (x :: 'a :: linorder list) < y"
proof (induction a arbitrary: b)
  case (Cons c a)
  then show ?case by (cases b) auto
qed simp

text \<open>Groups that take part in every match.\<close>

fun sure_groups :: "re \<Rightarrow> nat list" where
  "sure_groups (Seq r q) = sure_groups r @ sure_groups q"
| "sure_groups (Grp n r) = sure_groups r @ [n]"
| "sure_groups _ = []"

lemma sure_groups_caps: "(w, cs, t) \<in> set (mt r s) \<Longrightarrow> set (sure_groups r) \<subseteq> fst ` set cs"
proof (induction r arbitrary: s w cs t)
  case (Seq r q)
  then obtain u cs1 v z cs2 where
    "(u, cs1, v) \<in> set (mt r s)" "(z, cs2, t) \<in> set (mt q v)" "cs = cs1 @ cs2"
    by auto
  with Seq.IH show ?case by (fastforce simp: image_Un)
next
  case (Grp n r)
  then obtain cs1 where "(w, cs1, t) \<in> set (mt r s)" "cs = cs1 @ [(n, w)]" by auto
  with Grp.IH show ?case by fastforce
qed simp_all

lemma group_sure:
  assumes "re_search r s = Some m" "n \<in> set (sure_groups r)" "n \<noteq> 0"
    and "map_of (grps r) n = Some r'" "distinct (map fst (grps r))"
  shows "group_or m n \<in> lang r'"
proof -
  obtain w cs t where m: "m = (w, cs, t)" by (cases m)
  from assms(1) have in_mt: "(w, cs, t) \<in> set (mt r (w @ t))" unfolding m by (blast dest: re_search_sound)
  from sure_groups_caps [OF this] assms(2) have "n \<in> fst ` set cs" by blast
  then obtain v where v: "map_of cs n = Some v" by (metis map_of_eq_None_iff not_None_eq)
  then have "(n, v) \<in> set cs" by (rule map_of_SomeD)
  from mt_caps_lang [OF in_mt this] obtain r'' where "(n, r'') \<in> set (grps r)" "v \<in> lang r''" by blast
  with assms(4,5) have "v \<in> lang r'" by (metis map_of_is_SomeI option.inject)
  with v assms(3) show ?thesis by (simp add: m group_or_def group_def)
qed

lemma digit_words:
  "list_all2 (\<lambda>u r. u \<in> lang r) ws (replicate n (Chr CDigit)) \<Longrightarrow> length (concat ws) = n \<and> list_all is_digit (concat ws)"
  by (induction n arbitrary: ws) (auto simp: list_all2_Cons2)

lemma digit_words_exist:
  "list_all is_digit w \<Longrightarrow> list_all2 (\<lambda>u r. u \<in> lang r) (map (\<lambda>c. [c]) w) (replicate (length w) (Chr CDigit))"
  by (induction w) auto

lemma lang_digits: "w \<in> lang (digits n) \<longleftrightarrow> length w = n \<and> list_all is_digit w"
proof
  show "w \<in> lang (digits n) \<Longrightarrow> length w = n \<and> list_all is_digit w"
    by (auto simp: digits_def lang_Seqs dest: digit_words)
  assume "length w = n \<and> list_all is_digit w"
  then show "w \<in> lang (digits n)"
    using digit_words_exist [of w] unfolding digits_def lang_Seqs
    by (intro exI [of _ "map (\<lambda>c. [c]) w"]) simp
qed

lemma grps_digits [simp]: "grps (digits n) = []" "sure_groups (digits n) = []"
proof -
  have "grps (Seqs (replicate n (Chr CDigit))) = [] \<and> sure_groups (Seqs (replicate n (Chr CDigit))) = []"
  proof (induction n)
    case (Suc n)
    then show ?case by (cases n) (simp_all add: Seqs.simps)
  qed (simp add: Seqs.simps)
  then show "grps (digits n) = []" "sure_groups (digits n) = []" by (simp_all add: digits_def)
qed

lemma sure_Lit [simp]: "sure_groups (Lit u) = []" "sure_groups (Plus k) = []"
  by (induction u rule: Lit.induct) (simp_all add: Lit.simps Plus_def)

lemma new_fname_groups:
  assumes "re_search new_fname_re s = Some m"
  shows "group_or m 1 \<in> lang (digits 2)" "group_or m 2 \<in> lang (digits 2)" "group_or m 3 \<in> lang (digits 4)"
    "group_or m 4 \<in> lang (digits 4)" "group_or m 5 \<in> lang num"
  by (rule group_sure [OF assms]; simp add: new_fname_re_def Seqs.simps num_def)+

lemma meta_form:
  assumes "parse_filename_meta path = Some m"
  obtains day month year where "date m = day @ month @ year" "meta_sort_key m = year @ month @ day @ ''-'' @ time m"
    "length day = 2" "length month = 2" "length year = 4" "length (time m) = 4"
    "list_all is_digit day" "list_all is_digit month" "list_all is_digit year" "list_all is_digit (time m)"
proof -
  from assms obtain r where r: "re_search new_fname_re (path_stem path) = Some r"
    by (auto simp: parse_filename_meta_def split: option.splits)
  with assms have "date m = group_or r 1 @ group_or r 2 @ group_or r 3" "time m = group_or r 4"
    "meta_sort_key m = group_or r 3 @ group_or r 2 @ group_or r 1 @ ''-'' @ group_or r 4"
    by (auto simp: parse_filename_meta_def Let_def)
  with new_fname_groups [OF r] show ?thesis by (intro that) (auto simp: lang_digits)
qed

section \<open>Properties\<close>

definition file_date :: "file_meta \<Rightarrow> int \<times> int \<times> int \<times> int" where   \<comment> \<open>year, month, day, time\<close>
  "file_date m = (digits_val (drop 4 (date m)), digits_val (take 2 (drop 2 (date m))),
     digits_val (take 2 (date m)), digits_val (time m))"


definition june_file :: string where "june_file = ''junit_interoperability_report-30062026-2200-par4.xml''"
definition july_file :: string where "july_file = ''junit_interoperability_report-01072026-0930-par4-120sec-ubuntu-run2.xml''"


definition in_batch :: "int option \<Rightarrow> string \<Rightarrow> bool" where
  "in_batch only f = (case only of None \<Rightarrow> True
     | Some b \<Rightarrow> (case parse_filename_meta f of None \<Rightarrow> False | Some meta \<Rightarrow> batch meta = Some b))"

definition candidates :: "string list \<Rightarrow> int option \<Rightarrow> string list" where
  "candidates listing only = filter (\<lambda>f. glob_junit (path_name f) \<and> in_batch only f) listing"

lemma choose_all_sorted: "sorted (map file_sort_key (choose_all_files listing only))"
  by (cases only) (simp_all add: choose_all_files_def sorted_filter)

lemma choose_all_mset: "mset (choose_all_files listing only) = mset (candidates listing only)"
  by (cases only) (simp_all add: choose_all_files_def candidates_def in_batch_def mset_filter filter_filter_mset conj_commute)

lemma last_two:
  assumes "2 \<le> length xs"
  shows "\<exists>hs. xs = hs @ [xs ! (length xs - 2), xs ! (length xs - 1)]"
proof -
  from assms obtain ys g where "xs = ys @ [g]" by (cases xs rule: rev_cases) auto
  moreover from this assms obtain hs f where "ys = hs @ [f]" by (cases ys rule: rev_cases) auto
  ultimately show ?thesis by (auto simp: nth_append)
qed

text \<open>
  C27: The two files that are compared by default are the two newest. \<open>choose_files\<close> fails exactly when
  fewer than two reports (of the batch asked for) are in the directory; otherwise, of all of these, every
  other one sorts before the first file it gives, which sorts before the second.
\<close>

theorem choose_files_newest:
  "case choose_files listing only of
     Inl _ \<Rightarrow> length (candidates listing only) < 2
   | Inr (f, g) \<Rightarrow> \<exists>hs. mset (candidates listing only) = mset hs + {#f, g#}
       \<and> list_all (\<lambda>h. file_sort_key h \<le> file_sort_key f) hs \<and> file_sort_key f \<le> file_sort_key g"
proof -
  let ?fs = "choose_all_files listing only"
  have len: "length ?fs = length (candidates listing only)" using choose_all_mset by (metis size_mset)
  show ?thesis
  proof (cases "length ?fs < 2")
    case True
    with len show ?thesis by (simp add: choose_files_def)
  next
    case False
    then obtain hs where fs: "?fs = hs @ [?fs ! (length ?fs - 2), ?fs ! (length ?fs - 1)]"
      using last_two by (metis not_less)
    let ?f = "?fs ! (length ?fs - 2)" and ?g = "?fs ! (length ?fs - 1)"
    have "sorted (map file_sort_key (hs @ [?f, ?g]))" using choose_all_sorted fs by metis
    then have "list_all (\<lambda>h. file_sort_key h \<le> file_sort_key ?f) hs" "file_sort_key ?f \<le> file_sort_key ?g"
      by (simp_all add: sorted_append list_all_iff)
    moreover have "mset (candidates listing only) = mset hs + {#?f, ?g#}"
      using choose_all_mset [of listing only] fs by (metis mset.simps mset_append)
    ultimately show ?thesis using False by (auto simp: choose_files_def Let_def)
  qed
qed

end
