(* ===== verification/Analyzer.thy ===== *)
theory Analyzer
  imports Loader Report_Data File_Registry
begin

text \<open>
  \<open>benchmarking/junit_compare/analyzer.py\<close>: the comparison of two reports, the counts per test over
  many reports, and the analysis of the groups of reports with the same number of parallel runs.  A
  report file is its path and the element tree it parses to.
\<close>

type_synonym report_file = "string \<times> xml"

section \<open>Comparing two reports\<close>

definition diff_field :: "string \<Rightarrow> (TestResult \<Rightarrow> string) \<Rightarrow> TestResult \<Rightarrow> TestResult \<Rightarrow> (string, (string, string) dict) dict" where
  "diff_field field get old new =
     (if get old \<noteq> get new then [(field, [(''first'', get old), (''second'', get new)])] else [])"

definition differences_of :: "bool \<Rightarrow> bool \<Rightarrow> TestResult \<Rightarrow> TestResult \<Rightarrow> (string, (string, string) dict) dict" where
  "differences_of include_times include_details old new =
     diff_field ''status'' result_status old new
     @ (if include_details then diff_field ''detail'' result_detail old new else [])
     @ (if include_times then diff_field ''time'' result_time old new else [])"

definition sorted_keys :: "test_key list \<Rightarrow> test_key list" where
  "sorted_keys = sort_key key_str"   \<comment> \<open>\<open>sorted(..., key=str)\<close>\<close>

definition missing_keys :: "results \<Rightarrow> results \<Rightarrow> test_key list" where   \<comment> \<open>\<open>set(d) - set(e)\<close>\<close>
  "missing_keys d e = filter (\<lambda>k. k \<notin> set (dkeys e)) (dkeys d)"

definition common_keys :: "results \<Rightarrow> results \<Rightarrow> test_key list" where   \<comment> \<open>\<open>set(d) & set(e)\<close>\<close>
  "common_keys d e = filter (\<lambda>k. k \<in> set (dkeys e)) (dkeys d)"

definition changed_at :: "bool \<Rightarrow> bool \<Rightarrow> results \<Rightarrow> results \<Rightarrow> test_key \<Rightarrow> ChangedTest list" where
  "changed_at include_times include_details first_results second_results key =
     (case (dget first_results key, dget second_results key) of
        (Some old, Some new) \<Rightarrow>
          let diffs = differences_of include_times include_details old new in
          if diffs \<noteq> [] then [\<lparr>changed_test = test_label new, differences = diffs\<rparr>] else []
      | _ \<Rightarrow> [])"

definition compare_results :: "string \<Rightarrow> string \<Rightarrow> bool \<Rightarrow> bool \<Rightarrow>
    (string, string) dict \<times> results \<Rightarrow> (string, string) dict \<times> results \<Rightarrow> CompareReport" where
  "compare_results file1 file2 include_times include_details loaded1 loaded2 =
     (case (loaded1, loaded2) of ((summary1, results1), (summary2, results2)) \<Rightarrow>
       \<lparr>first_file = file1, second_file = file2, first_summary = summary1, second_summary = summary2,
        first_count = length results1, second_count = length results2,
        added = map key_label (sorted_keys (missing_keys results2 results1)),
        removed = map key_label (sorted_keys (missing_keys results1 results2)),
        changed = concat (map (changed_at include_times include_details results1 results2)
          (sorted_keys (common_keys results1 results2)))\<rparr>)"

definition compare :: "report_file \<Rightarrow> report_file \<Rightarrow> bool \<Rightarrow> bool \<Rightarrow> CompareReport res" where
  "compare file1 file2 include_times include_details =
     rbind (load_results (snd file1)) (\<lambda>loaded1. rbind (load_results (snd file2)) (\<lambda>loaded2.
       Inr (compare_results (fst file1) (fst file2) include_times include_details loaded1 loaded2)))"

section \<open>Counting over many reports\<close>

definition add_status :: "(string, StatusSummaryRow) dict \<Rightarrow> TestResult \<Rightarrow> (string, StatusSummaryRow) dict" where
  "add_status totals result =
     (let label = test_label result in
      dset label (row_add (rich_status result) (dget_or totals label (new_row label))) totals)"

definition aggregate_statuses :: "report_file list \<Rightarrow> (string, StatusSummaryRow) dict res" where
  "aggregate_statuses files =
     rfold (\<lambda>file totals. rbind (load_results (snd file)) (\<lambda>(_, results).
       Inr (foldl add_status totals (map snd results)))) files []"

definition row_status_counts :: "StatusSummaryRow \<Rightarrow> (string, nat) dict" where
  "row_status_counts r = [(''passed'', passed r), (''failure'', failure r), (''error'', errors r), (''skipped'', skipped r)]"

definition summarize_test_statuses :: "report_file list \<Rightarrow> (string \<times> (string, nat) dict) list res" where
  "summarize_test_statuses files =
     rbind (aggregate_statuses files) (\<lambda>totals. Inr
       (sort_key (\<lambda>(label, counts). (- int (dget_or counts ''failure'' 0) - int (dget_or counts ''error'' 0), label))
         (map (\<lambda>(label, r). (label, row_status_counts r)) (filter (\<lambda>(_, r). total_fail r > 0) totals))))"

definition summarize_all_statuses :: "report_file list \<Rightarrow> (string \<times> (string, nat) dict) list res" where
  "summarize_all_statuses files =
     rbind (aggregate_statuses files) (\<lambda>totals. Inr
       (map (\<lambda>(label, r). (label, row_status_counts r)) (sort_key fst totals)))"

definition changed_counts :: "CompareReport list \<Rightarrow> (string, nat) dict" where
  "changed_counts reports =
     foldl (\<lambda>counts item. if ''status'' \<notin> set (dkeys (differences item)) then counts else dadd (changed_test item) 1 counts)
       [] (concat (map changed reports))"

definition repeated_change_tests :: "CompareReport list \<Rightarrow> (string, nat) dict" where
  "repeated_change_tests reports = filter (\<lambda>(_, count). count > 1) (sort_key fst (changed_counts reports))"

section \<open>The groups of parallel runs\<close>

definition not_dash :: re where "not_dash = Plus (CNot (CChar (CHR ''-'')))"

definition pub_sub_re :: re where   \<comment> \<open>\<open>\\s*([^-]+-[^-]+)---([^-]+-[^\\s]+)\\s+/\<close>\<close>
  "pub_sub_re = Seqs
     [Rep True CSpace, Grp 1 (Seqs [not_dash, Lit ''-'', not_dash]), Lit ''---'',
      Grp 2 (Seqs [not_dash, Lit ''-'', Plus (CNot CSpace)]), Plus CSpace, Lit ''/'']"

definition letter_or_digit :: cls where   \<comment> \<open>\<open>[A-Za-z0-9]\<close>\<close>
  "letter_or_digit = COr (CRange 65 90) (COr (CRange 97 122) (CRange 48 57))"

definition feature_re :: re where
  "feature_re = Seqs [Lit ''/ rtps_test_suite_'', num, Lit ''_Test_'', Grp 1 (Plus letter_or_digit), Lit ''_'', num]"

definition extract_pub_sub :: "string \<Rightarrow> (string \<times> string) option" where
  "extract_pub_sub label =
     (case re_match pub_sub_re label of None \<Rightarrow> None | Some m \<Rightarrow> Some (group_or m 1, group_or m 2))"

definition feature_of :: "string \<Rightarrow> string \<Rightarrow> string" where
  "feature_of other label = (case re_search feature_re label of Some m \<Rightarrow> group_or m 1 | None \<Rightarrow> other)"

definition extract_feature :: "string \<Rightarrow> string" where
  "extract_feature = feature_of (''Ostatn'' @ [CHR 0xED])"

text \<open>Adding a count under the publisher or the subscriber that a label names, if it names them.\<close>

definition add_pub :: "(string \<times> nat) \<Rightarrow> (string, nat) dict \<Rightarrow> (string, nat) dict" where
  "add_pub item d = (case extract_pub_sub (fst item) of None \<Rightarrow> d | Some (pub, _) \<Rightarrow> dadd pub (snd item) d)"

definition add_sub :: "(string \<times> nat) \<Rightarrow> (string, nat) dict \<Rightarrow> (string, nat) dict" where
  "add_sub item d = (case extract_pub_sub (fst item) of None \<Rightarrow> d | Some (_, sub) \<Rightarrow> dadd sub (snd item) d)"

definition add_feature :: "(string \<times> nat) \<Rightarrow> (string, nat) dict \<Rightarrow> (string, nat) dict" where
  "add_feature item d = dadd (extract_feature (fst item)) (snd item) d"

definition flaky_rows_of :: "(string, StatusSummaryRow) dict \<Rightarrow> FlakyTestRow list" where
  "flaky_rows_of rows =
     sort_key (\<lambda>r. - int (pass_count r + fail_count r))
       (map (\<lambda>(label, row). \<lparr>flaky_label = label, pass_count = passed row, fail_count = total_real_fail row\<rparr>)
         (filter (\<lambda>(_, row). is_flaky row) rows))"

definition rich_totals_of :: "StatusSummaryRow list \<Rightarrow> (RichStatus, nat) dict" where
  "rich_totals_of rows = foldl (\<lambda>d (rs, cnt). dadd rs cnt d) [] (concat (map rich_counts rows))"

definition group_report :: "nat \<Rightarrow> string list \<Rightarrow> (string, StatusSummaryRow) dict \<Rightarrow> ParallelGroupReport" where
  "group_report par files rows =
     (let all = map snd rows;
          summary = map (\<lambda>(label, row). (label, total_real_fail row)) (filter (\<lambda>(_, row). total_real_fail row > 0) rows);
          flaky = flaky_rows_of rows;
          flaky_fails = map (\<lambda>r. (flaky_label r, fail_count r)) flaky;
          flaky_ones = map (\<lambda>r. (flaky_label r, 1)) flaky in
      \<lparr>parallel_count = par, run_count = length files, file_paths = files,
       total_fail_raw = sum_list (map total_real_fail all),
       total_pass_raw = sum_list (map passed all),
       total_skip_raw = sum_list (map skipped_unsupported all),
       total_unique_tests = length rows,
       rich_status_totals = rich_totals_of all,
       flaky_tests = flaky,
       flaky_pub = fold add_pub flaky_fails [], flaky_sub = fold add_sub flaky_fails [],
       flaky_pub_test_count = fold add_pub flaky_ones [], flaky_sub_test_count = fold add_sub flaky_ones [],
       flaky_feat = fold add_feature flaky_fails [],
       feature_fails = fold add_feature summary [],
       pub_fails = fold add_pub summary [], sub_fails = fold add_sub summary []\<rparr>)"

definition build_parallel_group_report :: "nat \<Rightarrow> report_file list \<Rightarrow> ParallelGroupReport res" where
  "build_parallel_group_report par group_files =
     rbind (aggregate_statuses group_files) (\<lambda>rows. Inr (group_report par (map fst group_files) rows))"

definition add_to_group :: "nat \<Rightarrow> 'a \<Rightarrow> (nat, 'a list) dict \<Rightarrow> (nat, 'a list) dict" where
  "add_to_group k x d = dset k (dget_or d k [] @ [x]) d"   \<comment> \<open>\<open>setdefault(k, []).append(x)\<close>\<close>

definition parallel_of :: "report_file \<Rightarrow> nat option" where
  "parallel_of file = map_option (\<lambda>meta. nat (parallel meta)) (parse_filename_meta (fst file))"

definition group_files :: "report_file list \<Rightarrow> (nat, report_file list) dict" where
  "group_files files =
     fold (\<lambda>file d. case parallel_of file of None \<Rightarrow> d | Some k \<Rightarrow> add_to_group k file d) files []"

definition build_explain_parallel_report :: "report_file list \<Rightarrow> ExplainParallelReport res" where
  "build_explain_parallel_report files =
     rbind (rmap (\<lambda>(par, fs). build_parallel_group_report par fs) (sort_key fst (group_files files))) (\<lambda>reports.
       Inr \<lparr>groups = reports, ungrouped_files = map fst (filter (\<lambda>f. parallel_of f = None) files)\<rparr>)"

section \<open>Comparisons\<close>

lemma loaded_keys: "load_results doc = Inr (summary, results) \<Longrightarrow> distinct (dkeys results)"
  by (auto simp: load_results_cases comp_def split: if_splits)

lemma sorted_keys_unique:
  assumes "distinct ks" "distinct ls" "set ks = set ls"
  shows "sorted_keys ks = sorted_keys ls"
proof -
  have inj: "inj_on key_str (set ks)" using key_str_inj by (auto simp: inj_on_def)
  have "distinct (map key_str (sorted_keys ks))" "distinct (map key_str (sorted_keys ls))"
    using assms inj by (auto simp: sorted_keys_def distinct_map)
  moreover have "set (map key_str (sorted_keys ks)) = set (map key_str (sorted_keys ls))"
    using assms by (simp add: sorted_keys_def)
  ultimately have "map key_str (sorted_keys ks) = map key_str (sorted_keys ls)"
    by (intro sorted_distinct_set_unique) (simp_all add: sorted_keys_def)
  then show ?thesis using key_str_inj by (metis (no_types, lifting) injI inj_map_eq_map)
qed

lemma common_keys_swap:
  assumes "distinct (dkeys d)" "distinct (dkeys e)"
  shows "sorted_keys (common_keys d e) = sorted_keys (common_keys e d)"
  by (rule sorted_keys_unique) (use assms in \<open>auto simp: common_keys_def\<close>)

lemma differences_swap: "differences_of t d old new = [] \<longleftrightarrow> differences_of t d new old = []"
  by (auto simp: differences_of_def diff_field_def)

lemma loaded_key:
  assumes "load_results doc = Inr (summary, results)" "dget results k = Some r"
  shows "result_key r = k"
proof -
  from assms(1) have "results = keyed (loaded doc)" by (simp add: load_results_cases split: if_splits)
  with map_of_SomeD [OF assms(2)] obtain q where "(k, r) = (result_key q, q)" by (auto simp only: set_map image_iff)
  then show ?thesis by simp
qed

lemma key_counts:
  assumes "distinct (dkeys d)" "distinct (dkeys e)"
  shows "length d + length (missing_keys e d) = length e + length (missing_keys d e)"
proof -
  have parts: "length (missing_keys d e) + length (common_keys d e) = length d" for d e
    unfolding missing_keys_def common_keys_def using sum_length_filter_compl [of "\<lambda>k. k \<notin> set (dkeys e)" "dkeys d"] by simp
  have same: "length (common_keys d e) = length (common_keys e d)"
    using arg_cong [OF common_keys_swap [OF assms], of length] by (simp add: sorted_keys_def)
  from parts [of d e] parts [of e d] same show ?thesis by linarith
qed

lemma changed_tests_swap:
  assumes "\<And>k r. dget d k = Some r \<Longrightarrow> result_key r = k" "\<And>k r. dget e k = Some r \<Longrightarrow> result_key r = k"
  shows "map changed_test (changed_at t i d e k) = map changed_test (changed_at t i e d k)"
proof (cases "dget d k"; cases "dget e k")
  fix old new assume "dget d k = Some old" "dget e k = Some new"
  with assms have "test_label old = test_label new" by (simp add: test_label_def)
  with \<open>dget d k = _\<close> \<open>dget e k = _\<close> differences_swap [of t i old new] show ?thesis
    by (simp add: changed_at_def Let_def)
qed (simp_all add: changed_at_def)

section \<open>Properties\<close>

text \<open>
  C24: A comparison does not depend on which report comes first. Comparing the other way round succeeds
  too, swaps the files, the counts and the added and removed tests, and finds the same tests changed
  in the same order; and the counts balance: first plus added is second plus removed.
\<close>

theorem compare_symmetric:
  assumes "compare f g t i = Inr r"
  shows "\<exists>r'. compare g f t i = Inr r' \<and> added r' = removed r \<and> removed r' = added r
    \<and> first_count r' = second_count r \<and> second_count r' = first_count r
    \<and> map changed_test (changed r') = map changed_test (changed r)
    \<and> first_count r + length (added r) = second_count r + length (removed r)"
proof -
  from assms obtain s1 d s2 e where l: "load_results (snd f) = Inr (s1, d)" "load_results (snd g) = Inr (s2, e)"
    and r: "r = compare_results (fst f) (fst g) t i (s1, d) (s2, e)"
    by (auto simp: compare_def rbind_Inr_iff)
  let ?r' = "compare_results (fst g) (fst f) t i (s2, e) (s1, d)"
  note distinct = loaded_keys [OF l(1)] loaded_keys [OF l(2)]
  have same: "map changed_test (changed_at t i e d k) = map changed_test (changed_at t i d e k)" for k
    by (rule changed_tests_swap [OF loaded_key [OF l(2)] loaded_key [OF l(1)]])
  have "compare g f t i = Inr ?r'" by (simp add: compare_def l)
  moreover have "map changed_test (changed ?r') = map changed_test (changed r)"
    unfolding r compare_results_def
    by (simp add: map_concat comp_def common_keys_swap [OF distinct(2,1)] same)
  moreover have "first_count r + length (added r) = second_count r + length (removed r)"
    using key_counts [OF distinct] by (simp add: r compare_results_def sorted_keys_def)
  ultimately show ?thesis by (intro exI [of _ ?r']) (simp add: r compare_results_def)
qed

definition sample_report :: "string \<Rightarrow> string list \<Rightarrow> report_file" where
  "sample_report path names = (path, Element ''testsuites'' [] []
     [Element ''testsuite'' [(''name'', ''s'')] [] (map (\<lambda>n. Element ''testcase'' [(''name'', n)] [] [] []) names) []] [])"

lemma compare_symmetric_witness:
  "\<exists>r r'. compare (sample_report ''x'' [''a'', ''b'']) (sample_report ''y'' [''b'']) False False = Inr r
     \<and> compare (sample_report ''y'' [''b'']) (sample_report ''x'' [''a'', ''b'']) False False = Inr r'
     \<and> added r' = removed r \<and> removed r = [''s / a''] \<and> first_count r = 2"
proof -
  have "case compare (sample_report ''x'' [''a'', ''b'']) (sample_report ''y'' [''b'']) False False of
    Inl _ \<Rightarrow> False | Inr r \<Rightarrow> removed r = [''s / a''] \<and> first_count r = 2"
    by code_simp
  then obtain r where r: "compare (sample_report ''x'' [''a'', ''b'']) (sample_report ''y'' [''b'']) False False = Inr r"
    "removed r = [''s / a''] \<and> first_count r = 2" by (auto split: sum.splits)
  with compare_symmetric [OF r(1)] show ?thesis by auto
qed

end
