(* ===== verification/Aggregates.thy ===== *)
theory Aggregates
  imports Analyzer
begin

text \<open>
  What \<open>analyzer.py\<close> counts is right: \<open>_aggregate_statuses\<close> against the plain grouping of all results
  by their label, and the totals of a group of reports against the rows they are summed from.
\<close>

section \<open>All results of a list of reports\<close>

definition all_results :: "report_file list \<Rightarrow> TestResult list" where
  "all_results files = concat (map (\<lambda>f. loaded (snd f)) files)"

definition readable :: "report_file \<Rightarrow> bool" where   \<comment> \<open>no two cases under one key\<close>
  "readable f \<longleftrightarrow> distinct (map result_key (loaded (snd f)))"

text \<open>The reference: the row of a label has the statuses of the results with that label, in order.\<close>

definition row_of :: "string \<Rightarrow> TestResult list \<Rightarrow> StatusSummaryRow option" where
  "row_of l rs =
     (let seen = filter (\<lambda>r. test_label r = l) rs in
      if seen = [] then None else Some (foldl (\<lambda>row s. row_add s row) (new_row l) (map rich_status seen)))"

abbreviation counted :: "TestResult list \<Rightarrow> (string, StatusSummaryRow) dict" where
  "counted rs \<equiv> foldl add_status [] rs"

lemma aggregate_cases:
  "aggregate_statuses files = (if list_all readable files then Inr (counted (all_results files)) else Inl ValueError)"
proof -
  have "rfold (\<lambda>file totals. rbind (load_results (snd file)) (\<lambda>(_, results). Inr (foldl add_status totals (map snd results)))) files d
      = (if list_all readable files then Inr (foldl add_status d (all_results files)) else Inl ValueError)" for d
    by (induction files arbitrary: d) (simp_all add: readable_def all_results_def load_results_cases comp_def)
  then show ?thesis by (simp add: aggregate_statuses_def)
qed

lemma counted_snoc: "counted (rs @ [r]) = add_status (counted rs) r"
  by simp

lemma counted_dvalid: "dvalid (counted rs)"
  by (induction rs rule: rev_induct) (simp_all add: add_status_def Let_def dvalid_def [of "[]"])

lemma counted_get: "dget (counted rs) l = row_of l rs"
proof (induction rs rule: rev_induct)
  case (snoc r rs)
  have "dget (counted (rs @ [r])) l = (if l = test_label r
      then Some (row_add (rich_status r) (case dget (counted rs) l of None \<Rightarrow> new_row l | Some row \<Rightarrow> row)) else dget (counted rs) l)"
    unfolding counted_snoc add_status_def Let_def dget_dset dget_or_def by auto
  also have "\<dots> = row_of l (rs @ [r])"
    unfolding snoc.IH by (simp add: row_of_def Let_def)
  finally show ?case .
qed (simp add: row_of_def)

lemma row_of_ok: "row_of l rs = Some row \<Longrightarrow> row_ok row"
proof -
  have "row_ok (foldl (\<lambda>row s. row_add s row) (new_row l) ss)" for ss by (induction ss rule: rev_induct) simp_all
  then show "row_of l rs = Some row \<Longrightarrow> row_ok row" by (auto simp: row_of_def Let_def split: if_splits)
qed

lemma counted_ok: "(l, row) \<in> set (counted rs) \<Longrightarrow> row_ok row"
  using counted_get [of rs l] counted_dvalid [of rs] row_of_ok [of l rs row] by (auto simp: dvalid_def)

section \<open>Sums over a dictionary\<close>

definition dsum :: "('v \<Rightarrow> nat) \<Rightarrow> ('k, 'v) dict \<Rightarrow> nat" where
  "dsum f d = sum_list (map (f \<circ> snd) d)"

lemma dsum_simps [simp]: "dsum f [] = 0" "dsum f (p # d) = f (snd p) + dsum f d" "dsum f (d @ e) = dsum f d + dsum f e"
  by (simp_all add: dsum_def)

lemma dsum_dset:
  "dvalid d \<Longrightarrow> dsum f (dset k v d) + (case dget d k of None \<Rightarrow> 0 | Some w \<Rightarrow> f w) = dsum f d + f v"
proof (induction d)
  case (Cons p d)
  then have "dvalid d" "fst p = k \<Longrightarrow> dget d k = None" by (auto simp: dvalid_def map_of_eq_None_iff)
  with Cons.IH show ?case by (cases p) auto
qed simp

text \<open>What adds one per result to every row adds up to the number of results.\<close>

lemma counted_sum:
  assumes add: "\<And>s row. row_ok row \<Longrightarrow> f (row_add s row) = f row + g s" and new: "\<And>l. f (new_row l) = 0"
  shows "dsum f (counted rs) = sum_list (map (g \<circ> rich_status) rs)"
proof (induction rs rule: rev_induct)
  case (snoc r rs)
  let ?l = "test_label r"
  have ok: "row_ok (dget_or (counted rs) ?l (new_row ?l))"
    using row_of_ok [of ?l rs] by (auto simp: dget_or_def counted_get split: option.splits)
  have "dsum f (counted (rs @ [r])) + (case dget (counted rs) ?l of None \<Rightarrow> 0 | Some w \<Rightarrow> f w)
      = dsum f (counted rs) + f (dget_or (counted rs) ?l (new_row ?l)) + g (rich_status r)"
    using dsum_dset [OF counted_dvalid [of rs], of f ?l] add [OF ok]
    unfolding counted_snoc add_status_def Let_def by simp
  then have "dsum f (counted (rs @ [r])) = dsum f (counted rs) + g (rich_status r)"
    using new [of ?l] by (auto simp: dget_or_def simp del: foldl_append split: option.splits)
  with snoc.IH show ?case unfolding map_append sum_list_append by (simp add: comp_def)
qed simp

lemma counted_sum_counts:
  "dsum (\<lambda>row. sum_counts P (rich_counts row)) (counted rs) = length (filter (P \<circ> rich_status) rs)"
proof -
  have "dsum (\<lambda>row. sum_counts P (rich_counts row)) (counted rs) = sum_list (map ((\<lambda>s. if P s then 1 else 0) \<circ> rich_status) rs)"
    by (rule counted_sum) (simp_all add: row_ok_def row_add_def new_row_def sum_counts_dadd sum_counts_def [of _ "[]"])
  also have "\<dots> = length (filter (P \<circ> rich_status) rs)" by (induction rs) auto
  finally show ?thesis .
qed

lemma dsum_cong: "(\<And>k v. (k, v) \<in> set d \<Longrightarrow> f v = g v) \<Longrightarrow> dsum f d = dsum g d"
  unfolding dsum_def by (intro arg_cong [where f = sum_list] map_cong) auto

lemma counted_totals:
  shows "dsum total_real_fail (counted rs) = length (filter (real_fail \<circ> rich_status) rs)"
    and "dsum passed (counted rs) = length (filter ((\<lambda>s. s = PASSED \<or> s = PASSED_AS_SKIPPED) \<circ> rich_status) rs)"
    and "dsum skipped (counted rs) = length (filter ((\<lambda>s. s = SKIPPED_UNSUPPORTED \<or> s = SKIPPED_OTHER) \<circ> rich_status) rs)"
    and "dsum skipped_unsupported (counted rs) = length (filter ((\<lambda>s. s = SKIPPED_UNSUPPORTED) \<circ> rich_status) rs)"
proof -
  note sums = counted_sum_counts [of _ rs]
  show "dsum total_real_fail (counted rs) = length (filter (real_fail \<circ> rich_status) rs)"
    unfolding total_real_fail_def by (rule sums)
  show "dsum passed (counted rs) = length (filter ((\<lambda>s. s = PASSED \<or> s = PASSED_AS_SKIPPED) \<circ> rich_status) rs)"
    unfolding sums [symmetric] by (rule dsum_cong) (rule row_counts(1), rule counted_ok)
  show "dsum skipped (counted rs) = length (filter ((\<lambda>s. s = SKIPPED_UNSUPPORTED \<or> s = SKIPPED_OTHER) \<circ> rich_status) rs)"
    unfolding sums [symmetric] by (rule dsum_cong) (rule row_counts(2), rule counted_ok)
  have single: "skipped_unsupported row = sum_counts (\<lambda>s. s = SKIPPED_UNSUPPORTED) (rich_counts row)" if "row_ok row" for row
    using that sum_counts_single [of "rich_counts row" SKIPPED_UNSUPPORTED] by (simp add: skipped_unsupported_def row_ok_def)
  show "dsum skipped_unsupported (counted rs) = length (filter ((\<lambda>s. s = SKIPPED_UNSUPPORTED) \<circ> rich_status) rs)"
    unfolding sums [symmetric] by (rule dsum_cong) (rule single, rule counted_ok)
qed

section \<open>The totals of a group\<close>

lemma dsum_dadd: "dvalid d \<Longrightarrow> dsum id (dadd k n d) = dsum id d + n"
  using sum_list_dset_add [of d k n] by (simp add: dsum_def)

lemma dkeys_dadd: "dkeys (dadd k n d) = (if k \<in> set (dkeys d) then dkeys d else dkeys d @ [k])"
  by (simp add: dadd_def dset_keys)

lemma dadd_not_empty: "dadd k n d \<noteq> []"
  by (cases d) (auto simp: dadd_def)

lemma dvalid_empty: "dvalid []"
  by (simp add: dvalid_def)

text \<open>
  A tally adds the number of an item under a name that the label of the item determines, if it
  determines one (\<open>counts\<close>).
\<close>

locale tally =
  fixes add :: "string \<times> nat \<Rightarrow> (string, nat) dict \<Rightarrow> (string, nat) dict" and counts :: "string \<Rightarrow> bool"
  assumes valid: "dvalid d \<Longrightarrow> dvalid (add x d)"
    and sum: "dvalid d \<Longrightarrow> dsum id (add x d) = dsum id d + (if counts (fst x) then snd x else 0)"
    and keys: "fst x = fst y \<Longrightarrow> dkeys d = dkeys e \<Longrightarrow> dkeys (add x d) = dkeys (add y e)"
    and empty: "add x d = [] \<longleftrightarrow> d = [] \<and> \<not> counts (fst x)"
begin

abbreviation counted_items :: "(string \<times> nat) list \<Rightarrow> nat" where
  "counted_items items \<equiv> sum_list (map (\<lambda>x. if counts (fst x) then snd x else 0) items)"

lemma fold_valid_sum: "dvalid d \<Longrightarrow> dvalid (fold add items d) \<and> dsum id (fold add items d) = dsum id d + counted_items items"
  using valid sum by (induction items arbitrary: d) simp_all

lemma fold_sum: "dsum id (fold add items []) = counted_items items"
  using fold_valid_sum [OF dvalid_empty, of items] by simp

lemma fold_sum_le: "dsum id (fold add items []) \<le> sum_list (map snd items)"
  unfolding fold_sum by (rule sum_list_mono) simp

lemma fold_empty: "fold add items d = [] \<longleftrightarrow> d = [] \<and> (\<forall>x \<in> set items. \<not> counts (fst x))"
  using empty by (induction items arbitrary: d) auto

text \<open>Under which names something is counted does not depend on the numbers.\<close>

lemma fold_keys: "map fst xs = map fst ys \<Longrightarrow> dkeys d = dkeys e \<Longrightarrow> dkeys (fold add xs d) = dkeys (fold add ys e)"
proof (induction xs arbitrary: ys d e)
  case (Cons x xs)
  then obtain y zs where "ys = y # zs" "fst x = fst y" "map fst xs = map fst zs" by (cases ys) auto
  with Cons.IH [OF _ keys [of x y d e]] Cons.prems(2) show ?case by simp
qed simp

end

definition names_both :: "string \<Rightarrow> bool" where   \<comment> \<open>the label names a publisher and a subscriber\<close>
  "names_both l \<longleftrightarrow> extract_pub_sub l \<noteq> None"

interpretation features: tally add_feature "\<lambda>_. True"
  by unfold_locales (simp_all add: add_feature_def dsum_dadd dkeys_dadd dadd_not_empty)

interpretation publishers: tally add_pub names_both
  by unfold_locales
     (auto simp: add_pub_def names_both_def dsum_dadd dkeys_dadd dadd_not_empty simp del: set_map split: option.splits)

interpretation subscribers: tally add_sub names_both
  by unfold_locales
     (auto simp: add_sub_def names_both_def dsum_dadd dkeys_dadd dadd_not_empty simp del: set_map split: option.splits)

lemma rich_totals: "dget_or (rich_totals_of rows) k 0 = sum_list (map (\<lambda>row. sum_counts (\<lambda>s. s = k) (rich_counts row)) rows)"
proof -
  have "dget_or (foldl (\<lambda>d (s, n). dadd s n d) d xs) k 0 = dget_or d k 0 + sum_counts (\<lambda>s. s = k) xs" for xs d
    by (induction xs arbitrary: d) (auto simp: dget_dadd sum_counts_def)
  moreover have "sum_counts (\<lambda>s. s = k) (concat (map rich_counts rows))
      = sum_list (map (\<lambda>row. sum_counts (\<lambda>s. s = k) (rich_counts row)) rows)"
    by (induction rows) (simp_all add: sum_counts_def)
  ultimately show ?thesis by (simp add: rich_totals_of_def dget_or_def [of "[]"])
qed

lemma sum_positive: "sum_list (map f (filter (\<lambda>x. 0 < f x) xs)) = (sum_list (map f xs) :: nat)"
  by (induction xs) auto

lemma group_report_group:
  "build_parallel_group_report par files =
     (if list_all readable files then Inr (group_report par (map fst files) (counted (all_results files))) else Inl ValueError)"
  by (simp add: build_parallel_group_report_def aggregate_cases)

lemma group_report_keys:
  assumes "build_parallel_group_report par files = Inr g"
  shows "dkeys (flaky_pub g) = dkeys (flaky_pub_test_count g)" "dkeys (flaky_sub g) = dkeys (flaky_sub_test_count g)"
proof -
  have ones: "map fst (map (\<lambda>r. (flaky_label r, fail_count r)) fs) = map fst (map (\<lambda>r. (flaky_label r, 1::nat)) fs)" for fs
    by simp
  from assms have g: "g = group_report par (map fst files) (counted (all_results files))"
    by (simp add: group_report_group split: if_splits)
  show "dkeys (flaky_pub g) = dkeys (flaky_pub_test_count g)" "dkeys (flaky_sub g) = dkeys (flaky_sub_test_count g)"
    by (simp_all only: g group_report_def Let_def ParallelGroupReport.select_convs
        publishers.fold_keys [OF ones refl] subscribers.fold_keys [OF ones refl])
qed

lemma group_report_names:
  assumes "build_parallel_group_report par files = Inr g"
  shows "flaky_pub g = [] \<longleftrightarrow> flaky_sub g = []" "pub_fails g = [] \<longleftrightarrow> sub_fails g = []"
  using assms
  by (auto simp: group_report_group group_report_def Let_def publishers.fold_empty subscribers.fold_empty split: if_splits)

lemma flaky_rows:
  "r \<in> set (flaky_rows_of rows) \<longleftrightarrow> (\<exists>l row. (l, row) \<in> set rows \<and> is_flaky row \<and>
     r = \<lparr>flaky_label = l, pass_count = passed row, fail_count = total_real_fail row\<rparr>)"
  by (auto simp: flaky_rows_of_def image_iff)

section \<open>Properties\<close>

definition status_count :: "(RichStatus \<Rightarrow> bool) \<Rightarrow> TestResult list \<Rightarrow> nat" where
  "status_count P rs = length (filter (P \<circ> rich_status) rs)"

text \<open>
  C22: Aggregation is grouping. The statistics over a list of reports have, for each label, exactly the
  row that results from the statuses of all results with that label, and none for a label without
  results; no result is lost or counted twice: passed, failed and skipped over all rows add up to them.
\<close>

theorem aggregation_groups_results:
  assumes "aggregate_statuses files = Inr totals"
  shows "distinct (dkeys totals) \<and> dget totals l = row_of l (all_results files)
    \<and> dsum passed totals + dsum total_real_fail totals + dsum skipped totals = length (all_results files)"
proof -
  let ?rs = "all_results files"
  from assms have t: "totals = counted ?rs" by (simp add: aggregate_cases split: if_splits)
  have parts: "length rs = status_count (\<lambda>s. s = PASSED \<or> s = PASSED_AS_SKIPPED) rs + status_count real_fail rs
      + status_count (\<lambda>s. s = SKIPPED_UNSUPPORTED \<or> s = SKIPPED_OTHER) rs" for rs
    unfolding status_count_def by (induction rs) (auto simp: real_fail_def)
  from parts [of ?rs] counted_dvalid [of ?rs] show ?thesis
    by (simp add: t counted_get counted_totals status_count_def dvalid_def)
qed

text \<open>
  C23: The totals of a group of reports are the counts of its results. For each status the total is the
  number of results with it, failures and passes are those of the semantic categories; the failures
  by feature add up to all failures, those by publisher to those by subscriber, and never to more; and
  the tests listed as flaky are those that both passed and failed, under names that have a test count.
\<close>

theorem group_report_consistent:
  assumes "build_parallel_group_report par files = Inr g"
  shows "run_count g = length files
    \<and> dget_or (rich_status_totals g) k 0 = status_count (\<lambda>s. s = k) (all_results files)
    \<and> total_fail_raw g = status_count real_fail (all_results files)
    \<and> total_pass_raw g = status_count (\<lambda>s. s = PASSED \<or> s = PASSED_AS_SKIPPED) (all_results files)
    \<and> total_skip_raw g = status_count (\<lambda>s. s = SKIPPED_UNSUPPORTED) (all_results files)
    \<and> dsum id (feature_fails g) = total_fail_raw g
    \<and> dsum id (pub_fails g) = dsum id (sub_fails g) \<and> dsum id (pub_fails g) \<le> total_fail_raw g
    \<and> dkeys (flaky_pub g) = dkeys (flaky_pub_test_count g) \<and> dkeys (flaky_sub g) = dkeys (flaky_sub_test_count g)
    \<and> list_all (\<lambda>r. 0 < pass_count r \<and> 0 < fail_count r) (flaky_tests g)"
proof -
  let ?rows = "counted (all_results files)"
  let ?summary = "map (\<lambda>(label, row). (label, total_real_fail row)) (filter (\<lambda>(_, row). total_real_fail row > 0) ?rows)"
  from assms have g: "g = group_report par (map fst files) ?rows" by (simp add: group_report_group split: if_splits)
  note totals = counted_totals [of "all_results files", folded status_count_def]
  have fails: "sum_list (map snd ?summary) = total_fail_raw g"
    using sum_positive [of "total_real_fail \<circ> snd" ?rows] by (simp add: g group_report_def Let_def comp_def case_prod_unfold)
  then have "dsum id (pub_fails g) \<le> total_fail_raw g"
    using publishers.fold_sum_le [of ?summary] by (simp add: g group_report_def Let_def)
  moreover have "dsum id (pub_fails g) = dsum id (sub_fails g)" "dsum id (feature_fails g) = total_fail_raw g"
    using fails by (simp_all add: g group_report_def Let_def publishers.fold_sum subscribers.fold_sum features.fold_sum)
  moreover have "dget_or (rich_status_totals g) k 0 = status_count (\<lambda>s. s = k) (all_results files)"
    using counted_sum_counts [of "\<lambda>s. s = k" "all_results files"]
    by (simp add: g group_report_def Let_def rich_totals dsum_def status_count_def comp_def)
  moreover have "total_fail_raw g = dsum total_real_fail ?rows" "total_pass_raw g = dsum passed ?rows"
      "total_skip_raw g = dsum skipped_unsupported ?rows" "run_count g = length files"
    by (simp_all add: g group_report_def Let_def dsum_def)
  moreover have "list_all (\<lambda>r. 0 < pass_count r \<and> 0 < fail_count r) (flaky_tests g)"
    by (auto simp: g group_report_def Let_def list_all_iff flaky_rows is_flaky_def)
  ultimately show ?thesis using totals group_report_keys [OF assms] by (intro conjI) presburger+
qed

section \<open>The groups\<close>

lemma rmap_all2: "rmap f xs = Inr ys \<Longrightarrow> list_all2 (\<lambda>x y. f x = Inr y) xs ys"
  by (induction xs arbitrary: ys) (auto simp: rbind_Inr_iff)

lemma list_all2_in: "list_all2 P xs ys \<Longrightarrow> y \<in> set ys \<Longrightarrow> \<exists>x \<in> set xs. P x y"
  by (induction rule: list_all2_induct) auto

lemma built_groups:
  assumes "build_explain_parallel_report files = Inr ep" "g \<in> set (groups ep)"
  shows "\<exists>par fs. build_parallel_group_report par fs = Inr g"
proof -
  from assms have "list_all2 (\<lambda>(par, fs) g. build_parallel_group_report par fs = Inr g) (sort_key fst (group_files files)) (groups ep)"
    using rmap_all2 by (fastforce simp: build_explain_parallel_report_def rbind_Inr_iff case_prod_unfold)
  from list_all2_in [OF this assms(2)] show ?thesis by auto
qed

lemma group_files_snoc:
  "group_files (files @ [f]) = (case parallel_of f of None \<Rightarrow> group_files files | Some k \<Rightarrow> add_to_group k f (group_files files))"
  by (cases "parallel_of f") (simp_all add: group_files_def)

lemma group_files_dvalid: "dvalid (group_files files)"
proof (induction files rule: rev_induct)
  case Nil
  then show ?case by (simp add: group_files_def dvalid_def)
next
  case (snoc f files)
  then show ?case by (simp add: group_files_snoc add_to_group_def split: option.splits)
qed

lemma group_files_get:
  "dget (group_files files) k =
     (let own = filter (\<lambda>f. parallel_of f = Some k) files in if own = [] then None else Some own)"
proof (induction files rule: rev_induct)
  case Nil
  then show ?case by (simp add: group_files_def)
next
  case (snoc f files)
  show ?case
    by (auto simp: group_files_snoc add_to_group_def dget_dset dget_or_def snoc.IH Let_def split: option.splits)
qed

lemma group_members:
  assumes "(k, fs) \<in> set (group_files files)"
  shows "set fs \<subseteq> set files"
proof -
  have "dget (group_files files) k = Some fs" using assms group_files_dvalid [of files] by (simp add: dvalid_def)
  then show ?thesis by (auto simp: group_files_get Let_def split: if_splits)
qed

lemma build_explain_ok:
  assumes "list_all readable files"
  shows "\<exists>ep. build_explain_parallel_report files = Inr ep"
proof -
  have "rmap (\<lambda>(par, fs). build_parallel_group_report par fs) (sort_key fst (group_files files))
      = Inr (map (\<lambda>(par, fs). group_report par (map fst fs) (counted (all_results fs))) (sort_key fst (group_files files)))"
    using assms group_members by (intro rmap_Inr) (fastforce simp: group_report_group list_all_iff)
  then show ?thesis by (simp add: build_explain_parallel_report_def)
qed

text \<open>
  The parallel analysis puts every report into one group. The groups are in increasing order of
  the number of parallel runs, there is one for each number in a file name, each holds exactly the
  reports with its number in the given order, and the other reports are listed as ungrouped.
\<close>

theorem groups_partition_files:
  assumes "build_explain_parallel_report files = Inr ep"
  shows "sorted_wrt (<) (map parallel_count (groups ep))
    \<and> set (map parallel_count (groups ep)) = {k. \<exists>f \<in> set files. parallel_of f = Some k}
    \<and> (\<forall>g \<in> set (groups ep). build_parallel_group_report (parallel_count g) (filter (\<lambda>f. parallel_of f = Some (parallel_count g)) files) = Inr g
         \<and> file_paths g = map fst (filter (\<lambda>f. parallel_of f = Some (parallel_count g)) files))
    \<and> ungrouped_files ep = map fst (filter (\<lambda>f. parallel_of f = None) files)"
proof -
  let ?gs = "sort_key fst (group_files files)"
  from assms obtain reports where r: "rmap (\<lambda>(par, fs). build_parallel_group_report par fs) ?gs = Inr reports"
    and ep: "ep = \<lparr>groups = reports, ungrouped_files = map fst (filter (\<lambda>f. parallel_of f = None) files)\<rparr>"
    by (auto simp: build_explain_parallel_report_def rbind_Inr_iff)
  have pairs: "list_all2 (\<lambda>(par, fs) g. build_parallel_group_report par fs = Inr g) ?gs reports"
    using rmap_all2 [OF r] by (simp add: case_prod_unfold)
  then have each: "list_all2 (\<lambda>(par, fs) g. build_parallel_group_report par fs = Inr g \<and> parallel_count g = par \<and> file_paths g = map fst fs) ?gs reports"
    by (rule list_all2_mono) (auto simp: group_report_group group_report_def Let_def split: if_splits)
  then have counts: "map parallel_count reports = map fst ?gs"
    by (induction rule: list_all2_induct) auto
  have "distinct (map fst ?gs)"
    using group_files_dvalid [of files] by (simp add: dvalid_def distinct_map inj_on_def)
  then have "sorted_wrt (<) (map parallel_count reports)"
    unfolding counts by (simp add: strict_sorted_iff)
  moreover have "set (map parallel_count reports) = {k. \<exists>f \<in> set files. parallel_of f = Some k}"
    unfolding counts using group_files_get [of files] dom_map_of_conv_image_fst [of "group_files files"]
    by (auto simp: dom_def filter_empty_conv Let_def split: if_splits)
  moreover have "build_parallel_group_report (parallel_count g) (filter (\<lambda>f. parallel_of f = Some (parallel_count g)) files) = Inr g
      \<and> file_paths g = map fst (filter (\<lambda>f. parallel_of f = Some (parallel_count g)) files)" if "g \<in> set reports" for g
  proof -
    from list_all2_in [OF each that] obtain par fs where "(par, fs) \<in> set ?gs" and b: "build_parallel_group_report par fs = Inr g"
      "parallel_count g = par" "file_paths g = map fst fs"
      by auto
    then have "dget (group_files files) par = Some fs" using group_files_dvalid [of files] by (simp add: dvalid_def)
    then have "fs = filter (\<lambda>f. parallel_of f = Some par) files" by (simp add: group_files_get Let_def split: if_splits)
    with b show ?thesis by simp
  qed
  ultimately show ?thesis by (simp add: ep)
qed

text \<open>Two reports, one of four parallel runs, one without the number.\<close>

definition sample_files :: "report_file list" where
  "sample_files =
     [(''junit_01022026-1030-par4.xml'',
       Element ''testsuites'' [] [] [Element ''testsuite'' [(''name'', ''s'')] []
         [Element ''testcase'' [(''name'', ''a'')] [] [] [], Element ''testcase'' [(''name'', ''b'')] [] [Element ''error'' [] [] [] []] []] []] []),
      (''junit_old.xml'', Element ''testsuites'' [] [] [] [])]"

lemma sample_results:
  "aggregate_statuses sample_files = Inr (counted (all_results sample_files))"
  "build_parallel_group_report 4 (take 1 sample_files) = Inr (group_report 4 [''junit_01022026-1030-par4.xml''] (counted (all_results (take 1 sample_files))))"
  by code_simp+

lemma aggregation_groups_results_witness:
  "dget (counted (all_results sample_files)) ''s / b'' = row_of ''s / b'' (all_results sample_files)
   \<and> length (all_results sample_files) = 2"
  using aggregation_groups_results [OF sample_results(1), of "''s / b''"] by (intro conjI) (blast, code_simp)

lemma group_report_consistent_witness:
  "total_fail_raw (group_report 4 [''junit_01022026-1030-par4.xml''] (counted (all_results (take 1 sample_files))))
     = status_count real_fail (all_results (take 1 sample_files)) \<and> status_count real_fail (all_results (take 1 sample_files)) = 1"
  using group_report_consistent [OF sample_results(2), of ERROR] by (intro conjI) (blast, code_simp)

lemma groups_partition_files_witness:
  "\<exists>ep. build_explain_parallel_report sample_files = Inr ep \<and> map parallel_count (groups ep) = [4] \<and> ungrouped_files ep = [''junit_old.xml'']"
proof -
  have ok: "(case build_explain_parallel_report sample_files of Inl _ \<Rightarrow> False | Inr ep \<Rightarrow> map parallel_count (groups ep) = [4])"
    "map fst (filter (\<lambda>f. parallel_of f = None) sample_files) = [''junit_old.xml'']"
    by code_simp+
  then obtain ep where ep: "build_explain_parallel_report sample_files = Inr ep" by (auto split: sum.splits)
  from groups_partition_files [OF ep] ok ep show ?thesis by simp
qed

end
