(* ===== verification/Renderer.thy ===== *)
theory Renderer
  imports Aggregates Difflib
begin

text \<open>
  \<open>benchmarking/junit_compare/renderer.py\<close>: the texts of a comparison and of the analysis of parallel
  runs.  What a function prints is the list of the texts its \<open>print\<close> calls write, a subscript that finds
  no key is a \<open>KeyError\<close>.  A character beyond U+00FF is written as its UTF-8 bytes.
\<close>

section \<open>Shared pieces\<close>

definition path_parent :: "string \<Rightarrow> string" where   \<comment> \<open>the parent with its slash; empty for a bare name\<close>
  "path_parent path = take (length path - length (path_name path)) path"

definition output_filename :: "string \<Rightarrow> string \<Rightarrow> string \<Rightarrow> string" where
  "output_filename path1 path2 mode =
     path_parent path1 @ mode @ ''_'' @ report_label path1 @ ''_'' @ report_label path2 @ ''.txt''"

definition py_item :: "('k, 'v) dict \<Rightarrow> 'k \<Rightarrow> 'v res" where
  "py_item d k = (case dget d k of None \<Rightarrow> Inl KeyError | Some v \<Rightarrow> Inr v)"

definition has_status :: "ChangedTest \<Rightarrow> bool" where   \<comment> \<open>\<open>"status" in item.differences\<close>\<close>
  "has_status item \<longleftrightarrow> ''status'' \<in> set (dkeys (differences item))"

definition or_none :: "string \<Rightarrow> string" where "or_none s = (if s = [] then ''(none)'' else s)"

definition nl :: string where "nl = [CHR 0x0A]"

definition print_text :: "string list \<Rightarrow> string" where   \<comment> \<open>what the \<open>print\<close> calls write in all\<close>
  "print_text ps = concat (map (\<lambda>p. p @ nl) ps)"

section \<open>One comparison\<close>

definition field_lines :: "string \<times> (string, string) dict \<Rightarrow> string list res" where
  "field_lines fv = (case fv of (field, values) \<Rightarrow>
     rbind (py_item values ''first'') (\<lambda>first. rbind (py_item values ''second'') (\<lambda>second. Inr
       (if field = ''detail''
        then [''  detail:'', join nl (map (\<lambda>line. ''    '' @ line)
               (unified_diff (splitlines (or_none first)) (splitlines (or_none second)) ''first'' ''second''))]
        else [''  '' @ field @ '': '' @ py_repr first @ '' -> '' @ py_repr second]))))"

definition changed_lines :: "ChangedTest \<Rightarrow> string list res" where
  "changed_lines item =
     rbind (rmap field_lines (differences item)) (\<lambda>ls. Inr ((''CHANGED: '' @ changed_test item) # concat ls))"

definition print_report :: "CompareReport \<Rightarrow> bool \<Rightarrow> string list res" where
  "print_report report include_times =
     (let first = path_name (first_file report); second = path_name (second_file report) in
      rbind (rmap changed_lines (changed report)) (\<lambda>ls. Inr
        ([''##Result for: Comparing: '' @ first @ '' -> '' @ second,
          ''Comparing: '' @ first @ '' -> '' @ second,
          ''Cases: '' @ show_nat (first_count report) @ '' -> '' @ show_nat (second_count report)
            @ '' | added: '' @ show_nat (length (added report)) @ '', removed: '' @ show_nat (length (removed report))
            @ '', changed: '' @ show_nat (length (changed report))]
         @ (if include_times then [''Timing differences are included.''] else [])
         @ map (\<lambda>label. ''ADDED: '' @ label) (added report)
         @ map (\<lambda>label. ''REMOVED: '' @ label) (removed report)
         @ concat ls)))"

definition status_changes :: "CompareReport \<Rightarrow> nat" where
  "status_changes report = length (filter has_status (changed report))"

definition print_simple_report :: "CompareReport \<Rightarrow> string list" where
  "print_simple_report report =
     (let first_label = report_label (first_file report); second_label = report_label (second_file report);
          n = status_changes report in
      [''##Result for: Comparison: '' @ first_label @ '' vs. '' @ second_label,
       ''Current comparison shows:'',
       (if first_count report = second_count report
        then ''- `'' @ show_thousands (first_count report) @ ''` testcases in both runs''
        else ''- `'' @ show_thousands (first_count report) @ ''` testcases in the first run and `''
          @ show_thousands (second_count report) @ ''` in the second run''),
       ''- `'' @ show_nat n @ ''` pass/fail status changes between runs'',
       (if n \<noteq> 0 then ''- The results for the same case differ '' @ show_nat n @ ''x''
        else ''- No diverse results in same case''),
       ''- reports `'' @ first_label @ ''` vs. `'' @ second_label @ ''`''])"

definition status_lines :: "string \<Rightarrow> string \<Rightarrow> ChangedTest \<Rightarrow> string list res" where
  "status_lines first_label second_label item =
     (case dget (differences item) ''status'' of
        None \<Rightarrow> Inr []
      | Some status \<Rightarrow>
          rbind (py_item status ''first'') (\<lambda>first. rbind (py_item status ''second'') (\<lambda>second. Inr
            [''CHANGED: '' @ changed_test item,
             ''- '' @ first_label @ '': '' @ first,
             ''+ '' @ second_label @ '': '' @ second])))"

definition print_differences :: "CompareReport \<Rightarrow> string list res" where
  "print_differences report =
     (let first_label = report_label (first_file report); second_label = report_label (second_file report);
          head = [''##Result for: Differences: '' @ first_label @ '' -> '' @ second_label,
                  ''Differences: '' @ first_label @ '' -> '' @ second_label];
          difference_count = length (added report) + length (removed report) + status_changes report in
      if difference_count = 0 then Inr (head @ [''No testcase result differences.''])
      else rbind (rmap (status_lines first_label second_label) (changed report)) (\<lambda>ls. Inr
        (head
         @ concat (map (\<lambda>label. [''CHANGED: '' @ label, ''- first: (empty)'', ''+ second: removed'']) (removed report))
         @ concat (map (\<lambda>label. [''CHANGED: '' @ label, ''- first: removed'', ''+ second: (empty)'']) (added report))
         @ concat ls)))"

section \<open>Failure frequency\<close>

definition frequency_line :: "string \<times> (string, nat) dict \<Rightarrow> string" where
  "frequency_line lc = (case lc of (label, counts) \<Rightarrow>
     ''  '' @ label @ '': passed='' @ show_nat (dget_or counts ''passed'' 0)
     @ '', failed='' @ show_nat (dget_or counts ''failure'' 0)
     @ '', errors='' @ show_nat (dget_or counts ''error'' 0)
     @ '', skipped='' @ show_nat (dget_or counts ''skipped'' 0)
     @ '', total_failures='' @ show_nat (dget_or counts ''failure'' 0 + dget_or counts ''error'' 0))"

definition print_failure_frequency_summary :: "(string \<times> (string, nat) dict) list \<Rightarrow> string list" where
  "print_failure_frequency_summary files_summary =
     ''##Result for: Failure frequency across all XML reports'' #
     (if files_summary = [] then [''Failure frequency across all XML reports: none'']
      else ''Failure frequency across all XML reports:'' # map frequency_line files_summary)"

section \<open>The analysis of parallel runs\<close>

definition top_items :: "nat \<Rightarrow> (string, nat) dict \<Rightarrow> (string \<times> nat) list" where   \<comment> \<open>\<open>sorted(d.items(), key=lambda x: -x[1])[:n]\<close>\<close>
  "top_items n d = take n (sort_key (\<lambda>x. - int (snd x)) d)"

definition rule80 :: string where "rule80 = replicate 80 (CHR ''='')"

definition fixed1 :: "nat \<Rightarrow> rat \<Rightarrow> string" where   \<comment> \<open>\<open>{x:w.1f}\<close>\<close>
  "fixed1 w x = pad_left w (show1 x)"

definition flaky_line :: "FlakyTestRow \<Rightarrow> string" where
  "flaky_line row =
     ''    pass='' @ pad_left 3 (show_nat (pass_count row)) @ ''x  fail='' @ pad_left 3 (show_nat (fail_count row)) @ ''x  (''
     @ fixed1 5 (fail_rate row) @ ''% fail rate)  '' @ flaky_label row"

definition flaky_impl_line :: "ParallelGroupReport \<Rightarrow> (string, nat) dict \<Rightarrow> string \<times> nat \<Rightarrow> string res" where
  "flaky_impl_line grp test_counts kv = (case kv of (name, fail_raw) \<Rightarrow>
     rbind (py_item test_counts name) (\<lambda>n_tests. Inr
       (''    - '' @ pad_right 30 name @ '': '' @ fixed1 6 (norm_per_run grp fail_raw) @ '' flaky failures/run  (raw: ''
        @ show_nat fail_raw @ '', '' @ show_nat n_tests @ '' flaky tests)'')))"

definition flaky_feature_line :: "ParallelGroupReport \<Rightarrow> string \<times> nat \<Rightarrow> string" where
  "flaky_feature_line grp kv = (case kv of (feat, fail_raw) \<Rightarrow>
     ''    - '' @ pad_right 30 feat @ '': '' @ fixed1 6 (norm_per_run grp fail_raw) @ '' flaky failures/run  (raw: ''
     @ show_nat fail_raw @ '')'')"

definition failure_line :: "ParallelGroupReport \<Rightarrow> string \<times> nat \<Rightarrow> string" where
  "failure_line grp kv = (case kv of (name, n) \<Rightarrow>
     ''    - '' @ pad_right 30 name @ '': '' @ fixed1 7 (norm_per_run grp n) @ '' failures/run  (raw: '' @ show_nat n @ '')'')"

definition total_line :: "ParallelGroupReport \<Rightarrow> string \<Rightarrow> nat \<Rightarrow> string" where
  "total_line grp title raw =
     ''  Total '' @ title @ '' (avg/run): '' @ fixed1 8 (norm_per_run grp raw) @ ''  (raw: '' @ show_nat raw @ '')''"

definition flaky_part :: "ParallelGroupReport \<Rightarrow> string list res" where
  "flaky_part grp =
     (if flaky_count grp = 0 then Inr []
      else
        rbind (if flaky_pub grp = [] then Inr [] else
          rbind (rmap (flaky_impl_line grp (flaky_pub_test_count grp)) (top_items 5 (flaky_pub grp))) (\<lambda>pubs.
          rbind (rmap (flaky_impl_line grp (flaky_sub_test_count grp)) (top_items 5 (flaky_sub grp))) (\<lambda>subs.
            Inr ([[], ''  Flaky Publishers (by number of flaky failures):''] @ pubs @ [''  Flaky Subscribers:''] @ subs)))) (\<lambda>impls.
        Inr ([[], ''  TOP flaky tests (most oscillating):''] @ map flaky_line (take 20 (flaky_tests grp)) @ impls
          @ [[], ''  Flaky areas (QoS / feature):''] @ map (flaky_feature_line grp) (top_items 10 (flaky_feat grp)))))"

definition overall_part :: "ParallelGroupReport \<Rightarrow> string list" where
  "overall_part grp =
     [[], ''  -- OVERALL STATISTICS '' @ replicate 57 (CHR ''-''),
      total_line grp ''failures '' (total_fail_raw grp),
      total_line grp ''passed   '' (total_pass_raw grp),
      total_line grp ''skipped  '' (total_skip_raw grp), [],
      ''  TOP failure areas (QoS / feature):'']
     @ map (failure_line grp) (top_items 10 (feature_fails grp))
     @ [[], ''  TOP failing Publishers (overall):''] @ map (failure_line grp) (top_items 5 (pub_fails grp))
     @ [''  TOP failing Subscribers (overall):''] @ map (failure_line grp) (top_items 5 (sub_fails grp)) @ [[]]"

definition group_part :: "ParallelGroupReport \<Rightarrow> string list res" where
  "group_part grp =
     rbind (flaky_part grp) (\<lambda>flaky. Inr
       ([rule80,
         ''PARALLEL RUNS: par'' @ show_nat (parallel_count grp) @ ''   (number of runs in this group: '' @ show_nat (run_count grp) @ '')'',
         rule80, [],
         ''  -- FLAKY TESTS (inconsistent results across runs) '' @ replicate 29 (CHR ''-''),
         ''  Total unique tests in suite set: '' @ show_thousands (total_unique_tests grp),
         ''  Flaky tests (pass in some runs, fail in others): '' @ show_thousands (flaky_count grp)
           @ ''  ('' @ show1 (flaky_pct grp) @ '' %)'']
        @ flaky @ overall_part grp))"

definition en_dash :: string where "en_dash = [CHR 0xE2, CHR 0x80, CHR 0x93]"

definition render_explain_parallel :: "ExplainParallelReport \<Rightarrow> string res" where
  "render_explain_parallel ep =
     rbind (rmap group_part (groups ep)) (\<lambda>parts. Inr (unlines
       ([''##Result for: Parallel-run explanation'', rule80,
         ''ANALYSIS BY PARALLEL-RUN COUNT  (values normalised per single test-suite run)'', rule80, []]
        @ concat parts
        @ (if ungrouped_files ep = [] then [] else
             [rule80, ''Files without parallel-count metadata ('' @ show_nat (length (ungrouped_files ep)) @ '') '' @ en_dash @ '' excluded:'']
             @ map (\<lambda>p. ''  '' @ path_name p) (ungrouped_files ep)))))"

section \<open>Rendering raises nothing\<close>

definition two_sided :: "ChangedTest \<Rightarrow> bool" where   \<comment> \<open>both sides of each difference are there\<close>
  "two_sided c \<longleftrightarrow> (\<forall>(f, d) \<in> set (differences c). \<exists>x y. d = [(''first'', x), (''second'', y)])"

lemma differences_two_sided: "two_sided \<lparr>changed_test = l, differences = differences_of t i old new\<rparr>"
  by (auto simp: two_sided_def differences_of_def diff_field_def)

lemma compared_two_sided:
  assumes "compare f g t i = Inr r" "c \<in> set (changed r)"
  shows "two_sided c"
proof -
  from assms obtain d e k where "c \<in> set (changed_at t i d e k)"
    by (auto simp: compare_def rbind_Inr_iff compare_results_def)
  then show ?thesis using differences_two_sided by (auto simp: changed_at_def Let_def split: option.splits if_splits)
qed

lemma rmap_total: "(\<And>x. x \<in> set xs \<Longrightarrow> \<exists>y. f x = Inr y) \<Longrightarrow> \<exists>ys. rmap f xs = Inr ys"
  using rmap_Inr [of xs f "\<lambda>x. projr (f x)"] by force

lemma changed_lines_ok: "two_sided c \<Longrightarrow> \<exists>ls. changed_lines c = Inr ls"
proof -
  assume "two_sided c"
  then have "\<exists>ls. field_lines p = Inr ls" if "p \<in> set (differences c)" for p
    using that by (fastforce simp: two_sided_def field_lines_def py_item_def)
  then obtain ls where "rmap field_lines (differences c) = Inr ls" using rmap_total by meson
  then show ?thesis by (simp add: changed_lines_def)
qed

lemma status_lines_ok: "two_sided c \<Longrightarrow> \<exists>ls. status_lines l1 l2 c = Inr ls"
  by (auto simp: two_sided_def status_lines_def py_item_def split: option.splits dest!: map_of_SomeD)

text \<open>
  A comparison can always be printed. For the report of any two files that \<open>compare\<close> accepts, with or
  without times and details, the full report and the two-sided differences are printed without a \<open>KeyError\<close>.
\<close>

theorem comparison_prints:
  assumes "compare f g t i = Inr r"
  shows "(\<exists>ls. print_report r t = Inr ls) \<and> (\<exists>ls. print_differences r = Inr ls)"
proof -
  note ok = compared_two_sided [OF assms]
  obtain ls where "rmap changed_lines (changed r) = Inr ls" using rmap_total changed_lines_ok ok by meson
  moreover obtain ls' where "rmap (status_lines (report_label (first_file r)) (report_label (second_file r))) (changed r) = Inr ls'"
    using rmap_total status_lines_ok ok by meson
  ultimately show ?thesis by (simp add: print_report_def print_differences_def Let_def)
qed

lemma top_items_in: "x \<in> set (top_items n d) \<Longrightarrow> fst x \<in> set (dkeys d)"
  by (auto simp: top_items_def dest!: in_set_takeD)

lemma impl_lines_ok:
  assumes "dkeys d = dkeys e"
  shows "\<exists>ls. rmap (flaky_impl_line grp e) (top_items n d) = Inr ls"
proof (rule rmap_total)
  fix x assume "x \<in> set (top_items n d)"
  from top_items_in [OF this] assms have "fst x \<in> set (dkeys e)" by simp
  then obtain v where "dget e (fst x) = Some v" by (metis list.set_map map_of_eq_None_iff option.exhaust)
  then show "\<exists>l. flaky_impl_line grp e x = Inr l" by (simp add: flaky_impl_line_def py_item_def case_prod_beta)
qed

lemma group_part_ok:
  assumes "dkeys (flaky_pub g) = dkeys (flaky_pub_test_count g)" "dkeys (flaky_sub g) = dkeys (flaky_sub_test_count g)"
  shows "\<exists>ls. group_part g = Inr ls"
  using impl_lines_ok [OF assms(1), of g 5] impl_lines_ok [OF assms(2), of g 5]
  by (auto simp: group_part_def flaky_part_def)

text \<open>
  The analysis of parallel runs can always be rendered. Whatever reports it was built from,
  \<open>render_explain_parallel\<close> finds a test count for every publisher and subscriber it lists, and gives a text.
\<close>

theorem explain_parallel_renders:
  assumes "build_explain_parallel_report files = Inr ep"
  shows "\<exists>txt. render_explain_parallel ep = Inr txt"
proof -
  have "\<exists>ls. group_part g = Inr ls" if "g \<in> set (groups ep)" for g
    using built_groups [OF assms that] group_report_keys group_part_ok by meson
  then obtain parts where "rmap group_part (groups ep) = Inr parts" using rmap_total by meson
  then show ?thesis by (simp add: render_explain_parallel_def)
qed

lemma comparison_prints_witness:
  "\<exists>r ls. compare (sample_report ''x'' [''a'', ''b'']) (sample_report ''y'' [''b'']) False False = Inr r \<and> print_report r False = Inr ls"
proof -
  have "case compare (sample_report ''x'' [''a'', ''b'']) (sample_report ''y'' [''b'']) False False of Inl _ \<Rightarrow> False | Inr r \<Rightarrow> True"
    by code_simp
  then obtain r where r: "compare (sample_report ''x'' [''a'', ''b'']) (sample_report ''y'' [''b'']) False False = Inr r"
    by (auto split: sum.splits)
  with comparison_prints [OF r] show ?thesis by blast
qed

lemma explain_parallel_renders_witness:
  "\<exists>ep txt. build_explain_parallel_report sample_files = Inr ep \<and> render_explain_parallel ep = Inr txt"
proof -
  have "case build_explain_parallel_report sample_files of Inl _ \<Rightarrow> False | Inr r \<Rightarrow> True" by code_simp
  then obtain ep where ep: "build_explain_parallel_report sample_files = Inr ep" by (auto split: sum.splits)
  with explain_parallel_renders [OF ep] show ?thesis by blast
qed

section \<open>What no differences means\<close>

definition same_outcomes :: "results \<Rightarrow> results \<Rightarrow> bool" where
  "same_outcomes d e \<longleftrightarrow> (\<forall>k \<in> set (dkeys d) \<union> set (dkeys e). map_option result_status (dget d k) = map_option result_status (dget e k))"

lemma changed_status:
  "dget d k = Some old \<Longrightarrow> dget e k = Some new \<Longrightarrow>
     filter has_status (changed_at t i d e k) = [] \<longleftrightarrow> result_status old = result_status new"
  by (auto simp: changed_at_def Let_def has_status_def differences_of_def diff_field_def)

lemma dget_some: "k \<in> set (dkeys d) \<Longrightarrow> \<exists>v. dget d k = Some v"
  by (metis list.set_map map_of_eq_None_iff option.exhaust)

lemma no_status_changes:
  "filter has_status (concat (map (changed_at t i d e) (common_keys d e))) = [] \<longleftrightarrow>
   (\<forall>k \<in> set (dkeys d) \<inter> set (dkeys e). map_option result_status (dget d k) = map_option result_status (dget e k))"
proof -
  have "filter has_status (changed_at t i d e k) = [] \<longleftrightarrow> map_option result_status (dget d k) = map_option result_status (dget e k)"
    if "k \<in> set (dkeys d) \<inter> set (dkeys e)" for k
    using that dget_some [of k d] dget_some [of k e] changed_status [of d k _ e] by auto
  moreover have "filter has_status (concat (map (changed_at t i d e) (common_keys d e))) = [] \<longleftrightarrow>
      (\<forall>k \<in> set (dkeys d) \<inter> set (dkeys e). filter has_status (changed_at t i d e k) = [])"
    by (auto simp: filter_concat common_keys_def)
  ultimately show ?thesis by blast
qed

lemma same_outcomes_split:
  "same_outcomes d e \<longleftrightarrow> missing_keys d e = [] \<and> missing_keys e d = [] \<and>
     (\<forall>k \<in> set (dkeys d) \<inter> set (dkeys e). map_option result_status (dget d k) = map_option result_status (dget e k))"
proof
  assume s: "same_outcomes d e"
  have "k \<in> set (dkeys d) \<longleftrightarrow> k \<in> set (dkeys e)" if "k \<in> set (dkeys d) \<union> set (dkeys e)" for k
  proof -
    from s that have "dget d k = None \<longleftrightarrow> dget e k = None" unfolding same_outcomes_def by (metis map_option_is_None)
    then show ?thesis by (simp add: map_of_eq_None_iff)
  qed
  then have "set (dkeys d) = set (dkeys e)" by blast
  with s show "missing_keys d e = [] \<and> missing_keys e d = [] \<and>
     (\<forall>k \<in> set (dkeys d) \<inter> set (dkeys e). map_option result_status (dget d k) = map_option result_status (dget e k))"
    by (simp add: missing_keys_def filter_empty_conv same_outcomes_def)
next
  assume a: "missing_keys d e = [] \<and> missing_keys e d = [] \<and>
     (\<forall>k \<in> set (dkeys d) \<inter> set (dkeys e). map_option result_status (dget d k) = map_option result_status (dget e k))"
  then have "set (dkeys d) = set (dkeys e)" by (auto simp: missing_keys_def filter_empty_conv simp del: set_map)
  with a show "same_outcomes d e" by (simp add: same_outcomes_def)
qed

definition diff_line :: "string \<Rightarrow> bool" where   \<comment> \<open>a line of the differences, as it starts\<close>
  "diff_line l \<longleftrightarrow> l \<noteq> [] \<and> hd l \<noteq> CHR ''N''"

lemma diff_line_Cons [simp]: "diff_line (c # s) \<longleftrightarrow> c \<noteq> CHR ''N''"
  by (simp add: diff_line_def)

lemma status_lines_diff: "status_lines l1 l2 c = Inr ls \<Longrightarrow> list_all diff_line ls"
  by (auto simp: status_lines_def rbind_Inr_iff split: option.splits)

lemma list_all_concat: "list_all P (concat xs) \<longleftrightarrow> list_all (list_all P) xs"
  by (induction xs) auto

lemma rmap_in: "rmap f xs = Inr ys \<Longrightarrow> y \<in> set ys \<Longrightarrow> \<exists>x \<in> set xs. f x = Inr y"
  using list_all2_in [OF rmap_all2] by fast

lemma difference_lines:
  assumes "print_differences r = Inr ls" "length (added r) + length (removed r) + status_changes r \<noteq> 0"
  shows "list_all diff_line ls"
proof -
  let ?line = "status_lines (report_label (first_file r)) (report_label (second_file r))"
  from assms obtain ps where ps: "rmap ?line (changed r) = Inr ps"
    unfolding print_differences_def Let_def if_not_P [OF assms(2)] rbind_Inr_iff by blast
  have "list_all (list_all diff_line) ps"
    using rmap_in [OF ps] status_lines_diff by (fastforce simp: list_all_iff)
  moreover from assms(1) have "Inr ls = print_differences r" by simp
  ultimately show ?thesis
    unfolding print_differences_def Let_def if_not_P [OF assms(2)] ps
    by (simp add: list_all_concat list.pred_map comp_def list.pred_True)
qed

text \<open>
  C25: The sentence that there are no differences is printed exactly when there are none: when the two
  reports have the same test cases, and every case has the same status in both.
\<close>

theorem no_differences_iff:
  assumes "compare (path1, doc1) (path2, doc2) t i = Inr r" "print_differences r = Inr ls"
    and "load_results doc1 = Inr (s1, d)" "load_results doc2 = Inr (s2, e)"
  shows "''No testcase result differences.'' \<in> set ls \<longleftrightarrow> same_outcomes d e"
proof -
  from assms(1,3,4) have r: "r = compare_results path1 path2 t i (s1, d) (s2, e)" by (simp add: compare_def)
  let ?n = "length (added r) + length (removed r) + status_changes r"
  have "?n = 0 \<longleftrightarrow> missing_keys d e = [] \<and> missing_keys e d = [] \<and> filter has_status (changed r) = []"
    by (auto simp: r compare_results_def status_changes_def sorted_keys_def)
  also have "filter has_status (changed r) = [] \<longleftrightarrow> filter has_status (concat (map (changed_at t i d e) (common_keys d e))) = []"
    by (auto simp: r compare_results_def filter_concat sorted_keys_def)
  finally have same: "?n = 0 \<longleftrightarrow> same_outcomes d e" unfolding same_outcomes_split no_status_changes .
  show ?thesis
  proof (cases "?n = 0")
    case True
    with assms(2) have "''No testcase result differences.'' \<in> set ls" by (auto simp: print_differences_def Let_def)
    with True same show ?thesis by simp
  next
    case False
    from difference_lines [OF assms(2) this] have "''No testcase result differences.'' \<notin> set ls" by (auto simp: list_all_iff)
    moreover have "\<not> same_outcomes d e" using False unfolding same [symmetric] .
    ultimately show ?thesis by simp
  qed
qed

lemma no_differences_iff_witness:
  "\<exists>ls. print_differences (compare_results ''x'' ''y'' False False
       ([], keyed (loaded (snd (sample_report ''x'' [''a'']))))
       ([], keyed (loaded (snd (sample_report ''y'' [''b'']))))) = Inr ls
     \<and> ''No testcase result differences.'' \<notin> set ls"
proof -
  let ?d = "keyed (loaded (snd (sample_report ''x'' [''a''])))" and ?e = "keyed (loaded (snd (sample_report ''y'' [''b''])))"
  let ?r = "compare_results ''x'' ''y'' False False ([], ?d) ([], ?e)"
  have d: "load_results (snd (sample_report ''x'' [''a''])) = Inr ([], ?d)"
    and e: "load_results (snd (sample_report ''y'' [''b''])) = Inr ([], ?e)" by code_simp+
  then have r: "compare (''x'', snd (sample_report ''x'' [''a''])) (''y'', snd (sample_report ''y'' [''b''])) False False = Inr ?r"
    by (simp add: compare_def)
  have "case print_differences ?r of Inl _ \<Rightarrow> False | Inr _ \<Rightarrow> True" by code_simp
  then obtain ls where ls: "print_differences ?r = Inr ls" by (auto split: sum.splits)
  moreover have "\<not> same_outcomes ?d ?e" by code_simp
  ultimately show ?thesis using no_differences_iff [OF r ls d e] by blast
qed

end
