(* ===== verification/Explain.thy ===== *)
theory Explain
  imports Renderer
begin

text \<open>
  \<open>benchmarking/junit_compare/explain.py\<close>: the explanation of a series of comparisons and of the
  parallel runs.  A function gives the file it writes, path and text, or \<open>None\<close> when it writes none; whether
  a path can be written to is the argument \<open>writable\<close>.  What is printed on the console is left out.
\<close>

section \<open>Changed tests\<close>

definition by_count :: "(string \<times> nat) list \<Rightarrow> (string \<times> nat) list" where   \<comment> \<open>\<open>key=lambda x: (-x[1], x[0])\<close>\<close>
  "by_count = sort_key (\<lambda>x. (- int (snd x), fst x))"

text \<open>With one comparison: truly flaky is a change between \<open>passed\<close>, \<open>failure\<close> and \<open>error\<close>.\<close>

definition single_change :: "ChangedTest \<Rightarrow> (bool \<times> string) option res" where
  "single_change item =
     (case dget (differences item) ''status'' of
        None \<Rightarrow> Inr None
      | Some diff \<Rightarrow>
          if diff = [] then Inr None
          else rbind (py_item diff ''first'') (\<lambda>f. rbind (py_item diff ''second'') (\<lambda>s.
            Inr (Some (f \<in> {''passed'', ''failure'', ''error''} \<and> s \<in> {''passed'', ''failure'', ''error''}, changed_test item)))))"

definition flaky_lists :: "CompareReport list \<Rightarrow> ((string \<times> nat) list \<times> (string \<times> nat) list) res" where
  "flaky_lists reports =
     rbind
       (if 1 < length reports
        then Inr (filter (\<lambda>(_, c). 3 \<le> c) (changed_counts reports), filter (\<lambda>(_, c). c = 2) (changed_counts reports))
        else (case reports of
          [] \<Rightarrow> Inr ([], [])
        | r # _ \<Rightarrow> rbind (rmap single_change (changed r)) (\<lambda>items.
            let found = concat (map (\<lambda>x. case x of None \<Rightarrow> [] | Some p \<Rightarrow> [p]) items) in
            Inr (map (\<lambda>(_, t). (t, 1)) (filter fst found), map (\<lambda>(_, t). (t, 1)) (filter (Not \<circ> fst) found)))))
       (\<lambda>(truly, partially). Inr (by_count truly, by_count partially))"

section \<open>Statistics\<close>

definition all_labels :: "report_file list \<Rightarrow> string list res" where   \<comment> \<open>the set \<open>all_test_labels\<close>\<close>
  "all_labels files =
     rbind (rmap (\<lambda>f. load_results (snd f)) files) (\<lambda>loaded.
       Inr (remdups (concat (map (\<lambda>(_, res). map (test_label \<circ> snd) res) loaded))))"

type_synonym summary = "(string \<times> (string, nat) dict) list"

definition fails_in :: "(string, nat) dict \<Rightarrow> bool" where
  "fails_in c \<longleftrightarrow> dget_or c ''failure'' 0 \<noteq> 0 \<or> dget_or c ''error'' 0 \<noteq> 0"

definition perm_fail :: "summary \<Rightarrow> nat" where
  "perm_fail status_summary = length (filter (\<lambda>(_, c). dget_or c ''passed'' 0 = 0 \<and> fails_in c) status_summary)"

definition mixed :: "summary \<Rightarrow> nat" where
  "mixed status_summary = length (filter (\<lambda>(_, c). 0 < dget_or c ''passed'' 0 \<and> fails_in c) status_summary)"

definition perm_pass :: "string list \<Rightarrow> summary \<Rightarrow> nat" where   \<comment> \<open>never negative: see \<open>explanation_statistics\<close>\<close>
  "perm_pass labels status_summary = length labels - length status_summary"

definition statistics_lines :: "nat \<Rightarrow> string list \<Rightarrow> summary \<Rightarrow> string list" where
  "statistics_lines file_count labels status_summary =
     (let total = length labels;
          line = (\<lambda>title n. ''- '' @ title @ '': '' @ show_thousands n @ '' ('' @ show1 (percent_of n total) @ '' %)'') in
      [''- Number of XML reports analysed: '' @ show_nat file_count,
       ''- Total unique tests across all suites: '' @ show_thousands total,
       line ''Always-passing tests (100% pass)'' (perm_pass labels status_summary),
       line ''Always-failing tests (100% fail)'' (perm_fail status_summary),
       line ''Mixed-result tests (pass in some, fail in others)'' (mixed status_summary)])"

definition failures_of :: "summary \<Rightarrow> (string \<times> nat) list" where
  "failures_of = map (\<lambda>(label, counts). (label, dget_or counts ''failure'' 0 + dget_or counts ''error'' 0))"

definition area_lines :: "summary \<Rightarrow> string list" where
  "area_lines status_summary =
     (let fails = failures_of status_summary;
          feature_fails = fold (\<lambda>(label, n). dadd (feature_of ''Other'' label) n) fails [];
          line = (\<lambda>(name, n). ''    - '' @ pad_right 25 name @ '': '' @ pad_left 5 (show_nat n) @ '' failures'') in
      [[], rule80, ''TOP FAILURE AREAS BY QOS / FEATURE'', rule80]
      @ map (\<lambda>(feat, n). ''  - '' @ pad_right 20 feat @ '': '' @ pad_left 5 (show_nat n) @ '' failures'') (top_items 10 feature_fails)
      @ [[], rule80, ''FAILURE RATE BY DDS IMPLEMENTATION (PUBLISHER / SUBSCRIBER)'', rule80,
         ''  TOP failing Publishers:'']
      @ map line (top_items 5 (fold add_pub fails []))
      @ [''  TOP failing Subscribers:'']
      @ map line (top_items 5 (fold add_sub fails [])))"

definition flaky_section :: "string \<Rightarrow> (string \<times> nat) list \<Rightarrow> string list" where
  "flaky_section title tests =
     (if tests = [] then []
      else [[], rule80, title, rule80] @ map (\<lambda>(t, c). ''  ['' @ show_nat c @ ''x status change] '' @ t) tests)"

section \<open>The explanation\<close>

definition explanation_lines :: "string \<Rightarrow> string \<Rightarrow> CompareReport list \<Rightarrow> report_file list \<Rightarrow> string list res" where
  "explanation_lines path1 path2 reports files =
     rbind (flaky_lists reports) (\<lambda>(truly_flaky, partially_flaky).
     rbind (if files = [] then Inr ([], []) else
       rbind (summarize_test_statuses files) (\<lambda>status_summary.
       rbind (all_labels files) (\<lambda>labels.
         Inr (statistics_lines (length files) labels status_summary, area_lines status_summary)))) (\<lambda>(statistics, areas).
     Inr
       ([''##Result for: Explanation and Analysis'',
         ''Truly flaky tests: '' @ show_nat (length truly_flaky),
         ''Partially flaky tests: '' @ show_nat (length partially_flaky), [],
         rule80, ''SUMMARY AND STATISTICS'', rule80,
         ''- Period analysed: '' @ report_label path1 @ '' -> '' @ report_label path2,
         ''- Number of comparisons: '' @ show_nat (length reports)]
        @ statistics
        @ flaky_section ''TRULY FLAKY TESTS'' truly_flaky
        @ flaky_section ''PARTIALLY FLAKY TESTS'' partially_flaky
        @ areas)))"

definition write_text :: "(string \<Rightarrow> bool) \<Rightarrow> string \<Rightarrow> string \<Rightarrow> (string \<times> string) option" where
  "write_text writable path txt = (if writable path then Some (path, txt) else None)"

definition generate_explanation ::
    "(string \<Rightarrow> bool) \<Rightarrow> string \<Rightarrow> string \<Rightarrow> CompareReport list \<Rightarrow> report_file list \<Rightarrow> (string \<times> string) option res" where
  "generate_explanation writable path1 path2 reports files =
     rbind (explanation_lines path1 path2 reports files) (\<lambda>ls.
       Inr (write_text writable (output_filename path1 path2 ''explain'') (unlines ls)))"

definition generate_explain_parallel ::
    "(string \<Rightarrow> bool) \<Rightarrow> report_file list \<Rightarrow> string option \<Rightarrow> string \<Rightarrow> (string \<times> string) option res" where
  "generate_explain_parallel writable files output_dir name_tag =
     (case files of
        [] \<Rightarrow> Inr None
      | f # _ \<Rightarrow>
          rbind (build_explain_parallel_report files) (\<lambda>ep.
            if groups ep = [] \<and> ungrouped_files ep \<noteq> [] then Inr None
            else rbind (render_explain_parallel ep) (\<lambda>txt.
              let dest_dir = (case output_dir of Some d \<Rightarrow> d @ ''/'' | None \<Rightarrow> path_parent (fst f)) in
              Inr (write_text writable (dest_dir @ ''explain_parallel'' @ name_tag @ ''.txt'') txt))))"

section \<open>The statistics are those of the results\<close>

lemma length_filter_sort_key: "length (filter P (sort_key f xs)) = length (filter P xs)"
  by (simp add: filter_sort)

lemma summary_count:
  assumes "summarize_test_statuses files = Inr s"
  shows "length (filter P s) = length (filter (\<lambda>(l, row). 0 < total_fail row \<and> P (l, row_status_counts row)) (counted (all_results files)))"
proof -
  from assms have "length (filter P s) = length (filter P (map (\<lambda>(l, row). (l, row_status_counts row))
      (filter (\<lambda>(_, row). 0 < total_fail row) (counted (all_results files)))))"
    by (auto simp: summarize_test_statuses_def aggregate_cases length_filter_sort_key split: if_splits)
  also have "\<dots> = length (filter (\<lambda>(l, row). 0 < total_fail row \<and> P (l, row_status_counts row)) (counted (all_results files)))"
    by (simp add: filter_map comp_def case_prod_unfold)
  finally show ?thesis .
qed

lemma counts_get [simp]:
  "dget_or (row_status_counts row) ''passed'' n = passed row" "dget_or (row_status_counts row) ''failure'' n = failure row"
  "dget_or (row_status_counts row) ''error'' n = errors row"
  by (simp_all add: row_status_counts_def dget_or_def)

lemma fails_in_row: "fails_in (row_status_counts row) \<longleftrightarrow> 0 < total_fail row"
  by (auto simp: fails_in_def total_fail_def)

lemma row_of_counts:
  assumes "row_of l rs = Some row"
  shows "passed row = length (filter (\<lambda>r. rich_status r = PASSED \<or> rich_status r = PASSED_AS_SKIPPED) (filter (\<lambda>r. test_label r = l) rs))"
    and "total_fail row = length (filter (\<lambda>r. real_fail (rich_status r)) (filter (\<lambda>r. test_label r = l) rs))"
proof -
  let ?seen = "filter (\<lambda>r. test_label r = l) rs"
  from assms have row: "row = foldl (\<lambda>row s. row_add s row) (new_row l) (map rich_status ?seen)"
    by (auto simp: row_of_def Let_def split: if_splits)
  have count: "sum_counts P (rich_counts (foldl (\<lambda>row s. row_add s row) (new_row l) ss)) = length (filter P ss)
      \<and> row_ok (foldl (\<lambda>row s. row_add s row) (new_row l) ss)" for P ss
    by (induction ss rule: rev_induct) (auto simp: row_ok_def row_add_def new_row_def sum_counts_dadd sum_counts_def [of _ "[]"] dvalid_def [of "[]"])
  have ok: "row_ok row" using count row by simp
  show "passed row = length (filter (\<lambda>r. rich_status r = PASSED \<or> rich_status r = PASSED_AS_SKIPPED) ?seen)"
    unfolding row_counts(1) [OF ok] unfolding row using count by (simp add: filter_map comp_def)
  show "total_fail row = length (filter (\<lambda>r. real_fail (rich_status r)) ?seen)"
    unfolding total_fail_real [OF ok] total_real_fail_def unfolding row using count by (simp add: filter_map comp_def)
qed

lemma counted_labels: "set (dkeys (counted rs)) = test_label ` set rs"
proof -
  have "l \<in> set (dkeys (counted rs)) \<longleftrightarrow> dget (counted rs) l \<noteq> None" for l
    by (simp add: map_of_eq_None_iff)
  moreover have "row_of l rs \<noteq> None \<longleftrightarrow> l \<in> test_label ` set rs" for l
    by (auto simp: row_of_def Let_def filter_empty_conv)
  ultimately show ?thesis by (simp add: set_eq_iff counted_get del: set_map)
qed

lemma counted_card:
  "length (filter (\<lambda>(l, row). P row) (counted rs)) = card {l \<in> test_label ` set rs. \<exists>row. row_of l rs = Some row \<and> P row}"
proof -
  have "distinct (map fst (filter (\<lambda>(l, row). P row) (counted rs)))"
    using counted_dvalid [of rs] by (simp add: dvalid_def distinct_map_filter)
  then have "length (filter (\<lambda>(l, row). P row) (counted rs)) = card (fst ` set (filter (\<lambda>(l, row). P row) (counted rs)))"
    using distinct_card [of "map fst (filter (\<lambda>(l, row). P row) (counted rs))"] by simp
  also have "fst ` set (filter (\<lambda>(l, row). P row) (counted rs)) = {l \<in> test_label ` set rs. \<exists>row. row_of l rs = Some row \<and> P row}"
  proof -
    have "(l, row) \<in> set (counted rs) \<longleftrightarrow> row_of l rs = Some row" for l row
      using counted_dvalid [of rs] counted_get [of rs l] by (auto simp: dvalid_def)
    then show ?thesis unfolding counted_labels [symmetric] by force
  qed
  finally show ?thesis .
qed

lemma labels_of:
  assumes "all_labels files = Inr labels" "list_all readable files"
  shows "distinct labels" "set labels = test_label ` set (all_results files)"
proof -
  have "rmap (\<lambda>f. load_results (snd f)) files = Inr (map (\<lambda>f. (el_attrib (snd f), keyed (loaded (snd f)))) files)"
    using assms(2) by (intro rmap_Inr) (auto simp: list_all_iff readable_def load_results_cases)
  with assms(1) have "labels = remdups (map test_label (all_results files))"
    by (simp add: all_labels_def all_results_def comp_def map_concat)
  then show "distinct labels" "set labels = test_label ` set (all_results files)" by simp_all
qed

lemma pass_or_fail: "real_fail s \<Longrightarrow> \<not> (s = PASSED \<or> s = PASSED_AS_SKIPPED)"
  by (auto simp: real_fail_def)

definition some_result :: "(RichStatus \<Rightarrow> bool) \<Rightarrow> TestResult list \<Rightarrow> string \<Rightarrow> bool" where
  "some_result P rs l \<longleftrightarrow> (\<exists>r \<in> set rs. test_label r = l \<and> P (rich_status r))"

abbreviation passes :: "RichStatus \<Rightarrow> bool" where
  "passes s \<equiv> s = PASSED \<or> s = PASSED_AS_SKIPPED"

lemma row_of_some:
  assumes "row_of l rs = Some row"
  shows "0 < passed row \<longleftrightarrow> some_result passes rs l" "0 < total_fail row \<longleftrightarrow> some_result real_fail rs l"
  unfolding row_of_counts [OF assms] some_result_def by (auto simp: filter_empty_conv)

lemma card_rows:
  assumes "\<And>l row. row_of l rs = Some row \<Longrightarrow> P row \<longleftrightarrow> Q l"
  shows "length (filter (\<lambda>(l, row). P row) (counted rs)) = card {l \<in> test_label ` set rs. Q l}"
proof -
  have "\<exists>row. row_of l rs = Some row" if "l \<in> test_label ` set rs" for l
    using that by (auto simp: row_of_def Let_def filter_empty_conv)
  then have "{l \<in> test_label ` set rs. \<exists>row. row_of l rs = Some row \<and> P row} = {l \<in> test_label ` set rs. Q l}"
    using assms by blast
  then show ?thesis by (simp add: counted_card)
qed

text \<open>
  The statistics of the explanation divide the tests. Of all test labels in the reports, the
  always-passing ones counted are those without a genuine failure, the always-failing ones have a
  failure and never pass, the mixed ones have both; the three counts add up to the number of labels.
\<close>

theorem explanation_statistics:
  assumes "summarize_test_statuses files = Inr s" "all_labels files = Inr labels"
  shows "let rs = all_results files; tests = test_label ` set rs in
    length labels = card tests
    \<and> perm_pass labels s = card {l \<in> tests. \<not> some_result real_fail rs l}
    \<and> perm_fail s = card {l \<in> tests. some_result real_fail rs l \<and> \<not> some_result passes rs l}
    \<and> mixed s = card {l \<in> tests. some_result real_fail rs l \<and> some_result passes rs l}
    \<and> perm_pass labels s + perm_fail s + mixed s = length labels"
proof -
  let ?rs = "all_results files" and ?tests = "test_label ` set (all_results files)"
  let ?F = "some_result real_fail ?rs" and ?P = "some_result passes ?rs"
  from assms(1) have "list_all readable files" by (auto simp: summarize_test_statuses_def aggregate_cases split: if_splits)
  from labels_of [OF assms(2) this] have total: "length labels = card ?tests" using distinct_card by fastforce
  note rows = row_of_some [of _ ?rs]
  have all: "length s = card {l \<in> ?tests. ?F l}"
    using summary_count [OF assms(1), of "\<lambda>_. True"] card_rows [of ?rs "\<lambda>row. 0 < total_fail row" ?F] rows(2) by simp
  have fail: "perm_fail s = card {l \<in> ?tests. ?F l \<and> \<not> ?P l}"
  proof -
    have "0 < total_fail row \<and> passed row = 0 \<and> 0 < total_fail row \<longleftrightarrow> ?F l \<and> \<not> ?P l" if "row_of l ?rs = Some row" for l row
      using rows [OF that] by auto
    from card_rows [OF this] show ?thesis
      using summary_count [OF assms(1), of "\<lambda>(_, c). dget_or c ''passed'' 0 = 0 \<and> fails_in c"] by (simp add: perm_fail_def fails_in_row)
  qed
  have both: "mixed s = card {l \<in> ?tests. ?F l \<and> ?P l}"
  proof -
    have "0 < total_fail row \<and> 0 < passed row \<and> 0 < total_fail row \<longleftrightarrow> ?F l \<and> ?P l" if "row_of l ?rs = Some row" for l row
      using rows [OF that] by auto
    from card_rows [OF this] show ?thesis
      using summary_count [OF assms(1), of "\<lambda>(_, c). 0 < dget_or c ''passed'' 0 \<and> fails_in c"] by (simp add: mixed_def fails_in_row)
  qed
  have "card ?tests = card {l \<in> ?tests. \<not> ?F l} + card {l \<in> ?tests. ?F l}"
    by (subst card_Un_disjoint [symmetric]) (auto intro!: arg_cong [where f = card])
  moreover have "card {l \<in> ?tests. ?F l} = card {l \<in> ?tests. ?F l \<and> \<not> ?P l} + card {l \<in> ?tests. ?F l \<and> ?P l}"
    by (subst card_Un_disjoint [symmetric]) (auto intro!: arg_cong [where f = card])
  ultimately show ?thesis unfolding Let_def perm_pass_def total all fail both by simp
qed

lemma explanation_statistics_witness:
  "case (summarize_test_statuses sample_files, all_labels sample_files) of
     (Inr s, Inr labels) \<Rightarrow> length labels = 2 \<and> perm_pass labels s + perm_fail s + mixed s = 2 \<and> perm_fail s = 1
   | _ \<Rightarrow> False"
proof -
  have ok: "case summarize_test_statuses sample_files of Inl _ \<Rightarrow> False | Inr s \<Rightarrow> perm_fail s = 1"
    "case all_labels sample_files of Inl _ \<Rightarrow> False | Inr labels \<Rightarrow> length labels = 2" by code_simp+
  then obtain s labels where e: "summarize_test_statuses sample_files = Inr s" "all_labels sample_files = Inr labels"
    by (auto split: sum.splits)
  from explanation_statistics [OF e] ok e show ?thesis by (simp add: Let_def)
qed

lemma readable_samples: "list_all readable sample_files" by code_simp

section \<open>An explanation is always written\<close>

lemma single_change_ok: "two_sided c \<Longrightarrow> \<exists>x. single_change c = Inr x"
  by (auto simp: two_sided_def single_change_def py_item_def split: option.splits dest!: map_of_SomeD)

lemma flaky_lists_ok:
  assumes "\<And>r c. r \<in> set reports \<Longrightarrow> c \<in> set (changed r) \<Longrightarrow> two_sided c"
  shows "\<exists>x. flaky_lists reports = Inr x"
proof -
  have "\<exists>xs. rmap single_change (changed r) = Inr xs" if "r \<in> set reports" for r
    using assms [OF that] single_change_ok rmap_total by meson
  then show ?thesis by (cases reports) (fastforce simp: flaky_lists_def Let_def)+
qed

lemma all_labels_ok: "list_all readable files \<Longrightarrow> \<exists>ls. all_labels files = Inr ls"
  using rmap_total [of files "\<lambda>f. load_results (snd f)"]
  by (force simp: all_labels_def list_all_iff readable_def load_results_cases)

text \<open>
  The explanation of comparisons is always produced. For reports that \<open>compare\<close> made and files it can
  read, \<open>generate_explanation\<close> raises nothing, whatever changed: it writes its text beside the first report,
  or gives \<open>None\<close> when the path cannot be written to.
\<close>

theorem explanation_written:
  assumes "\<forall>r \<in> set reports. \<exists>f g t i. compare f g t i = Inr r" "list_all readable files"
  shows "\<exists>txt. generate_explanation writable path1 path2 reports files =
    Inr (if writable (output_filename path1 path2 ''explain'') then Some (output_filename path1 path2 ''explain'', txt) else None)"
proof -
  obtain x where "flaky_lists reports = Inr x" using flaky_lists_ok [of reports] compared_two_sided assms(1) by metis
  moreover obtain s where "summarize_test_statuses files = Inr s" using assms(2) by (simp add: summarize_test_statuses_def aggregate_cases)
  moreover obtain ls where "all_labels files = Inr ls" using all_labels_ok [OF assms(2)] by blast
  ultimately have "\<exists>lines. explanation_lines path1 path2 reports files = Inr lines"
    by (cases x) (simp add: explanation_lines_def)
  then show ?thesis by (auto simp: generate_explanation_def write_text_def)
qed

lemma explanation_written_witness:
  "\<exists>r txt. compare (sample_report ''x'' [''a'', ''b'']) (sample_report ''y'' [''b'']) False False = Inr r
     \<and> generate_explanation (\<lambda>_. True) ''x'' ''y'' [r] sample_files = Inr (Some (output_filename ''x'' ''y'' ''explain'', txt))"
proof -
  have "case compare (sample_report ''x'' [''a'', ''b'']) (sample_report ''y'' [''b'']) False False of Inl _ \<Rightarrow> False | Inr r \<Rightarrow> True"
    by code_simp
  then obtain r where r: "compare (sample_report ''x'' [''a'', ''b'']) (sample_report ''y'' [''b'']) False False = Inr r"
    by (auto split: sum.splits)
  then have "\<forall>r' \<in> set [r]. \<exists>f g t i. compare f g t i = Inr r'" unfolding list.set by blast
  from explanation_written [OF this, of sample_files "\<lambda>_. True"] r show ?thesis by (force simp: readable_samples)
qed

end
