(* ===== verification/Html_Report.thy ===== *)
theory Html_Report
  imports Explain
begin

text \<open>
  \<open>benchmarking/junit_compare/html_report.py\<close>: the page with one tab per number of parallel runs and one
  for the comparisons.  The style sheet and the script of the page are fixed texts (\<open>Html_Assets\<close>); they
  are arguments here (\<open>css\<close>, \<open>js\<close>).  Characters beyond U+00FF are written as their UTF-8 bytes.
\<close>

section \<open>Template helpers\<close>

definition html_esc :: "string \<Rightarrow> string" where
  "html_esc s = replace_char (CHR 0x22) ''&quot;'' (replace_char (CHR ''>'') ''&gt;''
     (replace_char (CHR ''<'') ''&lt;'' (replace_char (CHR ''&'') ''&amp;'' s)))"

definition bar :: "rat \<Rightarrow> rat \<Rightarrow> string \<Rightarrow> nat \<Rightarrow> string" where
  "bar val max_value color height =
     (let pct = (if max_value \<noteq> 0 then min (fl (fl (val / max_value) * 100)) 100 else 0) in
      ''<div class=\"bar-wrap\" title=\"'' @ show1 val @ ''\">''
      @ ''<div class=\"bar\" style=\"width:'' @ show1 pct @ ''%;background:'' @ color @ '';height:'' @ show_nat height @ ''px\"></div>''
      @ ''<span class=\"bar-label\">'' @ show1 val @ ''</span>''
      @ ''</div>'')"

definition bar16 :: "rat \<Rightarrow> rat \<Rightarrow> string \<Rightarrow> string" where   \<comment> \<open>with the default height\<close>
  "bar16 val max_value color = bar val max_value color 16"

definition tab_btn :: "string \<Rightarrow> string \<Rightarrow> bool \<Rightarrow> string" where
  "tab_btn tab_id label active =
     ''<button class=\"'' @ (if active then ''tab-btn active'' else ''tab-btn'') @ ''\" data-tab=\"'' @ tab_id
     @ ''\" onclick=\"showTab('' @ [CHR 0x27] @ tab_id @ [CHR 0x27] @ '')\">'' @ html_esc label @ ''</button>''"

definition tab_panel :: "string \<Rightarrow> string \<Rightarrow> bool \<Rightarrow> string" where
  "tab_panel tab_id content active =
     ''<div id=\"'' @ tab_id @ ''\" class=\"tab-panel\" style=\"display:'' @ (if active then ''block'' else ''none'') @ ''\">''
     @ content @ ''</div>''"

definition section_card :: "string \<Rightarrow> string \<Rightarrow> string" where   \<comment> \<open>\<open>_section\<close>, always open\<close>
  "section_card title content =
     ''<details class=\"card section-card\" open>'' @ nl
     @ ''  <summary class=\"section-header\">'' @ nl
     @ ''    <span class=\"collapse-arrow\" aria-hidden=\"true\">'' @ nl
     @ ''      <svg viewBox=\"0 0 24 24\" width=\"16\" height=\"16\" fill=\"none\" stroke=\"currentColor\" stroke-width=\"2.5\" stroke-linecap=\"round\" stroke-linejoin=\"round\">'' @ nl
     @ ''        <polyline points=\"6 9 12 15 18 9\"></polyline>'' @ nl
     @ ''      </svg>'' @ nl
     @ ''    </span>'' @ nl
     @ ''    <h2 class=\"section-title\">'' @ html_esc title @ ''</h2>'' @ nl
     @ ''  </summary>'' @ nl
     @ ''  <div class=\"section-body\">'' @ nl
     @ ''    '' @ content @ nl
     @ ''  </div>'' @ nl
     @ ''</details>''"

definition html_table :: "string list \<Rightarrow> string list list \<Rightarrow> string" where
  "html_table headers rows =
     ''<table class=\"report-table \"><thead><tr>'' @ concat (map (\<lambda>h. ''<th>'' @ html_esc h @ ''</th>'') headers)
     @ ''</tr></thead><tbody>''
     @ concat (map (\<lambda>row. ''<tr>'' @ concat (map (\<lambda>cell. ''<td>'' @ cell @ ''</td>'') row) @ ''</tr>'') rows)
     @ ''</tbody></table>''"

definition kv_grid :: "(string \<times> string) list \<Rightarrow> string" where
  "kv_grid pairs =
     ''<div class=\"kv-grid\">''
     @ concat (map (\<lambda>(k, v). ''<div class=\"kv-item\"><span class=\"kv-key\">'' @ html_esc k @ ''</span>''
         @ ''<span class=\"kv-val\">'' @ v @ ''</span></div>'') pairs)
     @ ''</div>''"

section \<open>The tab of a group\<close>

definition rich_status_rows :: "(RichStatus \<times> string \<times> string) list" where   \<comment> \<open>\<open>ROWS\<close>\<close>
  "rich_status_rows =
     [(PASSED, ''#4ade80'', ''Passed''),
      (PASSED_AS_SKIPPED, ''#86efac'', ''Passed (as skipped)''),
      (SKIPPED_UNSUPPORTED, ''#94a3b8'', ''Skipped '' @ en_dash @ '' vendor unsupported''),
      (SKIPPED_OTHER, ''#64748b'', ''Skipped '' @ en_dash @ '' other''),
      (FAILURE_QOS_UNEXPECTED, ''#f87171'', ''Failure '' @ en_dash @ '' unexpected QoS incompatibility''),
      (FAILURE_FALSE_PASS, ''#fb923c'', ''Failure '' @ en_dash @ '' false pass (should have failed)''),
      (FAILURE_DATA, ''#fbbf24'', ''Failure '' @ en_dash @ '' data error''),
      (FAILURE_ORDERING, ''#a78bfa'', ''Failure '' @ en_dash @ '' ordering / timing''),
      (FAILURE_INFRASTRUCTURE, ''#e879f9'', ''Failure '' @ en_dash @ '' infrastructure''),
      (FAILURE_OTHER, ''#94a3b8'', ''Failure '' @ en_dash @ '' other''),
      (ERROR, ''#dc2626'', ''Error (framework exception)'')]"

definition or_one :: "nat \<Rightarrow> nat" where "or_one n = (if n = 0 then 1 else n)"

definition rich_status_row :: "ParallelGroupReport \<Rightarrow> RichStatus \<times> string \<times> string \<Rightarrow> string" where
  "rich_status_row grp row = (case row of (rs, color, label) \<Rightarrow>
     let total = or_one (sum_list (map snd (rich_status_totals grp)));
         raw = dget_or (rich_status_totals grp) rs 0 in
     if raw = 0 then []
     else ''<tr>''
       @ ''<td><span style=\"display:inline-block;width:12px;height:12px;border-radius:50%;''
       @ ''background:'' @ color @ '';margin-right:6px\"></span>'' @ html_esc label @ ''</td>''
       @ ''<td style=\"text-align:right\">'' @ show_thousands raw @ ''</td>''
       @ ''<td style=\"text-align:right\">'' @ show1 (norm_per_run grp raw) @ ''</td>''
       @ ''<td>'' @ bar (fl (fl_div raw total * 100)) 100 color 12 @ ''</td>''
       @ ''</tr>'')"

definition render_rich_status_summary :: "ParallelGroupReport \<Rightarrow> string" where
  "render_rich_status_summary grp =
     ''<table class=\"report-table\">''
     @ ''<thead><tr><th>Status</th><th style=\"text-align:right\">Raw total</th>''
     @ ''<th style=\"text-align:right\">Avg/run</th><th>Share</th></tr></thead>''
     @ ''<tbody>'' @ concat (map (rich_status_row grp) rich_status_rows) @ ''</tbody></table>''"

definition py_max :: "nat list \<Rightarrow> nat res" where
  "py_max xs = (if xs = [] then Inl ValueError else Inr (Max (set xs)))"

definition overview :: "ParallelGroupReport \<Rightarrow> string" where
  "overview grp = section_card ''Overview'' (kv_grid
     [(''Parallel count'', ''<strong>par'' @ show_nat (parallel_count grp) @ ''</strong>''),
      (''Runs in group'', show_nat (run_count grp)),
      (''Unique tests'', show_thousands (total_unique_tests grp)),
      (''Flaky tests'', ''<strong class='warn'>'' @ show_thousands (flaky_count grp) @ ''</strong> ('' @ show1 (flaky_pct grp) @ ''%)''),
      (''Avg failures / run'', ''<strong class='fail'>'' @ show1 (norm_per_run grp (total_fail_raw grp)) @ ''</strong>''),
      (''Avg passed / run'', ''<strong class='pass'>'' @ show1 (norm_per_run grp (total_pass_raw grp)) @ ''</strong>''),
      (''Avg unsupported-skip / run'', show1 (norm_per_run grp (total_skip_raw grp)))])"

definition flaky_tests_card :: "ParallelGroupReport \<Rightarrow> string list" where
  "flaky_tests_card grp =
     (if flaky_tests grp = [] then []
      else [section_card (''Top Flaky Tests (showing up to 30 of '' @ show_nat (flaky_count grp) @ '')'')
        (html_table [''Test'', ''Pass'', ''Fail'', ''Fail Rate'']
          (map (\<lambda>row. [html_esc (flaky_label row), show_nat (pass_count row), show_nat (fail_count row),
             bar16 (fail_rate row) 100 ''#e05d5d'']) (take 30 (flaky_tests grp))))])"

text \<open>The rows of names with a bar for the count per run, scaled to the greatest (\<open>max(...) or 1\<close>).\<close>

definition bar_rows :: "ParallelGroupReport \<Rightarrow> string \<Rightarrow> (string \<Rightarrow> string list) \<Rightarrow> (string, nat) dict \<Rightarrow> string list list res" where
  "bar_rows grp color extra d =
     rbind (py_max (map snd d)) (\<lambda>m. Inr (map (\<lambda>(name, v).
       [html_esc name] @ extra name @ [bar16 (norm_per_run grp v) (norm_per_run grp (or_one m)) color]) (top_items 10 d)))"

definition flaky_implementations_card :: "ParallelGroupReport \<Rightarrow> string list res" where
  "flaky_implementations_card grp =
     (if flaky_pub grp = [] then Inr []
      else rbind (bar_rows grp ''#e05d5d'' (\<lambda>p. [show_nat (dget_or (flaky_pub_test_count grp) p 0)]) (flaky_pub grp)) (\<lambda>rows_pub.
        rbind (bar_rows grp ''#e05d5d'' (\<lambda>s. [show_nat (dget_or (flaky_sub_test_count grp) s 0)]) (flaky_sub grp)) (\<lambda>rows_sub.
          Inr [section_card ''Flaky by DDS Implementation''
            (''<h3>Publishers</h3>'' @ html_table [''Publisher'', ''Flaky tests'', ''Flaky failures/run''] rows_pub
             @ ''<h3>Subscribers</h3>'' @ html_table [''Subscriber'', ''Flaky tests'', ''Flaky failures/run''] rows_sub)])))"

definition feature_card :: "ParallelGroupReport \<Rightarrow> string \<Rightarrow> string \<Rightarrow> string \<Rightarrow> (string, nat) dict \<Rightarrow> string list res" where
  "feature_card grp title column color d =
     (if d = [] then Inr []
      else rbind (bar_rows grp color (\<lambda>_. []) d) (\<lambda>rows. Inr [section_card title (html_table [''Feature'', column] rows)]))"

definition overall_implementations_card :: "ParallelGroupReport \<Rightarrow> string list res" where
  "overall_implementations_card grp =
     (if pub_fails grp = [] then Inr []
      else rbind (bar_rows grp ''#4f8ef7'' (\<lambda>_. []) (pub_fails grp)) (\<lambda>rows_p.
        rbind (bar_rows grp ''#7b4ff7'' (\<lambda>_. []) (sub_fails grp)) (\<lambda>rows_s.
          Inr [section_card ''Overall Failures by DDS Implementation''
            (''<h3>Publishers</h3>'' @ html_table [''Publisher'', ''Failures/run''] rows_p
             @ ''<h3>Subscribers</h3>'' @ html_table [''Subscriber'', ''Failures/run''] rows_s)])))"

definition render_group_tab :: "ParallelGroupReport \<Rightarrow> string res" where
  "render_group_tab grp =
     rbind (flaky_implementations_card grp) (\<lambda>implementations.
     rbind (feature_card grp ''Flaky Areas (QoS / Feature)'' ''Flaky failures/run'' ''#e07d2d'' (flaky_feat grp)) (\<lambda>flaky_areas.
     rbind (feature_card grp ''Overall Failure Areas (QoS / Feature)'' ''Failures/run'' ''#4f8ef7'' (feature_fails grp)) (\<lambda>areas.
     rbind (overall_implementations_card grp) (\<lambda>overall.
       Inr (join nl ([overview grp,
         section_card ''Result Classification (per run, all tests)'' (render_rich_status_summary grp)]
         @ flaky_tests_card grp @ implementations @ flaky_areas @ areas @ overall))))))"

section \<open>The tab of the comparisons\<close>

definition comparison_row :: "CompareReport \<Rightarrow> string list" where
  "comparison_row r =
     [html_esc (report_label (first_file r)), html_esc (report_label (second_file r)),
      show_nat (first_count r), show_nat (second_count r), show_nat (length (added r)), show_nat (length (removed r)),
      ''<strong class='' @ [CHR 0x27] @ (if status_changes r \<noteq> 0 then ''fail'' else []) @ [CHR 0x27] @ ''>''
        @ show_nat (status_changes r) @ ''</strong>'']"

definition total_failures :: "(string, nat) dict \<Rightarrow> nat" where
  "total_failures counts = dget_or counts ''failure'' 0 + dget_or counts ''error'' 0"

definition frequency_row :: "nat \<Rightarrow> string \<times> (string, nat) dict \<Rightarrow> string list" where
  "frequency_row max_fail lc = (case lc of (label, counts) \<Rightarrow>
     [html_esc label, show_nat (dget_or counts ''passed'' 0), show_nat (dget_or counts ''failure'' 0),
      show_nat (dget_or counts ''error'' 0), show_nat (dget_or counts ''skipped'' 0),
      bar16 (of_nat (total_failures counts)) (of_nat (or_one max_fail)) ''#e05d5d''])"

definition frequency_card :: "(string \<times> (string, nat) dict) list \<Rightarrow> string list" where
  "frequency_card status_summary =
     (if status_summary = [] then []
      else [section_card (''Failure Frequency Across All Reports (top 50 of '' @ show_nat (length status_summary) @ '')'')
        (html_table [''Test'', ''Passed'', ''Failed'', ''Errors'', ''Skipped'', ''Total failures'']
          (map (frequency_row (Max (set (map (total_failures \<circ> snd) status_summary)))) (take 50 status_summary)))])"

definition repeated_card :: "(string, nat) dict \<Rightarrow> string list" where
  "repeated_card repeated =
     (if repeated = [] then []
      else [section_card (''Repeatedly Changing Tests ('' @ show_nat (length repeated) @ '' total)'')
        (html_table [''Test'', ''# comparisons changed''] (map (\<lambda>(t, c). [html_esc t, show_nat c]) (top_items 30 repeated)))])"

definition summary_card :: "CompareReport list \<Rightarrow> string" where
  "summary_card reports =
     section_card ''Run-to-Run Comparison Summary'' (html_table
       [''From'', ''To'', ''Cases (A)'', ''Cases (B)'', ''Added'', ''Removed'', ''Status changes''] (map comparison_row reports))"

definition render_compare_tab :: "CompareReport list \<Rightarrow> report_file list \<Rightarrow> string res" where
  "render_compare_tab reports files =
     rbind (summarize_test_statuses files) (\<lambda>status_summary. Inr
       (join nl (summary_card reports # repeated_card (repeated_change_tests reports) @ frequency_card status_summary)))"

section \<open>The page\<close>

definition tab_label :: "ParallelGroupReport \<Rightarrow> string" where
  "tab_label grp = ''par'' @ show_nat (parallel_count grp) @ '' ('' @ show_nat (run_count grp) @ '' runs)''"

text \<open>The buttons and panels of the tabs, in order; the first group is the active one.\<close>

definition group_tab :: "nat \<times> ParallelGroupReport \<Rightarrow> (string \<times> string) res" where
  "group_tab ig = (case ig of (i, grp) \<Rightarrow>
     let tab_id = ''tab_par'' @ show_nat (parallel_count grp) in
     rbind (render_group_tab grp) (\<lambda>content. Inr (tab_btn tab_id (tab_label grp) (i = 0), tab_panel tab_id content (i = 0))))"

definition compare_tabs :: "CompareReport list \<Rightarrow> report_file list \<Rightarrow> (string \<times> string) list res" where
  "compare_tabs reports files =
     (if reports = [] \<or> files = [] then Inr []
      else rbind (render_compare_tab reports files) (\<lambda>content.
        Inr [(tab_btn ''tab_compare'' ''Run Comparisons'' False, tab_panel ''tab_compare'' content False)]))"

definition excluded_note :: "nat \<Rightarrow> string" where
  "excluded_note n = section_card ''Excluded Files''
     (''<p style=\"color:var(--warn)\">'' @ show_nat n @ '' file(s) without parallel-count metadata excluded.</p>'')"

definition ungrouped_tabs :: "string list \<Rightarrow> (string \<times> string) list" where
  "ungrouped_tabs paths =
     (if paths = [] then []
      else [(tab_btn ''tab_ungrouped'' ''Excluded files'' False, tab_panel ''tab_ungrouped'' (excluded_note (length paths)) False)])"

definition page_tabs :: "ExplainParallelReport \<Rightarrow> CompareReport list \<Rightarrow> report_file list \<Rightarrow> (string \<times> string) list res" where
  "page_tabs ep reports files =
     rbind (rmap group_tab (enumerate 0 (groups ep))) (\<lambda>gs. rbind (compare_tabs reports files) (\<lambda>cs.
       Inr (gs @ cs @ ungrouped_tabs (ungrouped_files ep))))"

definition icon :: "string \<Rightarrow> string \<Rightarrow> string" where   \<comment> \<open>the icon of a button\<close>
  "icon width shapes =
     ''      <svg viewBox=\"0 0 24 24\" width=\"14\" height=\"14\" fill=\"none\" stroke=\"currentColor\" stroke-width=\"'' @ width
     @ ''\" stroke-linecap=\"round\" stroke-linejoin=\"round\">'' @ shapes @ ''</svg>''"

definition action_button :: "string \<Rightarrow> string \<Rightarrow> string \<Rightarrow> string \<Rightarrow> string \<Rightarrow> string \<Rightarrow> string list" where
  "action_button cls onclick title width shapes label =
     [''    <button class=\"'' @ cls @ ''\" onclick=\"'' @ onclick @ ''\" title=\"'' @ title @ ''\">'',
      icon width shapes, ''      '' @ label, ''    </button>'']"

definition polyline :: "string \<Rightarrow> string" where
  "polyline points = ''<polyline points=\"'' @ points @ ''\"></polyline>''"

definition page_actions :: "string list" where
  "page_actions =
     [''  <div class=\"tab-actions\">'']
     @ action_button ''action-btn'' ''expandAllSections()'' ''Expand all sections in current tab'' ''2.2''
         (polyline ''6 9 12 15 18 9'' @ polyline ''6 15 12 21 18 15'') ''Expand all''
     @ action_button ''action-btn'' ''collapseAllSections()'' ''Collapse all sections in current tab'' ''2.2''
         (polyline ''18 15 12 9 6 15'' @ polyline ''18 9 12 3 6 9'') ''Collapse all''
     @ action_button ''action-btn print-btn'' ''window.print()'' ''Print report (Ctrl+P)'' ''2''
         (''<path d=\"'' @ ''M6 9V2h12v7M6 18H4a2 2 0 01-2-2v-5a2 2 0 012-2h16a2 2 0 012 2v5a2 2 0 01-2 2h-2M6 14h12v8H6z'' @ ''\"></path>'') ''Print''
     @ [''  </div>'']"

definition em_dash :: string where "em_dash = [CHR 0xE2, CHR 0x80, CHR 0x94]"

definition page_title :: string where   \<comment> \<open>the default of \<open>title\<close>, which every caller uses\<close>
  "page_title = ''DDS Interoperability '' @ en_dash @ '' Analysis Report''"

definition page_head :: "string \<Rightarrow> string list" where
  "page_head css =
     [''<!DOCTYPE html>'', ''<html lang=\"en\">'', ''<head>'', ''<meta charset=\"utf-8\">'',
      ''<meta name=\"viewport\" content=\"width=device-width, initial-scale=1\">'',
      ''<title>'' @ html_esc page_title @ ''</title>'',
      ''<link rel=\"preconnect\" href=\"https://fonts.googleapis.com\">'',
      ''<link href=\"https://fonts.googleapis.com/css2?family=Inter:wght@400;600;700&display=swap\" rel=\"stylesheet\">'',
      ''<style>'' @ css @ ''</style>'', ''</head>'']"

definition page_top :: "(string \<times> string) list \<Rightarrow> string list" where
  "page_top tabs =
     [''<body>'', ''<div class=\"header\">'',
      ''  <h1>'' @ html_esc page_title @ ''</h1>'',
      ''  <p class=\"subtitle\">9'' @ [CHR 0xD7] @ ''9 publish/subscribe interoperability test suite '' @ em_dash
        @ '' grouped by parallel-run count, normalised per run</p>'',
      ''</div>'', ''<div class=\"tabs-header no-print\">'',
      ''  <div class=\"tabs\">'' @ concat (map fst tabs) @ ''</div>'']"

definition page_bottom :: "string \<Rightarrow> string \<Rightarrow> (string \<times> string) list \<Rightarrow> string list" where
  "page_bottom js initial_tab_label tabs =
     [''</div>'', ''<div class=\"print-only print-tab-header\">'',
      ''  <span class=\"print-label\">Report View:</span>'',
      ''  <strong id=\"print-tab-title\">'' @ html_esc initial_tab_label @ ''</strong>'',
      ''</div>'', concat (map snd tabs),
      ''<script>'' @ js @ ''</script>'', ''</body>'', ''</html>'']"

definition page_lines :: "string \<Rightarrow> string \<Rightarrow> string \<Rightarrow> (string \<times> string) list \<Rightarrow> string list" where
  "page_lines css js initial_tab_label tabs =
     page_head css @ page_top tabs @ page_actions @ page_bottom js initial_tab_label tabs"

definition render_html_report ::
    "string \<Rightarrow> string \<Rightarrow> ExplainParallelReport \<Rightarrow> CompareReport list \<Rightarrow> report_file list \<Rightarrow> string res" where
  "render_html_report css js ep reports files =
     rbind (page_tabs ep reports files) (\<lambda>tabs.
       Inr (join nl (page_lines css js (case groups ep of [] \<Rightarrow> [] | grp # _ \<Rightarrow> tab_label grp) tabs)))"

definition generate_html_report :: "string \<Rightarrow> string \<Rightarrow> (string \<Rightarrow> bool) \<Rightarrow>
    report_file list \<Rightarrow> CompareReport list \<Rightarrow> string option \<Rightarrow> string \<Rightarrow> (string \<times> string) option res" where
  "generate_html_report css js writable files reports output_dir name_tag =
     (case files of
        [] \<Rightarrow> Inr None
      | f # _ \<Rightarrow>
          rbind (build_explain_parallel_report files) (\<lambda>ep. rbind (render_html_report css js ep reports files) (\<lambda>html.
            let dest_dir = (case output_dir of Some d \<Rightarrow> d @ ''/'' | None \<Rightarrow> path_parent (fst f)) in
            Inr (write_text writable (dest_dir @ ''explain_parallel'' @ name_tag @ ''.html'') html))))"

end
