(* ===== verification/Html_Nesting.thy ===== *)
theory Html_Nesting
  imports Html_Report
begin

text \<open>
  The page is well nested whatever the reports contain.  A reader of markup keeps the stack of open
  elements; a text is \<open>nested\<close> when reading it opens and closes elements in pairs, from any stack.  The
  lemmas follow the functions of \<open>html_report.py\<close>.
\<close>

section \<open>Reading markup\<close>

datatype mode = Content | Tag_Name string | Tag_Rest string

definition void_element :: "string \<Rightarrow> bool" where
  "void_element n \<longleftrightarrow> n = ''meta'' \<or> n = ''link'' \<or> n = ''!DOCTYPE''"

definition end_tag :: "string \<Rightarrow> string list \<Rightarrow> (string list \<times> mode) option" where
  "end_tag n st =
     (if void_element n then Some (st, Content)
      else if n = [] \<or> hd n \<noteq> CHR ''/'' then Some (n # st, Content)
      else if st \<noteq> [] \<and> hd st = tl n then Some (tl st, Content) else None)"

definition read_char :: "char \<Rightarrow> string list \<times> mode \<Rightarrow> (string list \<times> mode) option" where
  "read_char c s = (case s of
       (st, Content) \<Rightarrow> Some (st, if c = CHR ''<'' then Tag_Name [] else Content)
     | (st, Tag_Name n) \<Rightarrow>
         if c = CHR ''>'' then end_tag n st
         else Some (st, if c = CHR '' '' then Tag_Rest n else Tag_Name (n @ [c]))
     | (st, Tag_Rest n) \<Rightarrow> if c = CHR ''>'' then end_tag n st else Some (st, Tag_Rest n))"

fun read_text :: "string \<Rightarrow> string list \<times> mode \<Rightarrow> (string list \<times> mode) option" where
  "read_text [] s = Some s"
| "read_text (c # cs) s = (case read_char c s of None \<Rightarrow> None | Some s' \<Rightarrow> read_text cs s')"

definition nested :: "string \<Rightarrow> bool" where
  "nested s \<longleftrightarrow> (\<forall>st. read_text s (st, Content) = Some (st, Content))"

definition plain :: "string \<Rightarrow> bool" where   \<comment> \<open>no angle bracket\<close>
  "plain s \<longleftrightarrow> CHR ''<'' \<notin> set s \<and> CHR ''>'' \<notin> set s"

lemma read_append: "read_text (s @ t) x = (case read_text s x of None \<Rightarrow> None | Some y \<Rightarrow> read_text t y)"
  by (induction s arbitrary: x) (simp_all split: option.splits)

lemma read_plain:
  assumes "plain s"
  shows "read_text s (st, Content) = Some (st, Content)" "read_text s (st, Tag_Rest n) = Some (st, Tag_Rest n)"
  using assms by (induction s) (auto simp: plain_def read_char_def)

lemma read_nested: "nested s \<Longrightarrow> read_text s (st, Content) = Some (st, Content)"
  by (simp add: nested_def)

lemma nested_plain: "plain s \<Longrightarrow> nested s"
  by (simp add: nested_def read_plain)

lemma nested_append: "nested s \<Longrightarrow> nested t \<Longrightarrow> nested (s @ t)"
  by (simp add: nested_def read_append)

lemma nested_concat: "(\<And>x. x \<in> set xs \<Longrightarrow> nested x) \<Longrightarrow> nested (concat xs)"
  by (induction xs) (simp_all add: nested_plain plain_def nested_append)

lemma nested_concat_map: "(\<And>x. x \<in> set xs \<Longrightarrow> nested (f x)) \<Longrightarrow> nested (concat (map f xs))"
  by (rule nested_concat) auto

lemma nested_join: "(\<And>x. x \<in> set xs \<Longrightarrow> nested x) \<Longrightarrow> plain sep \<Longrightarrow> nested (join sep xs)"
  by (induction sep xs rule: join.induct) (simp_all add: nested_plain plain_def nested_append)

section \<open>Texts without markup\<close>

lemma plain_append [simp]: "plain (s @ t) \<longleftrightarrow> plain s \<and> plain t"
  by (auto simp: plain_def)

lemma plain_Cons [simp]: "plain (c # s) \<longleftrightarrow> c \<noteq> CHR ''<'' \<and> c \<noteq> CHR ''>'' \<and> plain s"
  by (auto simp: plain_def)

lemma plain_Nil [simp]: "plain []" by (simp add: plain_def)

lemma plain_nl [simp]: "plain nl" by (simp add: nl_def)

lemma plain_show [simp]: "plain (show_nat n)"
  using show_nat_digits [of n] by (auto simp: plain_def list_all_iff is_digit_def)

lemma set_group3: "set (group3 s) \<subseteq> insert (CHR '','') (set s)"
  by (induction s rule: group3.induct) auto

lemma plain_thousands [simp]: "plain (show_thousands n)"
  using plain_show [of n] set_group3 [of "rev (show_nat n)"] by (auto simp: plain_def show_thousands_def)

lemma plain_show1 [simp]: "plain (show1 x)"
  by (simp add: show1_def Let_def)

lemma set_replace_char: "set (replace_char c t s) \<subseteq> (set s - {c}) \<union> set t"
  by (auto simp: replace_char_def split: if_splits)

lemma plain_esc [simp]: "plain (html_esc s)"
proof -
  have step: "d \<in> set (replace_char c t u) \<Longrightarrow> d \<in> set u \<and> d \<noteq> c \<or> d \<in> set t" for d c t u
    using set_replace_char [of c t u] by auto
  show ?thesis
    unfolding plain_def html_esc_def by (auto dest!: step)
qed

section \<open>The template helpers\<close>

text \<open>Reading a literal text of a template, character by character.\<close>

lemma read_literal:
  "read_text (c # cs) (st, Content) = (if c = CHR ''<'' then read_text cs (st, Tag_Name []) else read_text cs (st, Content))"
  "read_text (c # cs) (st, Tag_Name n) =
     (if c = CHR ''>'' then (case end_tag n st of None \<Rightarrow> None | Some s \<Rightarrow> read_text cs s)
      else if c = CHR '' '' then read_text cs (st, Tag_Rest n) else read_text cs (st, Tag_Name (n @ [c])))"
  "read_text (c # cs) (st, Tag_Rest n) =
     (if c = CHR ''>'' then (case end_tag n st of None \<Rightarrow> None | Some s \<Rightarrow> read_text cs s) else read_text cs (st, Tag_Rest n))"
  by (simp_all add: read_char_def)

lemmas reading = nested_def read_literal read_append read_plain end_tag_def void_element_def

lemma nested_bar: "plain color \<Longrightarrow> nested (bar v m color h)"
  by (simp add: bar_def Let_def reading del: read_text.simps)

lemma nested_texts [simp]: "nested (html_esc s)" "nested (show_nat n)" "nested (show_thousands n)" "nested (show1 x)"
  by (simp_all add: nested_plain)

lemma nested_bar16 [simp]: "plain color \<Longrightarrow> nested (bar16 v m color)"
  by (simp add: bar16_def nested_bar)

lemma nested_tab_btn: "plain i \<Longrightarrow> nested (tab_btn i label active)"
  by (cases active) (simp_all add: tab_btn_def reading del: read_text.simps)

lemma nested_tab_panel: "plain i \<Longrightarrow> nested content \<Longrightarrow> nested (tab_panel i content active)"
  by (cases active) (simp_all add: tab_panel_def reading del: read_text.simps)

lemma nested_section_card: "nested content \<Longrightarrow> nested (section_card title content)"
  by (simp add: section_card_def nl_def reading del: read_text.simps)

lemma nested_elements:
  "nested x \<Longrightarrow> nested (''<th>'' @ x @ ''</th>'')" "nested x \<Longrightarrow> nested (''<td>'' @ x @ ''</td>'')"
  "nested x \<Longrightarrow> nested (''<tr>'' @ x @ ''</tr>'')" "nested x \<Longrightarrow> nested (''<h3>'' @ x @ ''</h3>'')"
  by (simp_all add: reading del: read_text.simps)

lemma nested_html_table:
  assumes "\<And>row cell. row \<in> set rows \<Longrightarrow> cell \<in> set row \<Longrightarrow> nested cell"
  shows "nested (html_table headers rows)"
proof -
  have "nested (concat (map (\<lambda>h. ''<th>'' @ html_esc h @ ''</th>'') headers))"
    by (intro nested_concat_map nested_elements nested_texts)
  moreover have "nested (concat (map (\<lambda>cell. ''<td>'' @ cell @ ''</td>'') row))" if "row \<in> set rows" for row
    using assms [OF that] by (intro nested_concat_map nested_elements)
  then have "nested (concat (map (\<lambda>row. ''<tr>'' @ concat (map (\<lambda>cell. ''<td>'' @ cell @ ''</td>'') row) @ ''</tr>'') rows))"
    by (rule nested_concat_map [OF nested_elements(3)])
  ultimately show ?thesis by (simp add: html_table_def reading del: read_text.simps)
qed

lemma nested_kv_grid:
  assumes "\<And>k v. (k, v) \<in> set pairs \<Longrightarrow> nested v"
  shows "nested (kv_grid pairs)"
proof -
  have "nested (concat (map (\<lambda>(k, v). ''<div class=\"kv-item\"><span class=\"kv-key\">'' @ html_esc k @ ''</span>''
      @ ''<span class=\"kv-val\">'' @ v @ ''</span></div>'') pairs))" (is "nested (concat (map ?item pairs))")
  proof (rule nested_concat)
    fix x assume "x \<in> set (map ?item pairs)"
    then obtain k v where "(k, v) \<in> set pairs" "x = ?item (k, v)" by auto
    with assms [OF this(1)] show "nested x" by (simp add: reading del: read_text.simps)
  qed
  then show ?thesis by (simp add: kv_grid_def reading del: read_text.simps)
qed

section \<open>The tabs\<close>

lemma nested_overview: "nested (overview grp)"
  unfolding overview_def by (intro nested_section_card nested_kv_grid) (auto simp: reading simp del: read_text.simps)

lemma plain_en_dash [simp]: "plain en_dash" by (simp add: en_dash_def)

lemma nested_rich_status: "nested (render_rich_status_summary grp)"
proof -
  have "nested (rich_status_row grp r)" if "r \<in> set rich_status_rows" for r
  proof -
    have "plain (fst (snd r))" using that by (auto simp: rich_status_rows_def)
    then show ?thesis
      using nested_bar [of "fst (snd r)"]
      by (cases r) (auto simp: rich_status_row_def Let_def reading simp del: read_text.simps)
  qed
  then have "nested (concat (map (rich_status_row grp) rich_status_rows))" by (intro nested_concat) auto
  then show ?thesis by (simp add: render_rich_status_summary_def reading del: read_text.simps)
qed

lemma nested_flaky_tests: "x \<in> set (flaky_tests_card grp) \<Longrightarrow> nested x"
  by (auto simp: flaky_tests_card_def simp del: append.simps intro!: nested_section_card nested_html_table split: if_splits)

lemma bar_rows_nested:
  assumes "bar_rows grp color extra d = Inr rows" "plain color" "\<And>n. list_all plain (extra n)"
    "row \<in> set rows" "x \<in> set row"
  shows "nested x"
  using assms by (fastforce simp: bar_rows_def rbind_Inr_iff list_all_iff dest: nested_plain)

lemma nested_two_tables:
  assumes "nested a" "nested b"
  shows "nested (''<h3>Publishers</h3>'' @ a @ ''<h3>Subscribers</h3>'' @ b)"
  using assms by (simp add: reading del: read_text.simps)

lemma rows_nested:
  assumes "bar_rows grp color extra d = Inr rows" "plain color" "\<And>n. list_all plain (extra n)"
  shows "nested (html_table headers rows)"
  by (rule nested_html_table) (rule bar_rows_nested [OF assms])

lemma cards_nested:
  "flaky_implementations_card grp = Inr xs \<Longrightarrow> list_all nested xs"
  "overall_implementations_card grp = Inr xs \<Longrightarrow> list_all nested xs"
  "plain color \<Longrightarrow> feature_card grp title column color d = Inr xs \<Longrightarrow> list_all nested xs"
proof -
  assume "flaky_implementations_card grp = Inr xs"
  then show "list_all nested xs"
    unfolding flaky_implementations_card_def
    by (auto simp: rbind_Inr_iff simp del: append.simps split: if_splits intro!: nested_section_card nested_two_tables rows_nested)
next
  assume "overall_implementations_card grp = Inr xs"
  then show "list_all nested xs"
    unfolding overall_implementations_card_def
    by (auto simp: rbind_Inr_iff simp del: append.simps split: if_splits intro!: nested_section_card nested_two_tables rows_nested)
next
  assume "plain color" "feature_card grp title column color d = Inr xs"
  then show "list_all nested xs"
    unfolding feature_card_def
    by (auto simp: rbind_Inr_iff simp del: append.simps split: if_splits intro!: nested_section_card rows_nested)
qed

lemma nested_group_tab: "render_group_tab grp = Inr s \<Longrightarrow> nested s"
proof -
  assume "render_group_tab grp = Inr s"
  then obtain xs ys zs us where cards: "flaky_implementations_card grp = Inr xs"
    "feature_card grp ''Flaky Areas (QoS / Feature)'' ''Flaky failures/run'' ''#e07d2d'' (flaky_feat grp) = Inr ys"
    "feature_card grp ''Overall Failure Areas (QoS / Feature)'' ''Failures/run'' ''#4f8ef7'' (feature_fails grp) = Inr zs"
    "overall_implementations_card grp = Inr us"
    and s: "s = join nl ([overview grp, section_card ''Result Classification (per run, all tests)'' (render_rich_status_summary grp)]
      @ flaky_tests_card grp @ xs @ ys @ zs @ us)"
    unfolding render_group_tab_def rbind_Inr_iff by blast
  from cards_nested(1) [OF cards(1)] cards_nested(2) [OF cards(4)] cards_nested(3) [OF _ cards(2)] cards_nested(3) [OF _ cards(3)]
  have lists: "list_all nested (xs @ us @ ys @ zs)" by simp
  have "nested x" if "x \<in> set ([overview grp, section_card ''Result Classification (per run, all tests)'' (render_rich_status_summary grp)]
      @ flaky_tests_card grp @ xs @ ys @ zs @ us)" for x
    using that nested_overview [of grp] nested_section_card [OF nested_rich_status] nested_flaky_tests lists
    by (auto simp: list_all_iff)
  then show ?thesis unfolding s by (rule nested_join [OF _ plain_nl])
qed

lemma nested_comparison_row: "x \<in> set (comparison_row r) \<Longrightarrow> nested x"
  unfolding comparison_row_def by (auto simp: reading simp del: read_text.simps)

lemma nested_compare_tab: "render_compare_tab reports files = Inr s \<Longrightarrow> nested s"
proof -
  assume "render_compare_tab reports files = Inr s"
  then obtain summary where s: "s = join nl (summary_card reports # repeated_card (repeated_change_tests reports) @ frequency_card summary)"
    unfolding render_compare_tab_def rbind_Inr_iff by blast
  have "nested (summary_card reports)"
    unfolding summary_card_def by (intro nested_section_card nested_html_table) (auto dest: nested_comparison_row)
  moreover have "list_all nested (repeated_card d)" for d
    unfolding repeated_card_def by (auto simp del: append.simps intro!: nested_section_card nested_html_table)
  moreover have "list_all nested (frequency_card d)" for d
    unfolding frequency_card_def by (auto simp: frequency_row_def simp del: append.simps intro!: nested_section_card nested_html_table)
  ultimately have "x \<in> set (summary_card reports # repeated_card (repeated_change_tests reports) @ frequency_card summary) \<Longrightarrow> nested x" for x
    by (auto simp: list_all_iff)
  then show ?thesis unfolding s by (rule nested_join [OF _ plain_nl])
qed

section \<open>The page\<close>

abbreviation nested_pair :: "string \<times> string \<Rightarrow> bool" where
  "nested_pair p \<equiv> nested (fst p) \<and> nested (snd p)"

lemma group_tab_nested: "group_tab ig = Inr p \<Longrightarrow> nested_pair p"
  by (cases ig) (auto simp: group_tab_def Let_def rbind_Inr_iff nested_tab_btn nested_tab_panel nested_group_tab simp del: append.simps)

lemma compare_tabs_nested: "compare_tabs reports files = Inr ps \<Longrightarrow> list_all nested_pair ps"
  by (auto simp: compare_tabs_def rbind_Inr_iff nested_tab_btn nested_tab_panel nested_compare_tab split: if_splits)

lemma ungrouped_tabs_nested: "list_all nested_pair (ungrouped_tabs paths)"
proof -
  have "nested (excluded_note n)" for n
    unfolding excluded_note_def by (intro nested_section_card) (simp add: reading del: read_text.simps)
  then show ?thesis by (simp add: ungrouped_tabs_def nested_tab_btn nested_tab_panel)
qed

lemma tabs_nested: "page_tabs ep reports files = Inr tabs \<Longrightarrow> list_all nested_pair tabs"
proof -
  assume "page_tabs ep reports files = Inr tabs"
  then obtain gs cs where gs: "rmap group_tab (enumerate 0 (groups ep)) = Inr gs"
    and cs: "compare_tabs reports files = Inr cs" and tabs: "tabs = gs @ cs @ ungrouped_tabs (ungrouped_files ep)"
    unfolding page_tabs_def rbind_Inr_iff by blast
  have "list_all nested_pair gs" using rmap_in [OF gs] group_tab_nested by (fastforce simp: list_all_iff)
  with compare_tabs_nested [OF cs] ungrouped_tabs_nested show ?thesis by (simp add: tabs)
qed

lemma read_content: "CHR ''<'' \<notin> set s \<Longrightarrow> read_text s (st, Content) = Some (st, Content)"
  by (induction s) (auto simp: read_char_def)

lemma join_append: "xs \<noteq> [] \<Longrightarrow> ys \<noteq> [] \<Longrightarrow> join sep (xs @ ys) = join sep xs @ sep @ join sep ys"
  by (induction sep xs rule: join.induct) (auto simp: neq_Nil_conv)

lemma nested_icon: "plain width \<Longrightarrow> nested shapes \<Longrightarrow> nested (icon width shapes)"
  by (simp add: icon_def reading del: read_text.simps)

lemma nested_action_button:
  "plain cls \<Longrightarrow> plain onclick \<Longrightarrow> plain title \<Longrightarrow> plain width \<Longrightarrow> nested shapes \<Longrightarrow> plain label \<Longrightarrow>
   nested (join nl (action_button cls onclick title width shapes label))"
  using nested_icon [of width shapes]
  by (simp add: action_button_def nl_def reading del: read_text.simps)

lemma nested_shapes: "plain ps \<Longrightarrow> nested (polyline ps)" "plain d \<Longrightarrow> nested (''<path d=\"'' @ d @ ''\"></path>'')"
  by (simp_all add: polyline_def reading del: read_text.simps)

lemma nested_div:
  "nested a \<Longrightarrow> nested b \<Longrightarrow> nested c \<Longrightarrow>
   nested (''  <div class=\"tab-actions\">'' @ nl @ a @ nl @ b @ nl @ c @ nl @ ''  </div>'')"
  by (simp add: nl_def reading del: read_text.simps)

lemma nested_button:
  "plain t1 \<Longrightarrow> plain t2 \<Longrightarrow> plain p \<Longrightarrow> plain q \<Longrightarrow> plain l \<Longrightarrow>
     nested (join nl (action_button ''action-btn'' t1 t2 ''2.2'' (polyline p @ polyline q) l))"
  "plain t1 \<Longrightarrow> plain t2 \<Longrightarrow> plain p \<Longrightarrow> plain l \<Longrightarrow>
     nested (join nl (action_button ''action-btn print-btn'' t1 t2 ''2'' (''<path d=\"'' @ p @ ''\"></path>'') l))"
  by (rule nested_action_button; simp add: nested_append nested_shapes del: append.simps)+

lemma nested_actions: "nested (join nl page_actions)"
proof -
  have buttons: "action_button a b c d e f \<noteq> []" for a b c d e f by (simp add: action_button_def)
  show ?thesis
    unfolding page_actions_def
    by (simp only: join_append buttons append_is_Nil_conv list.simps not_False_eq_True simp_thms join.simps append_assoc)
       (intro nested_div nested_button; simp)
qed

text \<open>The parts of the page, and what they leave open.\<close>

lemma read_head: "CHR ''<'' \<notin> set css \<Longrightarrow> read_text (join nl (page_head css)) (st, Content) = Some (''html'' # st, Content)"
  using read_content [of css] by (simp add: page_head_def page_title_def nl_def reading del: read_text.simps)

lemma read_top: "nested (concat (map fst tabs)) \<Longrightarrow>
    read_text (join nl (page_top tabs)) (st, Content) = Some (''div'' # ''body'' # st, Content)"
  by (simp add: page_top_def page_title_def nl_def em_dash_def reading del: read_text.simps)

lemma read_bottom: "CHR ''<'' \<notin> set js \<Longrightarrow> nested (concat (map snd tabs)) \<Longrightarrow>
    read_text (join nl (page_bottom js label tabs)) (''div'' # ''body'' # ''html'' # st, Content) = Some (st, Content)"
  using read_content [of js] by (simp add: page_bottom_def nl_def reading del: read_text.simps)

lemma nested_page:
  assumes "CHR ''<'' \<notin> set css" "CHR ''<'' \<notin> set js" "nested (concat (map fst tabs))" "nested (concat (map snd tabs))"
  shows "nested (join nl (page_lines css js label tabs))"
proof -
  have "page_head css \<noteq> []" "page_top tabs \<noteq> []" "page_actions \<noteq> []" "page_bottom js label tabs \<noteq> []"
    by (simp_all add: page_head_def page_top_def page_actions_def page_bottom_def)
  then have "join nl (page_lines css js label tabs)
      = join nl (page_head css) @ nl @ join nl (page_top tabs) @ nl @ join nl page_actions @ nl @ join nl (page_bottom js label tabs)"
    by (simp add: page_lines_def join_append)
  then show ?thesis
    unfolding nested_def
    by (simp add: read_append read_head [OF assms(1)] read_top [OF assms(3)] read_bottom [OF assms(2,4)]
        read_nested [OF nested_actions] read_plain)
qed

section \<open>Properties\<close>

lemma html_well_nested:
  assumes "render_html_report css js ep reports files = Inr page" "CHR ''<'' \<notin> set css" "CHR ''<'' \<notin> set js"
  shows "nested page"
proof -
  from assms(1) obtain tabs label where tabs: "page_tabs ep reports files = Inr tabs"
    and page: "page = join nl (page_lines css js label tabs)"
    unfolding render_html_report_def rbind_Inr_iff by blast
  have "nested (concat (map fst tabs))" "nested (concat (map snd tabs))"
    using tabs_nested [OF tabs] by (intro nested_concat; auto simp: list_all_iff)+
  from nested_page [OF assms(2,3) this, of label] show ?thesis by (simp add: page)
qed

lemma bar_rows_ok: "d \<noteq> [] \<Longrightarrow> \<exists>rows. bar_rows grp color extra d = Inr rows"
  by (simp add: bar_rows_def py_max_def)

lemma group_tab_ok:
  assumes "build_parallel_group_report par files = Inr g"
  shows "\<exists>s. render_group_tab g = Inr s"
proof -
  have "\<exists>xs. flaky_implementations_card g = Inr xs"
    unfolding flaky_implementations_card_def using group_report_names(1) [OF assms] by (auto simp: bar_rows_def py_max_def)
  moreover have "\<exists>xs. overall_implementations_card g = Inr xs"
    unfolding overall_implementations_card_def using group_report_names(2) [OF assms] by (auto simp: bar_rows_def py_max_def)
  moreover have "\<exists>xs. feature_card g t c col d = Inr xs" for t c col d
    by (simp add: feature_card_def bar_rows_def py_max_def)
  then obtain f where "\<And>t c col d. feature_card g t c col d = Inr (f t c col d)" by metis
  ultimately show ?thesis by (auto simp: render_group_tab_def)
qed

lemma page_tabs_ok:
  assumes "build_explain_parallel_report files = Inr ep" "list_all readable files"
  shows "\<exists>tabs. page_tabs ep reports files = Inr tabs"
proof -
  have "\<exists>p. group_tab ig = Inr p" if "ig \<in> set (enumerate 0 (groups ep))" for ig
  proof -
    from that have "snd ig \<in> set (groups ep)" by (metis enumerate_eq_zip prod.collapse set_zip_rightD)
    then show ?thesis using built_groups [OF assms(1)] group_tab_ok by (cases ig) (force simp: group_tab_def Let_def)
  qed
  then obtain gs where "rmap group_tab (enumerate 0 (groups ep)) = Inr gs" using rmap_total by meson
  moreover have "\<exists>cs. compare_tabs reports files = Inr cs"
    using assms(2) by (simp add: compare_tabs_def render_compare_tab_def summarize_test_statuses_def aggregate_cases)
  ultimately show ?thesis by (auto simp: page_tabs_def)
qed

text \<open>
  The HTML report is always written and well nested. For files that can be read, whatever test names,
  publishers and details they contain, \<open>generate_html_report\<close> raises nothing and produces a page in which
  a reader of markup that starts with no open element ends with none and never meets an end tag that
  does not belong to the last open element; the style sheet and the script only have to be free of \<open><\<close>.
\<close>

theorem html_report_well_nested:
  assumes "list_all readable (f # fs)" "CHR ''<'' \<notin> set css" "CHR ''<'' \<notin> set js"
  shows "\<exists>page. generate_html_report css js writable (f # fs) reports (Some dir) tag
      = Inr (write_text writable (dir @ ''/explain_parallel'' @ tag @ ''.html'') page)
    \<and> read_text page ([], Content) = Some ([], Content)"
proof -
  from build_explain_ok [OF assms(1)] obtain ep where ep: "build_explain_parallel_report (f # fs) = Inr ep" by blast
  with page_tabs_ok [OF ep assms(1)] obtain tabs where "page_tabs ep reports (f # fs) = Inr tabs" by blast
  then obtain page where page: "render_html_report css js ep reports (f # fs) = Inr page"
    by (simp add: render_html_report_def)
  from html_well_nested [OF page assms(2,3)] have "read_text page ([], Content) = Some ([], Content)" by (simp add: nested_def)
  with ep page show ?thesis by (intro exI [of _ page]) (simp add: generate_html_report_def)
qed

lemma html_report_well_nested_witness:
  "\<exists>page. generate_html_report ''p {}'' ''f();'' (\<lambda>_. True) sample_files [] (Some ''out'') ''-run1''
      = Inr (Some (''out/explain_parallel-run1.html'', page)) \<and> read_text page ([], Content) = Some ([], Content)"
proof -
  obtain f fs where fs: "sample_files = f # fs" by (auto simp: sample_files_def)
  show ?thesis
    using html_report_well_nested [of f fs "''p {}''" "''f();''" "\<lambda>_. True" "[]" "''out''" "''-run1''"] readable_samples
    by (simp add: fs write_text_def)
qed

end
