(* ===== verification/Compare_Main.thy ===== *)
theory Compare_Main
  imports Html_Nesting Py_Literal
begin

text \<open>
  \<open>benchmarking/compare_junit_reports.py\<close>: what the command writes and how it exits.  The environment gives
  the listing of a directory, the element tree of a report, the paths that can be written to and the
  fixed texts of the HTML page.  \<open>main\<close> treats \<open>ParseError\<close>, \<open>OSError\<close> and \<open>ValueError\<close> alike, so that a
  path that cannot be read or parsed stands as a tree that \<open>load_results\<close> refuses.  Console output other
  than the report itself, which is also written to a file, is left out.
\<close>

section \<open>\<open>json.dumps(..., indent=2)\<close>\<close>

definition json_block :: "nat \<Rightarrow> string \<Rightarrow> string \<Rightarrow> string list \<Rightarrow> string" where   \<comment> \<open>indented by two more blanks\<close>
  "json_block level left right parts =
     (if parts = [] then left @ right
      else left @ nl @ join ('','' @ nl) (map (\<lambda>p. replicate (2 * Suc level) (CHR '' '') @ p) parts)
        @ nl @ replicate (2 * level) (CHR '' '') @ right)"

fun json_text :: "nat \<Rightarrow> json \<Rightarrow> string" where
  "json_text level (JString s) = json_string s"
| "json_text level (JNumber n) = show_nat n"
| "json_text level (JList xs) = json_block level ''['' '']'' (map (json_text (Suc level)) xs)"
| "json_text level (JObject d) =
     json_block level ''{'' ''}'' (map (\<lambda>(k, v). json_string k @ '': '' @ json_text (Suc level) v) d)"

definition json_dumps :: "json \<Rightarrow> string" where "json_dumps = json_text 0"

section \<open>The command line and the environment\<close>

record cmd_args =
  arg_first :: "string option"
  arg_second :: "string option"
  arg_directory :: "string option"
  include_times :: bool
  include_details :: bool
  simple :: bool
  show_differences :: bool
  compare_all :: bool
  as_json :: bool
  explain_parallel :: bool
  arg_html :: bool
  arg_batch :: "int option"
  arg_name_tag :: "string option"

record environment =
  script_dir :: string
  listing :: "string \<Rightarrow> string list"   \<comment> \<open>the paths of the files in a directory\<close>
  tree :: "string \<Rightarrow> xml"
  writable :: "string \<Rightarrow> bool"
  css :: string
  js :: string

abbreviation report_of :: "environment \<Rightarrow> string \<Rightarrow> report_file" where
  "report_of env path \<equiv> (path, tree env path)"

section \<open>Rendering\<close>

definition repeated_lines :: "string \<Rightarrow> (string, nat) dict \<Rightarrow> string list" where
  "repeated_lines bullet repeated = map (\<lambda>(test, n). bullet @ test @ '': '' @ show_nat n @ '' comparisons'') repeated"

definition all_payload :: "CompareReport list \<Rightarrow> (string \<times> (string, nat) dict) list \<Rightarrow> json" where
  "all_payload reports status_summary = JObject
     [(''comparison_count'', JNumber (length reports)),
      (''repeat_test_locations'', JObject (map (\<lambda>(t, n). (t, JNumber n)) (repeated_change_tests reports))),
      (''status_counts_across_reports'',
        JObject (map (\<lambda>(l, counts). (l, JObject (map (\<lambda>(k, n). (k, JNumber n)) counts))) status_summary)),
      (''comparisons'', JList (map to_dict reports))]"

definition all_simple :: "CompareReport list \<Rightarrow> (string \<times> (string, nat) dict) list \<Rightarrow> string list" where
  "all_simple reports status_summary =
     (let repeated = repeated_change_tests reports in
      [''Current comparison shows:'']
      @ (if status_summary = [] then [] else print_failure_frequency_summary status_summary)
      @ (if repeated = [] then [] else [''##Result for: Repeated testcase changes on the same location''])
      @ [''- repeated testcase changes on the same location: '' @ show_nat (length repeated)]
      @ repeated_lines ''  - '' repeated
      @ concat (map print_simple_report reports))"

text \<open>What the other two modes print before the comparisons.\<close>

definition all_preamble :: "CompareReport list \<Rightarrow> (string \<times> (string, nat) dict) list \<Rightarrow> string list" where
  "all_preamble reports status_summary =
     (let repeated = repeated_change_tests reports in
      (if status_summary = [] then [] else print_failure_frequency_summary status_summary @ [[]])
      @ (if repeated = [] then []
         else [''##Result for: Repeated testcase changes on the same location'',
               ''Repeated testcase changes on the same location: '' @ show_nat (length repeated)]
           @ repeated_lines ''  '' repeated @ [[]]))"

definition output_mode :: "cmd_args \<Rightarrow> string" where
  "output_mode args =
     (if as_json args then ''json'' else if simple args then ''simple''
      else if show_differences args then ''show-differences'' else ''report'')"

definition render_all :: "cmd_args \<Rightarrow> CompareReport list \<Rightarrow> (string \<times> (string, nat) dict) list \<Rightarrow> string res" where
  "render_all args reports status_summary =
     (if as_json args then Inr (json_dumps (all_payload reports status_summary))
      else if simple args then Inr (print_text (all_simple reports status_summary))
      else rbind (rmap (\<lambda>r. if show_differences args then print_differences r else print_report r (include_times args)) reports)
        (\<lambda>ls. Inr (print_text (all_preamble reports status_summary @ concat (map (\<lambda>l. l @ [[]]) ls)))))"

definition render_one :: "cmd_args \<Rightarrow> CompareReport \<Rightarrow> string res" where
  "render_one args report =
     (if as_json args then Inr (print_text [json_dumps (to_dict report)])
      else if simple args then Inr (print_text (print_simple_report report))
      else rbind (if show_differences args then print_differences report else print_report report (include_times args))
        (\<lambda>ls. Inr (print_text ls)))"

section \<open>Effects\<close>

text \<open>A step adds to the files written so far and returns or raises.\<close>

type_synonym 'a io = "(string \<times> string) list \<Rightarrow> (string \<times> string) list \<times> 'a res"

definition io_res :: "'a res \<Rightarrow> 'a io" where "io_res r = (\<lambda>w. (w, r))"

definition io_bind :: "'a io \<Rightarrow> ('a \<Rightarrow> 'b io) \<Rightarrow> 'b io" where
  "io_bind m f = (\<lambda>w. case m w of (w', Inl e) \<Rightarrow> (w', Inl e) | (w', Inr x) \<Rightarrow> f x w')"

definition io_emit :: "(string \<times> string) option res \<Rightarrow> bool io" where   \<comment> \<open>was the file written?\<close>
  "io_emit r = (\<lambda>w. case r of Inl e \<Rightarrow> (w, Inl e) | Inr None \<Rightarrow> (w, Inr False) | Inr (Some f) \<Rightarrow> (w @ [f], Inr True))"

text \<open>\<open>parser.error\<close> leaves with \<open>SystemExit(2)\<close>, which nothing catches.\<close>

definition usage_error :: py_error where "usage_error = SystemExit 2"

definition save_output :: "environment \<Rightarrow> cmd_args \<Rightarrow> string \<Rightarrow> string \<Rightarrow> string \<Rightarrow> CompareReport list \<Rightarrow> string list \<Rightarrow> nat io" where
  "save_output env args path1 path2 txt reports files =
     io_bind (io_emit (Inr (write_text (writable env) (output_filename path1 path2 (output_mode args)) txt))) (\<lambda>ok.
       if \<not> ok then io_res (Inr 1)
       else io_bind (io_emit (generate_explanation (writable env) path1 path2 reports (map (report_of env) files))) (\<lambda>_.
         io_res (Inr 0)))"

definition render_compare_all :: "environment \<Rightarrow> cmd_args \<Rightarrow> (string \<times> string) list \<Rightarrow> CompareReport list \<Rightarrow> string list \<Rightarrow> nat io" where
  "render_compare_all env args pairs reports files =
     io_bind (io_res (summarize_test_statuses (map (report_of env) files))) (\<lambda>status_summary.
     io_bind (io_res (render_all args reports status_summary)) (\<lambda>txt.
       save_output env args (fst (hd pairs)) (snd (last pairs)) txt reports files))"

definition render_and_save :: "environment \<Rightarrow> cmd_args \<Rightarrow> CompareReport \<Rightarrow> string \<Rightarrow> string \<Rightarrow> nat io" where
  "render_and_save env args report path1 path2 =
     io_bind (io_res (render_one args report)) (\<lambda>txt. save_output env args path1 path2 txt [report] [path1, path2])"

section \<open>\<open>main\<close>\<close>

definition name_tag_of :: "environment \<Rightarrow> cmd_args \<Rightarrow> string \<Rightarrow> string" where
  "name_tag_of env args directory =
     (case arg_name_tag args of
        Some tag \<Rightarrow> tag
      | None \<Rightarrow> (case arg_batch args of
          None \<Rightarrow> []
        | Some b \<Rightarrow>
            (let batch_files = choose_all_files (listing env directory) (arg_batch args);
                 found = (case batch_files of [] \<Rightarrow> None
                   | f # _ \<Rightarrow> (case parse_filename_meta f of None \<Rightarrow> None | Some meta \<Rightarrow> runner meta)) in
             (case found of None \<Rightarrow> [] | Some r \<Rightarrow> if r = [] then [] else ''-'' @ r) @ ''-run'' @ show_int b)))"

definition compare_files :: "environment \<Rightarrow> cmd_args \<Rightarrow> string \<times> string \<Rightarrow> CompareReport res" where
  "compare_files env args p = compare (report_of env (fst p)) (report_of env (snd p)) (include_times args) (include_details args)"

definition compare_and_save :: "environment \<Rightarrow> cmd_args \<Rightarrow> string \<Rightarrow> string \<Rightarrow> nat io" where
  "compare_and_save env args path1 path2 =
     io_bind (io_res (compare_files env args (path1, path2))) (\<lambda>report. render_and_save env args report path1 path2)"

definition html_step :: "environment \<Rightarrow> cmd_args \<Rightarrow> string list \<Rightarrow> CompareReport list \<Rightarrow> string \<Rightarrow> bool io" where
  "html_step env args files reports tag =
     (if arg_html args
      then io_emit (generate_html_report (css env) (js env) (writable env) (map (report_of env) files) reports None tag)
      else io_res (Inr False))"

definition main_explain :: "environment \<Rightarrow> cmd_args \<Rightarrow> string list \<Rightarrow> string \<Rightarrow> nat io" where
  "main_explain env args files tag =
     io_bind (io_emit (generate_explain_parallel (writable env) (map (report_of env) files) None tag)) (\<lambda>_.
     io_bind (html_step env args files [] tag) (\<lambda>_. io_res (Inr 0)))"

definition main_all :: "environment \<Rightarrow> cmd_args \<Rightarrow> string list \<Rightarrow> string \<Rightarrow> nat io" where
  "main_all env args files tag =
     (if length files < 2 then io_res (Inl ValueError)
      else
        (let pairs = zip files (tl files) in
         io_bind (io_res (rmap (compare_files env args) pairs)) (\<lambda>reports.
         io_bind (render_compare_all env args pairs reports files) (\<lambda>n.
           if n \<noteq> 0 then io_res (Inr 1)
           else io_bind (html_step env args files reports tag) (\<lambda>_. io_res (Inr 0))))))"

definition main_body :: "environment \<Rightarrow> cmd_args \<Rightarrow> nat io" where
  "main_body env args =
     (let directory = (case arg_directory args of Some d \<Rightarrow> d | None \<Rightarrow> script_dir env);
          tag = name_tag_of env args directory;
          files = choose_all_files (listing env directory) (arg_batch args);
          given = (arg_first args \<noteq> None \<or> arg_second args \<noteq> None) in
      if explain_parallel args \<and> given then io_res (Inl usage_error)
      else if explain_parallel args then main_explain env args files tag
      else if compare_all args \<and> given then io_res (Inl usage_error)
      else if compare_all args then main_all env args files tag
      else if given then
        (case (arg_first args, arg_second args) of
           (Some path1, Some path2) \<Rightarrow> compare_and_save env args path1 path2
         | _ \<Rightarrow> io_res (Inl usage_error))
      else io_bind (io_res (choose_files (listing env directory) (arg_batch args))) (\<lambda>(path1, path2).
        compare_and_save env args path1 path2))"

datatype exit = Exit nat | Traceback py_error

definition main :: "environment \<Rightarrow> cmd_args \<Rightarrow> (string \<times> string) list \<times> exit" where
  "main env args =
     (case main_body env args [] of
        (written, Inr n) \<Rightarrow> (written, Exit n)
      | (written, Inl e) \<Rightarrow>
          (written, if e = ValueError then Exit 1 else if e = usage_error then Exit 2 else Traceback e))"

section \<open>What can be raised\<close>

definition only_value :: "'a res \<Rightarrow> bool" where
  "only_value r \<longleftrightarrow> (case r of Inl e \<Rightarrow> e = ValueError | Inr _ \<Rightarrow> True)"

lemma only_value_simps [simp]: "only_value (Inr x)" "only_value (Inl e) \<longleftrightarrow> e = ValueError"
  by (simp_all add: only_value_def)

lemma only_value_bind: "only_value m \<Longrightarrow> (\<And>x. m = Inr x \<Longrightarrow> only_value (f x)) \<Longrightarrow> only_value (rbind m f)"
  by (cases m) simp_all

lemma only_value_map: "(\<And>x. x \<in> set xs \<Longrightarrow> only_value (f x)) \<Longrightarrow> only_value (rmap f xs)"
  by (induction xs) (auto intro!: only_value_bind)

lemma only_value_load: "only_value (load_results doc)"
  by (simp add: load_results_cases)

lemma only_value_compare: "only_value (compare f g t i)"
  unfolding compare_def by (intro only_value_bind only_value_load) simp_all

lemma only_value_summarize: "only_value (summarize_test_statuses files)"
  by (simp add: summarize_test_statuses_def aggregate_cases)

lemma only_value_labels: "only_value (all_labels files)"
  unfolding all_labels_def by (intro only_value_bind only_value_map only_value_load) simp_all

lemma only_value_build: "only_value (build_explain_parallel_report files)"
  unfolding build_explain_parallel_report_def
  by (intro only_value_bind only_value_map) (auto simp: group_report_group)

definition compared :: "CompareReport list \<Rightarrow> bool" where   \<comment> \<open>reports that \<open>compare\<close> made\<close>
  "compared reports \<longleftrightarrow> (\<forall>r \<in> set reports. \<exists>f g t i. compare f g t i = Inr r)"

lemma compared_changes: "compared reports \<Longrightarrow> r \<in> set reports \<Longrightarrow> c \<in> set (changed r) \<Longrightarrow> two_sided c"
  using compared_two_sided by (auto simp: compared_def)

lemma only_value_ok: "\<exists>x. m = Inr x \<Longrightarrow> only_value m"
  by auto

lemma only_value_pair: "(\<And>a b. only_value (f a b)) \<Longrightarrow> only_value (case p of (a, b) \<Rightarrow> f a b)"
  by (cases p) simp

lemma only_value_if: "(b \<Longrightarrow> only_value m) \<Longrightarrow> (\<not> b \<Longrightarrow> only_value n) \<Longrightarrow> only_value (if b then m else n)"
  by simp

lemmas only_value_rules = only_value_bind only_value_map only_value_pair only_value_if only_value_simps(1)

lemma only_value_explanation:
  assumes "compared reports"
  shows "only_value (generate_explanation w p q reports files)"
proof -
  have "only_value (flaky_lists reports)"
    using flaky_lists_ok [of reports] compared_changes [OF assms] only_value_ok by metis
  then show ?thesis
    unfolding generate_explanation_def explanation_lines_def
    by (intro only_value_rules only_value_summarize only_value_labels)
qed

lemma only_value_explain_parallel: "only_value (generate_explain_parallel w files out tag)"
proof (cases files)
  case (Cons f fs)
  have "only_value (render_explain_parallel ep)" if "build_explain_parallel_report files = Inr ep" for ep
  proof -
    have "only_value (group_part g)" if "g \<in> set (groups ep)" for g
      using built_groups [OF \<open>build_explain_parallel_report files = Inr ep\<close> that] group_report_keys group_part_ok only_value_ok by metis
    then show ?thesis unfolding render_explain_parallel_def by (intro only_value_bind only_value_map) simp_all
  qed
  then show ?thesis
    using only_value_build [of files]
    by (auto simp: generate_explain_parallel_def Cons Let_def intro!: only_value_bind)
qed (simp add: generate_explain_parallel_def)

lemma only_value_html: "only_value (generate_html_report c j w files reports out tag)"
proof (cases files)
  case (Cons f fs)
  have "only_value (render_html_report c j ep reports files)" if "build_explain_parallel_report files = Inr ep" for ep
  proof -
    have "only_value (group_tab (i, g))" if "g \<in> set (groups ep)" for i g
      using built_groups [OF \<open>build_explain_parallel_report files = Inr ep\<close> that] group_tab_ok
      unfolding group_tab_def Let_def prod.case by (intro only_value_bind only_value_ok only_value_simps(1)) auto
    then have "only_value (rmap group_tab (enumerate 0 (groups ep)))"
      by (intro only_value_map) (auto simp: enumerate_eq_zip dest: set_zip_rightD)
    moreover have "only_value (compare_tabs reports files)"
      unfolding compare_tabs_def render_compare_tab_def by (auto intro!: only_value_bind only_value_summarize)
    ultimately show ?thesis
      unfolding render_html_report_def page_tabs_def by (intro only_value_bind) simp_all
  qed
  then show ?thesis
    using only_value_build [of files]
    by (auto simp: generate_html_report_def Cons Let_def intro!: only_value_bind)
qed (simp add: generate_html_report_def)

lemma prints_ok:
  assumes "compared reports" "r \<in> set reports"
  shows "\<exists>ls. print_report r t = Inr ls" "\<exists>ls. print_differences r = Inr ls"
proof -
  note ok = compared_changes [OF assms]
  obtain ls where "rmap changed_lines (changed r) = Inr ls" using rmap_total changed_lines_ok ok by meson
  then show "\<exists>ls. print_report r t = Inr ls" by (simp add: print_report_def Let_def)
  obtain ls' where "rmap (status_lines (report_label (first_file r)) (report_label (second_file r))) (changed r) = Inr ls'"
    using rmap_total status_lines_ok ok by meson
  then show "\<exists>ls. print_differences r = Inr ls" by (simp add: print_differences_def Let_def)
qed

lemma only_value_render:
  assumes "compared reports"
  shows "only_value (render_all args reports s)" "r \<in> set reports \<Longrightarrow> only_value (render_one args r)"
proof -
  note ok = prints_ok [OF assms, THEN only_value_ok]
  show "only_value (render_all args reports s)"
    unfolding render_all_def by (intro only_value_rules ok) simp_all
  show "only_value (render_one args r)" if "r \<in> set reports"
    unfolding render_one_def by (intro only_value_rules ok that)
qed

section \<open>How the command exits\<close>

text \<open>A step is safe when it raises nothing but a \<open>ValueError\<close> or the usage error, and returns what \<open>P\<close> allows.\<close>

definition safe :: "('a \<Rightarrow> bool) \<Rightarrow> 'a io \<Rightarrow> bool" where
  "safe P m \<longleftrightarrow> (\<forall>w. case snd (m w) of Inl e \<Rightarrow> e = ValueError \<or> e = usage_error | Inr x \<Rightarrow> P x)"

lemma safe_bind: "safe P m \<Longrightarrow> (\<And>x. P x \<Longrightarrow> safe Q (f x)) \<Longrightarrow> safe Q (io_bind m f)"
  unfolding safe_def
proof
  fix w
  assume m: "\<forall>w. case snd (m w) of Inl e \<Rightarrow> e = ValueError \<or> e = usage_error | Inr x \<Rightarrow> P x"
    and f: "\<And>x. P x \<Longrightarrow> \<forall>w. case snd (f x w) of Inl e \<Rightarrow> e = ValueError \<or> e = usage_error | Inr y \<Rightarrow> Q y"
  obtain w' r where r: "m w = (w', r)" by (cases "m w")
  show "case snd (io_bind m f w) of Inl e \<Rightarrow> e = ValueError \<or> e = usage_error | Inr y \<Rightarrow> Q y"
  proof (cases r)
    case (Inl e)
    then show ?thesis using m [rule_format, of w] by (simp add: io_bind_def r)
  next
    case (Inr x)
    then show ?thesis using m [rule_format, of w] f [of x, rule_format, of w'] by (simp add: io_bind_def r)
  qed
qed

lemma safe_res: "only_value r \<Longrightarrow> (\<And>x. r = Inr x \<Longrightarrow> P x) \<Longrightarrow> safe P (io_res r)"
  by (cases r) (simp_all add: safe_def io_res_def)

lemma safe_emit: "only_value r \<Longrightarrow> safe (\<lambda>_. True) (io_emit r)"
  by (cases r) (auto simp: safe_def io_emit_def split: option.splits)

lemma safe_usage: "safe P (io_res (Inl usage_error))"
  by (simp add: safe_def io_res_def)

lemma safe_if: "(b \<Longrightarrow> safe P m) \<Longrightarrow> (\<not> b \<Longrightarrow> safe P n) \<Longrightarrow> safe P (if b then m else n)"
  by simp

lemma safe_pair: "(\<And>a b. safe P (f a b)) \<Longrightarrow> safe P (case p of (a, b) \<Rightarrow> f a b)"
  by (cases p) simp

definition exit_code :: "nat \<Rightarrow> bool" where "exit_code n \<longleftrightarrow> n = 0 \<or> n = 1"

lemma safe_exit: "safe exit_code (io_res (Inr 0))" "safe exit_code (io_res (Inr 1))"
  by (rule safe_res; simp add: exit_code_def)+

lemma safe_save: "compared reports \<Longrightarrow> safe exit_code (save_output env args p q txt reports files)"
  unfolding save_output_def
  by (rule safe_bind [OF safe_emit [OF only_value_simps(1)]])
    (intro safe_if safe_exit safe_bind [OF safe_emit [OF only_value_explanation]])

lemma compared_one: "compare_files env args p = Inr r \<Longrightarrow> compared [r]"
  unfolding compared_def compare_files_def by (auto simp del: split_paired_Ex)

lemma compared_pairs: "rmap (compare_files env args) pairs = Inr reports \<Longrightarrow> compared reports"
  using rmap_in [of "compare_files env args" pairs reports] compared_one unfolding compared_def by fastforce

lemma safe_compare: "safe exit_code (compare_and_save env args p q)"
  unfolding compare_and_save_def
proof (rule safe_bind [where P = "\<lambda>r. compared [r]"])
  show "safe (\<lambda>r. compared [r]) (io_res (compare_files env args (p, q)))"
    using compared_one by (intro safe_res) (auto simp: compare_files_def only_value_compare)
  fix r assume "compared [r]"
  then show "safe exit_code (render_and_save env args r p q)"
    unfolding render_and_save_def
    by (intro safe_bind [where P = "\<lambda>_. True"] safe_res safe_save only_value_render(2) [of "[r]"]) simp_all
qed

lemma safe_html: "safe (\<lambda>_. True) (html_step env args files reports tag)"
  by (simp add: html_step_def safe_emit only_value_html safe_res)

lemma safe_html_exit: "safe exit_code (io_bind (html_step env args files reports tag) (\<lambda>_. io_res (Inr 0)))"
  by (rule safe_bind [OF safe_html]) (rule safe_exit)

lemma safe_explain: "safe exit_code (main_explain env args files tag)"
  unfolding main_explain_def by (rule safe_bind [OF safe_emit [OF only_value_explain_parallel]]) (rule safe_html_exit)

lemma safe_render_all: "compared reports \<Longrightarrow> safe exit_code (render_compare_all env args pairs reports files)"
  unfolding render_compare_all_def
  by (intro safe_bind [where P = "\<lambda>_. True"] safe_res safe_save only_value_summarize only_value_render(1)) simp_all

lemma safe_pairs: "safe compared (io_res (rmap (compare_files env args) pairs))"
proof (rule safe_res [OF only_value_map])
  show "only_value (compare_files env args p)" for p by (simp add: compare_files_def only_value_compare)
qed (rule compared_pairs)

lemma safe_rendered:
  assumes "compared reports"
  shows "safe exit_code (io_bind (render_compare_all env args pairs reports files) (\<lambda>n.
    if n \<noteq> 0 then io_res (Inr 1) else io_bind (html_step env args files reports tag) (\<lambda>_. io_res (Inr 0))))"
  by (rule safe_bind [OF safe_render_all [OF assms]]) (intro safe_if safe_exit safe_html_exit)

lemma safe_all: "safe exit_code (main_all env args files tag)"
proof (cases "length files < 2")
  case True
  then show ?thesis by (simp add: main_all_def safe_def io_res_def)
next
  case False
  then show ?thesis
    unfolding main_all_def Let_def if_not_P [OF False] by (intro safe_bind [OF safe_pairs] safe_rendered)
qed

lemma safe_main: "safe exit_code (main_body env args)"
proof -
  have "only_value (choose_files l b)" for l b by (simp add: choose_files_def Let_def)
  then have chosen: "safe (\<lambda>_. True) (io_res (choose_files l b))" for l b by (intro safe_res) simp_all
  have given: "safe exit_code (case (arg_first args, arg_second args) of
      (Some path1, Some path2) \<Rightarrow> compare_and_save env args path1 path2 | _ \<Rightarrow> io_res (Inl usage_error))"
    by (cases "arg_first args"; cases "arg_second args"; simp only: prod.case option.case safe_compare safe_usage)
  show ?thesis
    unfolding main_body_def Let_def
    by (intro safe_if safe_usage safe_explain safe_all given safe_bind [OF chosen] safe_pair safe_compare)
qed

section \<open>Properties\<close>

text \<open>
  The command never ends in a traceback. Whatever the parsed arguments, the directory, the reports in it and
  the paths that can be written to, \<open>main\<close> exits with 0, with 1 after an error in the input or the output, or
  with 2 for a wrong combination of arguments: no exception of any module it calls escapes.
\<close>

theorem main_exits: "\<exists>written n. main env args = (written, Exit n) \<and> n \<le> 2"
proof -
  obtain w r where m: "main_body env args [] = (w, r)" by (cases "main_body env args []")
  with safe_main [of env args] have "case r of Inl e \<Rightarrow> e = ValueError \<or> e = usage_error | Inr n \<Rightarrow> exit_code n"
    unfolding safe_def by (metis snd_conv)
  then show ?thesis by (auto simp: main_def m exit_code_def split: sum.splits)
qed

end
