(* ===== verification/Discovery.thy ===== *)
theory Discovery
  imports Py_Literal "HOL-Library.Word"
begin

unbundle bit_operations_syntax

text \<open>
  \<open>discovery/rtps_discovery_sniffer.py\<close>: decoding of the dissected packets.  A packet is the JSON value that
  \<open>json.loads\<close> makes of the output of tshark; \<open>parse_discovery_data\<close> collects the participants (SPDP) and the
  endpoints (SEDP) from the packets.  The wall clock is an argument.
\<close>

section \<open>Python values\<close>

datatype py_value =
    PNone | PBool bool | PInt int | PFloat pyfloat | PStr string
  | PList "py_value list" | PDict "(string \<times> py_value) list"

fun value_repr :: "py_value \<Rightarrow> string" where
  "value_repr PNone = ''None''"
| "value_repr (PBool b) = (if b then ''True'' else ''False'')"
| "value_repr (PInt i) = show_int i"
| "value_repr (PFloat x) = show_float x"
| "value_repr (PStr s) = py_repr s"
| "value_repr (PList xs) = ''['' @ join '', '' (map value_repr xs) @ '']''"
| "value_repr (PDict d) = ''{'' @ join '', '' (map (\<lambda>(k, v). py_repr k @ '': '' @ value_repr v) d) @ ''}''"

definition py_str :: "py_value \<Rightarrow> string" where
  "py_str v = (case v of PStr s \<Rightarrow> s | _ \<Rightarrow> value_repr v)"

definition truthy :: "py_value \<Rightarrow> bool" where
  "truthy v = (case v of
     PNone \<Rightarrow> False | PBool b \<Rightarrow> b | PInt i \<Rightarrow> i \<noteq> 0 | PFloat x \<Rightarrow> float_true x
   | PStr s \<Rightarrow> s \<noteq> [] | PList xs \<Rightarrow> xs \<noteq> [] | PDict d \<Rightarrow> d \<noteq> [])"

fun json_value :: "py_value \<Rightarrow> string" where   \<comment> \<open>\<open>json.dumps\<close>\<close>
  "json_value PNone = ''null''"
| "json_value (PBool b) = (if b then ''true'' else ''false'')"
| "json_value (PInt i) = show_int i"
| "json_value (PFloat x) =
     (case x of Finite _ _ \<Rightarrow> show_float x | Infinite negative \<Rightarrow> (if negative then ''-Infinity'' else ''Infinity'')
      | Not_A_Number \<Rightarrow> ''NaN'')"
| "json_value (PStr s) = json_string s"
| "json_value (PList xs) = ''['' @ join '', '' (map json_value xs) @ '']''"
| "json_value (PDict d) = ''{'' @ join '', '' (map (\<lambda>(k, v). json_string k @ '': '' @ json_value v) d) @ ''}''"

definition value_get :: "py_value \<Rightarrow> string \<Rightarrow> py_value \<Rightarrow> py_value res" where   \<comment> \<open>\<open>v.get(k, d)\<close>\<close>
  "value_get v k d = (case v of PDict m \<Rightarrow> Inr (dget_or m k d) | _ \<Rightarrow> Inl AttributeError)"

section \<open>Decoders\<close>

definition VENDOR_MAP :: "(string \<times> string) list" where
  "VENDOR_MAP =
     [(''0101'', ''RTI Connext DDS''), (''0102'', ''OpenSplice DDS''), (''0103'', ''OpenDDS''), (''0104'', ''MilSoft''),
      (''0105'', ''Twin Oaks CoreDX DDS''), (''0106'', ''Lakos''), (''0107'', ''PrismTech''), (''0108'', ''OAMAS''),
      (''0109'', ''THALES''), (''010a'', ''ATIS''), (''010f'', ''eProsima Fast DDS''), (''0110'', ''Eclipse Cyclone DDS''),
      (''0111'', ''GurumNetworks GurumDDS''), (''0112'', ''RustDDS''), (''0113'', ''Shadow Security DDS''),
      (''0114'', ''Dust DDS''), (''0120'', ''Intercom DDS'')]"

definition BUILTIN_ENDPOINTS_MAP :: "(int \<times> string) list" where
  "BUILTIN_ENDPOINTS_MAP =
     [(0x00000001, ''DISC_BUILTIN_ENDPOINT_PARTICIPANT_ANNOUNCER''),
      (0x00000002, ''DISC_BUILTIN_ENDPOINT_PARTICIPANT_DETECTOR''),
      (0x00000004, ''DISC_BUILTIN_ENDPOINT_PUBLICATION_ANNOUNCER''),
      (0x00000008, ''DISC_BUILTIN_ENDPOINT_PUBLICATION_DETECTOR''),
      (0x00000010, ''DISC_BUILTIN_ENDPOINT_SUBSCRIPTION_ANNOUNCER''),
      (0x00000020, ''DISC_BUILTIN_ENDPOINT_SUBSCRIPTION_DETECTOR''),
      (0x00000040, ''DISC_BUILTIN_ENDPOINT_PARTICIPANT_PROXY_ANNOUNCER''),
      (0x00000080, ''DISC_BUILTIN_ENDPOINT_PARTICIPANT_PROXY_DETECTOR''),
      (0x00000100, ''DISC_BUILTIN_ENDPOINT_PARTICIPANT_STATE_ANNOUNCER''),
      (0x00000200, ''DISC_BUILTIN_ENDPOINT_PARTICIPANT_STATE_DETECTOR''),
      (0x00000400, ''BUILTIN_ENDPOINT_PARTICIPANT_MESSAGE_DATA_WRITER''),
      (0x00000800, ''BUILTIN_ENDPOINT_PARTICIPANT_MESSAGE_DATA_READER''),
      (0x00001000, ''BITS_TYPE_LOOKUP_SERVICE_REQUEST_DATA_WRITER''),
      (0x00002000, ''BITS_TYPE_LOOKUP_SERVICE_REQUEST_DATA_READER''),
      (0x00004000, ''BITS_TYPE_LOOKUP_SERVICE_REPLY_DATA_WRITER''),
      (0x00008000, ''BITS_TYPE_LOOKUP_SERVICE_REPLY_DATA_READER''),
      (0x00010000, ''DISC_BUILTIN_ENDPOINT_PUBLICATION_SECURE_ANNOUNCER''),
      (0x00020000, ''DISC_BUILTIN_ENDPOINT_PUBLICATION_SECURE_DETECTOR''),
      (0x00040000, ''DISC_BUILTIN_ENDPOINT_SUBSCRIPTION_SECURE_ANNOUNCER''),
      (0x00080000, ''DISC_BUILTIN_ENDPOINT_SUBSCRIPTION_SECURE_DETECTOR''),
      (0x00100000, ''BUILTIN_ENDPOINT_PARTICIPANT_MESSAGE_SECURE_DATA_WRITER''),
      (0x00200000, ''BUILTIN_ENDPOINT_PARTICIPANT_MESSAGE_SECURE_DATA_READER''),
      (0x00400000, ''DISC_BUILTIN_ENDPOINT_PARTICIPANT_SECURE_ANNOUNCER''),
      (0x00800000, ''DISC_BUILTIN_ENDPOINT_PARTICIPANT_SECURE_DETECTOR'')]"

definition RELIABILITY_KINDS :: "(int \<times> string) list" where
  "RELIABILITY_KINDS = [(1, ''BEST_EFFORT''), (2, ''RELIABLE'')]"

definition DURABILITY_KINDS :: "(int \<times> string) list" where
  "DURABILITY_KINDS = [(0, ''VOLATILE''), (1, ''TRANSIENT_LOCAL''), (2, ''TRANSIENT''), (3, ''PERSISTENT'')]"

definition OWNERSHIP_KINDS :: "(int \<times> string) list" where
  "OWNERSHIP_KINDS = [(0, ''SHARED''), (1, ''EXCLUSIVE'')]"

definition no_separators :: "string \<Rightarrow> string" where   \<comment> \<open>\<open>.replace(":", "").replace(".", "")\<close>\<close>
  "no_separators = filter (\<lambda>c. c \<noteq> CHR '':'' \<and> c \<noteq> CHR ''.'')"

definition no_0x :: "string \<Rightarrow> string" where
  "no_0x s = (if starts_with ''0x'' s then drop 2 s else s)"

definition normalize_hex :: "py_value \<Rightarrow> string" where   \<comment> \<open>of length 4, as its only caller has it\<close>
  "normalize_hex v =
     (case v of
        PNone \<Rightarrow> []
      | PBool b \<Rightarrow> format_hex 4 (of_bool b)
      | PInt i \<Rightarrow> format_hex 4 i
      | _ \<Rightarrow> zfill 4 (no_separators (no_0x (py_lower (py_strip (py_str v))))))"

definition format_guid :: "py_value \<Rightarrow> string" where
  "format_guid raw =
     (if \<not> truthy raw then ''unknown''
      else (let v = (case raw of PList (x # _) \<Rightarrow> x | _ \<Rightarrow> raw) in no_0x (no_separators (py_lower (py_strip (py_str v))))))"

definition decode_vendor :: "py_value \<Rightarrow> string \<times> string" where
  "decode_vendor v =
     (let hex = normalize_hex v;
          name = dget_or VENDOR_MAP hex (''Unknown DDS Vendor ('' @ hex @ '')'');
          formatted = (if length hex = 4 then take 2 hex @ ''.'' @ drop 2 hex else hex) in
      (formatted, name))"

definition version_text :: "int \<Rightarrow> string" where
  "version_text n = show_int (drop_bit 8 n AND 0xFF) @ ''.'' @ show_int (n AND 0xFF)"

definition decode_version :: "py_value \<Rightarrow> string res" where
  "decode_version v =
     (case v of
        PNone \<Rightarrow> Inr ''unknown''
      | PBool b \<Rightarrow> Inr (version_text (of_bool b))
      | PInt n \<Rightarrow> Inr (version_text n)
      | PFloat x \<Rightarrow> rbind (trunc_float x) (\<lambda>n. Inr (version_text n))
      | _ \<Rightarrow> (let s = py_strip (py_str v) in Inr
          (if starts_with ''0x'' s \<and> 6 \<le> length s
           then (case py_int_base 16 s of Inr n \<Rightarrow> version_text n | Inl _ \<Rightarrow> s) else s)))"

definition mask_text :: "int \<Rightarrow> string \<times> string list" where
  "mask_text n = (''0x'' @ format_hex 8 n, map snd (filter (\<lambda>(bit, _). n AND bit \<noteq> 0) BUILTIN_ENDPOINTS_MAP))"

definition decode_builtin_endpoints :: "py_value \<Rightarrow> (string \<times> string list) res" where
  "decode_builtin_endpoints v =
     (case v of
        PNone \<Rightarrow> Inr (''0x00000000'', [])
      | PStr s \<Rightarrow> Inr (case py_int_base 16 s of Inr n \<Rightarrow> mask_text n | Inl _ \<Rightarrow> (s, []))
      | PBool b \<Rightarrow> Inr (mask_text (of_bool b))
      | PInt n \<Rightarrow> Inr (mask_text n)
      | PFloat x \<Rightarrow> (case trunc_float x of
          Inr n \<Rightarrow> Inr (mask_text n)
        | Inl e \<Rightarrow> if e = ValueError then Inr (py_str v, []) else Inl e)
      | _ \<Rightarrow> Inr (py_str v, []))"

section \<open>Walking the tree\<close>

fun walk_tree :: "py_value \<Rightarrow> (string \<times> py_value) list list" where   \<comment> \<open>the objects, parents first\<close>
  "walk_tree (PDict d) = d # concat (map (\<lambda>(k, v). walk_tree v) d)"
| "walk_tree (PList xs) = concat (map walk_tree xs)"
| "walk_tree _ = []"

fun members :: "py_value \<Rightarrow> (string \<times> py_value) list" where   \<comment> \<open>what \<open>inspect_cand\<close> visits\<close>
  "members (PDict d) = concat (map (\<lambda>(k, v). (k, v) # members v) d)"
| "members (PList xs) = concat (map members xs)"
| "members _ = []"

section \<open>Participants\<close>

datatype port = Port int | Port_Text string

type_synonym locator = "string \<times> string \<times> port"   \<comment> \<open>type, ip, port\<close>

record spdp =   \<comment> \<open>\<open>found_spdp\<close>, the keys that were set\<close>
  found_prefix :: "string option"
  found_vendor :: "string option"
  found_version :: "string option"
  found_lease :: "pyfloat option"
  found_builtin :: "(string \<times> string list) option"

definition no_spdp :: spdp where
  "no_spdp = \<lparr>found_prefix = None, found_vendor = None, found_version = None, found_lease = None, found_builtin = None\<rparr>"

definition to_float :: "py_value \<Rightarrow> pyfloat res" where   \<comment> \<open>\<open>float(v)\<close>\<close>
  "to_float v =
     (case v of
        PStr s \<Rightarrow> read_float s | PInt i \<Rightarrow> float_of_int i | PBool b \<Rightarrow> float_of_int (of_bool b)
      | PFloat x \<Rightarrow> Inr x | _ \<Rightarrow> Inl TypeError)"

definition see_lease :: "(string \<times> py_value) list \<Rightarrow> spdp \<Rightarrow> spdp res" where
  "see_lease node found =
     (let sec = dget_or node ''rtps.param.ntpTime.sec'' PNone in
      if sec = PNone then Inr found
      else (case to_float sec of
              Inr x \<Rightarrow> Inr (found\<lparr>found_lease := Some x\<rparr>)
            | Inl e \<Rightarrow> if e = ValueError \<or> e = TypeError then Inr found else Inl e))"

definition py_or :: "py_value \<Rightarrow> py_value \<Rightarrow> py_value" where "py_or a b = (if truthy a then a else b)"

definition first_word :: "string \<Rightarrow> string res" where   \<comment> \<open>\<open>s.split()[0]\<close>\<close>
  "first_word s =
     (let t = dropWhile is_space s in if t = [] then Inl IndexError else Inr (takeWhile (\<lambda>c. \<not> is_space c) t))"

definition read_port :: "string \<Rightarrow> port res" where
  "read_port s =
     (if s \<noteq> [] \<and> list_all is_digit s \<or> starts_with ''0x'' s
      then rbind (first_word s) (\<lambda>w. rbind (py_int_base 0 w) (\<lambda>n. Inr (Port n)))
      else Inr (Port_Text s))"

definition locator_kind :: "string \<Rightarrow> string" where
  "locator_kind k_lower =
     (if str_in ''metatraffic'' k_lower then ''metatraffic_unicast''
      else if str_in ''multicast'' k_lower then ''multicast'' else ''unicast'')"

definition see_locator :: "(string \<times> py_value) list \<Rightarrow> string \<Rightarrow> locator list \<Rightarrow> locator list res" where
  "see_locator node k_lower locs =
     (let ip = py_or (dget_or node ''rtps.locator.ipv4'' PNone) (dget_or node ''rtps.locator_udp_v4.ip'' PNone);
          port = py_or (dget_or node ''rtps.locator.port'' PNone) (dget_or node ''rtps.locator_udp_v4.port'' PNone) in
      if truthy ip \<and> truthy port
      then rbind (read_port (py_str port)) (\<lambda>p. Inr (locs @ [(locator_kind k_lower, py_str ip, p)]))
      else Inr locs)"

definition see_guid :: "(string \<times> py_value) list \<Rightarrow> string \<Rightarrow> py_value \<Rightarrow> spdp \<Rightarrow> spdp" where
  "see_guid node k v found =
     (if str_in ''pid_participant_guid'' (py_lower k) \<or> k = ''rtps.param.participant_guid''
      then found\<lparr>found_prefix := Some (take 24 (format_guid (dget_or node ''rtps.param.participant_guid'' v)))\<rparr> else found)"

definition see_vendor :: "(string \<times> py_value) list \<Rightarrow> string \<Rightarrow> py_value \<Rightarrow> spdp \<Rightarrow> spdp" where
  "see_vendor node k v found =
     (if str_in ''pid_vendor_id'' (py_lower k) \<or> k = ''rtps.vendorId''
      then found\<lparr>found_vendor := Some (fst (decode_vendor (dget_or node ''rtps.vendorId'' v)))\<rparr> else found)"

definition see_version :: "(string \<times> py_value) list \<Rightarrow> string \<Rightarrow> py_value \<Rightarrow> spdp \<Rightarrow> spdp res" where
  "see_version node k v found =
     (if str_in ''pid_protocol_version'' (py_lower k) \<or> k = ''rtps.version''
      then rbind (decode_version (dget_or node ''rtps.version'' v)) (\<lambda>s. Inr (found\<lparr>found_version := Some s\<rparr>))
      else Inr found)"

definition see_builtin :: "(string \<times> py_value) list \<Rightarrow> string \<Rightarrow> py_value \<Rightarrow> spdp \<Rightarrow> spdp res" where
  "see_builtin node k v found =
     (if str_in ''builtin_endpoint_set'' (py_lower k)
      then rbind (decode_builtin_endpoints (dget_or node ''rtps.param.builtin_endpoint_set'' v))
        (\<lambda>b. Inr (found\<lparr>found_builtin := Some b\<rparr>))
      else Inr found)"

definition inspect_spdp_entry ::
    "(string \<times> py_value) list \<Rightarrow> string \<times> py_value \<Rightarrow> spdp \<times> locator list \<Rightarrow> (spdp \<times> locator list) res" where
  "inspect_spdp_entry node kv st = (case (kv, st) of ((k, v), (found, locs)) \<Rightarrow>
     rbind (see_version node k v (see_vendor node k v (see_guid node k v found))) (\<lambda>found.
     rbind (if str_in ''lease_duration'' (py_lower k) then see_lease node found else Inr found) (\<lambda>found.
     rbind (see_builtin node k v found) (\<lambda>found.
     rbind (if str_in ''locator'' (py_lower k) then see_locator node (py_lower k) locs else Inr locs) (\<lambda>locs.
       Inr (found, locs))))))"

definition inspect_spdp_node :: "(string \<times> py_value) list \<Rightarrow> spdp \<times> locator list \<Rightarrow> (spdp \<times> locator list) res" where
  "inspect_spdp_node node = rfold (inspect_spdp_entry node) node"

record participant =
  guid_prefix :: string
  src_ip :: py_value
  vendor_id :: string
  vendor_name :: string
  protocol_version :: string
  lease_duration_sec :: pyfloat
  builtin_endpoints_mask :: string
  builtin_endpoints_flags :: "string list"
  locators :: "locator list"

definition add_new :: "'a \<Rightarrow> 'a list \<Rightarrow> 'a list" where "add_new x xs = (if x \<in> set xs then xs else xs @ [x])"

definition participant_guid :: "spdp \<Rightarrow> py_value \<Rightarrow> string" where   \<comment> \<open>empty when there is none\<close>
  "participant_guid found header_guid =
     (case found_prefix found of
        Some (c # g) \<Rightarrow> c # g
      | _ \<Rightarrow> if truthy header_guid then take 24 (format_guid header_guid) else [])"

definition new_participant ::
    "string \<Rightarrow> py_value \<Rightarrow> py_value \<Rightarrow> py_value \<Rightarrow> spdp \<Rightarrow> locator list \<Rightarrow> participant res" where
  "new_participant g ip header_vendor header_version found locs =
     (case decode_vendor (case found_vendor found of Some (c # w) \<Rightarrow> PStr (c # w) | _ \<Rightarrow> header_vendor) of (hex, name) \<Rightarrow>
      rbind (case found_version found of Some (c # w) \<Rightarrow> Inr (c # w) | _ \<Rightarrow> decode_version header_version) (\<lambda>version. Inr
        \<lparr>guid_prefix = g, src_ip = ip, vendor_id = hex, vendor_name = name, protocol_version = version,
         lease_duration_sec = (case found_lease found of Some x \<Rightarrow> x | None \<Rightarrow> Finite False 20),
         builtin_endpoints_mask = (case found_builtin found of Some b \<Rightarrow> fst b | None \<Rightarrow> ''unknown''),
         builtin_endpoints_flags = (case found_builtin found of Some b \<Rightarrow> snd b | None \<Rightarrow> []),
         locators = fold add_new locs []\<rparr>))"

definition augment_participant :: "spdp \<Rightarrow> locator list \<Rightarrow> participant \<Rightarrow> participant" where
  "augment_participant found locs p =
     (let p = (case found_builtin found of
                 Some (hex, flags) \<Rightarrow>
                   if builtin_endpoints_flags p = [] \<and> flags \<noteq> []
                   then p\<lparr>builtin_endpoints_mask := hex, builtin_endpoints_flags := flags\<rparr> else p
               | None \<Rightarrow> p);
          p = (case found_lease found of Some x \<Rightarrow> if float_true x then p\<lparr>lease_duration_sec := x\<rparr> else p | None \<Rightarrow> p) in
      p\<lparr>locators := fold add_new locs (locators p)\<rparr>)"

definition see_participant ::
    "py_value \<Rightarrow> py_value \<Rightarrow> py_value \<Rightarrow> py_value \<Rightarrow> spdp \<Rightarrow> locator list \<Rightarrow> (string, participant) dict
      \<Rightarrow> (string, participant) dict res" where
  "see_participant ip header_guid header_vendor header_version found locs ps =
     (let g = participant_guid found header_guid in
      if g = [] then Inr ps
      else (case dget ps g of
              None \<Rightarrow> rbind (new_participant g ip header_vendor header_version found locs) (\<lambda>p. Inr (dset g p ps))
            | Some p \<Rightarrow> Inr (dset g (augment_participant found locs p) ps)))"

section \<open>Endpoints\<close>

type_synonym endpoint = "(string, py_value) dict"

definition qos_kind :: "(int \<times> string) list \<Rightarrow> py_value \<Rightarrow> py_value res" where
  "qos_kind kinds v =
     rbind (first_word (py_str v)) (\<lambda>w. Inr (PStr
       (case py_int_base 0 w of
          Inr n \<Rightarrow> dget_or kinds n (''0x'' @ format_hex 0 n)
        | Inl _ \<Rightarrow> py_str v)))"

definition entity_kind_of :: "string \<Rightarrow> string" where
  "entity_kind_of kind_hex =
     (if kind_hex = ''02'' \<or> kind_hex = ''03'' then ''DataWriter''
      else if kind_hex = ''04'' \<or> kind_hex = ''07'' then ''DataReader''
      else ''Entity (0x'' @ kind_hex @ '')'')"

definition see_endpoint_guid :: "py_value \<Rightarrow> endpoint \<Rightarrow> endpoint" where
  "see_endpoint_guid v cand =
     (let g = format_guid v in
      if 24 \<le> length g
      then dset ''entity_kind'' (PStr (entity_kind_of (drop (length g - 2) g))) (dset ''endpoint_guid'' (PStr g) cand)
      else cand)"

definition see_history :: "py_value \<Rightarrow> endpoint \<Rightarrow> endpoint res" where
  "see_history v cand =
     rbind (first_word (py_str v)) (\<lambda>w. Inr
       (case py_int_base 0 w of Inr n \<Rightarrow> dset ''history_depth'' (PInt n) cand | Inl _ \<Rightarrow> cand))"

definition is_type_object :: "string \<Rightarrow> bool" where
  "is_type_object k \<longleftrightarrow>
     str_in ''typeobject'' (py_lower k) \<or> str_in ''type_information'' (py_lower k) \<or> str_in ''pid_type_object'' (py_lower k)"

definition see_kind :: "string \<Rightarrow> (int \<times> string) list \<Rightarrow> py_value \<Rightarrow> endpoint \<Rightarrow> endpoint res" where
  "see_kind key kinds v cand = rbind (qos_kind kinds v) (\<lambda>kind. Inr (dset key kind cand))"

definition inspect_cand :: "string \<times> py_value \<Rightarrow> endpoint \<Rightarrow> endpoint res" where
  "inspect_cand kv cand = (case kv of (k, v) \<Rightarrow>
     if k = ''rtps.param.topicName'' then Inr (dset ''topic_name'' (PStr (py_str v)) cand)
     else if k = ''rtps.param.typeName'' then Inr (dset ''type_name'' (PStr (py_str v)) cand)
     else if k = ''rtps.param.endpoint_guid'' then Inr (see_endpoint_guid v cand)
     else if k = ''rtps.reliability_kind'' then see_kind ''reliability'' RELIABILITY_KINDS v cand
     else if k = ''rtps.durability'' then see_kind ''durability'' DURABILITY_KINDS v cand
     else if k = ''rtps.ownership'' then see_kind ''ownership'' OWNERSHIP_KINDS v cand
     else if k = ''rtps.history_depth'' \<or> k = ''rtps.param.history.depth'' then see_history v cand
     else Inr (if is_type_object k then dset ''has_type_object'' (PBool True) cand else cand))"

definition has_endpoint :: "py_value \<Rightarrow> bool" where
  "has_endpoint node \<longleftrightarrow>
     (let s = json_value node in
      str_in ''rtps.param.topicName'' s \<and> (str_in ''rtps.param.endpoint_guid'' s \<or> str_in ''PID_ENDPOINT_GUID'' s))"

definition set_default :: "string \<Rightarrow> py_value \<Rightarrow> endpoint \<Rightarrow> endpoint" where
  "set_default k v ep = (if dget ep k = None then dset k v ep else ep)"

definition named :: "endpoint \<Rightarrow> string \<Rightarrow> bool" where "named ep k \<longleftrightarrow> truthy (dget_or ep k PNone)"

definition complete :: "endpoint \<Rightarrow> bool" where
  "complete cand \<longleftrightarrow> named cand ''topic_name'' \<and> named cand ''type_name'' \<and> named cand ''endpoint_guid''"

definition finish_endpoint :: "py_value \<Rightarrow> endpoint \<Rightarrow> endpoint" where
  "finish_endpoint ip cand =
     dset ''src_ip'' ip
       (set_default ''ownership'' (PStr ''SHARED'')
         (set_default ''durability'' (PStr ''VOLATILE'')
           (set_default ''reliability'' (PStr ''BEST_EFFORT'') cand)))"

definition same_endpoint :: "endpoint \<Rightarrow> endpoint \<Rightarrow> bool" where
  "same_endpoint ep cand \<longleftrightarrow>
     dget_or ep ''endpoint_guid'' PNone = dget_or cand ''endpoint_guid'' PNone
     \<and> dget_or ep ''topic_name'' PNone = dget_or cand ''topic_name'' PNone"

definition add_endpoint :: "py_value \<Rightarrow> endpoint \<Rightarrow> endpoint list \<Rightarrow> endpoint list" where
  "add_endpoint ip cand eps =
     (let ep = finish_endpoint ip cand in
      if filter (\<lambda>e. same_endpoint e ep) eps = [] then eps @ [ep] else eps)"

lemma rfold_cong [fundef_cong]:
  "xs = ys \<Longrightarrow> s = t \<Longrightarrow> (\<And>x u. x \<in> set ys \<Longrightarrow> f x u = g x u) \<Longrightarrow> rfold f xs s = rfold g ys t"
proof -
  assume "xs = ys" "s = t" and eq: "\<And>x u. x \<in> set ys \<Longrightarrow> f x u = g x u"
  have "rfold f ys t = rfold g ys t" using eq
  proof (induction ys arbitrary: t)
    case (Cons y ys)
    then have "f y t = g y t" "rfold f ys = rfold g ys" by auto
    then show ?case by simp
  qed simp
  then show ?thesis using \<open>xs = ys\<close> \<open>s = t\<close> by simp
qed

text \<open>An object that is a complete endpoint is not searched any further.\<close>

fun extract_sedp_endpoints :: "py_value \<Rightarrow> py_value \<Rightarrow> endpoint list \<Rightarrow> endpoint list res" where
  "extract_sedp_endpoints ip (PDict d) eps =
     rbind (if has_endpoint (PDict d) then rbind (rfold inspect_cand (members (PDict d)) []) (\<lambda>cand. Inr (Some cand)) else Inr None)
       (\<lambda>found. case found of
          Some cand \<Rightarrow>
            if complete cand then Inr (add_endpoint ip cand eps)
            else rfold (\<lambda>(k, v). extract_sedp_endpoints ip v) d eps
        | None \<Rightarrow> rfold (\<lambda>(k, v). extract_sedp_endpoints ip v) d eps)"
| "extract_sedp_endpoints ip (PList xs) eps = rfold (extract_sedp_endpoints ip) xs eps"
| "extract_sedp_endpoints ip _ eps = Inr eps"

section \<open>\<open>parse_discovery_data\<close>\<close>

record discovery_summary =
  metadata :: "(string, py_value) dict"
  participants :: "(string, participant) dict"
  endpoints :: "endpoint list"

definition first_of :: "py_value \<Rightarrow> py_value res" where
  "first_of v = (case v of PList [] \<Rightarrow> Inl IndexError | PList (x # _) \<Rightarrow> Inr x | _ \<Rightarrow> Inr v)"

record packet =   \<comment> \<open>what is taken from the layers of a packet\<close>
  rtps :: py_value
  ip_src :: py_value
  header_guid :: py_value
  header_vendor :: py_value
  header_version :: py_value

definition read_packet :: "py_value \<Rightarrow> packet res" where
  "read_packet pkt =
     rbind (value_get pkt ''_source'' (PDict [])) (\<lambda>source.
     rbind (value_get source ''layers'' (PDict [])) (\<lambda>layers.
     rbind (value_get layers ''rtps'' (PDict [])) (\<lambda>rtps.
     rbind (value_get layers ''ip'' (PDict [])) (\<lambda>ip_layer.
     rbind (value_get layers ''ip.src'' (PStr ''unknown'')) (\<lambda>src0.
     rbind (value_get ip_layer ''ip.src'' src0) (\<lambda>src1.
     rbind (value_get layers ''ip.dst'' (PStr ''unknown'')) (\<lambda>dst0.
     rbind (value_get ip_layer ''ip.dst'' dst0) (\<lambda>dst1.
     rbind (first_of src1) (\<lambda>src.
     rbind (first_of dst1) (\<lambda>_.
     rbind (value_get rtps ''rtps.guidPrefix.src'' PNone) (\<lambda>guid0.
     rbind (value_get rtps ''rtps.guidPrefix'' guid0) (\<lambda>guid.
     rbind (value_get rtps ''rtps.vendorId'' PNone) (\<lambda>vendor.
     rbind (value_get rtps ''rtps.version'' PNone) (\<lambda>version.
       Inr \<lparr>rtps = rtps, ip_src = src, header_guid = guid, header_vendor = vendor, header_version = version\<rparr>))))))))))))))"

definition parse_packet :: "py_value \<Rightarrow> discovery_summary \<Rightarrow> discovery_summary res" where
  "parse_packet pkt s =
     rbind (read_packet pkt) (\<lambda>p.
     rbind (rfold inspect_spdp_node (walk_tree (rtps p)) (no_spdp, [])) (\<lambda>(found, locs).
     rbind (see_participant (ip_src p) (header_guid p) (header_vendor p) (header_version p) found locs (participants s)) (\<lambda>ps.
     rbind (extract_sedp_endpoints (ip_src p) (rtps p) (endpoints s)) (\<lambda>eps.
       Inr (s\<lparr>participants := ps, endpoints := eps\<rparr>)))))"

definition parse_discovery_data :: "string \<Rightarrow> py_value list \<Rightarrow> discovery_summary res" where
  "parse_discovery_data now raw_packets =
     rfold parse_packet raw_packets
       \<lparr>metadata = [(''total_rtps_packets'', PInt (int (length raw_packets))), (''analyzed_at'', PStr now)],
        participants = [], endpoints = []\<rparr>"

end
