(* ===== verification/Discovery_Report.thy ===== *)
theory Discovery_Report
  imports Discovery Py_Argparse
begin

text \<open>
  \<open>discovery/rtps_discovery_sniffer.py\<close>: the seven test cases of the JUnit report, the JSON file that is merged
  with an earlier one, and the run of the program.  The suites that the report file holds already (what
  \<open>junitparser\<close> reads from it), the JSON value of the earlier file and the dissected packets are arguments,
  and so is the text of a set, whose order Python does not fix.
\<close>

section \<open>Test cases\<close>

definition eol :: string where "eol = [CHR 0x0A]"

record junit_case =
  jc_name :: string
  jc_time :: rat
  jc_system_out :: string
  jc_failure :: "string option"

type_synonym junit_suite = "string \<times> junit_case list"

definition junit_case :: "string \<Rightarrow> rat \<Rightarrow> string list \<Rightarrow> string list \<Rightarrow> junit_case" where   \<comment> \<open>a failure when there are issues\<close>
  "junit_case name time lines issues =
     \<lparr>jc_name = name, jc_time = time, jc_system_out = join eol lines,
      jc_failure = (if issues = [] then None else Some (join ''; '' issues))\<rparr>"

definition show_port :: "port \<Rightarrow> string" where
  "show_port p = (case p of Port n \<Rightarrow> show_int n | Port_Text s \<Rightarrow> s)"

definition show_locator :: "locator \<Rightarrow> string" where
  "show_locator l = (case l of (kind, ip, p) \<Rightarrow> kind @ ''='' @ ip @ '':'' @ show_port p)"

definition participant_lines :: "string \<times> participant \<Rightarrow> string" where
  "participant_lines gp = (case gp of (guid, p) \<Rightarrow>
     let loc_str = join '', '' (map show_locator (locators p)) in
     join eol
       [''  - GUID Prefix: '' @ guid,
        ''    Source IP: '' @ py_str (src_ip p),
        ''    Vendor: '' @ vendor_name p @ '' ('' @ vendor_id p @ '')'',
        ''    Protocol Version: '' @ protocol_version p,
        ''    Lease Duration: '' @ show_float (lease_duration_sec p) @ ''s'',
        ''    Locators: '' @ (if loc_str = [] then ''none'' else loc_str)])"

definition participant_case :: "int \<Rightarrow> (string, participant) dict \<Rightarrow> junit_case" where
  "participant_case expected ps =
     junit_case ''Test_SPDP_Participant_Discovery'' (1 / 10)
       ((''Discovered '' @ show_nat (length ps) @ '' participant(s):'') # map participant_lines ps)
       (if int (length ps) < expected
        then [''Expected at least '' @ show_int expected @ '' participant(s), but found '' @ show_nat (length ps) @ ''.''] else [])"

definition old_version :: "string \<Rightarrow> bool res" where
  "old_version ver_str =
     rbind (rmap (py_int_base 10) (split_on (CHR ''.'') ver_str)) (\<lambda>parts.
     rbind (py_nth parts 0) (\<lambda>major.
       if major < 2 then Inr True
       else if major = 2 then rbind (py_nth parts 1) (\<lambda>minor. Inr (minor < 1))
       else Inr False))"

definition version_issues :: "string \<times> participant \<Rightarrow> string list" where
  "version_issues gp = (case gp of (guid, p) \<Rightarrow>
     case old_version (protocol_version p) of
       Inr old \<Rightarrow> if old then [''Participant '' @ guid @ '' has non-standard version RTPS '' @ protocol_version p] else []
     | Inl _ \<Rightarrow> [''Invalid version string '' @ [CHR 0x27] @ protocol_version p @ [CHR 0x27] @ '' for participant '' @ guid])"

definition version_case :: "(string, participant) dict \<Rightarrow> junit_case" where
  "version_case ps =
     junit_case ''Test_SPDP_Protocol_Version'' (1 / 20)
       (map (\<lambda>(guid, p). ''Participant '' @ take 12 guid @ '': RTPS '' @ protocol_version p) ps)
       (concat (map version_issues ps))"

definition vendor_case :: "(string, participant) dict \<Rightarrow> junit_case" where
  "vendor_case ps =
     junit_case ''Test_SPDP_Vendor_Identification'' (1 / 20)
       (map (\<lambda>(guid, p). ''Participant '' @ take 12 guid @ '': '' @ vendor_name p @ '' [ID: '' @ vendor_id p @ '']'') ps) []"

definition builtin_line :: "string \<times> participant \<Rightarrow> string" where
  "builtin_line gp = (case gp of (guid, p) \<Rightarrow>
     ''Participant '' @ take 12 guid @ '' Built-in Mask: '' @ builtin_endpoints_mask p @ eol
     @ ''  Flags: '' @ (if builtin_endpoints_flags p = [] then ''None or Default'' else join '', '' (builtin_endpoints_flags p)))"

definition builtin_case :: "(string, participant) dict \<Rightarrow> junit_case" where
  "builtin_case ps =
     junit_case ''Test_SPDP_Builtin_Endpoints'' (1 / 20) (map builtin_line ps)
       (map (\<lambda>(guid, p). ''Participant '' @ guid @ '' reported empty builtin endpoint set'')
         (filter (\<lambda>(guid, p). builtin_endpoints_mask p = ''0x00000000'') ps))"

definition ep_kind :: "endpoint \<Rightarrow> string" where
  "ep_kind ep = py_str (dget_or ep ''entity_kind'' (PStr ''Endpoint''))"

definition writers :: "endpoint list \<Rightarrow> endpoint list" where
  "writers eps = filter (\<lambda>ep. str_in ''writer'' (py_lower (ep_kind ep))) eps"

definition readers :: "endpoint list \<Rightarrow> endpoint list" where
  "readers eps = filter (\<lambda>ep. \<not> str_in ''writer'' (py_lower (ep_kind ep)) \<and> str_in ''reader'' (py_lower (ep_kind ep))) eps"

definition field :: "string \<Rightarrow> endpoint \<Rightarrow> string" where   \<comment> \<open>\<open>f"{ep.get(key)}"\<close>\<close>
  "field key ep = py_str (dget_or ep key PNone)"

definition endpoint_line :: "endpoint \<Rightarrow> string" where
  "endpoint_line ep =
     ''  - '' @ ep_kind ep @ '': Topic='' @ [CHR 0x27] @ py_str (dget_or ep ''topic_name'' (PStr ''unknown'')) @ [CHR 0x27]
     @ '', Type='' @ [CHR 0x27] @ py_str (dget_or ep ''type_name'' (PStr ''unknown'')) @ [CHR 0x27]
     @ '', GUID='' @ field ''endpoint_guid'' ep @ eol
     @ ''    QoS: Reliability='' @ field ''reliability'' ep @ '', Durability='' @ field ''durability'' ep
     @ '', Ownership='' @ field ''ownership'' ep"

definition values_of :: "string \<Rightarrow> py_value \<Rightarrow> endpoint list \<Rightarrow> py_value list" where   \<comment> \<open>a set, in order of appearance\<close>
  "values_of key other eps = fold (\<lambda>ep. add_new (dget_or ep key other)) eps []"

definition expectation :: "(py_value list \<Rightarrow> string) \<Rightarrow> string \<Rightarrow> string option \<Rightarrow> py_value list \<Rightarrow> string list" where
  "expectation show_set what expected seen =
     (case expected of
        Some (c # e) \<Rightarrow> if PStr (c # e) \<in> set seen then []
          else [''Expected '' @ what @ '' '' @ [CHR 0x27] @ (c # e) @ [CHR 0x27] @ '' not found in discovery (seen: '' @ show_set seen @ '')'']
      | _ \<Rightarrow> [])"

definition mismatch :: "(py_value list \<Rightarrow> string) \<Rightarrow> string \<Rightarrow> string \<Rightarrow> endpoint list \<Rightarrow> string list" where
  "mismatch show_set what key eps =
     (let w = values_of key PNone (writers eps); r = values_of key PNone (readers eps) in
      if list_ex (\<lambda>x. x \<in> set r) w then []
      else [''Mismatched '' @ what @ '' between Writer(s) '' @ show_set w @ '' and Reader(s) '' @ show_set r])"

definition mismatch_errors ::
    "(py_value list \<Rightarrow> string) \<Rightarrow> string option \<Rightarrow> string option \<Rightarrow> endpoint list \<Rightarrow> string list" where
  "mismatch_errors show_set topic typ eps =
     expectation show_set ''topic'' topic (values_of ''topic_name'' (PStr ''unknown'') eps)
     @ expectation show_set ''type'' typ (values_of ''type_name'' (PStr ''unknown'') eps)
     @ (if writers eps \<noteq> [] \<and> readers eps \<noteq> []
        then mismatch show_set ''topics'' ''topic_name'' eps @ mismatch show_set ''types'' ''type_name'' eps else [])"

definition sedp_case :: "(py_value list \<Rightarrow> string) \<Rightarrow> string option \<Rightarrow> string option \<Rightarrow> endpoint list \<Rightarrow> junit_case" where
  "sedp_case show_set topic typ eps =
     junit_case ''Test_SEDP_Topic_Type_Match'' (1 / 10)
       ((''Discovered '' @ show_nat (length eps) @ '' endpoint(s):'') # map endpoint_line eps)
       (mismatch_errors show_set topic typ eps)"

definition reliability :: "endpoint \<Rightarrow> py_value" where
  "reliability ep = dget_or ep ''reliability'' (PStr ''BEST_EFFORT'')"

definition durability :: "endpoint \<Rightarrow> py_value" where
  "durability ep = dget_or ep ''durability'' (PStr ''VOLATILE'')"

definition dur_order :: "(py_value \<times> nat) list" where
  "dur_order = [(PStr ''VOLATILE'', 0), (PStr ''TRANSIENT_LOCAL'', 1), (PStr ''TRANSIENT'', 2), (PStr ''PERSISTENT'', 3)]"

definition qos_errors :: "endpoint \<times> endpoint \<Rightarrow> string list" where
  "qos_errors wr = (case wr of (w, r) \<Rightarrow>
     (if reliability w = PStr ''BEST_EFFORT'' \<and> reliability r = PStr ''RELIABLE''
      then [''Incompatible Reliability: Writer is BEST_EFFORT but Reader requested RELIABLE''] else [])
     @ (if dget_or dur_order (durability w) 0 < dget_or dur_order (durability r) 0
        then [''Incompatible Durability: Writer offered '' @ py_str (durability w) @ '' but Reader requested '' @ py_str (durability r)]
        else []))"

definition pairing_line :: "endpoint \<times> endpoint \<Rightarrow> string" where
  "pairing_line wr = (case wr of (w, r) \<Rightarrow>
     ''Pairing Writer ('' @ field ''endpoint_guid'' w @ '') ['' @ py_str (reliability w) @ '', '' @ py_str (durability w)
     @ ''] vs Reader ('' @ field ''endpoint_guid'' r @ '') ['' @ py_str (reliability r) @ '', '' @ py_str (durability r) @ '']'')"

definition qos_case :: "endpoint list \<Rightarrow> junit_case" where
  "qos_case eps =
     (let pairs = List.product (writers eps) (readers eps) in
      junit_case ''Test_SEDP_QoS_Compatibility'' (1 / 20)
        (''Evaluating QoS profiles between DataWriter and DataReader:''
         # (if writers eps \<noteq> [] \<and> readers eps \<noteq> [] then map pairing_line pairs
            else [''Single-sided endpoint or no paired endpoints detected in capture window.'']))
        (concat (map qos_errors pairs)))"

definition xtypes_case :: "endpoint list \<Rightarrow> junit_case" where
  "xtypes_case eps =
     junit_case ''Test_SEDP_Type_Information'' (1 / 20)
       [''XTypes TypeInformation/TypeObject detected: ''
        @ (if list_ex (\<lambda>ep. named ep ''has_type_object'') eps then ''Yes'' else ''No (Standard CDR)'')] []"

definition discovery_suite_title :: "string option \<Rightarrow> string option \<Rightarrow> string" where
  "discovery_suite_title pub sub =
     (case (pub, sub) of
        (Some (p # ps), Some (s # ss)) \<Rightarrow> ''rtps_discovery_'' @ (p # ps) @ ''---'' @ (s # ss)
      | _ \<Rightarrow> ''rtps_discovery_report'')"

definition generate_junit_report ::
    "(py_value list \<Rightarrow> string) \<Rightarrow> junit_suite list \<Rightarrow> discovery_summary \<Rightarrow> string option \<Rightarrow> string option \<Rightarrow> int
      \<Rightarrow> string option \<Rightarrow> string option \<Rightarrow> junit_suite list" where
  "generate_junit_report show_set existing summary pub sub expected topic typ =
     (let ps = participants summary; eps = endpoints summary in
      existing @ [(discovery_suite_title pub sub,
        [participant_case expected ps, version_case ps, vendor_case ps, builtin_case ps,
         sedp_case show_set topic typ eps, qos_case eps, xtypes_case eps])])"

section \<open>The run\<close>

definition digit_run :: "nat \<Rightarrow> re" where "digit_run n = Seqs (replicate n (Chr CDigit))"   \<comment> \<open>\<open>\\d{n}\<close>\<close>

definition stamp_re :: re where
  "stamp_re = Seqs [Grp 1 (digit_run 4), Lit ''-'', Grp 2 (digit_run 2), Lit ''-'', Grp 3 (digit_run 2), Lit ''-'', Grp 4 (Rep True CDot)]"

definition get_current_timestamp :: "string option \<Rightarrow> string \<Rightarrow> string" where   \<comment> \<open>of the file's text and the clock\<close>
  "get_current_timestamp file now =
     (case file of
        None \<Rightarrow> now
      | Some txt \<Rightarrow>
          (let content = py_strip txt in
           if content = [] then now
           else (case re_match stamp_re content of
                   Some (w, caps, []) \<Rightarrow>
                     concat (map (\<lambda>i. dget_or caps i []) [1, 2, 3]) @ ''-'' @ dget_or caps 4 []
                 | _ \<Rightarrow> content)))"

definition locator_json :: "locator \<Rightarrow> py_value" where
  "locator_json l = (case l of (kind, ip, p) \<Rightarrow>
     PDict [(''type'', PStr kind), (''ip'', PStr ip), (''port'', case p of Port n \<Rightarrow> PInt n | Port_Text s \<Rightarrow> PStr s)])"

definition participant_json :: "participant \<Rightarrow> py_value" where
  "participant_json p = PDict
     [(''guid_prefix'', PStr (guid_prefix p)), (''src_ip'', src_ip p), (''vendor_id'', PStr (vendor_id p)),
      (''vendor_name'', PStr (vendor_name p)), (''protocol_version'', PStr (protocol_version p)),
      (''lease_duration_sec'', PFloat (lease_duration_sec p)),
      (''builtin_endpoints_mask'', PStr (builtin_endpoints_mask p)),
      (''builtin_endpoints_flags'', PList (map PStr (builtin_endpoints_flags p))),
      (''locators'', PList (map locator_json (locators p)))]"

definition summary_json :: "discovery_summary \<Rightarrow> py_value" where
  "summary_json s = PDict
     [(''metadata'', PDict (metadata s)),
      (''participants'', PDict (map (\<lambda>(g, p). (g, participant_json p)) (participants s))),
      (''endpoints'', PList (map PDict (endpoints s)))]"

record sniffer_args =
  sn_interface :: string
  sn_timestamp :: string   \<comment> \<open>given, or the current one\<close>
  sn_publisher :: "string option"
  sn_subscriber :: "string option"
  sn_expected :: int
  sn_topic :: "string option"
  sn_type :: "string option"

fun given :: "string option \<Rightarrow> bool" where
  "given (Some (c # s)) = True"
| "given _ = False"

definition pair_key :: "sniffer_args \<Rightarrow> string" where
  "pair_key args =
     (if given (sn_publisher args) \<and> given (sn_subscriber args)
      then the (sn_publisher args) @ ''---'' @ the (sn_subscriber args) else ''run_'' @ sn_timestamp args)"

definition with_metadata :: "sniffer_args \<Rightarrow> discovery_summary \<Rightarrow> discovery_summary" where
  "with_metadata args s =
     (let m = dset ''timestamp'' (PStr (sn_timestamp args)) (dset ''interface'' (PStr (sn_interface args)) (metadata s));
          m = (if given (sn_publisher args) then dset ''publisher'' (PStr (the (sn_publisher args))) m else m);
          m = (if given (sn_subscriber args) then dset ''subscriber'' (PStr (the (sn_subscriber args))) m else m) in
      s\<lparr>metadata := m\<rparr>)"

definition first_key :: "py_value \<Rightarrow> string res" where
  "first_key existing =
     rbind (value_get existing ''metadata'' (PDict [])) (\<lambda>m.
     rbind (value_get m ''publisher'' (PStr [])) (\<lambda>pub.
     rbind (value_get m ''subscriber'' (PStr [])) (\<lambda>sub.
       Inr (if truthy pub \<and> truthy sub then py_str pub @ ''---'' @ py_str sub else ''run_1''))))"

text \<open>The value to write; any exception leads to the summary alone.\<close>

definition merge_runs :: "sniffer_args \<Rightarrow> py_value option \<Rightarrow> py_value \<Rightarrow> py_value" where
  "merge_runs args existing summary =
     (case existing of
        Some (PDict d) \<Rightarrow>
          (case dget d ''runs'' of
             Some (PDict runs) \<Rightarrow> PDict (dset ''runs'' (PDict (dset (pair_key args) summary runs)) d)
           | Some _ \<Rightarrow> summary   \<comment> \<open>\<open>TypeError\<close>\<close>
           | None \<Rightarrow>
               (case first_key (PDict d) of
                  Inl _ \<Rightarrow> summary
                | Inr k \<Rightarrow> PDict
                    [(''metadata'', PDict [(''timestamp'', PStr (sn_timestamp args))]),
                     (''runs'', PDict (dset (pair_key args) summary [(k, PDict d)]))]))
      | _ \<Rightarrow> summary)"

definition summary_console :: "discovery_summary \<Rightarrow> string list" where
  "summary_console s =
     [[], ''==================== Discovery Summary ===================='',
      ''Discovered Participants: '' @ show_nat (length (participants s))]
     @ map (\<lambda>(guid, p). ''  - ['' @ vendor_name p @ ''] GUID: '' @ guid @ '' (IP: '' @ py_str (src_ip p)
          @ '', Ver: '' @ protocol_version p @ '')'') (participants s)
     @ [''Discovered Endpoints:    '' @ show_nat (length (endpoints s))]
     @ map (\<lambda>ep. ''  - '' @ field ''entity_kind'' ep @ '': Topic='' @ [CHR 0x27] @ field ''topic_name'' ep @ [CHR 0x27]
          @ '' Type='' @ [CHR 0x27] @ field ''type_name'' ep @ [CHR 0x27]
          @ '' (QoS: '' @ field ''reliability'' ep @ '', '' @ field ''durability'' ep @ '')'') (endpoints s)
     @ [''==========================================================='', []]"

definition run_discovery_sniffer ::
    "(py_value list \<Rightarrow> string) \<Rightarrow> string \<Rightarrow> sniffer_args \<Rightarrow> py_value list \<Rightarrow> py_value option \<Rightarrow> junit_suite list
      \<Rightarrow> (py_value \<times> junit_suite list \<times> string list) res" where
  "run_discovery_sniffer show_set now args raw_packets existing_json existing_suites =
     rbind (parse_discovery_data now raw_packets) (\<lambda>parsed.
       let summary = with_metadata args parsed in Inr
         (merge_runs args existing_json (summary_json summary),
          generate_junit_report show_set existing_suites summary (sn_publisher args) (sn_subscriber args)
            (sn_expected args) (sn_topic args) (sn_type args),
          summary_console summary))"

end
