(* ===== verification/Xlsx_Data.thy ===== *)
theory Xlsx_Data
  imports Regex Py_Float
begin

text \<open>
  \<open>generate_xlsx_report.py\<close>: the names of products and companies and the data that is collected from a JUnit
  report (\<open>JunitData\<close>).  The report is given as what \<open>junitparser\<close> reads from it: suites with their counts and
  cases with their results.
\<close>

datatype TestStatus = PASSED | FAILED | PUB_UNSUPPORTED | SUB_UNSUPPORTED | PUB_SUB_UNSUPPORTED

section \<open>Products\<close>

definition has :: "string \<Rightarrow> string \<Rightarrow> bool" where "has product u \<longleftrightarrow> str_in u (py_lower product)"

definition get_company_name :: "string \<Rightarrow> string res" where
  "get_company_name product =
     (if has product ''connext'' then Inr ''Real-Time Innovations (RTI)''
      else if has product ''opendds'' then Inr ''OpenDDS Foundation''
      else if has product ''coredx'' then Inr ''Twin Oaks Computing, Inc''
      else if has product ''intercom'' then Inr ''Kongsberg''
      else if has product ''fastdds'' then Inr ''eProsima''
      else if has product ''dust'' then Inr ''S2E Software Systems''
      else if has product ''hdds'' then Inr ''Naskel''
      else if has product ''cyclone'' then Inr ''Eclipse Foundation''
      else if has product ''zzdds'' \<or> has product ''zenzen'' then Inr ''Zenzen IoT''
      else Inl (RuntimeError (''Impossible to get company name: '' @ product)))"

definition version_re :: re where "version_re = Grp 1 (Plus (COr CDigit (CChar (CHR ''.''))))"

definition product_version :: "string \<Rightarrow> string" where   \<comment> \<open>with a blank, or empty\<close>
  "product_version product =
     (case re_search version_re product of None \<Rightarrow> [] | Some m \<Rightarrow> '' '' @ (case group m 1 of Some v \<Rightarrow> v | None \<Rightarrow> []))"

definition beautified :: "string \<Rightarrow> string option" where   \<comment> \<open>the name of a known product\<close>
  "beautified product =
     (if has product ''connext'' \<and> has product ''micro'' then Some ''Connext DDS Micro''
      else if has product ''connext'' then Some ''Connext DDS''
      else if has product ''opendds'' then Some ''OpenDDS''
      else if has product ''coredx'' then Some ''CoreDX DDS''
      else if has product ''intercom'' then Some ''InterCOM DDS''
      else if has product ''fastdds'' then Some ''FastDDS''
      else if has product ''dust_dds'' then Some ''Dust DDS''
      else if has product ''hdds'' then Some ''HDDS''
      else if has product ''cyclone'' then Some ''Cyclone DDS''
      else if has product ''zzdds'' then Some ''Zenzen DDS''
      else None)"

definition get_product_name :: "string \<Rightarrow> string" where
  "get_product_name product =
     (case beautified product of Some name \<Rightarrow> py_strip (name @ product_version product) | None \<Rightarrow> product)"

section \<open>The report\<close>

record xcase =
  xc_name :: string
  xc_messages :: "string option list"   \<comment> \<open>of the results\<close>
  xc_passed :: bool   \<comment> \<open>\<open>is_passed\<close>\<close>

record xsuite =
  xs_name :: string
  xs_tests :: int
  xs_failures :: int
  xs_skipped :: int
  xs_errors :: int
  xs_cases :: "xcase list"

record aggregated =   \<comment> \<open>\<open>JunitAggregatedData\<close>\<close>
  passed_tests :: int
  total_tests :: int
  unsupported_tests :: int

definition get_supported_tests :: "aggregated \<Rightarrow> int" where
  "get_supported_tests a = total_tests a - unsupported_tests a"

type_synonym entry = "string \<times> string \<times> TestStatus"   \<comment> \<open>\<open>JunitTestCaseAggregatedData\<close>: product, test name, status\<close>

record junit_data =
  summary_dict :: "(string, aggregated) dict"
  product_summary_dict :: "(string \<times> string, aggregated) dict"
  publisher_product_dict :: "(string, entry list) dict"
  subscriber_product_dict :: "(string, entry list) dict"

definition update_value_aggregated_data_dict :: "'k \<Rightarrow> aggregated \<Rightarrow> ('k, aggregated) dict \<Rightarrow> ('k, aggregated) dict" where
  "update_value_aggregated_data_dict key val d =
     (case dget d key of
        Some a \<Rightarrow> dset key
          \<lparr>passed_tests = passed_tests a + passed_tests val, total_tests = total_tests a + total_tests val,
           unsupported_tests = unsupported_tests a + unsupported_tests val\<rparr> d
      | None \<Rightarrow> dset key val d)"

definition update_value_to_product_dict :: "string \<Rightarrow> entry \<Rightarrow> (string, entry list) dict \<Rightarrow> (string, entry list) dict" where
  "update_value_to_product_dict key val d = dset key (dget_or d key [] @ [val]) d"

definition pair_re :: re where   \<comment> \<open>\<open>([\\S]+)\\-\\-\\-([\\S]+)\<close>\<close>
  "pair_re = Seqs [Grp 1 (Plus (CNot CSpace)), Lit ''---'', Grp 2 (Plus (CNot CSpace))]"

definition test_re :: re where   \<comment> \<open>\<open>((?:Test_)[\\S]+_\\d+)\<close>\<close>
  "test_re = Grp 1 (Seqs [Lit ''Test_'', Plus (CNot CSpace), Lit ''_'', Plus CDigit])"

definition suite_products :: "string \<Rightarrow> string \<times> string" where
  "suite_products name =
     (case re_search pair_re name of
        Some m \<Rightarrow> (get_product_name (the (group m 1)), get_product_name (the (group m 2)))
      | None \<Rightarrow> (get_product_name name, get_product_name name))"

definition short_name :: "string \<Rightarrow> string" where
  "short_name name = (case re_search test_re name of Some m \<Rightarrow> the (group m 1) | None \<Rightarrow> name)"

definition mentions :: "xcase \<Rightarrow> string \<Rightarrow> bool res" where
  "mentions c u =
     (case xc_messages c of
        [] \<Rightarrow> Inr False
      | None # _ \<Rightarrow> Inl AttributeError
      | Some message # _ \<Rightarrow> Inr (str_in u (py_upper message)))"

definition status_of :: "xcase \<Rightarrow> bool \<Rightarrow> bool \<Rightarrow> TestStatus" where
  "status_of c is_pub_unsupported is_sub_unsupported =
     (if xc_passed c then PASSED
      else if is_pub_unsupported \<and> is_sub_unsupported then PUB_SUB_UNSUPPORTED
      else if is_pub_unsupported then PUB_UNSUPPORTED
      else if is_sub_unsupported then SUB_UNSUPPORTED
      else FAILED)"

definition add_case :: "string \<Rightarrow> string \<Rightarrow> xcase \<Rightarrow> junit_data \<times> int \<Rightarrow> (junit_data \<times> int) res" where
  "add_case pub sub c st = (case st of (d, unsupported) \<Rightarrow>
     rbind (mentions c ''PUB_UNSUPPORTED_FEATURE'') (\<lambda>p.
     rbind (mentions c ''SUB_UNSUPPORTED_FEATURE'') (\<lambda>s.
       let status = status_of c p s; test_name = short_name (xc_name c) in Inr
         (d\<lparr>publisher_product_dict := update_value_to_product_dict pub (sub, test_name, status) (publisher_product_dict d),
            subscriber_product_dict := update_value_to_product_dict sub (pub, test_name, status) (subscriber_product_dict d)\<rparr>,
          if p \<or> s then unsupported + 1 else unsupported))))"

definition element :: "xsuite \<Rightarrow> int \<Rightarrow> aggregated" where
  "element suite unsupported =
     \<lparr>passed_tests = xs_tests suite - xs_failures suite - xs_skipped suite - xs_errors suite,
      total_tests = xs_tests suite, unsupported_tests = unsupported\<rparr>"

definition add_suite :: "xsuite \<Rightarrow> junit_data \<Rightarrow> junit_data res" where
  "add_suite suite d = (case suite_products (xs_name suite) of (pub, sub) \<Rightarrow>
     rbind (rfold (add_case pub sub) (xs_cases suite) (d, 0)) (\<lambda>(d, unsupported).
       let e = element suite unsupported;
           summary = update_value_aggregated_data_dict pub e (summary_dict d) in Inr
         (d\<lparr>summary_dict := (if pub \<noteq> sub then update_value_aggregated_data_dict sub e summary else summary),
            product_summary_dict := update_value_aggregated_data_dict (pub, sub) e (product_summary_dict d)\<rparr>)))"

definition no_data :: junit_data where
  "no_data = \<lparr>summary_dict = [], product_summary_dict = [], publisher_product_dict = [], subscriber_product_dict = []\<rparr>"

definition get_info :: "xsuite list \<Rightarrow> junit_data res" where
  "get_info xml = rfold add_suite xml no_data"

end
