(* ===== verification/Xlsx_Report.thy ===== *)
theory Xlsx_Report
  imports Xlsx_Data
begin

text \<open>
  \<open>generate_xlsx_report.py\<close>: the workbook (\<open>XlsxReport\<close>) and \<open>main\<close>.  The calls of \<open>xlsxwriter\<close> are the output: a workbook
  is the list of its formats and of its worksheets, each with the calls made on it, in order.  Rows and
  columns count from 0, as in the library.  A format is referred to by its name.
\<close>

section \<open>Calls\<close>

datatype cell_value = Text string | Number int

datatype sheet_op =
    Write nat nat cell_value "string option"   \<comment> \<open>row, column, value, format\<close>
  | Merge nat nat nat nat string string   \<comment> \<open>first row and column, last row and column\<close>
  | Url nat nat string string
  | Image nat nat string
  | Set_Column nat nat int
  | Autofit
  | Set_Zoom int

datatype format_property = Flag bool | Size int | Name string

record workbook =
  wb_size :: "int \<times> int"
  wb_formats :: "(string \<times> (string \<times> format_property) list) list"
  wb_sheets :: "(string \<times> sheet_op list) list"

section \<open>Formats\<close>

definition GREEN :: string where "GREEN = ''#4EB168''"
definition LIME :: string where "LIME = ''#86A336''"
definition YELLOW :: string where "YELLOW = ''#B58F19''"
definition ORANGE :: string where "ORANGE = ''#DB722e''"
definition RED :: string where "RED = ''#F2505A''"

definition result_format :: "string \<Rightarrow> (string \<times> format_property) list" where
  "result_format color =
     [(''bg_color'', Name color), (''bold'', Flag True), (''border'', Size 1), (''align'', Name ''center''), (''valign'', Name ''vcenter'')]"

definition add_formats :: "(string \<times> (string \<times> format_property) list) list" where
  "add_formats =
     [(''title'', [(''bold'', Flag True), (''font_size'', Size 36), (''text_wrap'', Flag False)]),
      (''subtitle'', [(''font_size'', Size 26)]),
      (''product_title'', [(''bold'', Flag True), (''align'', Name ''center''), (''valign'', Name ''vcenter''), (''font_size'', Size 16), (''text_wrap'', Flag False)]),
      (''product_subtitle'', [(''bold'', Flag True), (''align'', Name ''center''), (''valign'', Name ''vcenter'')]),
      (''bold'', [(''bold'', Flag True)]),
      (''bold_w_border'', [(''bold'', Flag True), (''border'', Size 1)]),
      (''result_green'', result_format GREEN), (''result_lime'', result_format LIME), (''result_yellow'', result_format YELLOW),
      (''result_orange'', result_format ORANGE), (''result_red'', result_format RED)]"

text \<open>The quotient is the correctly rounded one of Python's true division; a negative count keeps its sign.\<close>

definition ratio_of :: "int \<Rightarrow> int \<Rightarrow> rat" where
  "ratio_of index num = (let q = fl (of_int \<bar>index\<bar> / of_int \<bar>num\<bar>) in if (index < 0) \<noteq> (num < 0) then - q else q)"

definition get_format_color :: "int \<Rightarrow> int \<Rightarrow> string" where
  "get_format_color index num_elements =
     (if num_elements = 0 then ''result_red''
      else (let ratio = ratio_of index num_elements in
            if ratio < 1 / 4 then ''result_red''
            else if ratio < 1 / 2 then ''result_orange''
            else if ratio < 3 / 4 then ''result_yellow''
            else if ratio < 1 then ''result_lime''
            else ''result_green''))"

definition get_format_color_test_status :: "TestStatus \<Rightarrow> string" where
  "get_format_color_test_status status =
     (case status of PASSED \<Rightarrow> ''result_green'' | FAILED \<Rightarrow> ''result_red'' | _ \<Rightarrow> ''result_yellow'')"

section \<open>The table of a product\<close>

definition str_result :: "TestStatus \<Rightarrow> string" where
  "str_result status =
     (case status of
        PASSED \<Rightarrow> ''OK'' | FAILED \<Rightarrow> ''ERROR'' | PUB_UNSUPPORTED \<Rightarrow> ''PUB UNSUPPORTED''
      | SUB_UNSUPPORTED \<Rightarrow> ''SUB UNSUPPORTED'' | PUB_SUB_UNSUPPORTED \<Rightarrow> ''PUB/SUB UNSUPPORTED'')"

record table_state =
  ts_ops :: "sheet_op list"
  current_row :: nat
  current_column :: nat
  row_dict :: "(string, nat) dict"
  column_dict :: "(string, nat) dict"

definition border :: "string option" where "border = Some ''bold_w_border''"

definition place_product :: "nat \<Rightarrow> string \<Rightarrow> table_state \<Rightarrow> nat \<times> table_state" where
  "place_product subscriber_row product st =
     (case dget (column_dict st) product of
        Some column \<Rightarrow> (column, st)
      | None \<Rightarrow>
          (let column = current_column st + 1 in
           (column, st\<lparr>ts_ops := ts_ops st @ [Write subscriber_row column (Text product) border],
              current_column := column, column_dict := dset product column (column_dict st)\<rparr>)))"

definition place_test :: "bool \<Rightarrow> nat \<Rightarrow> string \<Rightarrow> table_state \<Rightarrow> nat \<times> table_state" where
  "place_test print_test_name test_column test_name st =
     (case dget (row_dict st) test_name of
        Some row \<Rightarrow> (row, st)
      | None \<Rightarrow>
          (let row = current_row st + 1 in
           (row, st\<lparr>ts_ops := ts_ops st @ (if print_test_name then [Write row test_column (Text test_name) border] else []),
              current_row := row, row_dict := dset test_name row (row_dict st)\<rparr>)))"

definition add_element :: "nat \<Rightarrow> nat \<Rightarrow> bool \<Rightarrow> entry \<Rightarrow> table_state \<Rightarrow> table_state" where
  "add_element starting_row starting_column print_test_name e st = (case e of (product, test_name, status) \<Rightarrow>
     case place_product starting_row product st of (column, st) \<Rightarrow>
     case place_test print_test_name starting_column test_name st of (row, st) \<Rightarrow>
       st\<lparr>ts_ops := ts_ops st @ [Write row column (Text (str_result status)) (Some (get_format_color_test_status status))]\<rparr>)"

definition start_table :: "nat \<Rightarrow> nat \<Rightarrow> bool \<Rightarrow> table_state" where
  "start_table starting_row starting_column print_test_name =
     \<lparr>ts_ops = (if print_test_name then [Write starting_row starting_column (Text ''Test'') border] else []),
      current_row = starting_row, current_column = starting_column, row_dict = [], column_dict = []\<rparr>"

definition add_product_table :: "nat \<Rightarrow> nat \<Rightarrow> entry list \<Rightarrow> bool \<Rightarrow> table_state" where
  "add_product_table starting_row starting_column entries print_test_name =
     fold (add_element starting_row starting_column print_test_name) entries (start_table starting_row starting_column print_test_name)"

definition wide_or_single :: "nat \<Rightarrow> nat \<Rightarrow> nat \<Rightarrow> string \<Rightarrow> sheet_op" where
  "wide_or_single row first_column last_column title =
     (if last_column > first_column then Merge row first_column row last_column title ''product_title''
      else Write row first_column (Text title) (Some ''product_title''))"

text \<open>
  The titles over the two tables.  The last column of the publisher table is not assigned when there is no
  subscriber, which Python reports with an \<open>UnboundLocalError\<close>.
\<close>

definition unbound_local :: py_error where "unbound_local = RuntimeError ''UnboundLocalError''"

definition add_static_data_test :: "string \<Rightarrow> nat \<Rightarrow> nat \<Rightarrow> sheet_op list res" where
  "add_static_data_test product_name pub_product_count sub_product_count =
     (if sub_product_count = 0 \<or> pub_product_count = 0 then Inl unbound_local
      else (let last_publisher = 1 + sub_product_count; last_subscriber = last_publisher + 1 + pub_product_count in Inr
        [wide_or_single 0 2 last_publisher (''Publisher: '' @ product_name),
         wide_or_single 1 2 last_publisher ''Subscriber (next row): '',
         wide_or_single 0 (last_publisher + 2) last_subscriber (''Subscriber: '' @ product_name),
         wide_or_single 1 (last_publisher + 2) last_subscriber ''Publisher (next row): '']))"

definition product_sheet :: "junit_data \<Rightarrow> string \<times> entry list \<Rightarrow> (string \<times> sheet_op list) res" where
  "product_sheet d ne = (case ne of (name, entries) \<Rightarrow>
     let starting_row = 2; pub = add_product_table starting_row 1 entries True;
         sub = (case dget (subscriber_product_dict d) name of
                  Some es \<Rightarrow> ts_ops (add_product_table starting_row (current_column pub + 1) es False)
                | None \<Rightarrow> []) in
     rbind (add_static_data_test name (length (publisher_product_dict d)) (length (subscriber_product_dict d))) (\<lambda>titles. Inr
       (take 31 name,
        [Set_Zoom 130] @ ts_ops pub @ [Set_Column (current_column pub + 1) (current_column pub + 1) 4] @ sub @ [Autofit] @ titles)))"

definition add_data_test_worksheet :: "junit_data \<Rightarrow> (string \<times> sheet_op list) list res" where
  "add_data_test_worksheet d = rmap (product_sheet d) (publisher_product_dict d)"

section \<open>The summary\<close>

definition show_integer :: "int \<Rightarrow> string" where
  "show_integer i = (if i < 0 then ''-'' @ show_nat (nat (- i)) else show_nat (nat i))"

definition counts_text :: "aggregated \<Rightarrow> string" where
  "counts_text a = show_integer (passed_tests a) @ '' / '' @ show_integer (get_supported_tests a) @ '' / '' @ show_integer (total_tests a)"

definition counts_cell :: "nat \<Rightarrow> nat \<Rightarrow> aggregated \<Rightarrow> sheet_op" where
  "counts_cell row column a = Write row column (Text (counts_text a)) (Some (get_format_color (passed_tests a) (total_tests a)))"

definition coverage_cells :: "junit_data \<Rightarrow> nat \<Rightarrow> nat \<Rightarrow> string \<Rightarrow> sheet_op list" where
  "coverage_cells d row column product =
     map (\<lambda>(_, a). counts_cell row column a)
       (filter (\<lambda>((p, s), a). product = p \<and> product = s) (product_summary_dict d))"

definition product_rows :: "junit_data \<Rightarrow> nat \<Rightarrow> nat \<Rightarrow> nat \<times> string \<Rightarrow> sheet_op list res" where
  "product_rows d starting_row column ip = (case ip of (i, product) \<Rightarrow>
     let row = starting_row + i in
     rbind (get_company_name product) (\<lambda>company. Inr
       ([Write row column (Text company) border, Write row (column + 1) (Text product) border]
        @ coverage_cells d row (column + 2) product)))"

text \<open>The table of the pairs places its publishers in rows and its subscribers in columns, as the table of a product does.\<close>

definition add_pair :: "nat \<Rightarrow> (string \<times> string) \<times> aggregated \<Rightarrow> table_state \<Rightarrow> table_state" where
  "add_pair subscriber_row pa st = (case pa of ((publisher, subscriber), a) \<Rightarrow>
     case place_test True 1 publisher st of (row, st) \<Rightarrow>
     case place_product subscriber_row subscriber st of (column, st) \<Rightarrow>
       st\<lparr>ts_ops := ts_ops st @ [counts_cell row column a]\<rparr>)"

definition pair_table :: "junit_data \<Rightarrow> nat \<Rightarrow> nat \<Rightarrow> table_state" where
  "pair_table d row column =
     fold (add_pair row) (product_summary_dict d)
       \<lparr>ts_ops = [Write row column (Text ''Publisher (row)/Subscriber (column)'') border],
        current_row = row, current_column = column, row_dict = [], column_dict = []\<rparr>"

definition add_data_summary_worksheet :: "junit_data \<Rightarrow> nat \<Rightarrow> nat \<Rightarrow> sheet_op list res" where
  "add_data_summary_worksheet d row column =
     rbind (rmap (product_rows d (row + 1) column) (enumerate 0 (map fst (summary_dict d)))) (\<lambda>rows. Inr
       ([Write row column (Text ''Company'') border, Write row (column + 1) (Text ''Product'') border,
         Write row (column + 2) (Text ''Single-Product Tests'') border]
        @ concat rows
        @ ts_ops (pair_table d (row + 1 + length (summary_dict d) + 2) column)))"

definition unique_tests :: "junit_data \<Rightarrow> int" where
  "unique_tests d =
     (case find (\<lambda>((p, s), a). p = s) (product_summary_dict d) of Some (_, a) \<Rightarrow> total_tests a | None \<Rightarrow> 0)"

definition add_static_data_summary_worksheet :: "junit_data \<Rightarrow> string option \<Rightarrow> string \<Rightarrow> string \<Rightarrow> sheet_op list" where
  "add_static_data_summary_worksheet d runner folder date_time =
     [Write 0 1 (Text ''RTPS Interoperability tests'') (Some ''title''),
      Write 1 1 (Text ''Summary'') (Some ''subtitle''),
      Image 3 1 ((if folder = [] then [] else folder @ ''/'') @ ''resource/DDS-logo.jpg''),
      Write 3 2 (Text ''Date'') None, Write 3 3 (Text date_time) None,
      Write 4 2 (Text ''Hosted machine'') None,
      Write 4 3 (Text (case runner of Some (c # r) \<Rightarrow> c # r | _ \<Rightarrow> ''ubuntu-latest'')) None,
      Write 5 2 (Text ''Repo'') None, Write 5 3 (Text ''https://github.com/omg-dds/dds-rtps'') None,
      Write 6 2 (Text ''Documentation'') None, Write 6 3 (Text ''https://omg-dds.github.io/dds-rtps/'') None,
      Write 7 2 (Text ''Unique tests count'') None, Write 7 3 (Number (unique_tests d)) None,
      Write 9 2 (Text ''Single-Product Tests'') (Some ''bold''),
      Write 9 3 (Text ''Results where each product is tested only with itself'') None,
      Write 10 2 (Text ''Format X / Y / Z'') (Some ''bold''),
      Write 10 3 (Text ''Represents test passed / supported / total'') None]"

definition create_summary_worksheet :: "junit_data \<Rightarrow> string option \<Rightarrow> string \<Rightarrow> string \<Rightarrow> (string \<times> sheet_op list) res" where
  "create_summary_worksheet d runner folder date_time =
     rbind (add_data_summary_worksheet d 13 1) (\<lambda>cells. Inr
       (''Summary'', [Set_Zoom 130] @ cells @ [Autofit] @ add_static_data_summary_worksheet d runner folder date_time))"

section \<open>The descriptions\<close>

definition add_static_data_description_worksheet :: "sheet_op list" where
  "add_static_data_description_worksheet =
     [Write 0 1 (Text ''Test Name'') (Some ''product_subtitle''), Write 0 2 (Text ''Test Title'') (Some ''product_subtitle''),
      Url 0 3 ''https://omg-dds.github.io/dds-rtps/test_description.html'' ''Click here for full test descriptions'']"

definition add_test_name_description_worksheet :: "(string \<times> string) list \<Rightarrow> sheet_op list" where
  "add_test_name_description_worksheet suite =
     map (\<lambda>(i, (name, _)). Write (1 + i) 1 (Text name) (Some ''bold'')) (enumerate 0 suite)"

definition add_title_description_worksheet :: "(string \<times> string) list \<Rightarrow> sheet_op list" where
  "add_title_description_worksheet suite = map (\<lambda>(i, (_, title)). Write (1 + i) 2 (Text title) None) (enumerate 0 suite)"

definition create_description_worksheet :: "(string \<times> string) list \<Rightarrow> string \<times> sheet_op list" where
  "create_description_worksheet suite =
     (''Test Descriptions'',
      [Set_Zoom 130] @ add_static_data_description_worksheet @ add_test_name_description_worksheet suite
      @ [Autofit] @ add_title_description_worksheet suite)"

definition xlsx_report :: "junit_data \<Rightarrow> (string \<times> string) list \<Rightarrow> string option \<Rightarrow> string \<Rightarrow> string \<Rightarrow> workbook res" where
  "xlsx_report d suite runner folder date_time =
     rbind (create_summary_worksheet d runner folder date_time) (\<lambda>summary.
     rbind (add_data_test_worksheet d) (\<lambda>products. Inr
       \<lparr>wb_size = (2000, 1500), wb_formats = add_formats,
        wb_sheets = [summary, create_description_worksheet suite] @ products\<rparr>))"

section \<open>\<open>main\<close>\<close>

text \<open>\<open>os.path.splitext(path)[1].lower()[1:]\<close>: the text after the last dot of the name, if the name does not begin with it.\<close>

definition get_file_extension :: "string \<Rightarrow> string" where
  "get_file_extension path =
     (let name = after_last (CHR ''/'') path; suffix = after_last (CHR ''.'') name; i = length name - Suc (length suffix) in
      if CHR ''.'' \<in> set name \<and> \<not> list_all (\<lambda>c. c = CHR ''.'') (take i name) then py_lower suffix else [])"

definition choose_runner :: "string option \<Rightarrow> string option list \<Rightarrow> string option \<Rightarrow> string option \<Rightarrow> string option" where
  "choose_runner given files environment name =
     (let truthy = (\<lambda>r. case r of Some (c # s) \<Rightarrow> True | _ \<Rightarrow> False);
          stripped = map py_strip (List.map_filter id files);
          read = (case find (\<lambda>s. s \<noteq> []) stripped of Some s \<Rightarrow> Some s
                  | None \<Rightarrow> if stripped = [] then given else Some []) in
      if truthy given then given
      else if truthy read then read
      else if truthy environment then environment else name)"

text \<open>On resolved paths; the runner comes from the option, the files \<open>runner_env\<close> or the environment.\<close>

definition generate_xlsx :: "(string \<Rightarrow> bool) \<Rightarrow> (string \<Rightarrow> bool) \<Rightarrow> string \<Rightarrow> string \<Rightarrow> xsuite list \<Rightarrow> (string \<times> string) list
    \<Rightarrow> string option \<Rightarrow> string \<Rightarrow> string \<Rightarrow> workbook res" where
  "generate_xlsx is_file exists input output xml suite runner folder date_time =
     (if \<not> is_file input \<and> get_file_extension input \<noteq> ''xml''
      then Inl (RuntimeError ''the input is not a file, or the extension is not xml'')
      else if exists output \<or> get_file_extension output \<noteq> ''xlsx''
      then Inl (RuntimeError ''output file already exist or is not pointing to an xlsl file'')
      else rbind (get_info xml) (\<lambda>d. xlsx_report d suite runner folder date_time))"

end
