(* ===== verification/Test_Texts.thy ===== *)
theory Test_Texts
  imports Test_Suite
begin

text \<open>
  \<open>test_suite.py\<close>: the titles and the descriptions of the cases, in the order of the file and grouped by feature.
  A description is given line by line.
\<close>

type_synonym test_text = "string \<times> string \<times> string"   \<comment> \<open>name, title and description\<close>

definition lines_of :: "string list \<Rightarrow> string" where
  "lines_of ls = concat (map (\<lambda>l. l @ [CHR 0x0A]) ls)"

definition quotient :: "nat \<Rightarrow> string" where   \<comment> \<open>\<open>str(MAX_SAMPLES_READ / k)\<close>, a float; the division is exact\<close>
  "quotient k = show_nat (MAX_SAMPLES_READ div k) @ ''.0''"

definition texts_Domain :: "test_text list" where
  "texts_Domain = [
    (''Test_Domain_0'', ''Communication using Domain ID 0'',
     lines_of [
       ''This test covers the most basic interoperability scenario:'',
       [],
       '' * Configures the publisher / subscriber with Domain ID 0'',
       '' * Configures the subscriber with BEST_EFFORT reliability'',
       [],
       ''The tests passes if the publisher and subscriber discover and match each other and the subscriber receives the data from the publisher'']),
    (''Test_Domain_1'', ''No communication between publisher and subscriber in a different Domain IDs'',
     lines_of [
       ''Verifies that there is no communication between a publisher configured with Domain ID 0 and a subscriber configured with Domain ID 1:'',
       [],
       '' * Configures the publisher with Domain ID 0'',
       '' * Configures the subscriber with Domain ID 1'',
       [],
       ''The tests passes if the publisher and subscriber do not discover each other'']),
    (''Test_Domain_2'', ''Communication using Domain ID 1'',
     lines_of [
       ''This test covers interoperability in a non-default Domain ID:'',
       [],
       '' * Configures the publisher / subscriber with Domain ID 1'',
       '' * Configures the subscriber with BEST_EFFORT reliability'',
       '' * Verifies the publisher and subscriber discover and match each other'',
       [],
       ''The tests passes if the subscriber receives samples from the publisher''])]"

definition texts_DataRepresentation :: "test_text list" where
  "texts_DataRepresentation = [
    (''Test_DataRepresentation_0'', ''Default communication using XCDR1'',
     lines_of [
       ''This test covers the interoperability scenario with XCDR1:'',
       [],
       '' * Configures the publisher / subscriber with DATA_REPRESENTATION XCDR version 1'',
       '' * Verifies the publisher and subscriber discover and match each other'',
       [],
       ''The tests passes if the subscriber receives samples from the publisher'']),
    (''Test_DataRepresentation_1'', ''Incompatibility publishing XCDR1 and subscribing XCDR2'',
     lines_of [
       ''Verifies an XDCR1 publisher does not match with an XCDR2 subscriber and report an IncompatibleQos notification'',
       [],
       '' * Configures the publisher with XCDR1 data representation'',
       '' * Configures the subscriber with XCDR2 data representation'',
       [],
       ''The test passes if the listeners trigger the IncompatibleQos notification in the publisher and the subscriber'']),
    (''Test_DataRepresentation_2'', ''Incompatibility publishing XCDR2 and subscribing XCDR1'',
     lines_of [
       ''Verifies an XDCR2 publisher does not match with an XCDR1 subscriber and report an IncompatibleQos notification'',
       [],
       '' * Configures the publisher with XCDR2 data representation'',
       '' * Configures the subscriber with XCDR1 data representation'',
       [],
       ''The test passes if the listeners trigger the IncompatibleQos notification in the publisher and the subscriber'']),
    (''Test_DataRepresentation_3'', ''Default communication using XCDR2'',
     lines_of [
       ''This test covers the interoperability scenario with XCDR2:'',
       [],
       '' * Configures publisher / subscriber with DATA_REPRESENTATION XCDR version 2'',
       '' * Verifies the publisher and subscriber discover and match each other'',
       [],
       ''The tests passes if the subscriber receives samples from the publisher''])]"

definition texts_Reliability :: "test_text list" where
  "texts_Reliability = [
    (''Test_Reliability_0'', ''Communication between BEST_EFFORT publisher and subscriber'',
     lines_of [
       ''Verifies a best effort publisher communicates with a best effort subscriber with no out-of-order or duplicate samples'',
       [],
       '' * Configures the publisher and subscriber with a BEST_EFFORT reliability'',
       '' * Verifies the publisher and subscriber discover and match each other'',
       '' * The publisher application sends samples with increasing value of the \"size\" member'',
       '' * Verifies the subscriber application receives samples and the value of the \"size\" member is always increasing'',
       [],
       ''The test passes if the value of the \"size\" is always increasing in '' @ show_nat MAX_SAMPLES_READ @ '' samples read, even if there are missed samples (since reliability is BEST_EFFORT) as long as there are no out-of-order or duplicated samples'']),
    (''Test_Reliability_1'', ''BEST_EFFORT publisher do not match RELIABLE subscribers'',
     lines_of [
       ''Verifies a best effort publisher does not match with a reliable subscriber and report an IncompatibleQos notification'',
       [],
       '' * Configures the publisher with BEST_EFFORT reliability'',
       '' * Configures the publisher with RELIABLE reliability'',
       [],
       ''The test passes if the listeners trigger the IncompatibleQos notification in the publisher and the subscriber'']),
    (''Test_Reliability_2'', ''Communication between RELIABLE publisher and BEST_EFFORT subscriber'',
     lines_of [
       ''Verifies a reliable publisher communicates with a best effort subscriber'',
       [],
       '' * Configures the publisher with a RELIABLE reliability'',
       '' * Configures the subscriber with a BEST_EFFORT reliability'',
       '' * Verifies the publisher and subscriber discover and match each other'',
       [],
       ''The test passes if the subscriber receives samples from the publisher'']),
    (''Test_Reliability_3'', ''Communication using reliability RELIABLE'',
     lines_of [
       ''Verifies a reliable publisher communicates with a reliable subscriber'',
       [],
       '' * Configures the publisher / subscriber with a RELIABLE reliability'',
       '' * Verifies the publisher and subscriber discover and match each other'',
       [],
       ''The test passes if the subscriber receives samples from the publisher'']),
    (''Test_Reliability_4'', ''Behavior of RELIABLE reliability'',
     lines_of [
       ''Verifies a RELIABLE publisher communicates with a RELIABLE subscriber and samples are received in order without any losses or duplicates'',
       [],
       '' * Configures the publisher and subscriber with a RELIABLE reliability'',
       '' * Configures the publisher and subscriber with history KEEP_ALL'',
       '' * Verifies the publisher and subscriber discover and match each other'',
       [],
       ''The test passes if the subscriber, after receiving a (first) sample from the publisher, it receives the next '' @ show_nat MAX_SAMPLES_READ @ '' subsequent samples read, without losses or duplicates, in the same order as sent'']),
    (''Test_Reliability_5'', ''Behavior of RELIABLE reliability with several instances'',
     lines_of [
       ''Verifies a RELIABLE publisher using 4 instances communicates with a RELIABLE subscriber and samples are received in order without any losses or duplicates'',
       [],
       '' * Configures the publisher and subscriber with a RELIABLE reliability'',
       '' * Configures the publisher and subscriber with history KEEP_ALL'',
       '' * The publisher publishes 4 different instances (using the same data value)'',
       '' * The publisher application sends samples with increasing value of the \"size\" member'',
       '' * Verifies the publisher and subscriber discover and match each other'',
       [],
       ''The test passes if the subscriber, after receiving a (first) sample from the publisher, it receives '' @ show_nat MAX_SAMPLES_READ @ '' subsequent samples per instance, without losses or duplicates, in the same order as sent''])]"

definition texts_History :: "test_text list" where
  "texts_History = [
    (''Test_History_0'', ''Behavior of KEEP_LAST history'',
     lines_of [
       ''Verifies a RELIABLE, KEEP_LAST 5 publisher using communicates with a RELIABLE, KEEP_LAST 5 subscriber and samples are received in order without any losses or duplicates. The subscriber reads data 4 time slower thanthe publisher publishes it, but the KEEP_LAST 5 history should beenough to avoid losses.'',
       [],
       '' * Configures the publisher and subscriber with a RELIABLE reliability'',
       '' * Configures the publisher and subscriber with history KEEP_LAST 5'',
       '' * Configures the publisher with a writing period of 50ms'',
       '' * Configures the subscriber with a reading period of 200ms'',
       '' * The publisher application sends samples with increasing value of the \"size\" member'',
       '' * Verifies the publisher and subscriber discover and match each other'',
       [],
       ''The test passes if the subscriber, after receiving a (first) sample from the publisher, it receives the next '' @ show_nat MAX_SAMPLES_READ @ '' subsequent samples, without losses or duplicates, in the same order as sent.'']),
    (''Test_History_1'', ''Behavior of KEEP_LAST history with several instances'',
     lines_of [
       ''Verifies a RELIABLE, KEEP_LAST 5 publisher using 4 instances communicates with a RELIABLE, KEEP_LAST 5 subscriber and samples are received in order without any losses or duplicates. The subscriber reads data 4 time slower thanthe publisher publishes it, but the KEEP_LAST 5 history should beenough to avoid losses.'',
       [],
       '' * Configures the publisher and subscriber with a RELIABLE reliability'',
       '' * Configures the publisher and subscriber with history KEEP_LAST 5'',
       '' * Configures the publisher with a writing period of 50ms'',
       '' * Configures the subscriber with a reading period of 200ms'',
       '' * The publisher publishes 4 different instances (using the same data value)'',
       '' * The publisher application sends samples with increasing value of the \"size\" member'',
       '' * Verifies the publisher and subscriber discover and match each other'',
       [],
       ''The test passes if the subscriber, after receiving a (first) sample from the publisher, it receives '' @ show_nat MAX_SAMPLES_READ @ '' subsequent samples per instance, without losses or duplicates, in the same order as sent''])]"

definition texts_Ownership :: "test_text list" where
  "texts_Ownership = [
    (''Test_Ownership_0'', ''Communication between SHARED OWNERSHIP publisher and subscriber'',
     lines_of [
       ''Verifies a shared ownership publisher communicates with a shared ownership subscriber'',
       [],
       '' * Configures the publisher / subscriber with SHARED ownership'',
       '' * Verifies the publisher and subscriber discover and match each other'',
       [],
       ''The test passes if the subscriber receives samples from the publisher'']),
    (''Test_Ownership_1'', ''Incompatibility between SHARED OWNERSHIP publisher and EXCLUSIVE OWNERSHIP subscriber'',
     lines_of [
       ''Verifies a shared ownership publisher does not match with an exclusive ownership subscriber and report an IncompatibleQos notification'',
       [],
       '' * Configures the publisher with SHARED ownership'',
       '' * Configures the subscriber with EXCLUSIVE ownership'',
       [],
       ''The test passes if the listeners trigger the IncompatibleQos notification in the publisher and the subscriber'']),
    (''Test_Ownership_2'', ''Incompatibility between EXCLUSIVE OWNERSHIP publisher and SHARED OWNERSHIP subscriber'',
     lines_of [
       ''Verifies a exclusive ownership publisher does not match with an shared ownership subscriber and report an IncompatibleQos notification'',
       [],
       '' * Configures the publisher with EXCLUSIVE ownership'',
       '' * Configures the subscriber with SHARED ownership'',
       [],
       ''The test passes if the listeners trigger the IncompatibleQos notification in the publisher and the subscriber'']),
    (''Test_Ownership_3'', ''Behavior of EXCLUSIVE OWNERSHIP QoS with publishers of the same instance'',
     lines_of [
       ''Verifies an exclusive ownership subscriber receives samples only from the highest ownership strength publisher of the same instance'',
       [],
       '' * Use RELIABLE Qos in all publishers and subscriber to avoid samples losses'',
       '' * Use KEEP_ALL HISTORY Qos in all publishers and subscriber'',
       '' * Configures a first publisher with EXCLUSIVE ownership with strength of 3'',
       '' * Configures the first publisher to publish samples with \"color\" equal to \"BLUE\" and \"size\" equal to 20'',
       '' * Configures a second publisher with EXCLUSIVE ownership and strength of 4'',
       '' * Configures the second publisher to publish samples with \"color\" equal to \"BLUE\"  and \"size\" equal to 30'',
       '' * Configures a subscriber with EXCLUSIVE ownership'',
       '' * Verifies that both publishers discover and match the subscriber and vice-versa'',
       '' * Note that the subscriber may start receiving samples from the lower ownership strength publisher if it is created before the highest strength ownership publisher. This behavior is expected and those samples are ignored'',
       [],
       ''The test passes if the subscriber receives samples from the highest strength publisher only (after receiving the first sample of that publisher. The subscriber reads '' @ show_nat MAX_SAMPLES_READ @ '' samples in total'']),
    (''Test_Ownership_4'', ''Behavior of EXCLUSIVE OWNERSHIP QoS with publishers with different instances'',
     lines_of [
       ''Verifies an exclusive ownership subscriber receives samples from different publishers that publish different instances (ShapeType with different color)'',
       [],
       '' * Use RELIABLE Qos in all publishers and subscriber to avoid samples losses'',
       '' * Use KEEP_ALL HISTORY Qos in all publishers and subscriber'',
       '' * Configures a first publisher with EXCLUSIVE ownership with strength of 3'',
       '' * Configures the first publisher to publish samples with \"color\" equal to \"BLUE\"  and \"size\" equal to 20'',
       '' * Configures a second publisher with EXCLUSIVE ownership and strength of 4'',
       '' * Configures the second publisher to publish samples with \"color\" equal to \"RED\" and \"size\" equal to 30'',
       '' * Configures a subscriber with EXCLUSIVE ownership'',
       '' * Verifies that both publishers discover and match the subscriber and vice-versa'',
       [],
       ''The test passes if the subscriber receives samples from both publishers in the first '' @ show_nat MAX_SAMPLES_READ @ '' samples'']),
    (''Test_Ownership_5'', ''Behavior of SHARED OWNERSHIP QoS with publishers with the same instance'',
     lines_of [
       ''Verifies a shared ownership subscriber receives samples from all shared ownership publishers of the different instances'',
       [],
       '' * Use RELIABLE Qos in all publishers and subscriber to avoid samples losses'',
       '' * Use KEEP_ALL HISTORY Qos in all publishers and subscriber'',
       '' * Configures a first publisher with SHARED ownership'',
       '' * Configures the first publisher to publish samples with \"color\" equal to \"BLUE\" and \"size\" equal to 20'',
       '' * Configures a second publisher with SHARED ownership'',
       '' * Configures the second publisher to publish samples with \"color\" equal to \"BLUE\" and \"size\" equal to 30'',
       '' * Configures a subscriber with SHARED ownership'',
       '' * Verifies that both publishers discover and match the subscriber and vice-versa'',
       [],
       ''The test passes if the subscriber receives samples from both publishers in the first '' @ show_nat MAX_SAMPLES_READ @ '' samples'']),
    (''Test_Ownership_6'', ''Behavior of SHARED OWNERSHIP QoS with different instances'',
     lines_of [
       ''Verifies a shared ownership subscriber receives samples from all shared ownership publishers of different instances'',
       [],
       '' * Use RELIABLE Qos in all publishers and subscriber to avoid samples losses'',
       '' * Use KEEP_ALL HISTORY Qos in all publishers and subscriber'',
       '' * Configures a first publisher with SHARED ownership with strength of 3'',
       '' * Configures the first publisher to publish samples with \"color\" equal to \"BLUE\" and \"size\" equal to 20'',
       '' * Configures a second publisher with SHARED ownership and strength of 4'',
       '' * Configures the second publisher to publish samples with \"color\" equal to \"RED\" and \"size\" equal to 30'',
       '' * Configures a subscriber with SHARED ownership'',
       '' * Verifies that both publishers discover and match the subscriber and vice-versa'',
       [],
       ''The test passes if the subscriber receives samples from both publishers in the first '' @ show_nat MAX_SAMPLES_READ @ '' samples''])]"

definition texts_Deadline :: "test_text list" where
  "texts_Deadline = [
    (''Test_Deadline_0'', ''Communication with publisher deadline smaller than subscriber deadline'',
     lines_of [
       ''Verifies there is communication between a publisher with a deadline smaller than the subscriber'',
       [],
       '' * Configures the publisher with DEADLINE of 3 seconds'',
       '' * Configures the subscriber with DEADLINE of 5 seconds'',
       '' * Verifies the publisher and subscriber discover and match each other'',
       [],
       ''The test passes if the subscriber receives samples from the publisher'']),
    (''Test_Deadline_1'', ''Communication with the same publisher and subscriber deadlines'',
     lines_of [
       ''Verifies there is communication between a publisher with the same deadline as the subscriber'',
       [],
       '' * Configures the publisher with DEADLINE of 5 seconds'',
       '' * Configures the subscriber with DEADLINE of 5 seconds'',
       '' * Verifies the publisher and subscriber discover and match each other'',
       [],
       ''The test passes if the subscriber receives samples from the publisher'']),
    (''Test_Deadline_2'', ''No compatibility with publisher deadline higher than subscriber deadline'',
     lines_of [
       ''Verifies there is no communication between a publisher with a higher deadline than the subscriber and both report an IncompatibleQos notification'',
       [],
       '' * Configures the publisher with DEADLINE of 7 seconds'',
       '' * Configures the publisher with DEADLINE of 5 seconds'',
       [],
       ''The test passes if the listeners trigger the IncompatibleQos notification in the publisher and the subscriber'']),
    (''Test_Deadline_3'', ''Deadline is missed in both, publisher and subscriber'',
     lines_of [
       ''Verifies that publisher and subscriber miss the deadline'',
       [],
       '' * Configures the publisher with DEADLINE of 2 seconds'',
       '' * Configures the subscriber with DEADLINE of 2 seconds'',
       '' * Configures the write period to 3 seconds'',
       '' * Verifies the publisher and subscriber discover and match each other'',
       [],
       ''The test passes if the listeners trigger the DeadlineMissed notification in the publisher and the subscriber''])]"

definition texts_Topic :: "test_text list" where
  "texts_Topic = [
    (''Test_Topic_0'', ''Communication using the same topic: Circle'',
     lines_of [
       ''Verifies communication between a publisher and a subscriber using a specific topic (\"Circle\")'',
       [],
       '' * Configures the publisher and subscriber to use the topic name \"Circle\"'',
       '' * Verifies the publisher and subscriber discover and match each other'',
       [],
       ''The test passes if the subscriber receives samples from the publisher'']),
    (''Test_Topic_1'', ''No communication when publisher and subscriber are using different topics'',
     lines_of [
       ''Verifies that there is no communication between a publisher using topic \"Square\" and a subscriber using topic \"Circle\"'',
       [],
       '' * Configures the publisher to use the topic name \"Square\"'',
       '' * Configures the subscriber to use the topic name \"Circle\"'',
       [],
       ''The test passes if the publisher and subscriber do not discover each other''])]"

definition texts_Cft :: "test_text list" where
  "texts_Cft = [
    (''Test_Cft_0'', ''Use of Content filter to avoid receiving undesired data (key)'',
     lines_of [
       ''Verifies a subscription using a ContentFilteredTopic does not receive data that does not pass the filter. The filter is applied to the key \"color\"'',
       [],
       '' * Configures a subscriber with a ContentFilteredTopic that selects only the shapes that have \"color\" equal to \"RED\"'',
       '' * Configures a first publisher to publish samples with \"color\" equal to \"BLUE\"'',
       '' * Configures a second publisher to publish samples with \"color\" equal to \"RED\"'',
       '' * Use RELIABLE Qos in all publishers and subscriber to ensure any samples that are not received are due to filtering'',
       '' * Configures the publishers / subscriber with history KEEP_ALL'',
       '' * Verifies that both publishers discover and match the subscriber and vice-versa'',
       '' * Note that this test does not check whether the filtering happens in the publisher side or the subscriber side. It only checks the middleware filters the samples somewhere.'',
       [],
       ''The test passes if the subscriber receives '' @ show_nat MAX_SAMPLES_READ @ '' samples of one color'']),
    (''Test_Cft_1'', ''Use of Content filter to avoid receiving undesired data (non-key)'',
     lines_of [
       ''Verifies a subscription using a ContentFilteredTopic does not receive data that does not pass the filter. The filter is applied to the non-key member \"shapesize\".'',
       [],
       '' * Use RELIABLE Qos in all publishers and subscriber to avoid samples losses'',
       '' * Configures the publisher / subscriber with history KEEP_ALL'',
       '' * The publisher application sends samples with increasing value of the \"size\" member'',
       '' * Publisher sends samples with size cycling from 1 to 50 (using --size-modulo 50 and -z 0)'',
       '' * Subscriber uses --cft \"shapesize <= 20\"'',
       [],
       ''The test passes if the subscriber receives '' @ quotient 2 @ '' samples with size < 20''])]"

definition texts_Partition :: "test_text list" where
  "texts_Partition = [
    (''Test_Partition_0'', ''Communication between publisher and subscriber using the same partition'',
     lines_of [
       ''Verifies communication between a publisher and a subscriber using the same partition'',
       [],
       '' * Configures the publisher and subscriber to use the PARTITION \"p1\"'',
       '' * Verifies the publisher and subscriber discover and match each other'',
       [],
       ''The test passes if the subscriber receives samples from the publisher'']),
    (''Test_Partition_1'', ''No communication between publisher and subscriber using different partitions'',
     lines_of [
       ''Verifies that there is no communication between a publisher using partition \"p1\" and a subscriber using partition \"p2\"'',
       [],
       '' * Configures the publisher to use the PARTITION \"p1\"'',
       '' * Configures the subscriber to use the PARTITION \"p2\"'',
       [],
       ''The test passes if the publisher and subscriber do not discover each other'']),
    (''Test_Partition_2'', ''Usage of a partition expression to receive data only from the corresponding publishers'',
     lines_of [
       ''Verifies a subscription using a partition expression only receives data from the corresponding publishers'',
       [],
       '' * Configures a subscriber with a PARTITION expression \"p*\" that allows only matching publishers whose partition starts with \"p\"'',
       '' * Configures a first publisher to use PARTITION \"p1\" and \"color\" equal to \"BLUE\"'',
       '' * Configures a second publisher to use PARTITION \"x1\" and \"color\" equal to \"RED\"'',
       '' * Verifies that only the first publisher (PARTITION \"p1\") discovers and matches subscriber'',
       '' * Verifies that the second publisher (PARTITION \"x1\") does not match the subscriber'',
       [],
       ''The test passes if the subscriber receives '' @ show_nat MAX_SAMPLES_READ @ '' samples of one color (first publisher)''])]"

definition texts_Durability :: "test_text list" where
  "texts_Durability = [
    (''Test_Durability_0'', ''Communication between VOLATILE publisher and VOLATILE subscriber'',
     lines_of [
       ''Verifies a volatile publisher communicates with a volatile subscriber'',
       [],
       '' * Configures the publisher with a VOLATILE durability'',
       '' * Configures the subscriber with a VOLATILE durability'',
       '' * Verifies the publisher and subscriber discover and match each other'',
       [],
       ''The test passes if the subscriber receives samples from the publisher'']),
    (''Test_Durability_1'', ''No compatibility between VOLATILE publisher and TRANSIENT_LOCAL subscriber'',
     lines_of [
       ''Verifies a volatile publisher does not match with a transient local subscriber and report an IncompatibleQos notification'',
       [],
       '' * Configures the publisher with VOLATILE durability'',
       '' * Configures the subscriber with TRANSIENT_LOCAL durability'',
       [],
       ''The test passes if the listeners trigger the IncompatibleQos notification in the publisher and the subscriber'']),
    (''Test_Durability_2'', ''No compatibility between VOLATILE publisher and TRANSIENT subscriber'',
     lines_of [
       ''Verifies a volatile publisher does not match with a transient subscriber and report an IncompatibleQos notification'',
       [],
       '' * Configures the publisher with VOLATILE durability'',
       '' * Configures the subscriber with TRANSIENT durability'',
       [],
       ''The test passes if the listeners trigger the IncompatibleQos notification in the publisher and the subscriber'']),
    (''Test_Durability_3'', ''No compatibility between VOLATILE publisher and PERSISTENT subscriber'',
     lines_of [
       ''Verifies a volatile publisher does not match with a persistent subscriber and report an IncompatibleQos notification'',
       [],
       '' * Configures the publisher with VOLATILE durability'',
       '' * Configures the subscriber with PERSISTENT durability'',
       [],
       ''The test passes if the listeners trigger the IncompatibleQos notification in the publisher and the subscriber'']),
    (''Test_Durability_4'', ''Communication between TRANSIENT_LOCAL publisher and VOLATILE subscriber'',
     lines_of [
       ''Verifies a transient local publisher communicates with a volatile subscriber'',
       [],
       '' * Configures the publisher with a TRANSIENT_LOCAL durability'',
       '' * Configures the subscriber with a VOLATILE durability'',
       '' * Verifies the publisher and subscriber discover and match each other'',
       [],
       ''The test passes if the subscriber receives samples from the publisher'']),
    (''Test_Durability_5'', ''Communication between TRANSIENT_LOCAL publisher and TRANSIENT_LOCAL subscriber'',
     lines_of [
       ''Verifies a transient local publisher communicates with a transient local subscriber'',
       [],
       '' * Configures the publisher with a TRANSIENT_LOCAL durability'',
       '' * Configures the subscriber with a TRANSIENT_LOCAL durability'',
       '' * Verifies the publisher and subscriber discover and match each other'',
       [],
       ''The test passes if the subscriber receives samples from the publisher'']),
    (''Test_Durability_6'', ''No compatibility between TRANSIENT_LOCAL publisher and TRANSIENT subscriber'',
     lines_of [
       ''Verifies a transient local publisher does not match with a transient subscriber and report an IncompatibleQos notification'',
       [],
       '' * Configures the publisher with TRANSIENT_LOCAL durability'',
       '' * Configures the subscriber with TRANSIENT durability'',
       [],
       ''The test passes if the listeners trigger the IncompatibleQos notification in the publisher and the subscriber'']),
    (''Test_Durability_7'', ''No compatibility between TRANSIENT_LOCAL publisher and PERSISTENT subscriber'',
     lines_of [
       ''Verifies a transient local publisher does not match with a persistent subscriber and report an IncompatibleQos notification'',
       [],
       '' * Configures the publisher with TRANSIENT_LOCAL durability'',
       '' * Configures the subscriber with PERSISTENT durability'',
       [],
       ''The test passes if the listeners trigger the IncompatibleQos notification in the publisher and the subscriber'']),
    (''Test_Durability_8'', ''Communication between TRANSIENT publisher and VOLATILE subscriber'',
     lines_of [
       ''Verifies a transient publisher communicates with a volatile subscriber'',
       [],
       '' * Configures the publisher with a TRANSIENT durability'',
       '' * Configures the subscriber with a VOLATILE durability'',
       '' * Verifies the publisher and subscriber discover and match each other'',
       [],
       ''The test passes if the subscriber receives samples from the publisher'']),
    (''Test_Durability_9'', ''Communication between TRANSIENT publisher and TRANSIENT_LOCAL subscriber'',
     lines_of [
       ''Verifies a transient publisher communicates with a transient local subscriber'',
       [],
       '' * Configures the publisher with a TRANSIENT durability'',
       '' * Configures the subscriber with a TRANSIENT_LOCAL durability'',
       '' * Verifies the publisher and subscriber discover and match each other'',
       [],
       ''The test passes if the subscriber receives samples from the publisher'']),
    (''Test_Durability_10'', ''Communication between TRANSIENT publisher and TRANSIENT subscriber'',
     lines_of [
       ''Verifies a transient publisher communicates with a transient subscriber'',
       [],
       '' * Configures the publisher with a TRANSIENT durability'',
       '' * Configures the subscriber with a TRANSIENT durability'',
       '' * Verifies the publisher and subscriber discover and match each other'',
       [],
       ''The test passes if the subscriber receives samples from the publisher'']),
    (''Test_Durability_11'', ''No compatibility between TRANSIENT publisher and PERSISTENT subscriber'',
     lines_of [
       ''Verifies a transient publisher does not match with a persistent subscriber and report an IncompatibleQos notification'',
       [],
       '' * Configures the publisher with TRANSIENT durability'',
       '' * Configures the subscriber with PERSISTENT durability'',
       [],
       ''The test passes if the listeners trigger the IncompatibleQos notification in the publisher and the subscriber'']),
    (''Test_Durability_12'', ''Communication between PERSISTENT publisher and VOLATILE subscriber'',
     lines_of [
       ''Verifies a persistent publisher communicates with a volatile subscriber'',
       [],
       '' * Configures the publisher with a PERSISTENT durability'',
       '' * Configures the subscriber with a VOLATILE durability'',
       '' * Verifies the publisher and subscriber discover and match each other'',
       [],
       ''The test passes if the subscriber receives samples from the publisher'']),
    (''Test_Durability_13'', ''Communication between PERSISTENT publisher and TRANSIENT_LOCAL subscriber'',
     lines_of [
       ''Verifies a persistent publisher communicates with a transient local subscriber'',
       [],
       '' * Configures the publisher with a PERSISTENT durability'',
       '' * Configures the subscriber with a TRANSIENT_LOCAL durability'',
       '' * Verifies the publisher and subscriber discover and match each other'',
       [],
       ''The test passes if the subscriber receives samples from the publisher'']),
    (''Test_Durability_14'', ''Communication between PERSISTENT publisher and TRANSIENT subscriber'',
     lines_of [
       ''Verifies a persistent publisher communicates with a transient subscriber'',
       [],
       '' * Configures the publisher with a PERSISTENT durability'',
       '' * Configures the subscriber with a TRANSIENT durability'',
       '' * Verifies the publisher and subscriber discover and match each other'',
       [],
       ''The test passes if the subscriber receives samples from the publisher'']),
    (''Test_Durability_15'', ''Communication between PERSISTENT publisher and PERSISTENT subscriber'',
     lines_of [
       ''Verifies a persistent publisher communicates with a persistent subscriber'',
       [],
       '' * Configures the publisher with a PERSISTENT durability'',
       '' * Configures the subscriber with a PERSISTENT durability'',
       '' * Verifies the publisher and subscriber discover and match each other'',
       [],
       ''The test passes if the subscriber receives samples from the publisher'']),
    (''Test_Durability_16'', ''Test the behavior of the VOLATILE durability'',
     lines_of [
       ''Verifies a volatile publisher and subscriber communicates and work as expected'',
       [],
       '' * Configures the publisher / subscriber with a VOLATILE durability'',
       '' * Configures the publisher / subscriber with a RELIABLE reliability'',
       '' * Configures the publisher / subscriber with history KEEP_ALL'',
       '' * The publisher application sends samples with increasing value of the \"size\" member'',
       '' * Verifies the publisher and subscriber discover and match each other'',
       '' * Note that there is at least 1 second delay between the creation of each entity'',
       [],
       ''The test passes if the first sample the subscriber receives is not the first sample that the publisher sent (by checking the \"size\" value).'']),
    (''Test_Durability_17'', ''Test the behavior of the TRANSIENT_LOCAL durability'',
     lines_of [
       ''Verifies a transient local publisher and subscriber communicates and work as expected'',
       [],
       '' * Configures the publisher / subscriber with a TRANSIENT_LOCAL durability'',
       '' * Configures the publisher / subscriber with a RELIABLE reliability'',
       '' * Configures the publisher / subscriber with history KEEP_ALL'',
       '' * The publisher application sends samples with increasing value of the \"size\" member'',
       '' * Verifies the publisher and subscriber discover and match each other'',
       '' * Note that there is at least 1 second delay between the creation of each entity'',
       [],
       ''The test passes if the first sample the subscriber receives is the first sample that the publisher sent (by checking the \"size\" value is equal to 1).''])]"

definition texts_TimeBasedFilter :: "test_text list" where
  "texts_TimeBasedFilter = [
    (''Test_TimeBasedFilter_0'', ''Test the behavior of the TIME_BASED_FILTER QoS'',
     lines_of [
       ''Verifies a subscriber with TIME_BASED_FILTER work as expected'',
       [],
       '' * Configures the publisher / subscriber with a RELIABLE reliability'',
       '' * Configures the publisher / subscriber with history KEEP_ALL'',
       '' * Configures the publisher with a writing period of 100ms'',
       '' * Configures the subscriber TIME_BASED_FILTER to 1 second'',
       '' * The publisher application sends samples with increasing value of the \"size\" member'',
       '' * Verifies the publisher and subscriber discover and match each other'',
       [],
       ''The test passes if the subscriber application receives a sample every 10 samples the publisher application has sent. The subscriber has to read '' @ quotient 10 @ '' samples'']),
    (''Test_TimeBasedFilter_1'', ''Test the behavior of the TIME_BASED_FILTER QoS with several instances'',
     lines_of [
       ''Verifies a subscriber with TIME_BASED_FILTER work as expected when the publisher publishes several instances'',
       [],
       '' * Configures the publisher / subscriber with a RELIABLE reliability'',
       '' * Configures the publisher / subscriber with history KEEP_ALL'',
       '' * Configures the publisher with a writing period of 100ms'',
       '' * The publisher publishes 4 different instances (using the same data value)'',
       '' * Configures the subscriber TIME_BASED_FILTER to 1 second'',
       '' * The publisher application sends samples with increasing value of the \"size\" member'',
       '' * Verifies the publisher and subscriber discover and match each other'',
       [],
       ''The test passes if the subscriber application receives a sample every 10 samples the publisher application has sent per instance. The subscriber has to read '' @ quotient 10 @ '' samples per instance''])]"

definition texts_FinalInstanceState :: "test_text list" where
  "texts_FinalInstanceState = [
    (''Test_FinalInstanceState_0'', ''Test the behavior of unregistering instances'',
     lines_of [
       ''Verifies a subscriber receives NOT_ALIVE_NO_WRITERS when the publisher unregisters instances'',
       [],
       '' * Configures the publisher to unregister instances upon finalization'',
       '' * The publisher publishes 4 different instances (using the same data value)'',
       '' * The publisher finishes after running 200 iterations'',
       '' * Verifies the publisher and subscriber discover and match each other'',
       [],
       ''The test passes if the subscriber application receives some samples and then a NOT_ALIVE_NO_WRITERS per instance'']),
    (''Test_FinalInstanceState_1'', ''Test the behavior of disposing instances'',
     lines_of [
       ''Verifies a subscriber receives NOT_ALIVE_DISPOSED when the publisher disposes instances'',
       [],
       '' * Configures the publisher to dispose instances upon finalization'',
       '' * The publisher publishes 4 different instances (using the same data value)'',
       '' * The publisher finishes after running 200 iterations'',
       '' * Verifies the publisher and subscriber discover and match each other'',
       [],
       ''The test passes if the subscriber application receives some samples and then a NOT_ALIVE_DISPOSED per instance'']),
    (''Test_FinalInstanceState_2'', ''Test the instance state when finalizing the application'',
     lines_of [
       ''Verifies a subscriber receives NOT_ALIVE_NO_WRITERS when the publisher finishes without unregistering or disposing instances explicitly'',
       [],
       '' * The publisher publishes 4 different instances (using the same data value)'',
       '' * The publisher finishes after running 200 iterations'',
       '' * Verifies the publisher and subscriber discover and match each other'',
       [],
       ''The test passes if the subscriber application receives some samples and then a NOT_ALIVE_NO_WRITERS per instance''])]"

definition texts_LargeData :: "test_text list" where
  "texts_LargeData = [
    (''Test_LargeData_0'', ''Test large data'',
     lines_of [
       ''This test covers the interoperability scenario with large data:'',
       [],
       '' * Configures the publisher / subscriber with a RELIABLE reliability'',
       '' * Configures the publisher / subscriber with history KEEP_ALL'',
       '' * Configures the publisher to use 100000 additional payload size (to represent large data samples)'',
       '' * Verifies the publisher and subscriber discover and match each other'',
       [],
       ''The tests passes if the subscriber receives samples from the publisher and the last byte sent in additional_payload_size is correctly set.''])]"

definition texts_Lifespan :: "test_text list" where
  "texts_Lifespan = [
    (''Test_Lifespan_0'', ''Test the behavior of lifespan with fractions of seconds, reliable'',
     lines_of [
       ''Verifies a subscriber receives the expected samples when the publisher uses  lifespan with fractions of seconds'',
       [],
       '' * Configures the publisher / subscriber with a RELIABLE reliability'',
       '' * Configures the publisher / subscriber with history KEEP_ALL'',
       '' * Configures the publisher with a writing period of 100ms'',
       '' * Configures the publisher with a lifespan of 250ms'',
       '' * Configures the subscriber with a reading period of 500ms'',
       '' * The publisher application sends samples with increasing value of the \"size\" member'',
       '' * Verifies the publisher and subscriber discover and match each other'',
       [],
       ''The test passes if the subscriber application receives 2 or 3 consecutive samples each time it reads.'',
       ''As the publisher sets the lifespan, it expires in some samples before the subscriber reads data. The amount of consecutive samples read by the subscriber application is 2 or 3 each time. The subscriber has to read '' @ quotient 10 @ '' samples'']),
    (''Test_Lifespan_1'', ''Test the behavior of lifespan with fraction of seconds with several instances, reliable'',
     lines_of [
       ''Verifies a subscriber receives the expected samples when the publisher uses  lifespan with fraction of seconds and different instances'',
       [],
       '' * Configures the publisher / subscriber with a RELIABLE reliability'',
       '' * Configures the publisher / subscriber with history KEEP_ALL'',
       '' * Configures the publisher with a writing period of 100ms'',
       '' * Configures the publisher with a lifespan of 250ms'',
       '' * Configures the subscriber with a reading period of 500ms'',
       '' * The publisher publishes 4 different instances (using the same data value)'',
       '' * The publisher application sends samples with increasing value of the \"size\" member'',
       '' * Verifies the publisher and subscriber discover and match each other'',
       [],
       ''The test passes if the subscriber application receives 2 or 3 consecutive samples each time it reads.'',
       ''As the publisher sets the lifespan, it expires in some samples before the subscriber reads data. The amount of consecutive samples read by the subscriber application is 2 or 3 each time per instance. The subscriber has to read '' @ quotient 10 @ '' samples per instance'']),
    (''Test_Lifespan_2'', ''Test the behavior of lifespan expressed in seconds, reliable'',
     lines_of [
       ''Verifies a subscriber receives the expected samples when the publisher uses  lifespan in seconds'',
       [],
       '' * Configures the publisher / subscriber with a RELIABLE reliability'',
       '' * Configures the publisher / subscriber with history KEEP_ALL'',
       '' * Configures the publisher with a writing period of 400ms'',
       '' * Configures the publisher with a lifespan of 1s'',
       '' * Configures the subscriber with a reading period of 2s'',
       '' * The publisher application sends samples with increasing value of the \"size\" member'',
       '' * Verifies the publisher and subscriber discover and match each other'',
       [],
       ''The test passes if the subscriber application receives 2 or 3 consecutive samples each time it reads.'',
       ''As the publisher sets the lifespan, it expires in some samples before the subscriber reads data. The amount of consecutive samples read by the subscriber application is 2 or 3 each time. The subscriber has to read '' @ quotient 10 @ '' samples per instance'']),
    (''Test_Lifespan_3'', ''Test the behavior of lifespan expressed in seconds with several instances, reliable'',
     lines_of [
       ''Verifies a subscriber receives the expected samples when the publisher uses  lifespan in seconds, and different instances'',
       [],
       '' * Configures the publisher / subscriber with a RELIABLE reliability'',
       '' * Configures the publisher / subscriber with history KEEP_ALL'',
       '' * Configures the publisher with a writing period of 400ms'',
       '' * Configures the publisher with a lifespan of 1s'',
       '' * Configures the subscriber with a reading period of 2s'',
       '' * The publisher publishes 4 different instances (using the same data value)'',
       '' * The publisher application sends samples with increasing value of the \"size\" member'',
       '' * Verifies the publisher and subscriber discover and match each other'',
       [],
       ''The test passes if the subscriber application receives 2 or 3 consecutive samples each time it reads.'',
       ''As the publisher sets the lifespan, it expires in some samples before the subscriber reads data. The amount of consecutive samples read by the subscriber application is 2 or 3 each time per instance. The subscriber has to read '' @ quotient 10 @ '' samples per instance'']),
    (''Test_Lifespan_4'', ''Test the behavior of lifespan with fractions of seconds, best effort'',
     lines_of [
       ''Verifies a subscriber receives the expected samples when the publisher uses  lifespan with fractions of seconds'',
       [],
       '' * Configures the publisher / subscriber with a BEST_EFFORT reliability'',
       '' * Configures the subscriber with history KEEP_ALL'',
       '' * Configures the publisher with a writing period of 100ms'',
       '' * Configures the publisher with a lifespan of 250ms'',
       '' * Configures the subscriber with a reading period of 500ms'',
       '' * The publisher application sends samples with increasing value of the \"size\" member'',
       '' * Verifies the publisher and subscriber discover and match each other'',
       [],
       ''The test passes if the subscriber application receives 2 or 3 consecutive samples each time it reads.'',
       ''As the publisher sets the lifespan, it expires in some samples before the subscriber reads data. The amount of consecutive samples read by the subscriber application is 2 or 3 each time. The subscriber has to read '' @ quotient 10 @ '' samples'']),
    (''Test_Lifespan_5'', ''Test the behavior of lifespan with fraction of seconds with several instances, best effort'',
     lines_of [
       ''Verifies a subscriber receives the expected samples when the publisher uses  lifespan with fraction of seconds and different instances'',
       [],
       '' * Configures the publisher / subscriber with a BEST_EFFORT reliability'',
       '' * Configures the subscriber with history KEEP_ALL'',
       '' * Configures the publisher with a writing period of 100ms'',
       '' * Configures the publisher with a lifespan of 250ms'',
       '' * Configures the subscriber with a reading period of 500ms'',
       '' * The publisher publishes 4 different instances (using the same data value)'',
       '' * The publisher application sends samples with increasing value of the \"size\" member'',
       '' * Verifies the publisher and subscriber discover and match each other'',
       [],
       ''The test passes if the subscriber application receives 2 or 3 consecutive samples each time it reads.'',
       ''As the publisher sets the lifespan, it expires in some samples before the subscriber reads data. The amount of consecutive samples read by the subscriber application is 2 or 3 each time per instance. The subscriber has to read '' @ quotient 10 @ '' samples per instance'']),
    (''Test_Lifespan_6'', ''Test the behavior of lifespan expressed in seconds, best effort'',
     lines_of [
       ''Verifies a subscriber receives the expected samples when the publisher uses  lifespan in seconds'',
       [],
       '' * Configures the publisher / subscriber with a BEST_EFFORT reliability'',
       '' * Configures the subscriber with history KEEP_ALL'',
       '' * Configures the publisher with a writing period of 400ms'',
       '' * Configures the publisher with a lifespan of 1s'',
       '' * Configures the subscriber with a reading period of 2s'',
       '' * The publisher application sends samples with increasing value of the \"size\" member'',
       '' * Verifies the publisher and subscriber discover and match each other'',
       [],
       ''The test passes if the subscriber application receives 2 or 3 consecutive samples each time it reads.'',
       ''As the publisher sets the lifespan, it expires in some samples before the subscriber reads data. The amount of consecutive samples read by the subscriber application is 2 or 3 each time. The subscriber has to read '' @ quotient 10 @ '' samples'']),
    (''Test_Lifespan_7'', ''Test the behavior of lifespan expressed in seconds with several instances, best effort'',
     lines_of [
       ''Verifies a subscriber receives the expected samples when the publisher uses  lifespan in seconds, and different instances'',
       [],
       '' * Configures the publisher / subscriber with a BEST_EFFORT reliability'',
       '' * Configures the subscriber with history KEEP_ALL'',
       '' * Configures the publisher with a writing period of 400ms'',
       '' * Configures the publisher with a lifespan of 1s'',
       '' * Configures the subscriber with a reading period of 2s'',
       '' * The publisher publishes 4 different instances (using the same data value)'',
       '' * The publisher application sends samples with increasing value of the \"size\" member'',
       '' * Verifies the publisher and subscriber discover and match each other'',
       [],
       ''The test passes if the subscriber application receives 2 or 3 consecutive samples each time it reads.'',
       ''As the publisher sets the lifespan, it expires in some samples before the subscriber reads data. The amount of consecutive samples read by the subscriber application is 2 or 3 each time per instance. The subscriber has to read '' @ quotient 10 @ '' samples per instance''])]"

definition texts_OrderedAccess :: "test_text list" where
  "texts_OrderedAccess = [
    (''Test_OrderedAccess_0'', ''Compatibility for ordered access between INSTANCE_PRESENTATION publisher and INSTANCE_PRESENTATION subscriber'',
     lines_of [
       ''Verifies an INSTANCE_PRESENTATION publisher is compatible with an INSTANCE_PRESENTATION subscriber when using ordered access'',
       [],
       '' * Configures the publisher / subscriber with a RELIABLE reliability'',
       '' * Configures the publisher / subscriber with history KEEP_ALL'',
       '' * Configures the publisher / subscriber with ordered access'',
       '' * Configures the publisher with INSTANCE_PRESENTATION access_scope'',
       '' * Configures the subscriber with INSTANCE_PRESENTATION access_scope'',
       '' * Verifies the publisher and subscriber discover and match each other'',
       [],
       ''The test passes if the subscriber receives samples from the publisher'']),
    (''Test_OrderedAccess_1'', ''No compatibility for ordered access between INSTANCE_PRESENTATION publisher and TOPIC_PRESENTATION subscriber'',
     lines_of [
       ''Verifies an INSTANCE_PRESENTATION publisher does not match with a TOPIC_PRESENTATION subscriber when using ordered access and report an IncompatibleQos notification'',
       [],
       '' * Configures the publisher / subscriber with a RELIABLE reliability'',
       '' * Configures the publisher / subscriber with history KEEP_ALL'',
       '' * Configures the publisher / subscriber with ordered access'',
       '' * Configures the publisher with INSTANCE_PRESENTATION access_scope'',
       '' * Configures the subscriber with TOPIC_PRESENTATION access_scope'',
       ''The test passes if the listeners trigger the IncompatibleQos notification in the publisher and the subscriber'']),
    (''Test_OrderedAccess_2'', ''No compatibility for ordered access between INSTANCE_PRESENTATION publisher and GROUP_PRESENTATION subscriber'',
     lines_of [
       ''Verifies an INSTANCE_PRESENTATION publisher does not match with a GROUP_PRESENTATION subscriber when using ordered access and report an IncompatibleQos notification'',
       [],
       '' * Configures the publisher / subscriber with a RELIABLE reliability'',
       '' * Configures the publisher / subscriber with history KEEP_ALL'',
       '' * Configures the publisher / subscriber with ordered access'',
       '' * Configures the publisher with INSTANCE_PRESENTATION access_scope'',
       '' * Configures the subscriber with GROUP_PRESENTATION access_scope'',
       ''The test passes if the listeners trigger the IncompatibleQos notification in the publisher and the subscriber'']),
    (''Test_OrderedAccess_3'', ''Compatibility for ordered access between TOPIC_PRESENTATION publisher and INSTANCE_PRESENTATION subscriber'',
     lines_of [
       ''Verifies a TOPIC_PRESENTATION publisher compatible with an INSTANCE_PRESENTATION subscriber when using ordered access'',
       [],
       '' * Configures the publisher / subscriber with a RELIABLE reliability'',
       '' * Configures the publisher / subscriber with history KEEP_ALL'',
       '' * Configures the publisher / subscriber with ordered access'',
       '' * Configures the publisher with TOPIC_PRESENTATION access_scope'',
       '' * Configures the subscriber with INSTANCE_PRESENTATION access_scope'',
       '' * Verifies the publisher and subscriber discover and match each other'',
       [],
       ''The test passes if the subscriber receives samples from the publisher'']),
    (''Test_OrderedAccess_4'', ''Compatibility for ordered access between TOPIC_PRESENTATION publisher and TOPIC_PRESENTATION subscriber'',
     lines_of [
       ''Verifies a TOPIC_PRESENTATION publisher compatible with a TOPIC_PRESENTATION subscriber when using ordered access'',
       [],
       '' * Configures the publisher / subscriber with a RELIABLE reliability'',
       '' * Configures the publisher / subscriber with history KEEP_ALL'',
       '' * Configures the publisher / subscriber with ordered access'',
       '' * Configures the publisher with TOPIC_PRESENTATION access_scope'',
       '' * Configures the subscriber with TOPIC_PRESENTATION access_scope'',
       '' * Verifies the publisher and subscriber discover and match each other'',
       [],
       ''The test passes if the subscriber receives samples from the publisher'']),
    (''Test_OrderedAccess_5'', ''No compatibility for ordered access between TOPIC_PRESENTATION publisher and GROUP_PRESENTATION subscriber'',
     lines_of [
       ''Verifies an TOPIC_PRESENTATION publisher does not match with a GROUP_PRESENTATION subscriber when using ordered access and report an IncompatibleQos notification'',
       [],
       '' * Configures the publisher / subscriber with a RELIABLE reliability'',
       '' * Configures the publisher / subscriber with history KEEP_ALL'',
       '' * Configures the publisher / subscriber with ordered access'',
       '' * Configures the publisher with TOPIC_PRESENTATION access_scope'',
       '' * Configures the subscriber with GROUP_PRESENTATION access_scope'',
       ''The test passes if the listeners trigger the IncompatibleQos notification in the publisher and the subscriber'']),
    (''Test_OrderedAccess_6'', ''Compatibility for ordered access between GROUP_PRESENTATION publisher and INSTANCE_PRESENTATION subscriber'',
     lines_of [
       ''Verifies a GROUP_PRESENTATION publisher compatible with an INSTANCE_PRESENTATION subscriber when using ordered access'',
       [],
       '' * Configures the publisher / subscriber with a RELIABLE reliability'',
       '' * Configures the publisher / subscriber with history KEEP_ALL'',
       '' * Configures the publisher / subscriber with ordered access'',
       '' * Configures the publisher with GROUP_PRESENTATION access_scope'',
       '' * Configures the subscriber with INSTANCE_PRESENTATION access_scope'',
       '' * Verifies the publisher and subscriber discover and match each other'',
       [],
       ''The test passes if the subscriber receives samples from the publisher'']),
    (''Test_OrderedAccess_7'', ''Compatibility for ordered access between GROUP_PRESENTATION publisher and TOPIC_PRESENTATION subscriber'',
     lines_of [
       ''Verifies a GROUP_PRESENTATION publisher compatible with a TOPIC_PRESENTATION subscriber when using ordered access'',
       [],
       '' * Configures the publisher / subscriber with a RELIABLE reliability'',
       '' * Configures the publisher / subscriber with history KEEP_ALL'',
       '' * Configures the publisher / subscriber with ordered access'',
       '' * Configures the publisher with GROUP_PRESENTATION access_scope'',
       '' * Configures the subscriber with TOPIC_PRESENTATION access_scope'',
       '' * Verifies the publisher and subscriber discover and match each other'',
       [],
       ''The test passes if the subscriber receives samples from the publisher'']),
    (''Test_OrderedAccess_8'', ''Compatibility for ordered access between GROUP_PRESENTATION publisher and GROUP_PRESENTATION subscriber'',
     lines_of [
       ''Verifies a GROUP_PRESENTATION publisher compatible with an GROUP_PRESENTATION subscriber when using ordered access'',
       [],
       '' * Configures the publisher / subscriber with a RELIABLE reliability'',
       '' * Configures the publisher / subscriber with history KEEP_ALL'',
       '' * Configures the publisher / subscriber with ordered access'',
       '' * Configures the publisher with GROUP_PRESENTATION access_scope'',
       '' * Configures the subscriber with GROUP_PRESENTATION access_scope'',
       '' * Verifies the publisher and subscriber discover and match each other'',
       [],
       ''The test passes if the subscriber receives samples from the publisher'']),
    (''Test_OrderedAccess_9'', ''No compatibility for no ordered access publisher and ordered access subscriber'',
     lines_of [
       ''Verifies that publisher without ordered access does not match with a subscriber with ordered access'',
       [],
       '' * Configures the publisher and the subscriber with a RELIABLE reliability'',
       '' * Configures the publisher and the subscriber with history KEEP_ALL'',
       '' * Configures the publisher and the subscriber with access scope TOPIC_PRESENTATION'',
       '' * Configures the subscriber with ordered access'',
       ''The test passes if the listeners trigger the IncompatibleQos notification in the publisher and the subscriber'']),
    (''Test_OrderedAccess_10'', ''Test the behavior of ordered access'',
     lines_of [
       ''Verifies subscribers receives data correctly depending on the ordered access: TOPIC_PRESENTATION and INSTANCE_PRESENTATION.'',
       [],
       '' * Configures the publisher and all subscribers with a RELIABLE reliability'',
       '' * Configures the publisher and all subscribers with history KEEP_ALL'',
       '' * Configures the publisher and all subscribers with ordered access'',
       '' * Configures the publisher with access scope TOPIC_PRESENTATION'',
       '' * The publisher application sends samples with increasing value of the \"size\" member'',
       '' * The publisher publishes 4 different instances (using the same data value)'',
       '' * Configures the publisher with a writing period of 100ms'',
       '' * Configures the first subscriber with access scope INSTANCE_PRESENTATION'',
       '' * Configures the second subscriber with access scope TOPIC_PRESENTATION'',
       '' * Configures all subscribers to use take() instead of take_next_instance()'',
       '' * Configures all subscribers with a reading period of 400ms'',
       '' * Verifies the publisher and subscriber discover and match each other'',
       [],
       ''The test passes if the subscriber applications are receiving the instances with the specified ordered access / access scope. For INSTANCE_PRESENTATION, all the samples for one instance is presented sequentially. For TOPIC_PRESENTATION, the subscriber reads the samples in the same order they have been published, independently of the instance theybelong to (one sample of one instance each time). The subscriber has to read '' @ show_nat MAX_SAMPLES_READ @ '' samples per instance'']),
    (''Test_OrderedAccess_11'', ''Compatibility for ordered access between INSTANCE_PRESENTATION publisher and INSTANCE_PRESENTATION subscriber both using TRANSIENT_LOCAL'',
     lines_of [
       ''Verifies an INSTANCE_PRESENTATION publisher is compatible with an INSTANCE_PRESENTATION subscriber when using ordered access'',
       [],
       '' * Configures the publisher / subscriber with a RELIABLE reliability'',
       '' * Configures the publisher / subscriber with history KEEP_ALL'',
       '' * Configures the publisher / subscriber with TRANSIENT_LOCAL durability'',
       '' * Configures the publisher / subscriber with ordered access'',
       '' * Configures the publisher with INSTANCE_PRESENTATION access_scope'',
       '' * Configures the subscriber with INSTANCE_PRESENTATION access_scope'',
       '' * Verifies the publisher and subscriber discover and match each other'',
       [],
       ''The test passes if the subscriber receives samples from the publisher'']),
    (''Test_OrderedAccess_12'', ''Compatibility for ordered access between TOPIC_PRESENTATION publisher and INSTANCE_PRESENTATION subscriber both using TRANSIENT_LOCAL'',
     lines_of [
       ''Verifies a TOPIC_PRESENTATION publisher compatible with an INSTANCE_PRESENTATION subscriber when using ordered access'',
       [],
       '' * Configures the publisher / subscriber with a RELIABLE reliability'',
       '' * Configures the publisher / subscriber with history KEEP_ALL'',
       '' * Configures the publisher / subscriber with TRANSIENT_LOCAL durability'',
       '' * Configures the publisher / subscriber with ordered access'',
       '' * Configures the publisher with TOPIC_PRESENTATION access_scope'',
       '' * Configures the subscriber with INSTANCE_PRESENTATION access_scope'',
       '' * Verifies the publisher and subscriber discover and match each other'',
       [],
       ''The test passes if the subscriber receives samples from the publisher'']),
    (''Test_OrderedAccess_13'', ''Compatibility for ordered access between TOPIC_PRESENTATION publisher and TOPIC_PRESENTATION subscriber both using TRANSIENT_LOCAL'',
     lines_of [
       ''Verifies a TOPIC_PRESENTATION publisher compatible with a TOPIC_PRESENTATION subscriber when using ordered access'',
       [],
       '' * Configures the publisher / subscriber with a RELIABLE reliability'',
       '' * Configures the publisher / subscriber with history KEEP_ALL'',
       '' * Configures the publisher / subscriber with TRANSIENT_LOCAL durability'',
       '' * Configures the publisher / subscriber with ordered access'',
       '' * Configures the publisher with TOPIC_PRESENTATION access_scope'',
       '' * Configures the subscriber with TOPIC_PRESENTATION access_scope'',
       '' * Verifies the publisher and subscriber discover and match each other'',
       [],
       ''The test passes if the subscriber receives samples from the publisher'']),
    (''Test_OrderedAccess_14'', ''Compatibility for ordered access between GROUP_PRESENTATION publisher and INSTANCE_PRESENTATION subscriber both using TRANSIENT_LOCAL'',
     lines_of [
       ''Verifies a GROUP_PRESENTATION publisher compatible with an INSTANCE_PRESENTATION subscriber when using ordered access'',
       [],
       '' * Configures the publisher / subscriber with a RELIABLE reliability'',
       '' * Configures the publisher / subscriber with history KEEP_ALL'',
       '' * Configures the publisher / subscriber with TRANSIENT_LOCAL durability'',
       '' * Configures the publisher / subscriber with ordered access'',
       '' * Configures the publisher with GROUP_PRESENTATION access_scope'',
       '' * Configures the subscriber with INSTANCE_PRESENTATION access_scope'',
       '' * Verifies the publisher and subscriber discover and match each other'',
       [],
       ''The test passes if the subscriber receives samples from the publisher'']),
    (''Test_OrderedAccess_15'', ''Compatibility for ordered access between GROUP_PRESENTATION publisher and TOPIC_PRESENTATION subscriber both using TRANSIENT_LOCAL'',
     lines_of [
       ''Verifies a GROUP_PRESENTATION publisher compatible with a TOPIC_PRESENTATION subscriber when using ordered access'',
       [],
       '' * Configures the publisher / subscriber with a RELIABLE reliability'',
       '' * Configures the publisher / subscriber with history KEEP_ALL'',
       '' * Configures the publisher / subscriber with TRANSIENT_LOCAL durability'',
       '' * Configures the publisher / subscriber with ordered access'',
       '' * Configures the publisher with GROUP_PRESENTATION access_scope'',
       '' * Configures the subscriber with TOPIC_PRESENTATION access_scope'',
       '' * Verifies the publisher and subscriber discover and match each other'',
       [],
       ''The test passes if the subscriber receives samples from the publisher'']),
    (''Test_OrderedAccess_16'', ''Compatibility for ordered access between GROUP_PRESENTATION publisher and GROUP_PRESENTATION subscriber both using TRANSIENT_LOCAL'',
     lines_of [
       ''Verifies a GROUP_PRESENTATION publisher compatible with an GROUP_PRESENTATION subscriber when using ordered access'',
       [],
       '' * Configures the publisher / subscriber with a RELIABLE reliability'',
       '' * Configures the publisher / subscriber with history KEEP_ALL'',
       '' * Configures the publisher / subscriber with TRANSIENT_LOCAL durability'',
       '' * Configures the publisher / subscriber with ordered access'',
       '' * Configures the publisher with GROUP_PRESENTATION access_scope'',
       '' * Configures the subscriber with GROUP_PRESENTATION access_scope'',
       '' * Verifies the publisher and subscriber discover and match each other'',
       [],
       ''The test passes if the subscriber receives samples from the publisher'']),
    (''Test_OrderedAccess_17'', ''Test the behavior of ordered access'',
     lines_of [
       ''Verifies subscribers receives data correctly depending on the ordered access: TOPIC_PRESENTATION and INSTANCE_PRESENTATION. Using TRANSIENT_LOCAL'',
       [],
       '' * Configures the publisher and all subscribers with a RELIABLE reliability'',
       '' * Configures the publisher and all subscribers with history KEEP_ALL'',
       '' * Configures the publisher and all subscribers with TRANSIENT_LOCAL durability'',
       '' * Configures the publisher and all subscribers with ordered access'',
       '' * Configures the publisher with access scope TOPIC_PRESENTATION'',
       '' * The publisher application sends samples with increasing value of the \"size\" member'',
       '' * The publisher publishes 4 different instances (using the same data value)'',
       '' * Configures the publisher with a writing period of 100ms'',
       '' * Configures the first subscriber with access scope INSTANCE_PRESENTATION'',
       '' * Configures the second subscriber with access scope TOPIC_PRESENTATION'',
       '' * Configures all subscribers to use take() instead of take_next_instance()'',
       '' * Configures all subscribers with a reading period of 400ms'',
       '' * Verifies the publisher and subscriber discover and match each other'',
       [],
       ''The test passes if the subscriber applications are receiving the instances with the specified ordered access / access scope. For INSTANCE_PRESENTATION, all the samples for one instance is presented sequentially. For TOPIC_PRESENTATION, the subscriber reads the samples in the same order they have been published, independently of the instance theybelong to (one sample of one instance each time). The subscriber has to read '' @ show_nat MAX_SAMPLES_READ @ '' samples per instance''])]"

definition texts_CoherentSets :: "test_text list" where
  "texts_CoherentSets = [
    (''Test_CoherentSets_0'', ''Compatibility for coherent access between INSTANCE_PRESENTATION publisher and INSTANCE_PRESENTATION subscriber'',
     lines_of [
       ''Verifies an INSTANCE_PRESENTATION publisher is compatible with an INSTANCE_PRESENTATION subscriber when using coherent access'',
       [],
       '' * Configures the publisher / subscriber with a RELIABLE reliability'',
       '' * Configures the publisher / subscriber with history KEEP_ALL'',
       '' * Configures the publisher / subscriber with coherent access'',
       '' * Configures the publisher with INSTANCE_PRESENTATION access_scope'',
       '' * Configures the subscriber with INSTANCE_PRESENTATION access_scope'',
       '' * Verifies the publisher and subscriber discover and match each other'',
       [],
       ''The test passes if the subscriber receives samples from the publisher'']),
    (''Test_CoherentSets_1'', ''No compatibility for coherent access between INSTANCE_PRESENTATION publisher and TOPIC_PRESENTATION subscriber'',
     lines_of [
       ''Verifies an INSTANCE_PRESENTATION publisher does not match with a TOPIC_PRESENTATION subscriber when using coherent access and report an IncompatibleQos notification'',
       [],
       '' * Configures the publisher / subscriber with a RELIABLE reliability'',
       '' * Configures the publisher / subscriber with history KEEP_ALL'',
       '' * Configures the publisher / subscriber with coherent access'',
       '' * Configures the publisher with INSTANCE_PRESENTATION access_scope'',
       '' * Configures the subscriber with TOPIC_PRESENTATION access_scope'',
       ''The test passes if the listeners trigger the IncompatibleQos notification in the publisher and the subscriber'']),
    (''Test_CoherentSets_2'', ''No compatibility for coherent access between INSTANCE_PRESENTATION publisher and GROUP_PRESENTATION subscriber'',
     lines_of [
       ''Verifies an INSTANCE_PRESENTATION publisher does not match with a GROUP_PRESENTATION subscriber when using coherent access and report an IncompatibleQos notification'',
       [],
       '' * Configures the publisher / subscriber with a RELIABLE reliability'',
       '' * Configures the publisher / subscriber with history KEEP_ALL'',
       '' * Configures the publisher / subscriber with coherent access'',
       '' * Configures the publisher with INSTANCE_PRESENTATION access_scope'',
       '' * Configures the subscriber with GROUP_PRESENTATION access_scope'',
       ''The test passes if the listeners trigger the IncompatibleQos notification in the publisher and the subscriber'']),
    (''Test_CoherentSets_3'', ''Compatibility for coherent access between TOPIC_PRESENTATION publisher and INSTANCE_PRESENTATION subscriber'',
     lines_of [
       ''Verifies an TOPIC_PRESENTATION publisher is compatible with an INSTANCE_PRESENTATION subscriber when using coherent access'',
       [],
       '' * Configures the publisher / subscriber with a RELIABLE reliability'',
       '' * Configures the publisher / subscriber with history KEEP_ALL'',
       '' * Configures the publisher / subscriber with coherent access'',
       '' * Configures the publisher with TOPIC_PRESENTATION access_scope'',
       '' * Configures the subscriber with INSTANCE_PRESENTATION access_scope'',
       '' * Verifies the publisher and subscriber discover and match each other'',
       [],
       ''The test passes if the subscriber receives samples from the publisher'']),
    (''Test_CoherentSets_4'', ''Compatibility for coherent access between TOPIC_PRESENTATION publisher and TOPIC_PRESENTATION subscriber'',
     lines_of [
       ''Verifies an TOPIC_PRESENTATION publisher is compatible with an TOPIC_PRESENTATION subscriber when using coherent access'',
       [],
       '' * Configures the publisher / subscriber with a RELIABLE reliability'',
       '' * Configures the publisher / subscriber with history KEEP_ALL'',
       '' * Configures the publisher / subscriber with coherent access'',
       '' * Configures the publisher with TOPIC_PRESENTATION access_scope'',
       '' * Configures the subscriber with TOPIC_PRESENTATION access_scope'',
       '' * Verifies the publisher and subscriber discover and match each other'',
       [],
       ''The test passes if the subscriber receives samples from the publisher'']),
    (''Test_CoherentSets_5'', ''No compatibility for coherent access between TOPIC_PRESENTATION publisher and GROUP_PRESENTATION subscriber'',
     lines_of [
       ''Verifies an TOPIC_PRESENTATION publisher does not match with a GROUP_PRESENTATION subscriber when using coherent access and report an IncompatibleQos notification'',
       [],
       '' * Configures the publisher / subscriber with a RELIABLE reliability'',
       '' * Configures the publisher / subscriber with history KEEP_ALL'',
       '' * Configures the publisher / subscriber with coherent access'',
       '' * Configures the publisher with TOPIC_PRESENTATION access_scope'',
       '' * Configures the subscriber with GROUP_PRESENTATION access_scope'',
       ''The test passes if the listeners trigger the IncompatibleQos notification in the publisher and the subscriber'']),
    (''Test_CoherentSets_6'', ''Compatibility for coherent access between GROUP_PRESENTATION publisher and INSTANCE_PRESENTATION subscriber'',
     lines_of [
       ''Verifies an GROUP_PRESENTATION publisher is compatible with an INSTANCE_PRESENTATION subscriber when using coherent access'',
       [],
       '' * Configures the publisher / subscriber with a RELIABLE reliability'',
       '' * Configures the publisher / subscriber with history KEEP_ALL'',
       '' * Configures the publisher / subscriber with coherent access'',
       '' * Configures the publisher with GROUP_PRESENTATION access_scope'',
       '' * Configures the subscriber with INSTANCE_PRESENTATION access_scope'',
       '' * Verifies the publisher and subscriber discover and match each other'',
       [],
       ''The test passes if the subscriber receives samples from the publisher'']),
    (''Test_CoherentSets_7'', ''Compatibility for coherent access between GROUP_PRESENTATION publisher and TOPIC_PRESENTATION subscriber'',
     lines_of [
       ''Verifies an GROUP_PRESENTATION publisher is compatible with an TOPIC_PRESENTATION subscriber when using coherent access'',
       [],
       '' * Configures the publisher / subscriber with a RELIABLE reliability'',
       '' * Configures the publisher / subscriber with history KEEP_ALL'',
       '' * Configures the publisher / subscriber with coherent access'',
       '' * Configures the publisher with GROUP_PRESENTATION access_scope'',
       '' * Configures the subscriber with TOPIC_PRESENTATION access_scope'',
       '' * Verifies the publisher and subscriber discover and match each other'',
       [],
       ''The test passes if the subscriber receives samples from the publisher'']),
    (''Test_CoherentSets_8'', ''Compatibility for coherent access between GROUP_PRESENTATION publisher and GROUP_PRESENTATION subscriber'',
     lines_of [
       ''Verifies an GROUP_PRESENTATION publisher is compatible with an GROUP_PRESENTATION subscriber when using coherent access'',
       [],
       '' * Configures the publisher / subscriber with a RELIABLE reliability'',
       '' * Configures the publisher / subscriber with history KEEP_ALL'',
       '' * Configures the publisher / subscriber with coherent access'',
       '' * Configures the publisher with GROUP_PRESENTATION access_scope'',
       '' * Configures the subscriber with GROUP_PRESENTATION access_scope'',
       '' * Verifies the publisher and subscriber discover and match each other'',
       [],
       ''The test passes if the subscriber receives samples from the publisher'']),
    (''Test_CoherentSets_9'', ''No compatibility for no coherent access publisher and coherent access subscriber'',
     lines_of [
       ''Verifies that publisher without coherent access does not match with a subscriber with coherent access'',
       [],
       '' * Configures the publisher and the subscriber with a RELIABLE reliability'',
       '' * Configures the publisher and the subscriber with history KEEP_ALL'',
       '' * Configures the publisher and the subscriber with access scope TOPIC_PRESENTATION'',
       '' * Configures the subscriber with coherent access'',
       ''The test passes if the listeners trigger the IncompatibleQos notification in the publisher and the subscriber'']),
    (''Test_CoherentSets_10'', ''Test the behavior of coherent access with INSTANCE_PRESENTATION with several instances'',
     lines_of [
       ''Verifies subscribers receives data correctly when using coherent access INSTANCE_PRESENTATION.'',
       [],
       '' * Configures the publisher / subscriber with a RELIABLE reliability'',
       '' * Configures the publisher / subscriber with history KEEP_ALL'',
       '' * Configures the publisher / subscriber with coherent access'',
       '' * Configures the publisher / subscriber with access scope INSTANCE_PRESENTATION'',
       '' * Configures the publisher / subscriber to use 3 topics'',
       '' * The publisher publishes 4 different instances (using the same data value)'',
       '' * The publisher creates coherent sets of 3 consecutive samples each instance'',
       '' * The publisher application sends samples with increasing value of the \"size\" member'',
       '' * Configures the publisher with a writing period of 100ms'',
       '' * Configures the subscriber to use take() instead of take_next_instance()'',
       '' * Configures the subscriber with a reading period of 100ms'',
       '' * Verifies the publisher and subscriber discover and match each other'',
       [],
       ''The test passes if the subscriber application receives all samples of a coherent set at the same. This coherent set is created with 36 samples: 3 samples per instance, 4 instances and 3 topics. This test checks that the consecutive samples received per instance and topic is 3 each time we receive a new coherent set of samples. The subscriber has to read '' @ show_nat MAX_SAMPLES_READ @ '' samples per instance'']),
    (''Test_CoherentSets_11'', ''Test the behavior of coherent access with TOPIC_PRESENTATION with several instances'',
     lines_of [
       ''Verifies subscribers receives data correctly when using coherent access TOPIC_PRESENTATION.'',
       [],
       '' * Configures the publisher / subscriber with a RELIABLE reliability'',
       '' * Configures the publisher / subscriber with history KEEP_ALL'',
       '' * Configures the publisher / subscriber with coherent access'',
       '' * Configures the publisher / subscriber with access scope TOPIC_PRESENTATION'',
       '' * Configures the publisher / subscriber to use 3 topics'',
       '' * The publisher publishes 4 different instances (using the same data value)'',
       '' * The publisher creates coherent sets of 3 consecutive samples each instance'',
       '' * The publisher application sends samples with increasing value of the \"size\" member'',
       '' * Configures the publisher with a writing period of 100ms'',
       '' * Configures the subscriber to use take() instead of take_next_instance()'',
       '' * Configures the subscriber with a reading period of 100ms'',
       '' * Verifies the publisher and subscriber discover and match each other'',
       [],
       ''The test passes if the subscriber application receives all samples of a coherent set at the same. This coherent set is created with 36 samples: 3 samples per instance, 4 instances and 3 topics. This test checks that the consecutive samples received per instance and topic is 3 each time we receive a new coherent set of samples. The subscriber has to read '' @ show_nat MAX_SAMPLES_READ @ '' samples per instance'']),
    (''Test_CoherentSets_12'', ''Test the behavior of coherent access with GROUP_PRESENTATION with several instances'',
     lines_of [
       ''Verifies subscribers receives data correctly when using coherent access GROUP_PRESENTATION.'',
       [],
       '' * Configures the publisher / subscriber with a RELIABLE reliability'',
       '' * Configures the publisher / subscriber with history KEEP_ALL'',
       '' * Configures the publisher / subscriber with coherent access'',
       '' * Configures the publisher / subscriber with access scope GROUP_PRESENTATION'',
       '' * Configures the publisher / subscriber to use 3 topics'',
       '' * The publisher publishes 4 different instances (using the same data value)'',
       '' * The publisher creates coherent sets of 3 consecutive samples each instance'',
       '' * The publisher application sends samples with increasing value of the \"size\" member'',
       '' * Configures the publisher with a writing period of 100ms'',
       '' * Configures the subscriber to use take() instead of take_next_instance()'',
       '' * Configures the subscriber with a reading period of 100ms'',
       '' * Verifies the publisher and subscriber discover and match each other'',
       [],
       ''The test passes if the subscriber application receives all samples of a coherent set at the same. This coherent set is created with 36 samples: 3 samples per instance, 4 instances and 3 topics. This test checks that the consecutive samples received per instance and topic is 3 each time we receive a new coherent set of samples. The subscriber has to read '' @ show_nat MAX_SAMPLES_READ @ '' samples per instance'']),
    (''Test_CoherentSets_13'', ''Compatibility for coherent access between INSTANCE_PRESENTATION publisher and INSTANCE_PRESENTATION subscriber, both using TRANSIENT_LOCAL'',
     lines_of [
       ''Verifies an INSTANCE_PRESENTATION publisher is compatible with an INSTANCE_PRESENTATION subscriber when using coherent access'',
       [],
       '' * Configures the publisher / subscriber with a RELIABLE reliability'',
       '' * Configures the publisher / subscriber with history KEEP_ALL'',
       '' * Configures the publisher / subscriber with TRANSIENT_LOCAL durability'',
       '' * Configures the publisher / subscriber with coherent access'',
       '' * Configures the publisher with INSTANCE_PRESENTATION access_scope'',
       '' * Configures the subscriber with INSTANCE_PRESENTATION access_scope'',
       '' * Verifies the publisher and subscriber discover and match each other'',
       [],
       ''The test passes if the subscriber receives samples from the publisher'']),
    (''Test_CoherentSets_14'', ''Compatibility for coherent access between TOPIC_PRESENTATION publisher and INSTANCE_PRESENTATION subscriber, both using TRANSIENT_LOCAL'',
     lines_of [
       ''Verifies an TOPIC_PRESENTATION publisher is compatible with an INSTANCE_PRESENTATION subscriber when using coherent access'',
       [],
       '' * Configures the publisher / subscriber with a RELIABLE reliability'',
       '' * Configures the publisher / subscriber with history KEEP_ALL'',
       '' * Configures the publisher / subscriber with TRANSIENT_LOCAL durability'',
       '' * Configures the publisher / subscriber with coherent access'',
       '' * Configures the publisher with TOPIC_PRESENTATION access_scope'',
       '' * Configures the subscriber with INSTANCE_PRESENTATION access_scope'',
       '' * Verifies the publisher and subscriber discover and match each other'',
       [],
       ''The test passes if the subscriber receives samples from the publisher'']),
    (''Test_CoherentSets_15'', ''Compatibility for coherent access between TOPIC_PRESENTATION publisher and TOPIC_PRESENTATION subscriber, both using TRANSIENT_LOCAL'',
     lines_of [
       ''Verifies an TOPIC_PRESENTATION publisher is compatible with an TOPIC_PRESENTATION subscriber when using coherent access'',
       [],
       '' * Configures the publisher / subscriber with a RELIABLE reliability'',
       '' * Configures the publisher / subscriber with history KEEP_ALL'',
       '' * Configures the publisher / subscriber with TRANSIENT_LOCAL durability'',
       '' * Configures the publisher / subscriber with coherent access'',
       '' * Configures the publisher with TOPIC_PRESENTATION access_scope'',
       '' * Configures the subscriber with TOPIC_PRESENTATION access_scope'',
       '' * Verifies the publisher and subscriber discover and match each other'',
       [],
       ''The test passes if the subscriber receives samples from the publisher'']),
    (''Test_CoherentSets_16'', ''Compatibility for coherent access between GROUP_PRESENTATION publisher and INSTANCE_PRESENTATION subscriber, both using TRANSIENT_LOCAL'',
     lines_of [
       ''Verifies an GROUP_PRESENTATION publisher is compatible with an INSTANCE_PRESENTATION subscriber when using coherent access'',
       [],
       '' * Configures the publisher / subscriber with a RELIABLE reliability'',
       '' * Configures the publisher / subscriber with history KEEP_ALL'',
       '' * Configures the publisher / subscriber with TRANSIENT_LOCAL durability'',
       '' * Configures the publisher / subscriber with coherent access'',
       '' * Configures the publisher with GROUP_PRESENTATION access_scope'',
       '' * Configures the subscriber with INSTANCE_PRESENTATION access_scope'',
       '' * Verifies the publisher and subscriber discover and match each other'',
       [],
       ''The test passes if the subscriber receives samples from the publisher'']),
    (''Test_CoherentSets_17'', ''Compatibility for coherent access between GROUP_PRESENTATION publisher and TOPIC_PRESENTATION subscriber, both using TRANSIENT_LOCAL'',
     lines_of [
       ''Verifies an GROUP_PRESENTATION publisher is compatible with an TOPIC_PRESENTATION subscriber when using coherent access'',
       [],
       '' * Configures the publisher / subscriber with a RELIABLE reliability'',
       '' * Configures the publisher / subscriber with history KEEP_ALL'',
       '' * Configures the publisher / subscriber with TRANSIENT_LOCAL durability'',
       '' * Configures the publisher / subscriber with coherent access'',
       '' * Configures the publisher with GROUP_PRESENTATION access_scope'',
       '' * Configures the subscriber with TOPIC_PRESENTATION access_scope'',
       '' * Verifies the publisher and subscriber discover and match each other'',
       [],
       ''The test passes if the subscriber receives samples from the publisher'']),
    (''Test_CoherentSets_18'', ''Compatibility for coherent access between GROUP_PRESENTATION publisher and GROUP_PRESENTATION subscriber, both using TRANSIENT_LOCAL'',
     lines_of [
       ''Verifies an GROUP_PRESENTATION publisher is compatible with an GROUP_PRESENTATION subscriber when using coherent access'',
       [],
       '' * Configures the publisher / subscriber with a RELIABLE reliability'',
       '' * Configures the publisher / subscriber with history KEEP_ALL'',
       '' * Configures the publisher / subscriber with TRANSIENT_LOCAL durability'',
       '' * Configures the publisher / subscriber with coherent access'',
       '' * Configures the publisher with GROUP_PRESENTATION access_scope'',
       '' * Configures the subscriber with GROUP_PRESENTATION access_scope'',
       '' * Verifies the publisher and subscriber discover and match each other'',
       [],
       ''The test passes if the subscriber receives samples from the publisher'']),
    (''Test_CoherentSets_19'', ''Test the behavior of coherent access with INSTANCE_PRESENTATION with several instances, using TRANSIENT_LOCAL'',
     lines_of [
       ''Verifies subscribers receives data correctly when using coherent access INSTANCE_PRESENTATION.'',
       [],
       '' * Configures the publisher / subscriber with a RELIABLE reliability'',
       '' * Configures the publisher / subscriber with history KEEP_ALL'',
       '' * Configures the publisher / subscriber with TRANSIENT_LOCAL durability'',
       '' * Configures the publisher / subscriber with coherent access'',
       '' * Configures the publisher / subscriber with access scope INSTANCE_PRESENTATION'',
       '' * Configures the publisher / subscriber to use 3 topics'',
       '' * The publisher publishes 4 different instances (using the same data value)'',
       '' * The publisher creates coherent sets of 3 consecutive samples each instance'',
       '' * The publisher application sends samples with increasing value of the \"size\" member'',
       '' * Configures the publisher with a writing period of 100ms'',
       '' * Configures the subscriber to use take() instead of take_next_instance()'',
       '' * Configures the subscriber with a reading period of 100ms'',
       '' * Verifies the publisher and subscriber discover and match each other'',
       [],
       ''The test passes if the subscriber application receives all samples of a coherent set at the same. This coherent set is created with 36 samples: 3 samples per instance, 4 instances and 3 topics. This test checks that the consecutive samples received per instance and topic is 3 each time we receive a new coherent set of samples. The subscriber has to read '' @ show_nat MAX_SAMPLES_READ @ '' samples per instance'']),
    (''Test_CoherentSets_20'', ''Test the behavior of coherent access with TOPIC_PRESENTATION with several instances, using TRANSIENT_LOCAL'',
     lines_of [
       ''Verifies subscribers receives data correctly when using coherent access TOPIC_PRESENTATION.'',
       [],
       '' * Configures the publisher / subscriber with a RELIABLE reliability'',
       '' * Configures the publisher / subscriber with history KEEP_ALL'',
       '' * Configures the publisher / subscriber with TRANSIENT_LOCAL durability'',
       '' * Configures the publisher / subscriber with coherent access'',
       '' * Configures the publisher / subscriber with access scope TOPIC_PRESENTATION'',
       '' * Configures the publisher / subscriber to use 3 topics'',
       '' * The publisher publishes 4 different instances (using the same data value)'',
       '' * The publisher creates coherent sets of 3 consecutive samples each instance'',
       '' * The publisher application sends samples with increasing value of the \"size\" member'',
       '' * Configures the publisher with a writing period of 100ms'',
       '' * Configures the subscriber to use take() instead of take_next_instance()'',
       '' * Configures the subscriber with a reading period of 100ms'',
       '' * Verifies the publisher and subscriber discover and match each other'',
       [],
       ''The test passes if the subscriber application receives all samples of a coherent set at the same. This coherent set is created with 36 samples: 3 samples per instance, 4 instances and 3 topics. This test checks that the consecutive samples received per instance and topic is 3 each time we receive a new coherent set of samples. The subscriber has to read '' @ show_nat MAX_SAMPLES_READ @ '' samples per instance'']),
    (''Test_CoherentSets_21'', ''Test the behavior of coherent access with GROUP_PRESENTATION with several instances, using TRANSIENT_LOCAL'',
     lines_of [
       ''Verifies subscribers receives data correctly when using coherent access GROUP_PRESENTATION.'',
       [],
       '' * Configures the publisher / subscriber with a RELIABLE reliability'',
       '' * Configures the publisher / subscriber with history KEEP_ALL'',
       '' * Configures the publisher / subscriber with coherent access'',
       '' * Configures the publisher / subscriber with TRANSIENT_LOCAL durability'',
       '' * Configures the publisher / subscriber with access scope GROUP_PRESENTATION'',
       '' * Configures the publisher / subscriber to use 3 topics'',
       '' * The publisher publishes 4 different instances (using the same data value)'',
       '' * The publisher creates coherent sets of 3 consecutive samples each instance'',
       '' * The publisher application sends samples with increasing value of the \"size\" member'',
       '' * Configures the publisher with a writing period of 100ms'',
       '' * Configures the subscriber to use take() instead of take_next_instance()'',
       '' * Configures the subscriber with a reading period of 100ms'',
       '' * Verifies the publisher and subscriber discover and match each other'',
       [],
       ''The test passes if the subscriber application receives all samples of a coherent set at the same. This coherent set is created with 36 samples: 3 samples per instance, 4 instances and 3 topics. This test checks that the consecutive samples received per instance and topic is 3 each time we receive a new coherent set of samples. The subscriber has to read '' @ show_nat MAX_SAMPLES_READ @ '' samples per instance''])]"

definition suite_texts :: "test_text list" where
  "suite_texts = texts_Domain @ texts_DataRepresentation @ texts_Reliability @ texts_History
     @ texts_Ownership @ texts_Deadline @ texts_Topic @ texts_Cft
     @ texts_Partition @ texts_Durability @ texts_TimeBasedFilter @ texts_FinalInstanceState
     @ texts_LargeData @ texts_Lifespan @ texts_OrderedAccess @ texts_CoherentSets"

end
