(* ===== verification/Command_Lines.thy ===== *)
theory Command_Lines
  imports Argparse_Facts Test_Suite Compare_Main Discovery_Report Xlsx_Report Test_Texts
begin

text \<open>
  The command lines of the four programs: their parsers, what each program takes out of the parsed arguments,
  and the programs run on a command line.  Help texts and metavariables are left out.
\<close>

section \<open>\<open>interoperability_report.py\<close>\<close>

definition report_parser :: arg_parser where   \<comment> \<open>\<open>Arguments.parser\<close>\<close>
  "report_parser =
     \<lparr>optionals =
        [help_arg,
         (optional_arg [''-P'', ''--publisher''] ''publisher'')\<lparr>required := True\<rparr>,
         (optional_arg [''-S'', ''--subscriber''] ''subscriber'')\<lparr>required := True\<rparr>,
         switch_arg [''-v'', ''--verbose''] ''verbose'',
         (optional_arg [''-x'', ''--data-representation''] ''data_representation'')
           \<lparr>default_value := Text_Value ''2'', choices := Some [''1'', ''2'']\<rparr>,
         (optional_arg [''-a'', ''--periodic-announcement''] ''periodic_announcement'')
           \<lparr>default_value := Int_Value 0, arg_kind := An_Integer\<rparr>,
         (optional_arg [''-s'', ''--suite''] ''suite'')\<lparr>default_value := Text_Value ''test_suite''\<rparr>,
         (optional_arg [''-t'', ''--test''] ''test'')\<lparr>nargs := One_Or_More\<rparr>,
         (optional_arg [''-d'', ''--disable-test''] ''disable_test'')\<lparr>nargs := One_Or_More\<rparr>,
         optional_arg [''-o'', ''--output-name''] ''output_name''],
      positionals = [],
      exclusive = [[''test'', ''disable_test'']]\<rparr>"

definition text_arg :: "(string, arg_value) dict \<Rightarrow> string \<Rightarrow> string" where   \<comment> \<open>of an argument that is always a text\<close>
  "text_arg ns d = (case text_of ns d of Some s \<Rightarrow> s | None \<Rightarrow> [])"

definition int_arg :: "(string, arg_value) dict \<Rightarrow> string \<Rightarrow> int" where
  "int_arg ns d = (case int_of ns d of Some i \<Rightarrow> i | None \<Rightarrow> 0)"

text \<open>The dictionary \<open>options\<close> of \<open>main\<close>; a period that is not positive is never used.\<close>

definition report_options :: "(string, arg_value) dict \<Rightarrow> options" where
  "report_options ns =
     \<lparr>publisher = text_arg ns ''publisher'', subscriber = text_arg ns ''subscriber'',
      test_cases = texts_of ns ''test'', test_cases_disabled = texts_of ns ''disable_test'',
      data_representation = text_arg ns ''data_representation'',
      periodic_announcement_ms = nat (int_arg ns ''periodic_announcement'')\<rparr>"

definition filename_report :: "string \<Rightarrow> options \<Rightarrow> string option \<Rightarrow> string" where
  "filename_report date_time opts output_name =
     (case output_name of
        None \<Rightarrow> product_name (publisher opts) @ ''-'' @ product_name (subscriber opts) @ ''-'' @ date_time @ ''.xml''
      | Some name \<Rightarrow> name)"

text \<open>
  The cases \<open>main\<close> runs: those of every suite of the module, which is a dictionary other than \<open>__builtins__\<close>
  under its name.  The module is found by \<open>importlib\<close>.
\<close>

definition module_not_found :: py_error where "module_not_found = RuntimeError ''ModuleNotFoundError''"

definition report_jobs :: "(string \<Rightarrow> (string \<times> suite) list option) \<Rightarrow> string list \<Rightarrow> (options \<times> job list) res" where
  "report_jobs modules argv =
     rbind (parse_args report_parser argv) (\<lambda>ns. let opts = report_options ns in
       case modules (text_arg ns ''suite'') of
         None \<Rightarrow> Inl module_not_found
       | Some suites \<Rightarrow> rbind (rmap (\<lambda>(name, entries). select_cases opts name entries) suites) (\<lambda>jobs. Inr (opts, concat jobs)))"

definition repository_suites :: "string \<Rightarrow> (string \<times> suite) list option" where   \<comment> \<open>\<open>test_suite.py\<close>\<close>
  "repository_suites name = (if name = ''test_suite'' then Some [(''rtps_test_suite_1'', rtps_test_suite_1)] else None)"

section \<open>\<open>compare_junit_reports.py\<close>\<close>

definition compare_parser :: arg_parser where
  "compare_parser =
     \<lparr>optionals =
        [help_arg,
         (optional_arg [''--directory''] ''directory'')\<lparr>arg_kind := A_Path\<rparr>,
         switch_arg [''--include-times''] ''include_times'',
         switch_arg [''--include-details''] ''include_details'',
         switch_arg [''--simple''] ''simple'',
         switch_arg [''--show-differences'', ''--show-difference''] ''show_differences'',
         switch_arg [''--compare-all''] ''compare_all'',
         switch_arg [''--json''] ''as_json'',
         switch_arg [''--explain-parallel''] ''explain_parallel'',
         switch_arg [''--html''] ''html'',
         (optional_arg [''--batch''] ''batch'')\<lparr>arg_kind := An_Integer\<rparr>,
         optional_arg [''--name-tag''] ''name_tag''],
      positionals = [(positional_arg ''first'')\<lparr>arg_kind := A_Path\<rparr>, (positional_arg ''second'')\<lparr>arg_kind := A_Path\<rparr>],
      exclusive = []\<rparr>"

definition compare_args :: "(string, arg_value) dict \<Rightarrow> cmd_args" where
  "compare_args ns =
     \<lparr>arg_first = text_of ns ''first'', arg_second = text_of ns ''second'', arg_directory = text_of ns ''directory'',
      include_times = switch_of ns ''include_times'', include_details = switch_of ns ''include_details'',
      simple = switch_of ns ''simple'', show_differences = switch_of ns ''show_differences'',
      compare_all = switch_of ns ''compare_all'', as_json = switch_of ns ''as_json'',
      explain_parallel = switch_of ns ''explain_parallel'', arg_html = switch_of ns ''html'',
      arg_batch = int_of ns ''batch'', arg_name_tag = text_of ns ''name_tag''\<rparr>"

definition compare_command :: "environment \<Rightarrow> string list \<Rightarrow> (string \<times> string) list \<times> exit" where
  "compare_command env argv =
     (case parse_args compare_parser argv of
        Inr ns \<Rightarrow> main env (compare_args ns)
      | Inl (SystemExit n) \<Rightarrow> ([], Exit n)
      | Inl e \<Rightarrow> ([], Traceback e))"

section \<open>\<open>rtps_discovery_sniffer.py\<close>\<close>

definition sniffer_parser :: arg_parser where
  "sniffer_parser =
     \<lparr>optionals =
        [help_arg,
         (optional_arg [''-i'', ''--interface''] ''interface'')\<lparr>default_value := Text_Value ''any''\<rparr>,
         (optional_arg [''-d'', ''--duration''] ''duration'')\<lparr>arg_kind := An_Integer, default_value := Int_Value 5\<rparr>,
         optional_arg [''-o'', ''--output''] ''output'',
         optional_arg [''-j'', ''--json-output''] ''json_output'',
         optional_arg [''-t'', ''--timestamp''] ''timestamp'',
         optional_arg [''-p'', ''--pcap''] ''pcap'',
         optional_arg [''-w'', ''--write-pcap''] ''write_pcap'',
         optional_arg [''-P'', ''--publisher''] ''publisher'',
         optional_arg [''-S'', ''--subscriber''] ''subscriber'',
         (optional_arg [''--expected-participants''] ''expected_participants'')
           \<lparr>arg_kind := An_Integer, default_value := Int_Value 2\<rparr>,
         optional_arg [''--expected-topic''] ''expected_topic'',
         optional_arg [''--expected-type''] ''expected_type''],
      positionals = [], exclusive = []\<rparr>"

section \<open>\<open>generate_xlsx_report.py\<close>\<close>

definition xlsx_parser :: arg_parser where   \<comment> \<open>\<open>XlxsReportArgumentParser.argument_parser\<close>\<close>
  "xlsx_parser =
     \<lparr>optionals =
        [help_arg,
         (optional_arg [''-o'', ''--output''] ''output'')\<lparr>required := True\<rparr>,
         (optional_arg [''-i'', ''--input''] ''input'')\<lparr>required := True\<rparr>,
         optional_arg [''-r'', ''--runner''] ''runner''],
      positionals = [], exclusive = []\<rparr>"

record sniffer_env =
  tshark_installed :: bool
  capture :: "string list \<Rightarrow> nat option"   \<comment> \<open>the size of the file a command has written, if there is one\<close>
  dissect :: "string list \<Rightarrow> int \<times> string"   \<comment> \<open>exit status and output of a command\<close>
  loads :: "string \<Rightarrow> py_value list option"   \<comment> \<open>\<open>json.loads\<close>\<close>
  temporary_file :: string
  timestamp_file :: "string option"
  clock :: string
  iso_now :: string
  existing_json :: "string \<Rightarrow> py_value option"
  existing_suites :: "string \<Rightarrow> junit_suite list"

definition capture_command :: "string \<Rightarrow> int \<Rightarrow> string \<Rightarrow> string list" where
  "capture_command interface seconds output_pcap =
     [''tshark'', ''-i'', interface, ''-a'', ''duration:'' @ show_int seconds, ''-f'', ''udp'', ''-w'', output_pcap]"

text \<open>Whether the command ends by itself or is stopped after ten more seconds, the file it leaves decides.\<close>

definition capture_traffic_pcap :: "sniffer_env \<Rightarrow> string \<Rightarrow> int \<Rightarrow> string \<Rightarrow> bool res" where
  "capture_traffic_pcap env interface seconds output_pcap =
     (if \<not> tshark_installed env
      then Inl (RuntimeError (''tshark is not installed. Install it via '' @ [CHR 0x27] @ ''apt-get install -y tshark'' @ [CHR 0x27] @ ''.''))
      else Inr (case capture env (capture_command interface seconds output_pcap) of Some n \<Rightarrow> n > 0 | None \<Rightarrow> False))"

definition dump_command :: "string \<Rightarrow> string list" where
  "dump_command pcap_path = [''tshark'', ''--no-duplicate-keys'', ''-r'', pcap_path, ''-Y'', ''rtps'', ''-T'', ''json'']"

definition dump_rtps_json_from_pcap :: "sniffer_env \<Rightarrow> string \<Rightarrow> py_value list res" where
  "dump_rtps_json_from_pcap env pcap_path =
     (if \<not> tshark_installed env then Inl (RuntimeError ''FileNotFoundError'')   \<comment> \<open>of \<open>subprocess.run\<close>\<close>
      else case dissect env (dump_command pcap_path) of (returncode, stdout) \<Rightarrow>
        Inr (if returncode \<noteq> 0 \<or> py_strip stdout = [] then []
             else (case loads env stdout of Some packets \<Rightarrow> packets | None \<Rightarrow> [])))"

definition given_or :: "string option \<Rightarrow> string \<Rightarrow> string" where   \<comment> \<open>\<open>x or default\<close>\<close>
  "given_or x other = (if given x then the x else other)"

definition sniffer_args_of :: "(string, arg_value) dict \<Rightarrow> string \<Rightarrow> sniffer_args" where
  "sniffer_args_of ns stamp =
     \<lparr>sn_interface = text_arg ns ''interface'', sn_timestamp = stamp, sn_publisher = text_of ns ''publisher'',
      sn_subscriber = text_of ns ''subscriber'', sn_expected = int_arg ns ''expected_participants'',
      sn_topic = text_of ns ''expected_topic'', sn_type = text_of ns ''expected_type''\<rparr>"

text \<open>The file the packets are read from, after a capture if none was given, and what is printed.\<close>

definition find_packets :: "sniffer_env \<Rightarrow> (string, arg_value) dict \<Rightarrow> (string \<times> string list) res" where
  "find_packets env ns =
     (let input_pcap = text_of ns ''pcap''; interface = text_arg ns ''interface''; duration = int_arg ns ''duration'' in
      if given input_pcap then Inr (the input_pcap, [''[*] Reading existing PCAP file: '' @ the input_pcap])
      else
        (let pcap_file = given_or (text_of ns ''write_pcap'') (temporary_file env) in
         rbind (capture_traffic_pcap env interface duration pcap_file) (\<lambda>captured.
           Inr (pcap_file,
             [''[*] Starting live RTPS capture on interface '' @ [CHR 0x27] @ interface @ [CHR 0x27] @ '' for '' @ show_int duration @ ''s...'']
             @ (if captured then [] else [''[-] No UDP/RTPS packets captured during the listening window.''])))))"

text \<open>The command: the JSON and the XML file with their names, and the console.\<close>

definition sniffer_command :: "(py_value list \<Rightarrow> string) \<Rightarrow> sniffer_env \<Rightarrow> string list
    \<Rightarrow> ((string \<times> py_value) \<times> (string \<times> junit_suite list) \<times> string list) res" where
  "sniffer_command show_set env argv =
     rbind (parse_args sniffer_parser argv) (\<lambda>ns.
       let stamp = given_or (text_of ns ''timestamp'') (get_current_timestamp (timestamp_file env) (clock env));
           output_xml = given_or (text_of ns ''output'') (''junit_discovery_report_'' @ stamp @ ''.xml'');
           output_json = given_or (text_of ns ''json_output'') (''discovery_report_'' @ stamp @ ''.json'') in
       rbind (find_packets env ns) (\<lambda>(input_pcap, console).
       rbind (dump_rtps_json_from_pcap env input_pcap) (\<lambda>raw_packets.
       rbind (run_discovery_sniffer show_set (iso_now env) (sniffer_args_of ns stamp) raw_packets
           (existing_json env output_json) (existing_suites env output_xml)) (\<lambda>(written, suites, summary_lines).
         Inr ((output_json, written), (output_xml, suites),
           console @ [''[+] Dissected '' @ show_nat (length raw_packets) @ '' RTPS packets with tshark.'',
             ''[+] Discovery JSON summary saved to: '' @ output_json,
             ''[+] Discovery JUnit XML report saved to: '' @ output_xml] @ summary_lines)))))"

section \<open>\<open>generate_xlsx_report.py\<close> on a command line\<close>

record xlsx_env =
  is_file :: "string \<Rightarrow> bool"
  file_exists :: "string \<Rightarrow> bool"
  resolve :: "string \<Rightarrow> string"   \<comment> \<open>\<open>pathlib.Path.resolve\<close>\<close>
  report_suites :: "string \<Rightarrow> xsuite list"
  text_file :: "string \<Rightarrow> string option"
  environ :: "string \<Rightarrow> string option"
  folder :: string
  date_time :: string

definition parent_path :: "string \<Rightarrow> string" where
  "parent_path path = rev (drop 1 (dropWhile (\<lambda>c. c \<noteq> CHR ''/'') (rev path)))"

definition xlsx_runner :: "xlsx_env \<Rightarrow> string option \<Rightarrow> string \<Rightarrow> string option" where
  "xlsx_runner env runner_arg input =
     choose_runner runner_arg [text_file env ''runner_env'', text_file env (parent_path input @ ''/runner_env'')]
       (environ env ''RUNNER_ENVIRONMENT'') (environ env ''RUNNER_NAME'')"

definition suite_titles :: "(string \<times> string) list" where
  "suite_titles = map (\<lambda>(name, title, _). (name, title)) suite_texts"

definition xlsx_command :: "xlsx_env \<Rightarrow> string list \<Rightarrow> workbook res" where
  "xlsx_command env argv =
     rbind (parse_args xlsx_parser argv) (\<lambda>ns.
       (case text_of ns ''input'' of
          None \<Rightarrow> Inl (RuntimeError ''no input file specified'')
        | Some i \<Rightarrow>
            (case text_of ns ''output'' of
               None \<Rightarrow> Inl (RuntimeError ''no output file specified'')
             | Some out \<Rightarrow>
                 (let input = resolve env i in
                  generate_xlsx (is_file env) (file_exists env) input (resolve env out) (report_suites env input) suite_titles
                    (xlsx_runner env (text_of ns ''runner'') input) (folder env) (date_time env)))))"

end
