(* ===== verification/Command_Facts.thy ===== *)
theory Command_Facts
  imports Command_Lines
begin

text \<open>
  What holds of the programs on a command line: \<open>compare_junit_reports.py\<close> never ends in a traceback,
  \<open>interoperability_report.py\<close> refuses a command line or has its cases ready, every selection can be asked
  for and is read as it was written, and the files of the spreadsheet report are always given.
\<close>

lemma parsers_ok: "parser_ok report_parser" "parser_ok compare_parser" "parser_ok sniffer_parser" "parser_ok xlsx_parser"
  by code_simp+

lemma parsed_or_exit:
  assumes "parser_ok p" and "parse_args p argv = r"
  shows "case r of Inl e \<Rightarrow> e = SystemExit 0 \<or> e = SystemExit 2 | Inr ns \<Rightarrow> options_ok p ns"
  using parse_args_ok [OF assms(1), of argv] assms(2) by (simp add: ends_def)

lemma report_options_ok:
  assumes "parse_args report_parser argv = Inr ns"
  shows "data_representation (report_options ns) = ''1'' \<or> data_representation (report_options ns) = ''2''"
    and "test_cases (report_options ns) = None \<or> test_cases_disabled (report_options ns) = None"
    and "test_cases (report_options ns) \<noteq> Some []" "test_cases_disabled (report_options ns) \<noteq> Some []"
proof -
  have ok: "options_ok report_parser ns" using parsed_or_exit [OF parsers_ok(1) assms] by simp
  note declared = report_parser_def optional_arg_def switch_arg_def help_arg_def
  have found: "\<exists>v. dget ns (dest a) = Some v \<and> (admissible a v \<or> v = default_value a)"
    if "a \<in> set (optionals report_parser)" "nargs a \<noteq> Help" for a
    using ok that unfolding options_ok_def by auto
  show "data_representation (report_options ns) = ''1'' \<or> data_representation (report_options ns) = ''2''"
    using found [of "optionals report_parser ! 4"]
    by (auto simp: declared admissible_def report_options_def text_arg_def text_of_def)
  have lists: "texts_of ns d \<noteq> Some []" if "a \<in> set (optionals report_parser)" "nargs a = One_Or_More" "default_value a = No_Value" "dest a = d" for a d
    using found [of a] that by (auto simp: admissible_def texts_of_def split: option.splits arg_value.splits)
  show "test_cases (report_options ns) \<noteq> Some []"
    using lists [of "optionals report_parser ! 7" "''test''"] by (simp add: declared report_options_def)
  show "test_cases_disabled (report_options ns) \<noteq> Some []"
    using lists [of "optionals report_parser ! 8" "''disable_test''"] by (simp add: declared report_options_def)
  have "\<forall>g \<in> set (exclusive report_parser). \<forall>a \<in> set (optionals report_parser). \<forall>b \<in> set (optionals report_parser).
      dest a \<in> set g \<and> dest b \<in> set g \<and> a \<noteq> b \<and> nargs a \<noteq> Help \<and> nargs b \<noteq> Help
      \<longrightarrow> dget ns (dest a) = Some (default_value a) \<or> dget ns (dest b) = Some (default_value b)"
    using ok unfolding options_ok_def by (rule conjunct2)
  from this [rule_format, of "hd (exclusive report_parser)" "optionals report_parser ! 7" "optionals report_parser ! 8"]
  have "dget ns ''test'' = Some No_Value \<or> dget ns ''disable_test'' = Some No_Value"
    by (simp add: declared)
  then show "test_cases (report_options ns) = None \<or> test_cases_disabled (report_options ns) = None"
    by (auto simp: report_options_def texts_of_def)
qed

text \<open>The two files of \<open>generate_xlsx_report.py\<close> are required, so that their absence is noticed by the parser only.\<close>

theorem xlsx_files_given:
  assumes "parse_args xlsx_parser argv = Inr ns"
  shows "text_of ns ''input'' \<noteq> None \<and> text_of ns ''output'' \<noteq> None"
proof -
  have "options_ok xlsx_parser ns" using parsed_or_exit [OF parsers_ok(4) assms] by simp
  then have "\<exists>v. dget ns (dest a) = Some v \<and> admissible a v" if "a \<in> set (optionals xlsx_parser)" "required a" "nargs a \<noteq> Help" for a
    using that unfolding options_ok_def by auto
  from this [of "optionals xlsx_parser ! 1"] this [of "optionals xlsx_parser ! 2"] show ?thesis
    by (auto simp: xlsx_parser_def optional_arg_def help_arg_def admissible_def text_of_def)
qed



text \<open>A command line for given options, each value in the word of its option.\<close>

definition word_of :: "string \<Rightarrow> string \<Rightarrow> string" where "word_of opt v = opt @ CHR ''='' # v"

definition list_words :: "string \<Rightarrow> string list option \<Rightarrow> string list" where
  "list_words opt names = (case names of None \<Rightarrow> [] | Some ns \<Rightarrow> opt # ns)"

definition value_words :: "options \<Rightarrow> string list" where
  "value_words opts =
     [word_of ''--publisher'' (publisher opts), word_of ''--subscriber'' (subscriber opts),
      word_of ''--data-representation'' (data_representation opts),
      word_of ''--periodic-announcement'' (show_nat (periodic_announcement_ms opts))]"

definition report_command :: "options \<Rightarrow> string list" where
  "report_command opts =
     value_words opts @ list_words ''--test'' (test_cases opts) @ list_words ''--disable-test'' (test_cases_disabled opts)"

definition names_ok :: "string list option \<Rightarrow> bool" where
  "names_ok names \<longleftrightarrow> (case names of None \<Rightarrow> True | Some ns \<Rightarrow> ns \<noteq> [] \<and> list_all (\<lambda>n. \<not> starts_with ''-'' n) ns)"

definition askable :: "options \<Rightarrow> bool" where
  "askable opts \<longleftrightarrow> data_representation opts \<in> {''1'', ''2''} \<and> names_ok (test_cases opts) \<and> names_ok (test_cases_disabled opts)
     \<and> (test_cases opts = None \<or> test_cases_disabled opts = None) \<and> length (show_nat (periodic_announcement_ms opts)) \<le> 4300"

lemma report_no_sign: "no_sign report_parser"
  by code_simp

lemma report_finds:
  "find_option report_parser ''--publisher'' = Some (optionals report_parser ! 1)"
  "find_option report_parser ''--subscriber'' = Some (optionals report_parser ! 2)"
  "find_option report_parser ''--data-representation'' = Some (optionals report_parser ! 4)"
  "find_option report_parser ''--periodic-announcement'' = Some (optionals report_parser ! 5)"
  "find_option report_parser ''--test'' = Some (optionals report_parser ! 7)"
  "find_option report_parser ''--disable-test'' = Some (optionals report_parser ! 8)"
  by code_simp+

lemma report_fields:
  "dest (optionals report_parser ! 1) = ''publisher''" "nargs (optionals report_parser ! 1) = One" "arg_kind (optionals report_parser ! 1) = Any_Text" "choices (optionals report_parser ! 1) = None" "default_value (optionals report_parser ! 1) = No_Value"
  "dest (optionals report_parser ! 2) = ''subscriber''" "nargs (optionals report_parser ! 2) = One" "arg_kind (optionals report_parser ! 2) = Any_Text" "choices (optionals report_parser ! 2) = None" "default_value (optionals report_parser ! 2) = No_Value"
  "dest (optionals report_parser ! 4) = ''data_representation''" "nargs (optionals report_parser ! 4) = One" "arg_kind (optionals report_parser ! 4) = Any_Text" "choices (optionals report_parser ! 4) = Some [''1'', ''2'']" "default_value (optionals report_parser ! 4) = Text_Value ''2''"
  "dest (optionals report_parser ! 5) = ''periodic_announcement''" "nargs (optionals report_parser ! 5) = One" "arg_kind (optionals report_parser ! 5) = An_Integer" "choices (optionals report_parser ! 5) = None" "default_value (optionals report_parser ! 5) = Int_Value 0"
  "dest (optionals report_parser ! 7) = ''test''" "nargs (optionals report_parser ! 7) = One_Or_More" "arg_kind (optionals report_parser ! 7) = Any_Text" "choices (optionals report_parser ! 7) = None" "default_value (optionals report_parser ! 7) = No_Value"
  "dest (optionals report_parser ! 8) = ''disable_test''" "nargs (optionals report_parser ! 8) = One_Or_More" "arg_kind (optionals report_parser ! 8) = Any_Text" "choices (optionals report_parser ! 8) = None" "default_value (optionals report_parser ! 8) = No_Value"
  by (simp_all add: report_parser_def optional_arg_def switch_arg_def help_arg_def)

lemma take_value:
  assumes "nargs a = One" "rbind (convert_arg (arg_kind a) s) (check_value a) = Inr v"
    and "list_all (\<lambda>g. dest a \<notin> set g) (exclusive p)"
  shows "take_action p (a, [s]) st = Inr (st\<lparr>seen_actions := dest a # seen_actions st, namespace := dset (dest a) v (namespace st),
    seen_non_default := (if v = default_value a then seen_non_default st else dest a # seen_non_default st)\<rparr>)"
  using assms by (cases st) (auto simp: take_action_def get_values_def Let_def list_ex_iff list_all_iff)

lemma take_texts:
  assumes "nargs a = One_Or_More" "default_value a = No_Value" "set (seen_non_default st) \<inter> \<Union> (set ` set (exclusive p)) = {}"
  shows "take_action p (a, ss) st = Inr (st\<lparr>seen_actions := dest a # seen_actions st, namespace := dset (dest a) (Texts ss) (namespace st),
    seen_non_default := dest a # seen_non_default st\<rparr>)"
proof -
  have "\<not> list_ex (\<lambda>g. dest a \<in> set g \<and> list_ex (\<lambda>d. d \<noteq> dest a \<and> d \<in> set (seen_non_default st)) g) (exclusive p)"
    using assms(3) by (auto simp: list_ex_iff)
  with assms(1,2) show ?thesis by (cases st) (simp add: take_action_def get_values_def Let_def)
qed

definition group_free :: "parse_state \<Rightarrow> bool" where   \<comment> \<open>neither \<open>-t\<close> nor \<open>-d\<close> was read\<close>
  "group_free st \<longleftrightarrow> set (seen_non_default st) \<inter> {''test'', ''disable_test''} = {}"

lemma read_report_value:
  assumes "find_option report_parser s = Some a" "starts_with ''-'' s" "nargs a = One" "dest a \<notin> {''test'', ''disable_test''}"
    and "rbind (convert_arg (arg_kind a) x) (check_value a) = Inr v" "group_free st"
  shows "\<exists>st'. (\<forall>ss. read_words report_parser (word_of s x # ss) st = read_words report_parser ss st') \<and> group_free st'
    \<and> namespace st' = dset (dest a) v (namespace st) \<and> seen_actions st' = dest a # seen_actions st \<and> extras st' = extras st"
proof -
  have "list_all (\<lambda>g. dest a \<notin> set g) (exclusive report_parser)" using assms(4) by (simp add: report_parser_def)
  from read_value [OF assms(1,2) report_no_sign assms(3) take_value [OF assms(3,5) this]] assms(4,6) show ?thesis
    unfolding word_of_def
    by (intro exI [of _ "st\<lparr>seen_actions := dest a # seen_actions st, namespace := dset (dest a) v (namespace st),
      seen_non_default := (if v = default_value a then seen_non_default st else dest a # seen_non_default st)\<rparr>"])
      (auto simp: group_free_def)
qed

lemma read_report_texts:
  assumes "find_option report_parser s = Some a" "starts_with ''-'' s" "s \<noteq> ''--''" "nargs a = One_Or_More" "default_value a = No_Value"
    and "names_ok names" "group_free st" "dget (namespace st) (dest a) = Some No_Value"
  shows "\<exists>st'. read_words report_parser (list_words s names) st = Inr st'
    \<and> (\<forall>d. dget (namespace st') d = (if d = dest a \<and> names \<noteq> None then map_option Texts names else dget (namespace st) d))
    \<and> set (seen_actions st) \<subseteq> set (seen_actions st') \<and> extras st' = extras st"
proof (cases names)
  case None
  then show ?thesis by (auto simp: list_words_def read_nothing)
next
  case (Some ns)
  have free: "set (seen_non_default st) \<inter> \<Union> (set ` set (exclusive report_parser)) = {}"
    using assms(7) by (auto simp: group_free_def report_parser_def)
  from Some assms(6) have "ns \<noteq> []" "list_all (\<lambda>n. \<not> starts_with ''-'' n) ns" by (simp_all add: names_ok_def)
  from read_list [OF assms(1,2,4,3) this take_texts [OF assms(4,5) free]] show ?thesis
    by (auto simp: Some list_words_def dict_simps)
qed

lemma report_values_read:
  assumes "askable opts"
  obtains s4 where "group_free s4" "extras s4 = []" "{''publisher'', ''subscriber''} \<subseteq> set (seen_actions s4)"
    "\<And>ss. read_words report_parser (value_words opts @ ss)
        \<lparr>namespace = parser_defaults report_parser, seen_actions = [], seen_non_default = [], extras = []\<rparr> = read_words report_parser ss s4"
    "namespace s4 = [(''publisher'', Text_Value (publisher opts)), (''subscriber'', Text_Value (subscriber opts)),
      (''verbose'', Switch False), (''data_representation'', Text_Value (data_representation opts)),
      (''periodic_announcement'', Int_Value (int (periodic_announcement_ms opts))),
      (''suite'', Text_Value ''test_suite''), (''test'', No_Value), (''disable_test'', No_Value), (''output_name'', No_Value)]"
proof -
  let ?p = report_parser and ?A = "\<lambda>i. optionals report_parser ! i"
  let ?start = "\<lparr>namespace = parser_defaults ?p, seen_actions = [], seen_non_default = [], extras = []\<rparr>"
  note fields = report_fields report_fields(1-5) [unfolded One_nat_def] convert_arg_def check_value_def
  have number: "rbind (convert_arg An_Integer (show_nat n)) (check_value (?A 5)) = Inr (Int_Value (int n))"
    if "length (show_nat n) \<le> 4300" for n
    using that show_nat_digits [of n] filter_True [of "show_nat n" is_digit]
    by (simp add: fields int_of_nat_text list_all_iff)
  have start: "group_free ?start" by (simp add: group_free_def)
  from read_report_value [OF report_finds(1) _ _ _ _ start, of "publisher opts" "Text_Value (publisher opts)"] obtain s1
    where s1: "\<And>ss. read_words ?p (word_of ''--publisher'' (publisher opts) # ss) ?start = read_words ?p ss s1" "group_free s1"
      "namespace s1 = dset ''publisher'' (Text_Value (publisher opts)) (parser_defaults ?p)" "seen_actions s1 = [''publisher'']" "extras s1 = []"
    by (auto simp: fields)
  from read_report_value [OF report_finds(2) _ _ _ _ s1(2), of "subscriber opts" "Text_Value (subscriber opts)"] obtain s2
    where s2: "\<And>ss. read_words ?p (word_of ''--subscriber'' (subscriber opts) # ss) s1 = read_words ?p ss s2" "group_free s2"
      "namespace s2 = dset ''subscriber'' (Text_Value (subscriber opts)) (namespace s1)" "seen_actions s2 = ''subscriber'' # seen_actions s1" "extras s2 = []"
    by (auto simp: fields s1(5))
  have rep: "rbind (convert_arg Any_Text (data_representation opts)) (check_value (?A 4)) = Inr (Text_Value (data_representation opts))"
    using assms by (auto simp: askable_def fields)
  from read_report_value [OF report_finds(3) _ _ _ _ s2(2), of "data_representation opts" "Text_Value (data_representation opts)"] rep obtain s3
    where s3: "\<And>ss. read_words ?p (word_of ''--data-representation'' (data_representation opts) # ss) s2 = read_words ?p ss s3" "group_free s3"
      "namespace s3 = dset ''data_representation'' (Text_Value (data_representation opts)) (namespace s2)" "seen_actions s3 = ''data_representation'' # seen_actions s2" "extras s3 = []"
    by (auto simp: report_fields s2(5))
  let ?n = "periodic_announcement_ms opts"
  from read_report_value [OF report_finds(4) _ _ _ _ s3(2), of "show_nat ?n" "Int_Value (int ?n)"] number [of ?n] assms obtain s4
    where s4: "\<And>ss. read_words ?p (word_of ''--periodic-announcement'' (show_nat ?n) # ss) s3 = read_words ?p ss s4" "group_free s4"
      "namespace s4 = dset ''periodic_announcement'' (Int_Value (int ?n)) (namespace s3)" "seen_actions s4 = ''periodic_announcement'' # seen_actions s3" "extras s4 = []"
    by (auto simp: report_fields askable_def s3(5))
  have names: "namespace s4 = [(''publisher'', Text_Value (publisher opts)), (''subscriber'', Text_Value (subscriber opts)),
      (''verbose'', Switch False), (''data_representation'', Text_Value (data_representation opts)), (''periodic_announcement'', Int_Value (int ?n)),
      (''suite'', Text_Value ''test_suite''), (''test'', No_Value), (''disable_test'', No_Value), (''output_name'', No_Value)]"
    unfolding s4(3) s3(3) s2(3) s1(3) by (simp add: parser_defaults_def report_parser_def optional_arg_def switch_arg_def help_arg_def)
  have "{''publisher'', ''subscriber''} \<subseteq> set (seen_actions s4)" by (simp add: s1(4) s2(4) s3(4) s4(4))
  moreover have "read_words ?p (value_words opts @ ss) ?start = read_words ?p ss s4" for ss
    by (simp add: value_words_def s1(1) s2(1) s3(1) s4(1))
  ultimately show thesis by (rule that [OF s4(2,5) _ _ names])
qed

text \<open>
  C17: Every selection can be asked for, and is read as it was written. For all executables, whatever characters are
  in their names, all lists of tests whose names are no options, either data representation and every period, the
  command line that gives each of them is accepted and the options of \<open>main\<close> are those values.
\<close>

theorem report_command_read:
  assumes "askable opts"
  shows "\<exists>ns. parse_args report_parser (report_command opts) = Inr ns \<and> report_options ns = opts
    \<and> text_arg ns ''suite'' = ''test_suite'' \<and> \<not> switch_of ns ''verbose'' \<and> text_of ns ''output_name'' = None"
proof -
  let ?p = report_parser
  let ?start = "\<lparr>namespace = parser_defaults ?p, seen_actions = [], seen_non_default = [], extras = []\<rparr>"
  from report_values_read [OF assms] obtain s4 where s4: "group_free s4" "extras s4 = []"
    "{''publisher'', ''subscriber''} \<subseteq> set (seen_actions s4)"
    "\<And>ss. read_words ?p (value_words opts @ ss) ?start = read_words ?p ss s4"
    and names: "namespace s4 = [(''publisher'', Text_Value (publisher opts)), (''subscriber'', Text_Value (subscriber opts)),
      (''verbose'', Switch False), (''data_representation'', Text_Value (data_representation opts)),
      (''periodic_announcement'', Int_Value (int (periodic_announcement_ms opts))),
      (''suite'', Text_Value ''test_suite''), (''test'', No_Value), (''disable_test'', No_Value), (''output_name'', No_Value)]"
    by blast
  have line: "read_words ?p (report_command opts) ?start =
      read_words ?p (list_words ''--test'' (test_cases opts) @ list_words ''--disable-test'' (test_cases_disabled opts)) s4"
    by (simp add: report_command_def s4(4) del: append_Cons)
  have "\<exists>st. read_words ?p (report_command opts) ?start = Inr st \<and> extras st = [] \<and> set (seen_actions s4) \<subseteq> set (seen_actions st)
      \<and> (\<forall>d. dget (namespace st) d = (if d = ''test'' \<and> test_cases opts \<noteq> None then map_option Texts (test_cases opts)
          else if d = ''disable_test'' \<and> test_cases_disabled opts \<noteq> None then map_option Texts (test_cases_disabled opts)
          else dget (namespace s4) d))"
  proof (cases "test_cases opts")
    case None
    from read_report_texts [OF report_finds(6) _ _ _ _ _ s4(1), of "test_cases_disabled opts"] assms obtain st where
      "read_words ?p (list_words ''--disable-test'' (test_cases_disabled opts)) s4 = Inr st" "set (seen_actions s4) \<subseteq> set (seen_actions st)"
      "\<And>d. dget (namespace st) d = (if d = ''disable_test'' \<and> test_cases_disabled opts \<noteq> None
          then map_option Texts (test_cases_disabled opts) else dget (namespace s4) d)" "extras st = []"
      by (auto simp: report_fields askable_def names s4(2))
    then show ?thesis unfolding line by (intro exI [of _ st]) (simp add: None list_words_def)
  next
    case (Some ts)
    with assms have none: "test_cases_disabled opts = None" by (simp add: askable_def)
    from read_report_texts [OF report_finds(5) _ _ _ _ _ s4(1), of "test_cases opts"] assms obtain st where
      "read_words ?p (list_words ''--test'' (test_cases opts)) s4 = Inr st" "set (seen_actions s4) \<subseteq> set (seen_actions st)"
      "\<And>d. dget (namespace st) d = (if d = ''test'' \<and> test_cases opts \<noteq> None
          then map_option Texts (test_cases opts) else dget (namespace s4) d)" "extras st = []"
      by (auto simp: report_fields askable_def names s4(2))
    then show ?thesis unfolding line none by (intro exI [of _ st]) (auto simp: list_words_def)
  qed
  then obtain st where st: "read_words ?p (report_command opts) ?start = Inr st" "extras st = []" "set (seen_actions s4) \<subseteq> set (seen_actions st)"
    "\<And>d. dget (namespace st) d = (if d = ''test'' \<and> test_cases opts \<noteq> None then map_option Texts (test_cases opts)
          else if d = ''disable_test'' \<and> test_cases_disabled opts \<noteq> None then map_option Texts (test_cases_disabled opts)
          else dget (namespace s4) d)" by blast
  have "{''publisher'', ''subscriber''} \<subseteq> set (seen_actions st)" using st(3) s4(3) by auto
  then have "parse_args ?p (report_command opts) = Inr (namespace st)"
    using parse_args_read [OF _ st(1)] st(2) by (simp add: report_parser_def optional_arg_def switch_arg_def help_arg_def)
  moreover have "report_options (namespace st) = opts"
    by (cases opts) (simp add: report_options_def text_arg_def text_of_def texts_of_def int_arg_def int_of_def st(4) names split: option.splits)
  ultimately show ?thesis by (simp add: text_arg_def text_of_def switch_of_def st(4) names)
qed

lemma report_command_read_witness:
  "\<exists>ns. parse_args report_parser [''--publisher=-a b'', ''--subscriber=c'', ''--data-representation=1'', ''--periodic-announcement=20'',
      ''--test'', ''Test_Domain_0''] = Inr ns \<and> test_cases (report_options ns) = Some [''Test_Domain_0''] \<and> publisher (report_options ns) = ''-a b''"
proof -
  let ?o = "\<lparr>publisher = ''-a b'', subscriber = ''c'', test_cases = Some [''Test_Domain_0''], test_cases_disabled = None,
    data_representation = ''1'', periodic_announcement_ms = 20\<rparr>"
  have "show_nat 20 = ''20''" by code_simp
  then have "askable ?o" "report_command ?o = [''--publisher=-a b'', ''--subscriber=c'', ''--data-representation=1'',
      ''--periodic-announcement=20'', ''--test'', ''Test_Domain_0'']"
    by (simp_all add: askable_def names_ok_def report_command_def value_words_def word_of_def list_words_def)
  with report_command_read [of ?o] show ?thesis by auto
qed

end
