(* ===== verification/Discovered.thy ===== *)
theory Discovered
  imports Discovery_Report "HOL-Library.Code_Target_Numeral"
begin

text \<open>
  What holds of the discovery sniffer: the decoders on every number, the participants and endpoints that
  are collected from a capture, and the JSON file over several runs.
\<close>

section \<open>Shared facts\<close>

lemma set_dset: "x \<in> set (dset k v d) \<Longrightarrow> x = (k, v) \<or> x \<in> set d"
  by (induction d) (auto split: if_splits)

lemma distinct_add_new: "distinct xs \<Longrightarrow> distinct (add_new x xs)"
  by (simp add: add_new_def)

lemma distinct_fold_add_new: "distinct ys \<Longrightarrow> distinct (fold add_new xs ys)"
  by (induction xs arbitrary: ys) (simp_all add: distinct_add_new)

lemma rfold_append: "rfold f (xs @ ys) s = rbind (rfold f xs s) (rfold f ys)"
proof (induction xs arbitrary: s)
  case (Cons x xs)
  then show ?case by (cases "f x s") simp_all
qed simp

section \<open>Decoders\<close>

lemma zeros_nonempty: "s \<noteq> [] \<Longrightarrow> zeros w s \<noteq> []"
  by (simp add: zeros_def)

lemma show_int_nat: "0 \<le> i \<Longrightarrow> show_int i = show_nat (nat i)"
  by (simp add: show_int_def)

lemma low_byte: "n AND 0xFF = n mod 256" for n :: int
  using take_bit_eq_mask [of 8 n] by (simp add: take_bit_eq_mod mask_eq_exp_minus_1)

text \<open>
  A protocol version is decoded within its range. For every integer the version is two numbers
  below 256, which are the two low bytes of the integer, and the hexadecimal text of a 16-bit value is
  decoded to the same version as the value.
\<close>

theorem version_bounds:
  "\<exists>major minor. decode_version (PInt n) = Inr (show_nat major @ ''.'' @ show_nat minor)
     \<and> major < 256 \<and> minor < 256 \<and> n mod 65536 = int (256 * major + minor)
   \<and> decode_version (PStr (''0x'' @ zeros 4 (show_hex (unat (w :: 16 word))))) = decode_version (PInt (uint w))"
proof -
  let ?s = "''0x'' @ zeros 4 (show_hex (unat w))"
  have "py_strip ?s = ?s" by (rule strip_hex) (use show_hex_text hex_text_zeros zeros_nonempty in blast)+
  moreover have "6 \<le> length ?s" by (simp add: zeros_def)
  ultimately have hexa: "decode_version (PStr ?s) = decode_version (PInt (uint w))"
    using int_of_hex [of 4 "unat w"] by (simp add: decode_version_def py_str_def)
  have bytes: "n mod 65536 = 256 * (n div 256 mod 256) + n mod 256"
    using mod_mult2_eq' [of n 256 256] by simp
  have "decode_version (PInt n) = Inr (show_nat (nat (n div 256 mod 256)) @ ''.'' @ show_nat (nat (n mod 256)))"
    by (simp add: decode_version_def version_text_def show_int_nat drop_bit_eq_div low_byte)
  with hexa bytes show ?thesis
    by (intro exI conjI) (assumption | simp add: nat_less_iff)+
qed

lemma bits_24:
  fixes n :: int
  shows "(\<Sum>i \<leftarrow> [0..<24]. if bit n i then 2 ^ i else 0) = n AND 0xFFFFFF"
proof -
  have "(\<Sum>i \<leftarrow> [0..<k]. if bit n i then 2 ^ i else 0) = take_bit k n" for k
    by (induction k) (simp_all add: take_bit_Suc_from_most)
  from this [of 24] show ?thesis
    using take_bit_eq_mask [of 24 n] by (simp only: mask_eq_exp_minus_1) simp
qed

lemma and_bit: "n AND 2 ^ i \<noteq> 0 \<longleftrightarrow> bit n i" for n :: int
  by (simp add: and_exp_eq_0_iff_not_bit)

lemma builtin_bits: "map fst BUILTIN_ENDPOINTS_MAP = map ((^) 2) [0..<24]"
  by code_simp

lemma builtin_names: "distinct (map snd BUILTIN_ENDPOINTS_MAP)"
  by code_simp

text \<open>
  C34: The set of built-in endpoints is decoded without loss. The hexadecimal text of a 32-bit mask gives the
  same as the mask itself, the text is given back, a name is listed exactly when its bit is set, and the bits
  of the listed names add up to the 24 bits of the table.
\<close>

theorem builtin_endpoints_exact:
  "\<exists>flags. decode_builtin_endpoints (PStr (''0x'' @ zeros 8 (show_hex (unat (w :: 32 word)))))
        = Inr (''0x'' @ zeros 8 (show_hex (unat w)), flags)
     \<and> decode_builtin_endpoints (PInt (uint w)) = Inr (''0x'' @ zeros 8 (show_hex (unat w)), flags)
     \<and> distinct flags
     \<and> (\<Sum>(b, name) \<leftarrow> BUILTIN_ENDPOINTS_MAP. if name \<in> set flags then b else 0) = uint w AND 0xFFFFFF"
proof -
  let ?set = "\<lambda>(b, name). uint w AND b \<noteq> (0 :: int)"
  let ?flags = "map snd (filter ?set BUILTIN_ENDPOINTS_MAP)"
  have inj: "inj_on snd (set BUILTIN_ENDPOINTS_MAP)" using builtin_names by (simp add: distinct_map)
  have listed: "snd e \<in> set ?flags \<longleftrightarrow> ?set e" if "e \<in> set BUILTIN_ENDPOINTS_MAP" for e
    using that inj by (auto simp: inj_on_def)
  have "(\<Sum>e \<leftarrow> BUILTIN_ENDPOINTS_MAP. if snd e \<in> set ?flags then fst e else 0)
      = (\<Sum>e \<leftarrow> BUILTIN_ENDPOINTS_MAP. if uint w AND fst e \<noteq> 0 then fst e else 0)"
    using listed by (intro arg_cong [where f = sum_list] map_cong refl) (simp add: case_prod_beta)
  also have "\<dots> = (\<Sum>b \<leftarrow> map fst BUILTIN_ENDPOINTS_MAP. if uint w AND b \<noteq> 0 then b else 0)"
    by (simp add: comp_def)
  also have "\<dots> = (\<Sum>i \<leftarrow> [0..<24]. if bit (uint w) i then 2 ^ i else 0)"
    unfolding builtin_bits and_bit [symmetric] by (simp only: map_map comp_def)
  also have "\<dots> = uint w AND 0xFFFFFF" by (rule bits_24)
  finally have "(\<Sum>(b, name) \<leftarrow> BUILTIN_ENDPOINTS_MAP. if name \<in> set ?flags then b else 0) = uint w AND 0xFFFFFF"
    by (simp only: case_prod_unfold)
  moreover have "distinct ?flags" using builtin_names by (rule distinct_map_filter)
  ultimately show ?thesis
    using int_of_hex [of 8 "unat w"]
    by (intro exI [of _ ?flags]) (simp add: decode_builtin_endpoints_def mask_text_def format_hex_def del: map_map)
qed

lemma lower_hex_digit: "n < 16 \<Longrightarrow> lower_char (hex_digit n) = hex_digit n"
  using hex_digit_code [of n] by (auto simp: lower_char_def)

lemma hex_text_plain:
  assumes "hex_text h"
  shows "py_lower h = h" "py_strip h = h" "no_separators h = h" "no_0x h = h"
proof -
  have plain: "lower_char c = c \<and> \<not> is_space c \<and> c \<noteq> CHR '':'' \<and> c \<noteq> CHR ''.'' \<and> c \<noteq> CHR ''x''" if "c \<in> set h" for c
    using that assms hex_digit_plain lower_hex_digit by (fastforce simp: hex_text_def)
  show "py_lower h = h" using plain by (simp add: py_lower_def map_idI)
  show "no_separators h = h" using plain by (simp add: no_separators_def filter_id_conv)
  have "lstrip s = s" if "set s \<subseteq> set h" for s using that plain by (cases s) (auto simp: lstrip_def)
  then show "py_strip h = h" by (simp add: py_strip_def)
  show "no_0x h = h"
    using plain by (cases h; cases "tl h") (auto simp: no_0x_def)
qed

lemma show_hex_length: "n < 16 ^ Suc k \<Longrightarrow> length (show_hex n) \<le> Suc k"
proof (induction k arbitrary: n)
  case (Suc k)
  then show ?case by (cases "n < 16") (auto simp: show_hex.simps [of n] less_mult_imp_div_less)
qed (simp add: show_hex.simps)

lemma small_16: "unat w < 65536" for w :: "16 word"
proof -
  have "unat w < 2 ^ LENGTH(16)" by (rule unsigned_less)
  then show ?thesis by simp
qed

lemma four_digits:
  "hex_text (zeros 4 (show_hex (unat w))) \<and> length (zeros 4 (show_hex (unat w))) = 4" for w :: "16 word"
proof
  show "hex_text (zeros 4 (show_hex (unat w)))" using show_hex_text by (intro hex_text_zeros) blast
  have "length (show_hex (unat w)) \<le> 4" using show_hex_length [of "unat w" 3] small_16 [of w] by simp
  then show "length (zeros 4 (show_hex (unat w))) = 4" by (simp add: zeros_def)
qed

text \<open>
  A vendor is recognised in every notation of its id. For each of the 65536 ids, the number, its four hexadecimal
  digits, the digits after \<open>0x\<close>, and the dotted form that the decoder itself returns are all decoded
  to the same dotted id and the same name.
\<close>

theorem vendor_notations:
  fixes w :: "16 word"
  defines "h \<equiv> zeros 4 (show_hex (unat w))"
  shows "decode_vendor (PInt (uint w)) = (take 2 h @ ''.'' @ drop 2 h, dget_or VENDOR_MAP h (''Unknown DDS Vendor ('' @ h @ '')''))
    \<and> decode_vendor (PStr h) = decode_vendor (PInt (uint w))
    \<and> decode_vendor (PStr (''0x'' @ h)) = decode_vendor (PInt (uint w))
    \<and> decode_vendor (PStr (fst (decode_vendor (PInt (uint w))))) = decode_vendor (PInt (uint w))"
proof -
  have h: "hex_text h" "length h = 4" using four_digits [of w] by (simp_all add: h_def)
  note plain = hex_text_plain [OF h(1)]
  obtain a b c d where abcd: "h = [a, b, c, d]" using h(2) by (auto simp: length_Suc_conv numeral_eq_Suc)
  have signs: "a \<noteq> CHR ''+''" "a \<noteq> CHR ''-''" using h(1) hex_digit_plain by (auto simp: abcd)
  then have fill: "zfill 4 h = h" by (simp add: abcd zeros_def)
  have number: "normalize_hex (PInt (uint w)) = h" by (simp add: normalize_hex_def format_hex_def h_def)
  have digits: "normalize_hex (PStr h) = h" by (simp add: normalize_hex_def py_str_def plain fill)
  have prefixed: "normalize_hex (PStr (''0x'' @ h)) = h"
    using strip_hex [of h] h abcd plain fill
    by (simp add: normalize_hex_def py_str_def py_lower_append [of "''0x''" h, simplified] no_0x_def py_lower_def lower_char_def)
  let ?dotted = "[a, b, CHR ''.'', c, d]"
  have digit: "lower_char x = x \<and> \<not> is_space x \<and> x \<noteq> CHR '':'' \<and> x \<noteq> CHR ''.'' \<and> x \<noteq> CHR ''x''" if "x \<in> {a, b, c, d}" for x
    using that h(1) hex_digit_plain lower_hex_digit by (auto simp: abcd)
  have "py_lower ?dotted = ?dotted" using digit by (simp add: py_lower_def) (simp add: lower_char_def)
  moreover have "py_strip ?dotted = ?dotted" using digit by (simp add: py_strip_def lstrip_def)
  moreover have "no_0x ?dotted = ?dotted" using digit [of b] by (auto simp: no_0x_def)
  moreover have "no_separators ?dotted = h" using digit by (simp add: no_separators_def abcd)
  ultimately have "normalize_hex (PStr ?dotted) = h" using fill by (simp add: normalize_hex_def py_str_def)
  then show ?thesis using number digits prefixed h(2) abcd by (simp add: decode_vendor_def Let_def)
qed

section \<open>The participants and endpoints of a capture\<close>

definition participants_ok :: "(string, participant) dict \<Rightarrow> bool" where
  "participants_ok ps \<longleftrightarrow> dvalid ps
     \<and> (\<forall>(g, p) \<in> set ps. guid_prefix p = g \<and> g \<noteq> [] \<and> length g \<le> 24 \<and> distinct (locators p))"

definition prefix_ok :: "spdp \<times> locator list \<Rightarrow> bool" where
  "prefix_ok st \<longleftrightarrow> (\<forall>g. found_prefix (fst st) = Some g \<longrightarrow> length g \<le> 24)"

lemma see_keeps_prefix:
  "found_prefix (see_vendor node k v found) = found_prefix found"
  "see_version node k v found = Inr f \<Longrightarrow> found_prefix f = found_prefix found"
  "see_lease node found = Inr f \<Longrightarrow> found_prefix f = found_prefix found"
  "see_builtin node k v found = Inr f \<Longrightarrow> found_prefix f = found_prefix found"
  by (auto simp: see_vendor_def see_version_def see_lease_def see_builtin_def Let_def rbind_Inr_iff split: if_splits sum.splits)

lemma see_guid_prefix: "prefix_ok (found, l) \<Longrightarrow> prefix_ok (see_guid node k v found, l')"
  by (simp add: see_guid_def prefix_ok_def)

lemma inspect_prefix: "prefix_ok st \<Longrightarrow> inspect_spdp_entry node kv st = Inr st' \<Longrightarrow> prefix_ok st'"
  using see_guid_prefix [of "fst st" "snd st" node "fst kv" "snd kv" "snd st"]
  by (cases kv; cases st)
    (auto simp: inspect_spdp_entry_def rbind_Inr_iff prefix_ok_def see_keeps_prefix split: if_splits
      dest!: see_keeps_prefix(2-4))

lemma inspected_prefix: "rfold inspect_spdp_node nodes (no_spdp, []) = Inr st \<Longrightarrow> prefix_ok st"
proof (erule rfold_invariant [where P = prefix_ok, rotated -1])
  show "prefix_ok (no_spdp, [])" by (simp add: prefix_ok_def no_spdp_def)
  show "prefix_ok s'" if "prefix_ok s" "inspect_spdp_node x s = Inr s'" for x s s'
    using rfold_invariant [of x prefix_ok "inspect_spdp_entry x" s s'] that inspect_prefix
    by (auto simp: inspect_spdp_node_def)
qed

lemma participant_guid_length: "prefix_ok (found, locs) \<Longrightarrow> length (participant_guid found h) \<le> 24"
  by (auto simp: participant_guid_def prefix_ok_def split: option.split list.split)

lemma see_participant_keys:
  assumes "see_participant ip h v r found locs ps = Inr ps'"
  shows "dkeys ps' = (let g = participant_guid found h in if g = [] then dkeys ps else add_new g (dkeys ps))"
proof -
  have key: "dget ps g = None \<longleftrightarrow> g \<notin> set (dkeys ps)" "dget ps g = Some p \<Longrightarrow> g \<in> set (dkeys ps)" for g p
    by (simp_all add: map_of_eq_None_iff) (metis domI domIff map_of_eq_None_iff)
  show ?thesis
    using assms key(1) [THEN iffD1, of "participant_guid found h"] key(2) [of "participant_guid found h"]
    by (auto simp del: set_map simp: see_participant_def Let_def rbind_Inr_iff dset_keys add_new_def split: if_splits option.splits)
qed

lemma see_participant_ok:
  assumes "participants_ok ps" "prefix_ok (found, locs)" "see_participant ip h v r found locs ps = Inr ps'"
  shows "participants_ok ps'"
proof -
  let ?g = "participant_guid found h"
  have new: "guid_prefix p = ?g \<and> distinct (locators p)" if "new_participant ?g ip v r found locs = Inr p" for p
    using that by (auto simp: new_participant_def rbind_Inr_iff distinct_fold_add_new split: prod.splits)
  have old: "guid_prefix (augment_participant found locs p) = ?g \<and> distinct (locators (augment_participant found locs p))"
    if "dget ps ?g = Some p" for p
    using assms(1) map_of_SomeD [OF that]
    by (auto simp: participants_ok_def augment_participant_def Let_def distinct_fold_add_new split: option.splits)
  have "participants_ok (dset ?g p ps)" if "guid_prefix p = ?g \<and> distinct (locators p)" "?g \<noteq> []" for p
    using that assms(1) participant_guid_length [OF assms(2)] set_dset by (fastforce simp: participants_ok_def)
  with assms(1,3) new old show ?thesis
    by (auto simp: see_participant_def Let_def rbind_Inr_iff split: if_splits option.splits)
qed

text \<open>The prefix that a packet announces, or nothing.\<close>

definition packet_guid :: "py_value \<Rightarrow> string" where
  "packet_guid pkt =
     (case rbind (read_packet pkt) (\<lambda>p. rbind (rfold inspect_spdp_node (walk_tree (rtps p)) (no_spdp, []))
         (\<lambda>(found, locs). Inr (participant_guid found (header_guid p)))) of
        Inr g \<Rightarrow> g | Inl _ \<Rightarrow> [])"

definition endpoint_id :: "endpoint \<Rightarrow> py_value \<times> py_value" where
  "endpoint_id ep = (dget_or ep ''endpoint_guid'' PNone, dget_or ep ''topic_name'' PNone)"

definition guid_ok :: "endpoint \<Rightarrow> bool" where
  "guid_ok cand \<longleftrightarrow> (\<forall>v. dget cand ''endpoint_guid'' = Some v \<longrightarrow>
     (\<exists>g. v = PStr g \<and> 24 \<le> length g \<and> dget cand ''entity_kind'' = Some (PStr (entity_kind_of (drop (length g - 2) g)))))"

definition endpoint_ok :: "endpoint \<Rightarrow> bool" where
  "endpoint_ok ep \<longleftrightarrow> complete ep \<and> guid_ok ep
     \<and> dget ep ''reliability'' \<noteq> None \<and> dget ep ''durability'' \<noteq> None \<and> dget ep ''ownership'' \<noteq> None"

definition endpoints_ok :: "endpoint list \<Rightarrow> bool" where
  "endpoints_ok eps \<longleftrightarrow> distinct (map endpoint_id eps) \<and> list_all endpoint_ok eps"

lemma guid_ok_dset: "guid_ok cand \<Longrightarrow> k \<noteq> ''endpoint_guid'' \<Longrightarrow> k \<noteq> ''entity_kind'' \<Longrightarrow> guid_ok (dset k v cand)"
  by (simp add: guid_ok_def dget_dset)

lemma inspect_cand_guid: "guid_ok cand \<Longrightarrow> inspect_cand kv cand = Inr cand' \<Longrightarrow> guid_ok cand'"
proof -
  assume ok: "guid_ok cand" and "inspect_cand kv cand = Inr cand'"
  moreover have "guid_ok (see_endpoint_guid v cand)" for v
    using ok by (auto simp: see_endpoint_guid_def Let_def guid_ok_def dget_dset)
  moreover have "guid_ok c" if "see_history v cand = Inr c" for v c
    using that ok by (cases "first_word (py_str v)") (auto simp: see_history_def guid_ok_dset split: sum.splits)
  moreover have "guid_ok c" if "see_kind k t v cand = Inr c" "k \<noteq> ''endpoint_guid''" "k \<noteq> ''entity_kind''" for k t v c
    using that ok by (auto simp: see_kind_def rbind_Inr_iff guid_ok_dset)
  ultimately show ?thesis
    by (cases kv) (auto simp: inspect_cand_def guid_ok_dset split: if_splits)
qed

lemma candidate_guid: "rfold inspect_cand ms [] = Inr cand \<Longrightarrow> guid_ok cand"
  using rfold_invariant [of ms guid_ok inspect_cand "[]" cand] inspect_cand_guid by (force simp: guid_ok_def [of "[]"])

lemma dget_set_default: "dget (set_default k v ep) k' = (if k' = k then Some (dget_or ep k v) else dget ep k')"
  by (auto simp: set_default_def dget_dset dget_or_def split: option.split)

lemma finish_fields:
  "k \<notin> {''src_ip'', ''ownership'', ''durability'', ''reliability''} \<Longrightarrow> dget (finish_endpoint ip cand) k = dget cand k"
  "dget (finish_endpoint ip cand) ''reliability'' \<noteq> None" "dget (finish_endpoint ip cand) ''durability'' \<noteq> None"
  "dget (finish_endpoint ip cand) ''ownership'' \<noteq> None"
  by (auto simp: finish_endpoint_def dget_dset dget_set_default)

lemma finish_ok: "complete cand \<Longrightarrow> guid_ok cand \<Longrightarrow> endpoint_ok (finish_endpoint ip cand)"
  by (simp add: endpoint_ok_def complete_def named_def guid_ok_def finish_fields dget_or_def)

lemma add_endpoint_ok:
  "endpoints_ok eps \<Longrightarrow> complete cand \<Longrightarrow> guid_ok cand \<Longrightarrow> endpoints_ok (add_endpoint ip cand eps)"
  using finish_ok [of cand ip]
  by (auto simp: add_endpoint_def Let_def endpoints_ok_def filter_empty_conv same_endpoint_def endpoint_id_def)

lemma extract_ok: "extract_sedp_endpoints ip v eps = Inr eps' \<Longrightarrow> endpoints_ok eps \<Longrightarrow> endpoints_ok eps'"
proof (induction ip v eps arbitrary: eps' rule: extract_sedp_endpoints.induct)
  case (1 ip d eps)
  have inner: "endpoints_ok eps'" if "rfold (\<lambda>(k, v). extract_sedp_endpoints ip v) d eps = Inr eps'" "found = None \<or> (\<exists>c. found = Some c \<and> \<not> complete c)" for found
    using rfold_invariant [of d endpoints_ok "\<lambda>(k, v). extract_sedp_endpoints ip v" eps eps'] that 1 by fastforce
  from 1(3) obtain found where
    f: "(if has_endpoint (PDict d) then rbind (rfold inspect_cand (members (PDict d)) []) (\<lambda>cand. Inr (Some cand)) else Inr None) = Inr found"
    and r: "(case found of Some cand \<Rightarrow> if complete cand then Inr (add_endpoint ip cand eps)
            else rfold (\<lambda>(k, v). extract_sedp_endpoints ip v) d eps
        | None \<Rightarrow> rfold (\<lambda>(k, v). extract_sedp_endpoints ip v) d eps) = Inr eps'"
    by (auto simp: rbind_Inr_iff)
  show ?case
  proof (cases "\<exists>c. found = Some c \<and> complete c")
    case True
    with f r 1(4) show ?thesis
      by (auto simp: rbind_Inr_iff split: if_splits intro!: add_endpoint_ok candidate_guid)
  next
    case False
    with r have "rfold (\<lambda>(k, v). extract_sedp_endpoints ip v) d eps = Inr eps'" by (cases found) auto
    with inner [of found] False show ?thesis by (cases found) auto
  qed
next
  case (2 ip xs eps)
  then show ?case using rfold_invariant [of xs endpoints_ok "extract_sedp_endpoints ip" eps eps'] by auto
qed auto

lemma parse_packet_step:
  assumes "parse_packet pkt s = Inr s'" "participants_ok (participants s)" "endpoints_ok (endpoints s)"
  shows "participants_ok (participants s') \<and> endpoints_ok (endpoints s') \<and> metadata s' = metadata s
    \<and> dkeys (participants s') = (if packet_guid pkt = [] then dkeys (participants s) else add_new (packet_guid pkt) (dkeys (participants s)))"
proof -
  from assms(1) obtain p found locs ps eps where
    p: "read_packet pkt = Inr p" and st: "rfold inspect_spdp_node (walk_tree (rtps p)) (no_spdp, []) = Inr (found, locs)"
    and ps: "see_participant (ip_src p) (header_guid p) (header_vendor p) (header_version p) found locs (participants s) = Inr ps"
    and eps: "extract_sedp_endpoints (ip_src p) (rtps p) (endpoints s) = Inr eps"
    and s': "s' = s\<lparr>participants := ps, endpoints := eps\<rparr>"
    by (auto simp: parse_packet_def rbind_Inr_iff)
  have "packet_guid pkt = participant_guid found (header_guid p)" by (simp add: packet_guid_def p st)
  with see_participant_keys [OF ps] see_participant_ok [OF assms(2) inspected_prefix [OF st] ps] extract_ok [OF eps assms(3)]
  show ?thesis by (simp add: s' Let_def)
qed

definition announced :: "py_value list \<Rightarrow> string list" where   \<comment> \<open>in order of their first announcement\<close>
  "announced pkts = fold add_new (filter (\<lambda>g. g \<noteq> []) (map packet_guid pkts)) []"

lemma parsed_packets:
  assumes "rfold parse_packet pkts s = Inr s'" "participants_ok (participants s)" "endpoints_ok (endpoints s)"
  shows "participants_ok (participants s') \<and> endpoints_ok (endpoints s') \<and> metadata s' = metadata s
    \<and> dkeys (participants s') = fold add_new (filter (\<lambda>g. g \<noteq> []) (map packet_guid pkts)) (dkeys (participants s))"
  using assms
proof (induction pkts arbitrary: s)
  case (Cons pkt pkts)
  from Cons.prems(1) obtain s1 where s1: "parse_packet pkt s = Inr s1" "rfold parse_packet pkts s1 = Inr s'"
    by (auto simp: rbind_Inr_iff)
  note step = parse_packet_step [OF s1(1) Cons.prems(2,3)]
  with Cons.IH [OF s1(2)] show ?case by simp
qed simp

lemma parsed:
  assumes "parse_discovery_data now pkts = Inr s"
  shows "participants_ok (participants s)" "endpoints_ok (endpoints s)" "dkeys (participants s) = announced pkts"
proof -
  have start: "participants_ok []" "endpoints_ok []"
    by (simp_all add: participants_ok_def endpoints_ok_def dvalid_def)
  from parsed_packets [OF assms [unfolded parse_discovery_data_def]] start
  show "participants_ok (participants s)" "endpoints_ok (endpoints s)" "dkeys (participants s) = announced pkts"
    by (simp_all add: announced_def)
qed

text \<open>
  C30: The participants of a capture are the prefixes that its packets announce. The table of participants, with
  its keys in insertion order, refines the ordered set of announced prefixes: each prefix once, in the order
  of the first packet that announces it, and none that no packet announces. Every entry is stored under its
  own prefix of one to 24 characters and has no locator twice.
\<close>

theorem participants_refine:
  assumes "parse_discovery_data now pkts = Inr s"
  shows "dkeys (participants s) = announced pkts \<and> distinct (announced pkts)
    \<and> set (announced pkts) = packet_guid ` set pkts - {[]}
    \<and> (\<forall>(g, p) \<in> set (participants s). guid_prefix p = g \<and> g \<noteq> [] \<and> length g \<le> 24 \<and> distinct (locators p))"
proof -
  note keys = parsed(3) [OF assms]
  with parsed(1) [OF assms] have "distinct (announced pkts) \<and> (\<forall>(g, p) \<in> set (participants s). guid_prefix p = g \<and> g \<noteq> [] \<and> length g \<le> 24 \<and> distinct (locators p))"
    by (simp add: participants_ok_def dvalid_def)
  moreover have "set (fold add_new gs hs) = set gs \<union> set hs" for gs hs :: "string list"
    by (induction gs arbitrary: hs) (auto simp: add_new_def)
  ultimately show ?thesis by (auto simp: keys announced_def)
qed

text \<open>A packet that announces a participant and, in it, a writer or a reader.\<close>

definition sample_packet :: "string \<Rightarrow> string \<Rightarrow> py_value" where
  "sample_packet guid ending = PDict [(''_source'', PDict [(''layers'', PDict
     [(''ip'', PDict [(''ip.src'', PStr ''10.0.0.1''), (''ip.dst'', PStr ''10.0.0.2'')]),
      (''rtps'', PDict
        [(''rtps.guidPrefix'', PStr guid), (''rtps.vendorId'', PStr ''0x010f''), (''rtps.version'', PStr ''0x0204''),
         (''data'', PDict
           [(''rtps.param.topicName'', PStr ''Square''), (''rtps.param.typeName'', PStr ''ShapeType''),
            (''rtps.param.endpoint_guid'', PStr (guid @ ending)), (''rtps.reliability_kind'', PStr ''2'')])])])])]"

definition sample_capture :: "py_value list" where
  "sample_capture =
     [sample_packet ''010f00000000000000000001'' ''00000103'', sample_packet ''010f00000000000000000002'' ''00000107'']"

lemma sample_parsed: "\<exists>s. parse_discovery_data ''now'' sample_capture = Inr s"
proof -
  have "case parse_discovery_data ''now'' sample_capture of Inl _ \<Rightarrow> False | Inr _ \<Rightarrow> True" by code_simp
  then show ?thesis by (auto split: sum.splits)
qed

lemma sample_announced: "announced sample_capture = [''010f00000000000000000001'', ''010f00000000000000000002'']"
  by code_simp

lemma participants_refine_witness:
  "\<exists>s. parse_discovery_data ''now'' sample_capture = Inr s
     \<and> dkeys (participants s) = [''010f00000000000000000001'', ''010f00000000000000000002'']"
  using sample_parsed participants_refine [of "''now''" sample_capture] sample_announced by auto

text \<open>
  C31: No endpoint is reported twice. The endpoints of a capture differ in their GUID or their topic; each has a
  topic, a type, a GUID of at least 24 digits with the entity kind that its last two digits say, and a
  value for every QoS policy the report compares.
\<close>

theorem endpoints_distinct:
  assumes "parse_discovery_data now pkts = Inr s"
  shows "distinct (map endpoint_id (endpoints s)) \<and> (\<forall>ep \<in> set (endpoints s). complete ep
    \<and> (\<exists>g. dget ep ''endpoint_guid'' = Some (PStr g) \<and> 24 \<le> length g
         \<and> dget ep ''entity_kind'' = Some (PStr (entity_kind_of (drop (length g - 2) g))))
    \<and> dget ep ''reliability'' \<noteq> None \<and> dget ep ''durability'' \<noteq> None \<and> dget ep ''ownership'' \<noteq> None)"
proof -
  note parsed(2) [OF assms]
  moreover have "\<exists>v. dget ep ''endpoint_guid'' = Some v" if "complete ep" for ep
    using that by (auto simp: complete_def named_def dget_or_def truthy_def split: option.splits)
  ultimately show ?thesis by (fastforce simp: endpoints_ok_def list_all_iff endpoint_ok_def guid_ok_def)
qed

text \<open>
  An empty value of a QoS kind ends the analysis: \<open>str(v).split()[0]\<close> raises \<open>IndexError\<close>, which the handler of
  \<open>ValueError\<close> and \<open>TypeError\<close> does not catch.
\<close>

lemma blank_kind_raises: "qos_kind kinds (PStr ''  '') = Inl IndexError"
  by (simp add: qos_kind_def py_str_def first_word_def is_space_def)

lemma endpoints_distinct_witness:
  "\<exists>s. parse_discovery_data ''now'' sample_capture = Inr s \<and> distinct (map endpoint_id (endpoints s))"
  using sample_parsed endpoints_distinct [of "''now''" sample_capture] by auto

end
