(* ===== verification/Discovery_Verdicts.thy ===== *)
theory Discovery_Verdicts
  imports Discovered
begin

text \<open>
  What holds of the report of the discovery sniffer: which of the seven test cases fails when, the QoS case
  against the rule that an offered policy is at least the requested one, and the JSON file over several runs.
\<close>

section \<open>Verdicts\<close>

lemma junit_case_failure [simp]:
  "jc_failure (junit_case n t ls issues) = None \<longleftrightarrow> issues = []" "jc_name (junit_case n t ls issues) = n"
  by (simp_all add: junit_case_def)

lemma values_set: "set (values_of key other eps) = (\<lambda>ep. dget_or ep key other) ` set eps"
proof -
  have "set (fold (\<lambda>ep. add_new (dget_or ep key other)) eps xs) = set xs \<union> (\<lambda>ep. dget_or ep key other) ` set eps" for xs
    by (induction eps arbitrary: xs) (auto simp: add_new_def)
  then show ?thesis by (simp add: values_of_def)
qed

definition expected_seen :: "string option \<Rightarrow> string \<Rightarrow> endpoint list \<Rightarrow> bool" where
  "expected_seen expected key eps \<longleftrightarrow>
     given expected \<longrightarrow> (\<exists>ep \<in> set eps. dget_or ep key (PStr ''unknown'') = PStr (the expected))"

definition common_value :: "string \<Rightarrow> endpoint list \<Rightarrow> bool" where
  "common_value key eps \<longleftrightarrow>
     (\<exists>w \<in> set (writers eps). \<exists>r \<in> set (readers eps). dget_or w key PNone = dget_or r key PNone)"

lemma expectation_nil:
  "expectation show_set what expected (values_of key (PStr ''unknown'') eps) = [] \<longleftrightarrow> expected_seen expected key eps"
  by (cases expected rule: given.cases)
    (auto simp: expectation_def expected_seen_def values_set image_iff eq_commute [of "PStr _"] split: if_splits)

lemma mismatch_nil: "mismatch show_set what key eps = [] \<longleftrightarrow> common_value key eps"
  by (auto simp: mismatch_def common_value_def Let_def values_set list_ex_iff)

definition version_text_ok :: "string \<times> participant \<Rightarrow> bool" where
  "version_text_ok gp \<longleftrightarrow> old_version (protocol_version (snd gp)) = Inr False"

lemma version_issues_nil: "version_issues gp = [] \<longleftrightarrow> version_text_ok gp"
  by (cases gp; cases "old_version (protocol_version (snd gp))") (auto simp: version_issues_def version_text_ok_def)


section \<open>Versions\<close>

lemma split_digits:
  "list_all is_digit u \<Longrightarrow> split_on (CHR ''.'') (u @ CHR ''.'' # v) = u # split_on (CHR ''.'') v"
  "list_all is_digit u \<Longrightarrow> split_on (CHR ''.'') u = [u]"
  by (induction u) (auto simp: is_digit_def)

text \<open>
  A decoded version passes exactly from 2.1 on. The text that the decoder makes of a number is read back by
  the version check without an error, which calls it old exactly when the number is below \<open>0x0201\<close> (modulo 2\<open>^\<close>16).
\<close>

theorem decoded_version_verdict: "old_version (version_text n) = Inr (n mod 65536 < 0x0201)"
proof -
  define major minor where "major = nat (n div 256 mod 256)" and "minor = nat (n mod 256)"
  have "n mod 65536 = 256 * int major + int minor" "minor < 256"
    using mod_mult2_eq' [of n 256 256] by (simp_all add: major_def minor_def nat_less_iff)
  moreover have "version_text n = show_nat major @ CHR ''.'' # show_nat minor"
    by (simp add: version_text_def show_int_nat drop_bit_eq_div low_byte major_def minor_def)
  moreover have "old_version (show_nat major @ CHR ''.'' # show_nat minor)
      = Inr (major < 2 \<or> major = 2 \<and> minor < 1)"
    using show_nat_digits by (simp add: old_version_def split_digits int_of_nat_text py_nth_def)
  ultimately show ?thesis by auto
qed

section \<open>QoS\<close>

definition level :: "(int \<times> string) list \<Rightarrow> py_value \<Rightarrow> int option" where   \<comment> \<open>the kind, as the protocol numbers it\<close>
  "level kinds v = map_option fst (find (\<lambda>(n, name). v = PStr name) kinds)"

definition offers :: "(int \<times> string) list \<Rightarrow> py_value \<Rightarrow> py_value \<Rightarrow> bool" where
  "offers kinds offered requested \<longleftrightarrow>
     (case (level kinds offered, level kinds requested) of (Some m, Some n) \<Rightarrow> n \<le> m | _ \<Rightarrow> False)"

definition kinds_known :: "endpoint \<Rightarrow> bool" where
  "kinds_known ep \<longleftrightarrow> level RELIABILITY_KINDS (reliability ep) \<noteq> None \<and> level DURABILITY_KINDS (durability ep) \<noteq> None"

lemma reliability_kinds: "level RELIABILITY_KINDS v \<noteq> None \<longleftrightarrow> v = PStr ''BEST_EFFORT'' \<or> v = PStr ''RELIABLE''"
  by (simp add: level_def RELIABILITY_KINDS_def)

lemma durability_kinds:
  "level DURABILITY_KINDS v \<noteq> None \<longleftrightarrow> v = PStr ''VOLATILE'' \<or> v = PStr ''TRANSIENT_LOCAL'' \<or> v = PStr ''TRANSIENT'' \<or> v = PStr ''PERSISTENT''"
  by (simp add: level_def DURABILITY_KINDS_def)

lemma durability_level: "level DURABILITY_KINDS v \<noteq> None \<Longrightarrow> level DURABILITY_KINDS v = Some (int (dget_or dur_order v 0))"
  unfolding durability_kinds by (auto simp: level_def DURABILITY_KINDS_def dur_order_def dget_or_def)

lemma qos_errors_nil:
  assumes "kinds_known w" "kinds_known r"
  shows "qos_errors (w, r) = [] \<longleftrightarrow>
    offers RELIABILITY_KINDS (reliability w) (reliability r) \<and> offers DURABILITY_KINDS (durability w) (durability r)"
proof -
  have "offers DURABILITY_KINDS (durability w) (durability r) \<longleftrightarrow> \<not> dget_or dur_order (durability w) 0 < dget_or dur_order (durability r) 0"
    using assms durability_level [of "durability w"] durability_level [of "durability r"] by (simp add: kinds_known_def offers_def not_less)
  moreover have "offers RELIABILITY_KINDS (reliability w) (reliability r) \<longleftrightarrow> \<not> (reliability w = PStr ''BEST_EFFORT'' \<and> reliability r = PStr ''RELIABLE'')"
    using assms unfolding kinds_known_def reliability_kinds by (auto simp: offers_def level_def RELIABILITY_KINDS_def)
  ultimately show ?thesis by (auto simp: qos_errors_def)
qed

text \<open>
  C32: The QoS case refines the request-offered rule. When the reliability and durability of every writer and reader
  are kinds of the protocol, the case passes exactly when every writer offers at least what every reader
  requests, with the order of the kinds that the protocol numbers them with.
\<close>

theorem qos_case_refines:
  assumes "list_all kinds_known (writers eps)" "list_all kinds_known (readers eps)"
  shows "jc_failure (qos_case eps) = None \<longleftrightarrow> (\<forall>w \<in> set (writers eps). \<forall>r \<in> set (readers eps).
    offers RELIABILITY_KINDS (reliability w) (reliability r) \<and> offers DURABILITY_KINDS (durability w) (durability r))"
proof -
  have "jc_failure (qos_case eps) = None \<longleftrightarrow> (\<forall>w \<in> set (writers eps). \<forall>r \<in> set (readers eps). qos_errors (w, r) = [])"
    by (auto simp: qos_case_def Let_def)
  with assms qos_errors_nil show ?thesis by (simp add: list_all_iff)
qed

definition sample_endpoint :: "string \<Rightarrow> string \<Rightarrow> endpoint" where
  "sample_endpoint kind dur = [(''entity_kind'', PStr kind), (''reliability'', PStr ''RELIABLE''), (''durability'', PStr dur)]"

lemma qos_case_refines_witness:
  "jc_failure (qos_case [sample_endpoint ''DataWriter'' ''VOLATILE'', sample_endpoint ''DataReader'' ''TRANSIENT'']) \<noteq> None
   \<and> jc_failure (qos_case [sample_endpoint ''DataWriter'' ''PERSISTENT'', sample_endpoint ''DataReader'' ''TRANSIENT'']) = None"
proof -
  let ?bad = "[sample_endpoint ''DataWriter'' ''VOLATILE'', sample_endpoint ''DataReader'' ''TRANSIENT'']"
  let ?good = "[sample_endpoint ''DataWriter'' ''PERSISTENT'', sample_endpoint ''DataReader'' ''TRANSIENT'']"
  have "list_all kinds_known (writers ?bad)" "list_all kinds_known (readers ?bad)"
    "list_all kinds_known (writers ?good)" "list_all kinds_known (readers ?good)" by code_simp+
  moreover have "\<not> (\<forall>w \<in> set (writers ?bad). \<forall>r \<in> set (readers ?bad).
      offers RELIABILITY_KINDS (reliability w) (reliability r) \<and> offers DURABILITY_KINDS (durability w) (durability r))" by code_simp
  moreover have "\<forall>w \<in> set (writers ?good). \<forall>r \<in> set (readers ?good).
      offers RELIABILITY_KINDS (reliability w) (reliability r) \<and> offers DURABILITY_KINDS (durability w) (durability r)" by code_simp
  ultimately show ?thesis using qos_case_refines [of ?bad] qos_case_refines [of ?good] by simp
qed

section \<open>Several runs into one file\<close>

definition after_run :: "sniffer_args \<times> discovery_summary \<Rightarrow> py_value option \<Rightarrow> py_value option" where
  "after_run r file = Some (merge_runs (fst r) file (summary_json (with_metadata (fst r) (snd r))))"

definition run_entry :: "sniffer_args \<times> discovery_summary \<Rightarrow> string \<times> py_value" where
  "run_entry r = (pair_key (fst r), summary_json (with_metadata (fst r) (snd r)))"

definition runs_file :: "string \<Rightarrow> (sniffer_args \<times> discovery_summary) list \<Rightarrow> py_value" where
  "runs_file stamp rs = PDict
     [(''metadata'', PDict [(''timestamp'', PStr stamp)]), (''runs'', PDict (map run_entry rs))]"

definition pair_given :: "sniffer_args \<times> discovery_summary \<Rightarrow> bool" where
  "pair_given r \<longleftrightarrow> given (sn_publisher (fst r)) \<and> given (sn_subscriber (fst r))"

lemma first_run_key:
  assumes "pair_given r"
  shows "first_key (summary_json (with_metadata (fst r) (snd r))) = Inr (pair_key (fst r))"
proof -
  have "given x \<Longrightarrow> \<exists>s. x = Some s \<and> s \<noteq> []" for x by (cases x rule: given.cases) auto
  with assms obtain p s where ps: "sn_publisher (fst r) = Some p" "sn_subscriber (fst r) = Some s" "p \<noteq> []" "s \<noteq> []"
    unfolding pair_given_def by blast
  define m where "m = metadata (with_metadata (fst r) (snd r))"
  have "dget_or m ''publisher'' (PStr []) = PStr p" "dget_or m ''subscriber'' (PStr []) = PStr s"
    using assms ps by (simp_all add: m_def pair_given_def with_metadata_def Let_def dget_or_def dget_dset)
  with ps assms show ?thesis
    by (simp add: first_key_def value_get_def summary_json_def dget_or_def m_def [symmetric] truthy_def py_str_def pair_key_def pair_given_def)
qed

lemma second_run:
  assumes "pair_given a" "pair_key (fst a) \<noteq> pair_key (fst b)"
  shows "after_run b (after_run a None) = Some (runs_file (sn_timestamp (fst b)) [a, b])"
proof -
  have "dget [(''metadata'', x), (''participants'', y), (''endpoints'', z)] ''runs'' = None" for x y z :: py_value by simp
  with first_run_key [OF assms(1)] assms(2) show ?thesis
    by (simp add: after_run_def merge_runs_def runs_file_def run_entry_def summary_json_def)
qed

lemma later_run:
  "run_entry r \<notin> {} \<Longrightarrow> pair_key (fst r) \<notin> set (map (\<lambda>r. pair_key (fst r)) rs) \<Longrightarrow>
    after_run r (Some (runs_file stamp rs)) = Some (runs_file stamp (rs @ [r]))"
  by (simp add: after_run_def merge_runs_def runs_file_def dset_fresh run_entry_def image_iff)

text \<open>
  The runs of all pairs are kept. When the sniffer is run for two or more pairs of applications with different
  keys, starting without a file, the JSON file ends up with one entry per pair, in the order of the runs,
  each with the complete summary of its run.
\<close>

theorem runs_kept:
  assumes "list_all pair_given (a # b # rs)" "distinct (map (\<lambda>r. pair_key (fst r)) (a # b # rs))"
  shows "fold after_run (a # b # rs) None = Some (runs_file (sn_timestamp (fst b)) (a # b # rs))"
  using assms
proof (induction rs rule: rev_induct)
  case Nil
  then show ?case using second_run [of a b] by simp
next
  case (snoc r rs)
  then have "fold after_run (a # b # rs) None = Some (runs_file (sn_timestamp (fst b)) (a # b # rs))" by simp
  moreover have "pair_key (fst r) \<notin> set (map (\<lambda>r. pair_key (fst r)) (a # b # rs))" using snoc.prems(2) by auto
  ultimately show ?case using later_run [of r "a # b # rs"] by simp
qed

definition sample_run :: "string \<Rightarrow> string \<Rightarrow> sniffer_args \<times> discovery_summary" where
  "sample_run p s =
     (\<lparr>sn_interface = ''any'', sn_timestamp = ''20260101'', sn_publisher = Some p, sn_subscriber = Some s, sn_expected = 2,
       sn_topic = None, sn_type = None\<rparr>,
      \<lparr>metadata = [], participants = [], endpoints = []\<rparr>)"

lemma runs_kept_witness:
  "fold after_run [sample_run ''a'' ''b'', sample_run ''b'' ''a'', sample_run ''a'' ''c''] None
     = Some (runs_file ''20260101'' [sample_run ''a'' ''b'', sample_run ''b'' ''a'', sample_run ''a'' ''c''])"
  using runs_kept [of "sample_run ''a'' ''b''" "sample_run ''b'' ''a''" "[sample_run ''a'' ''c'']"]
  by (simp add: sample_run_def pair_given_def pair_key_def)

end
