(* ===== verification/Xlsx_Facts.thy ===== *)
theory Xlsx_Facts
  imports Xlsx_Report
begin

text \<open>
  What holds of the spreadsheet: the counts against the pairs of products, the lists of results against the
  cases of the report, the cells of a table against the list it shows, and the names of companies.
\<close>

section \<open>Counts\<close>

definition dict_value :: "(aggregated \<Rightarrow> int) \<Rightarrow> ('k, aggregated) dict \<Rightarrow> 'k \<Rightarrow> int" where
  "dict_value f d k = (case dget d k of None \<Rightarrow> 0 | Some a \<Rightarrow> f a)"

definition field_sum :: "(aggregated \<Rightarrow> int) \<Rightarrow> ('k, aggregated) dict \<Rightarrow> ('k \<Rightarrow> bool) \<Rightarrow> int" where
  "field_sum f d P = (\<Sum>(k, a) \<leftarrow> d. if P k then f a else 0)"

definition counter :: "(aggregated \<Rightarrow> int) \<Rightarrow> bool" where
  "counter f \<longleftrightarrow> f = passed_tests \<or> f = total_tests \<or> f = unsupported_tests"

lemma counter_add:
  "counter f \<Longrightarrow> f \<lparr>passed_tests = passed_tests a + passed_tests b, total_tests = total_tests a + total_tests b,
     unsupported_tests = unsupported_tests a + unsupported_tests b\<rparr> = f a + f b"
  by (auto simp: counter_def)

abbreviation upd :: "'k \<Rightarrow> aggregated \<Rightarrow> ('k, aggregated) dict \<Rightarrow> ('k, aggregated) dict" where
  "upd \<equiv> update_value_aggregated_data_dict"

lemma upd_valid: "dvalid d \<Longrightarrow> dvalid (upd k v d)"
  by (simp add: update_value_aggregated_data_dict_def split: option.split)

lemma upd_value: "counter f \<Longrightarrow> dict_value f (upd k v d) k' = dict_value f d k' + (if k' = k then f v else 0)"
  by (auto simp: update_value_aggregated_data_dict_def dict_value_def dget_dset counter_add split: option.split)

lemma field_sum_dset:
  "dvalid d \<Longrightarrow> field_sum f (dset k a d) P = field_sum f d P + (if P k then f a - dict_value f d k else 0)"
proof (induction d)
  case (Cons p d)
  have "dict_value f d (fst p) = 0" using Cons.prems dget_None [of d "fst p"] by (auto simp: dvalid_def dict_value_def)
  with Cons show ?case by (cases p) (auto simp: field_sum_def dvalid_def dict_value_def)
qed (simp add: field_sum_def dict_value_def)

lemma upd_sum:
  assumes "counter f" "dvalid d"
  shows "field_sum f (upd k v d) P = field_sum f d P + (if P k then f v else 0)"
proof (cases "dget d k")
  case None
  then show ?thesis using field_sum_dset [OF assms(2)] by (simp add: update_value_aggregated_data_dict_def dict_value_def)
next
  case (Some a)
  then show ?thesis
    using field_sum_dset [OF assms(2), of f k] assms(1)
    by (simp add: update_value_aggregated_data_dict_def dict_value_def counter_add)
qed

definition counts_ok :: "junit_data \<Rightarrow> bool" where
  "counts_ok d \<longleftrightarrow> dvalid (product_summary_dict d) \<and> (\<forall>f product. counter f \<longrightarrow>
     dict_value f (summary_dict d) product = field_sum f (product_summary_dict d) (\<lambda>(p, s). product = p \<or> product = s))"

lemma case_keeps_counts:
  "rfold (add_case pub sub) cases (d, n) = Inr (d', n') \<Longrightarrow>
    summary_dict d' = summary_dict d \<and> product_summary_dict d' = product_summary_dict d"
proof (induction cases arbitrary: d n)
  case (Cons c cases)
  then obtain d1 n1 where d1: "add_case pub sub c (d, n) = Inr (d1, n1)" "rfold (add_case pub sub) cases (d1, n1) = Inr (d', n')"
    by (auto simp: rbind_Inr_iff)
  from d1(1) Cons.IH [OF d1(2)] show ?case by (auto simp: rbind_Inr_iff add_case_def Let_def)
qed simp

lemma suite_counts: "counts_ok d \<Longrightarrow> add_suite suite d = Inr d' \<Longrightarrow> counts_ok d'"
proof -
  assume ok: "counts_ok d" and "add_suite suite d = Inr d'"
  then obtain pub sub d1 n where ps: "suite_products (xs_name suite) = (pub, sub)"
    and d1: "rfold (add_case pub sub) (xs_cases suite) (d, 0) = Inr (d1, n)"
    and d': "d' = d1\<lparr>summary_dict := (if pub \<noteq> sub then upd sub (element suite n) (upd pub (element suite n) (summary_dict d1))
        else upd pub (element suite n) (summary_dict d1)),
      product_summary_dict := upd (pub, sub) (element suite n) (product_summary_dict d1)\<rparr>"
    by (auto simp: add_suite_def Let_def rbind_Inr_iff split: prod.splits)
  with ok case_keeps_counts [OF d1] show ?thesis
    by (auto simp: counts_ok_def upd_valid upd_value upd_sum)
qed

text \<open>
  C37: The totals of a product are the sums over its pairs. In the data of every report that is read, the passed,
  total and unsupported tests of a product in the first table are the sums over the pairs of the second
  table in which it is the publisher or the subscriber, a pair with itself counting once.
\<close>

theorem product_totals:
  assumes "get_info xml = Inr d"
  shows "\<forall>product. dict_value passed_tests (summary_dict d) product = field_sum passed_tests (product_summary_dict d) (\<lambda>(p, s). product = p \<or> product = s)
    \<and> dict_value total_tests (summary_dict d) product = field_sum total_tests (product_summary_dict d) (\<lambda>(p, s). product = p \<or> product = s)
    \<and> dict_value unsupported_tests (summary_dict d) product = field_sum unsupported_tests (product_summary_dict d) (\<lambda>(p, s). product = p \<or> product = s)"
proof -
  have "counts_ok no_data" by (simp add: counts_ok_def no_data_def dvalid_def dict_value_def field_sum_def)
  then have "counts_ok d"
    using rfold_invariant [of xml counts_ok add_suite no_data d] suite_counts assms by (auto simp: get_info_def)
  then show ?thesis by (simp add: counts_ok_def counter_def)
qed

section \<open>Results\<close>

definition message_has :: "string \<Rightarrow> xcase \<Rightarrow> bool" where
  "message_has u c = (case xc_messages c of Some message # _ \<Rightarrow> str_in u (py_upper message) | _ \<Rightarrow> False)"

definition entry_of :: "string \<Rightarrow> xcase \<Rightarrow> entry" where
  "entry_of other c =
     (other, short_name (xc_name c), status_of c (message_has ''PUB_UNSUPPORTED_FEATURE'' c) (message_has ''SUB_UNSUPPORTED_FEATURE'' c))"

lemma mentions_has: "mentions c u = Inr b \<Longrightarrow> b = message_has u c"
  by (auto simp: mentions_def message_has_def split: list.splits option.splits)

lemma get_product_dset: "dget_or (update_value_to_product_dict k v d) k' [] = dget_or d k' [] @ (if k' = k then [v] else [])"
  by (simp add: update_value_to_product_dict_def dget_or_def dget_dset)

lemma cases_lists:
  "rfold (add_case pub sub) cases (d, n) = Inr (d', n') \<Longrightarrow>
    dget_or (publisher_product_dict d') k [] = dget_or (publisher_product_dict d) k [] @ (if k = pub then map (entry_of sub) cases else [])
    \<and> dget_or (subscriber_product_dict d') k [] = dget_or (subscriber_product_dict d) k [] @ (if k = sub then map (entry_of pub) cases else [])"
proof (induction cases arbitrary: d n)
  case (Cons c cases)
  then obtain d1 n1 where d1: "add_case pub sub c (d, n) = Inr (d1, n1)" "rfold (add_case pub sub) cases (d1, n1) = Inr (d', n')"
    by (auto simp: rbind_Inr_iff)
  then obtain p s where "mentions c ''PUB_UNSUPPORTED_FEATURE'' = Inr p" "mentions c ''SUB_UNSUPPORTED_FEATURE'' = Inr s"
    and "d1 = d\<lparr>publisher_product_dict := update_value_to_product_dict pub (sub, short_name (xc_name c), status_of c p s) (publisher_product_dict d),
      subscriber_product_dict := update_value_to_product_dict sub (pub, short_name (xc_name c), status_of c p s) (subscriber_product_dict d)\<rparr>"
    by (auto simp: add_case_def rbind_Inr_iff Let_def)
  with Cons.IH [OF d1(2)] mentions_has [of c] show ?case by (auto simp: get_product_dset entry_of_def)
qed simp

definition published :: "string \<Rightarrow> xsuite \<Rightarrow> entry list" where
  "published product suite = (case suite_products (xs_name suite) of (pub, sub) \<Rightarrow>
     if product = pub then map (entry_of sub) (xs_cases suite) else [])"

definition subscribed :: "string \<Rightarrow> xsuite \<Rightarrow> entry list" where
  "subscribed product suite = (case suite_products (xs_name suite) of (pub, sub) \<Rightarrow>
     if product = sub then map (entry_of pub) (xs_cases suite) else [])"

text \<open>
  Every case is in one publisher list and one subscriber list. The list of a product as publisher has
  exactly the cases of the suites it publishes in, in the order of the report, each with the other product,
  the short name and the status of the case; the same holds of the subscriber lists.
\<close>

theorem results_complete:
  assumes "get_info xml = Inr d"
  shows "dget_or (publisher_product_dict d) product [] = concat (map (published product) xml)
    \<and> dget_or (subscriber_product_dict d) product [] = concat (map (subscribed product) xml)"
proof -
  have "rfold add_suite xml d0 = Inr d \<Longrightarrow>
      dget_or (publisher_product_dict d) product [] = dget_or (publisher_product_dict d0) product [] @ concat (map (published product) xml)
      \<and> dget_or (subscriber_product_dict d) product [] = dget_or (subscriber_product_dict d0) product [] @ concat (map (subscribed product) xml)" for d0
  proof (induction xml arbitrary: d0)
    case (Cons suite xml)
    then obtain d1 where d1: "add_suite suite d0 = Inr d1" "rfold add_suite xml d1 = Inr d" by (auto simp: rbind_Inr_iff)
    then obtain pub sub d2 n where "suite_products (xs_name suite) = (pub, sub)"
      and "rfold (add_case pub sub) (xs_cases suite) (d0, 0) = Inr (d2, n)"
      and "publisher_product_dict d1 = publisher_product_dict d2" "subscriber_product_dict d1 = subscriber_product_dict d2"
      by (auto simp: add_suite_def Let_def rbind_Inr_iff split: prod.splits)
    with Cons.IH [OF d1(2)] cases_lists [of pub sub "xs_cases suite" d0 0 d2 n product] show ?case
      by (simp add: published_def subscribed_def)
  qed simp
  from this [of no_data] assms show ?thesis by (simp add: get_info_def no_data_def dget_or_def)
qed

section \<open>The cells of a table\<close>

definition uniq :: "'a list \<Rightarrow> 'a list" where "uniq xs = rev (remdups (rev xs))"   \<comment> \<open>in order of first appearance\<close>

lemma uniq_simps [simp]:
  "uniq [] = []" "uniq (xs @ [x]) = (if x \<in> set xs then uniq xs else uniq xs @ [x])"
  "set (uniq xs) = set xs" "distinct (uniq xs)"
  by (simp_all add: uniq_def)

definition shown :: "sheet_op list \<Rightarrow> nat \<times> nat \<Rightarrow> cell_value option" where   \<comment> \<open>what the cells hold in the end\<close>
  "shown ops = fold (\<lambda>op m. case op of Write r c v _ \<Rightarrow> m((r, c) \<mapsto> v) | _ \<Rightarrow> m) ops Map.empty"

lemma shown_simps [simp]: "shown [] = Map.empty" "shown (ops @ [Write r c v f]) = (shown ops)((r, c) \<mapsto> v)"
  by (simp_all add: shown_def)

definition places :: "nat \<Rightarrow> string list \<Rightarrow> (string, nat) dict" where   \<comment> \<open>the names after a line, in order\<close>
  "places base names = zip names (map (\<lambda>i. base + 1 + i) [0..<length names])"

lemma places_keys [simp]: "dkeys (places base names) = names"
  by (simp add: places_def)

lemma places_snoc: "places base (names @ [x]) = places base names @ [(x, base + 1 + length names)]"
  by (simp add: places_def)

lemma places_nth: "distinct names \<Longrightarrow> i < length names \<Longrightarrow> dget (places base names) (names ! i) = Some (base + 1 + i)"
  by (simp add: places_def map_of_zip_nth)

lemma places_fresh:
  "x \<notin> set names \<Longrightarrow> dget (places base names) x = None"
  "x \<notin> set names \<Longrightarrow> dset x (base + 1 + length names) (places base names) = places base (names @ [x])"
  using dget_None [of "places base names" x] dset_fresh [of x "places base names"] by (simp_all add: places_snoc)

text \<open>
  What the table of a list of results shows: the products in the first row and the tests in the first
  column, both in the order in which they first appear, and in a cell the last status of its product and test.
\<close>

definition status_at :: "entry list \<Rightarrow> string \<Rightarrow> string \<Rightarrow> TestStatus option" where
  "status_at es product test = map_of (rev (map (\<lambda>(p, t, s). ((p, t), s)) es)) (product, test)"

definition products :: "entry list \<Rightarrow> string list" where "products es = uniq (map fst es)"
definition tests :: "entry list \<Rightarrow> string list" where "tests es = uniq (map (fst \<circ> snd) es)"

definition table_cell :: "nat \<Rightarrow> nat \<Rightarrow> bool \<Rightarrow> entry list \<Rightarrow> nat \<times> nat \<Rightarrow> cell_value option" where
  "table_cell r0 c0 print_test_name es rc = (case rc of (r, c) \<Rightarrow>
     let i = r - r0 - 1; j = c - c0 - 1; row = (r0 < r \<and> i < length (tests es)); column = (c0 < c \<and> j < length (products es)) in
     if r = r0 \<and> c = c0 then (if print_test_name then Some (Text ''Test'') else None)
     else if r = r0 \<and> column then Some (Text (products es ! j))
     else if c = c0 \<and> row \<and> print_test_name then Some (Text (tests es ! i))
     else if row \<and> column then map_option (\<lambda>s. Text (str_result s)) (status_at es (products es ! j) (tests es ! i))
     else None)"

definition table_ok :: "nat \<Rightarrow> nat \<Rightarrow> bool \<Rightarrow> entry list \<Rightarrow> table_state \<Rightarrow> bool" where
  "table_ok r0 c0 b es st \<longleftrightarrow>
     row_dict st = places r0 (tests es) \<and> current_row st = r0 + length (tests es)
   \<and> column_dict st = places c0 (products es) \<and> current_column st = c0 + length (products es)
   \<and> shown (ts_ops st) = table_cell r0 c0 b es"

lemma place_product_step:
  assumes "column_dict st = places c0 (products es)" "current_column st = c0 + length (products es)"
    and "place_product r0 p st = (c, st')" "e = (p, t, s)"
  shows "column_dict st' = places c0 (products (es @ [e]))" "current_column st' = c0 + length (products (es @ [e]))"
    "row_dict st' = row_dict st" "current_row st' = current_row st"
    "shown (ts_ops st') = (if p \<in> set (products es) then shown (ts_ops st) else (shown (ts_ops st))((r0, c0 + 1 + length (products es)) \<mapsto> Text p))"
    "\<exists>j. c = c0 + 1 + j \<and> j < length (products (es @ [e])) \<and> products (es @ [e]) ! j = p"
proof -
  have P': "products (es @ [e]) = (if p \<in> set (products es) then products es else products es @ [p])"
    by (simp add: products_def assms(4))
  have "distinct (products es)" by (simp add: products_def)
  then have old: "\<exists>j. j < length (products es) \<and> products es ! j = p \<and> dget (column_dict st) p = Some (c0 + 1 + j)" if "p \<in> set (products es)"
    using that places_nth [of "products es" _ c0] assms(1) by (auto simp: in_set_conv_nth)
  have new: "dget (column_dict st) p = None" if "p \<notin> set (products es)" using that places_fresh(1) assms(1) by simp
  show "column_dict st' = places c0 (products (es @ [e]))" "current_column st' = c0 + length (products (es @ [e]))"
    "row_dict st' = row_dict st" "current_row st' = current_row st"
    "shown (ts_ops st') = (if p \<in> set (products es) then shown (ts_ops st) else (shown (ts_ops st))((r0, c0 + 1 + length (products es)) \<mapsto> Text p))"
    "\<exists>j. c = c0 + 1 + j \<and> j < length (products (es @ [e])) \<and> products (es @ [e]) ! j = p"
    using assms(1-3) old new places_fresh(2) [of p "products es" c0]
    by (auto simp: place_product_def P' Let_def nth_append split: option.splits)
qed

lemma place_test_step:
  assumes "row_dict st = places r0 (tests es)" "current_row st = r0 + length (tests es)"
    and "place_test b c0 t st = (r, st')" "e = (p, t, s)"
  shows "row_dict st' = places r0 (tests (es @ [e]))" "current_row st' = r0 + length (tests (es @ [e]))"
    "column_dict st' = column_dict st" "current_column st' = current_column st"
    "shown (ts_ops st') = (if t \<in> set (tests es) \<or> \<not> b then shown (ts_ops st) else (shown (ts_ops st))((r0 + 1 + length (tests es), c0) \<mapsto> Text t))"
    "\<exists>i. r = r0 + 1 + i \<and> i < length (tests (es @ [e])) \<and> tests (es @ [e]) ! i = t"
proof -
  have T': "tests (es @ [e]) = (if t \<in> set (tests es) then tests es else tests es @ [t])"
    by (simp add: tests_def assms(4))
  have "distinct (tests es)" by (simp add: tests_def)
  then have old: "\<exists>i. i < length (tests es) \<and> tests es ! i = t \<and> dget (row_dict st) t = Some (r0 + 1 + i)" if "t \<in> set (tests es)"
    using that places_nth [of "tests es" _ r0] assms(1) by (auto simp: in_set_conv_nth)
  have new: "dget (row_dict st) t = None" if "t \<notin> set (tests es)" using that places_fresh(1) assms(1) by simp
  show "row_dict st' = places r0 (tests (es @ [e]))" "current_row st' = r0 + length (tests (es @ [e]))"
    "column_dict st' = column_dict st" "current_column st' = current_column st"
    "shown (ts_ops st') = (if t \<in> set (tests es) \<or> \<not> b then shown (ts_ops st) else (shown (ts_ops st))((r0 + 1 + length (tests es), c0) \<mapsto> Text t))"
    "\<exists>i. r = r0 + 1 + i \<and> i < length (tests (es @ [e])) \<and> tests (es @ [e]) ! i = t"
    using assms(1-3) old new places_fresh(2) [of t "tests es" r0]
    by (auto simp: place_test_def T' Let_def nth_append split: option.splits)
qed

lemma status_at_snoc: "status_at (es @ [(p, t, s)]) p' t' = (if p' = p \<and> t' = t then Some s else status_at es p' t')"
  by (auto simp: status_at_def)

lemma status_at_absent: "p \<notin> set (products es) \<or> t \<notin> set (tests es) \<Longrightarrow> status_at es p t = None"
  by (force simp: status_at_def products_def tests_def dget_None simp del: map_of_eq_None_iff)

lemma table_cell_snoc:
  assumes e: "e = (p, t, s)"
    and i: "i < length (tests (es @ [e]))" "tests (es @ [e]) ! i = t"
    and j: "j < length (products (es @ [e]))" "products (es @ [e]) ! j = p"
  shows "table_cell r0 c0 b (es @ [e]) =
    (let m = table_cell r0 c0 b es;
         m = (if p \<in> set (products es) then m else m((r0, c0 + 1 + length (products es)) \<mapsto> Text p));
         m = (if t \<in> set (tests es) \<or> \<not> b then m else m((r0 + 1 + length (tests es), c0) \<mapsto> Text t))
     in m((r0 + 1 + i, c0 + 1 + j) \<mapsto> Text (str_result s)))" (is "?l = ?r")
proof (rule ext)
  fix rc :: "nat \<times> nat"
  obtain r c where rc: "rc = (r, c)" by (cases rc)
  let ?P = "products es" and ?P' = "products (es @ [e])" and ?T = "tests es" and ?T' = "tests (es @ [e])"
  have P': "?P' = (if p \<in> set ?P then ?P else ?P @ [p])" and T': "?T' = (if t \<in> set ?T then ?T else ?T @ [t])"
    by (simp_all add: products_def tests_def e)
  have d: "distinct ?P'" "distinct ?T'" by (simp_all add: products_def tests_def)
  consider "r = r0" "c = c0" | "r = r0" "c \<noteq> c0" | "r \<noteq> r0" "c = c0" | "r \<noteq> r0" "c \<noteq> c0" by blast
  then show "?l rc = ?r rc"
  proof cases
    case 4
    show ?thesis
    proof (cases "r0 < r \<and> c0 < c \<and> r - r0 - 1 < length ?T' \<and> c - c0 - 1 < length ?P'")
      case True
      define k l where "k = r - r0 - 1" and "l = c - c0 - 1"
      with True have kl: "r = r0 + 1 + k" "c = c0 + 1 + l" "k < length ?T'" "l < length ?P'" by auto
      have "?l rc = map_option (\<lambda>s. Text (str_result s)) (status_at (es @ [e]) (?P' ! l) (?T' ! k))"
        using kl by (simp add: rc table_cell_def)
      moreover have "?P' ! l = p \<longleftrightarrow> l = j" "?T' ! k = t \<longleftrightarrow> k = i"
        using nth_eq_iff_index_eq [OF d(1) kl(4) j(1)] nth_eq_iff_index_eq [OF d(2) kl(3) i(1)] i j by auto
      moreover have "table_cell r0 c0 b es rc = map_option (\<lambda>s. Text (str_result s)) (status_at es (?P' ! l) (?T' ! k))"
        if "\<not> (l = j \<and> k = i)"
        using that kl P' T' status_at_absent [of p es] status_at_absent [of _ es t]
        by (auto simp: rc table_cell_def nth_append split: if_splits)
      ultimately show ?thesis using kl by (auto simp: rc Let_def e status_at_snoc)
    next
      case False
      moreover have "length ?P \<le> length ?P'" "length ?T \<le> length ?T'" by (simp_all add: P' T')
      ultimately have "?l rc = None" "table_cell r0 c0 b es rc = None" using 4 by (auto simp: rc table_cell_def Let_def)
      with False 4 i j show ?thesis by (auto simp: rc Let_def)
    qed
  qed (auto simp: rc table_cell_def Let_def P' T' nth_append)
qed

lemma add_element_ok:
  assumes "table_ok r0 c0 b es st"
  shows "table_ok r0 c0 b (es @ [e]) (add_element r0 c0 b e st)"
proof -
  obtain p t s where e: "e = (p, t, s)" by (cases e)
  obtain c st1 where 1: "place_product r0 p st = (c, st1)" by (cases "place_product r0 p st")
  obtain r st2 where 2: "place_test b c0 t st1 = (r, st2)" by (cases "place_test b c0 t st1")
  note ok = assms [unfolded table_ok_def]
  note P = place_product_step [where es = es, OF _ _ 1 e, of c0]
  from ok P have ps: "column_dict st1 = places c0 (products (es @ [e]))" "current_column st1 = c0 + length (products (es @ [e]))"
    "row_dict st1 = places r0 (tests es)" "current_row st1 = r0 + length (tests es)" by auto
  note T = place_test_step [where es = es, OF ps(3,4) 2 e]
  from P ok obtain j where j: "c = c0 + 1 + j" "j < length (products (es @ [e]))" "products (es @ [e]) ! j = p" by auto
  from T obtain i where i: "r = r0 + 1 + i" "i < length (tests (es @ [e]))" "tests (es @ [e]) ! i = t" by auto
  have "shown (ts_ops (add_element r0 c0 b e st)) = table_cell r0 c0 b (es @ [e])"
    using P(5) ok T(5) by (simp add: add_element_def e 1 2 table_cell_snoc [OF refl i(2,3) [unfolded e] j(2,3) [unfolded e]] i(1) j(1) Let_def)
  with ps T show ?thesis by (simp add: table_ok_def) (simp add: add_element_def e 1 2)
qed

lemma table_made: "table_ok r0 c0 b es (add_product_table r0 c0 es b)"
proof (induction es rule: rev_induct)
  case Nil
  then show ?case
    by (auto simp: table_ok_def add_product_table_def start_table_def tests_def products_def places_def table_cell_def Let_def
        shown_def fun_eq_iff)
next
  case (snoc e es)
  then show ?case using add_element_ok by (simp add: add_product_table_def)
qed

text \<open>
  C35: A table shows the list it is made of. For every list of results and every position of the table, the final
  content of every cell of the sheet is what the list says: the title, the products in the first row and the
  tests in the first column in their order of first appearance, the last status of a product and a test
  where their column and row meet, and nothing anywhere else.
\<close>

theorem product_table_cells:
  "shown (ts_ops (add_product_table r0 c0 es b)) = table_cell r0 c0 b es
   \<and> current_row (add_product_table r0 c0 es b) = r0 + length (tests es)
   \<and> current_column (add_product_table r0 c0 es b) = c0 + length (products es)"
  using table_made [of r0 c0 b es] by (simp add: table_ok_def)

lemma shown_append: "shown (xs @ ys) = shown xs ++ shown ys"
proof (induction ys rule: rev_induct)
  case (snoc op ys)
  have step: "shown (zs @ [op]) = (case op of Write r c v _ \<Rightarrow> (shown zs)((r, c) \<mapsto> v) | _ \<Rightarrow> shown zs)" for zs
    by (cases op) (simp_all add: shown_def)
  from step [of ys] step [of "xs @ ys"] snoc show ?case by (cases op) (simp_all add: fun_eq_iff map_add_def)
qed simp

lemma shown_others [simp]:
  "shown (Set_Zoom z # ops) = shown ops" "shown (Set_Column x y w # ops) = shown ops" "shown (Autofit # ops) = shown ops"
  by (simp_all add: shown_def)

lemma sheet_cells:
  assumes "product_sheet d (name, pubs) = Inr (n, ops)" "dget (subscriber_product_dict d) name = Some subs"
    and "2 \<le> r"
  shows "shown ops (r, c) =
    (if c \<le> 1 + length (products pubs) then table_cell 2 1 True pubs (r, c)
     else table_cell 2 (2 + length (products pubs)) False subs (r, c))"
proof -
  let ?pub = "add_product_table 2 1 pubs True"
  let ?sub = "add_product_table 2 (current_column ?pub + 1) subs False"
  from assms(1,2) obtain titles where titles: "add_static_data_test name (length (publisher_product_dict d)) (length (subscriber_product_dict d)) = Inr titles"
    and ops: "ops = [Set_Zoom 130] @ ts_ops ?pub @ [Set_Column (current_column ?pub + 1) (current_column ?pub + 1) 4] @ ts_ops ?sub @ [Autofit] @ titles"
    by (auto simp: product_sheet_def Let_def rbind_Inr_iff)
  have "shown titles (r, c) = None"
    using titles assms(3) by (auto simp: add_static_data_test_def Let_def wide_or_single_def shown_def split: if_splits)
  moreover have tables: "shown (ts_ops ?pub) = table_cell 2 1 True pubs" "current_column ?pub = 1 + length (products pubs)"
    "shown (ts_ops (add_product_table 2 c0 subs False)) = table_cell 2 c0 False subs" for c0
    using table_made [of 2 1 True pubs] table_made [of 2 c0 False subs] by (simp_all add: table_ok_def)
  moreover have "table_cell 2 1 True pubs (r, c) = None" if "1 + length (products pubs) < c"
    using that by (auto simp: table_cell_def Let_def)
  moreover have "table_cell 2 c0 False subs (r, c) = None" if "c \<le> c0" for c0
    using that by (auto simp: table_cell_def Let_def)
  ultimately show ?thesis
    by (auto simp: ops shown_append map_add_def split: option.splits)
qed

lemma table_position:
  assumes "(p, t, s) \<in> set es"
  obtains i j s' where "i < length (tests es)" "tests es ! i = t" "j < length (products es)" "products es ! j = p" "status_at es p t = Some s'"
proof -
  have "t \<in> set (tests es)" "p \<in> set (products es)" using assms by (force simp: tests_def products_def)+
  moreover have "((p, t), s) \<in> set (rev (map (\<lambda>(p, t, s). ((p, t), s)) es))" using assms by force
  then have "status_at es p t \<noteq> None" unfolding status_at_def by (metis weak_map_of_SomeI option.discI)
  ultimately show thesis using that by (metis in_set_conv_nth not_None_eq)
qed

text \<open>
  C36: The two tables of a sheet share their rows. On the sheet of a product whose results as publisher and as subscriber
  name the tests in the same order, every result of either list stands in a row whose first column names
  its test, under a column whose head names the other product, as the last status of that product and test.
\<close>

theorem product_sheet_aligned:
  assumes "product_sheet d (name, pubs) = Inr (n, ops)" "dget (subscriber_product_dict d) name = Some subs"
    and "tests subs = tests pubs"
  shows "\<forall>es \<in> {pubs, subs}. \<forall>(p, t, s) \<in> set es. \<exists>row column s'. status_at es p t = Some s'
    \<and> shown ops (row, 1) = Some (Text t) \<and> shown ops (2, column) = Some (Text p)
    \<and> shown ops (row, column) = Some (Text (str_result s'))"
proof -
  note cells = sheet_cells [OF assms(1,2)]
  have pub: "\<exists>row column s'. status_at pubs p t = Some s' \<and> shown ops (row, 1) = Some (Text t)
      \<and> shown ops (2, column) = Some (Text p) \<and> shown ops (row, column) = Some (Text (str_result s'))" if ent: "(p, t, s) \<in> set pubs" for p t s
  proof -
    obtain i j s' where "i < length (tests pubs)" "tests pubs ! i = t" "j < length (products pubs)" "products pubs ! j = p" "status_at pubs p t = Some s'"
      using table_position [OF ent] by blast
    then show ?thesis
      by (intro exI [of _ "3 + i"] exI [of _ "2 + j"]) (simp add: cells table_cell_def Let_def)
  qed
  have sub: "\<exists>row column s'. status_at subs p t = Some s' \<and> shown ops (row, 1) = Some (Text t)
      \<and> shown ops (2, column) = Some (Text p) \<and> shown ops (row, column) = Some (Text (str_result s'))" if ent: "(p, t, s) \<in> set subs" for p t s
  proof -
    obtain i j s' where "i < length (tests subs)" "tests subs ! i = t" "j < length (products subs)" "products subs ! j = p" "status_at subs p t = Some s'"
      using table_position [OF ent] by blast
    then show ?thesis
      using assms(3) by (intro exI [of _ "3 + i"] exI [of _ "3 + length (products pubs) + j"] exI [of _ s']) (simp add: cells table_cell_def Let_def)
  qed
  from pub sub show ?thesis by fastforce
qed

definition sample_data :: "entry list \<Rightarrow> junit_data" where
  "sample_data subs = \<lparr>summary_dict = [], product_summary_dict = [],
     publisher_product_dict = [(''a'', [(''a'', ''Test_1'', PASSED), (''b'', ''Test_1'', FAILED), (''a'', ''Test_2'', PASSED)])],
     subscriber_product_dict = [(''a'', subs)]\<rparr>"

lemma product_sheet_aligned_witness:
  "\<exists>ops. product_sheet (sample_data [(''b'', ''Test_1'', PASSED), (''b'', ''Test_2'', FAILED)])
      (''a'', [(''a'', ''Test_1'', PASSED), (''b'', ''Test_1'', FAILED), (''a'', ''Test_2'', PASSED)]) = Inr (''a'', ops)
    \<and> (\<exists>row column s'. shown ops (row, 1) = Some (Text ''Test_2'') \<and> shown ops (2, column) = Some (Text ''b'')
        \<and> shown ops (row, column) = Some (Text (str_result s')))"
proof -
  let ?d = "sample_data [(''b'', ''Test_1'', PASSED), (''b'', ''Test_2'', FAILED)]"
  let ?pubs = "[(''a'', ''Test_1'', PASSED), (''b'', ''Test_1'', FAILED), (''a'', ''Test_2'', PASSED)]"
  let ?subs = "[(''b'', ''Test_1'', PASSED), (''b'', ''Test_2'', FAILED)]"
  obtain ops where ops: "product_sheet ?d (''a'', ?pubs) = Inr (''a'', ops)"
    by (simp add: product_sheet_def sample_data_def add_static_data_test_def Let_def)
  have "dget (subscriber_product_dict ?d) ''a'' = Some ?subs" by (simp add: sample_data_def)
  moreover have "tests ?subs = tests ?pubs" by (simp add: tests_def uniq_def)
  ultimately have "\<forall>(p, t, s) \<in> set ?subs. \<exists>row column s'. shown ops (row, 1) = Some (Text t) \<and> shown ops (2, column) = Some (Text p)
      \<and> shown ops (row, column) = Some (Text (str_result s'))"
    using product_sheet_aligned [OF ops] by fast
  then have "\<exists>row column s'. shown ops (row, 1) = Some (Text ''Test_2'') \<and> shown ops (2, column) = Some (Text ''b'')
      \<and> shown ops (row, column) = Some (Text (str_result s'))" by simp
  with ops show ?thesis by blast
qed

text \<open>
  When the orders differ, a result of the second table stands beside the name of another test: here the failure
  of \<open>Test_2\<close> is shown in the row of \<open>Test_1\<close>.
\<close>

lemma misaligned_result:
  "\<exists>ops. product_sheet (sample_data [(''b'', ''Test_2'', FAILED)])
      (''a'', [(''a'', ''Test_1'', PASSED), (''b'', ''Test_1'', FAILED), (''a'', ''Test_2'', PASSED)]) = Inr (''a'', ops)
    \<and> shown ops (3, 1) = Some (Text ''Test_1'') \<and> shown ops (3, 5) = Some (Text ''ERROR'') \<and> shown ops (2, 5) = Some (Text ''b'')"
proof -
  let ?d = "sample_data [(''b'', ''Test_2'', FAILED)]"
  let ?pubs = "[(''a'', ''Test_1'', PASSED), (''b'', ''Test_1'', FAILED), (''a'', ''Test_2'', PASSED)]"
  obtain ops where ops: "product_sheet ?d (''a'', ?pubs) = Inr (''a'', ops)"
    by (simp add: product_sheet_def sample_data_def add_static_data_test_def Let_def)
  have "dget (subscriber_product_dict ?d) ''a'' = Some [(''b'', ''Test_2'', FAILED)]" by (simp add: sample_data_def)
  note cells = sheet_cells [OF ops this]
  show ?thesis
    by (intro exI [of _ ops]) (simp add: ops cells table_cell_def Let_def tests_def products_def uniq_def status_at_def str_result_def)
qed

section \<open>Companies\<close>

lemma known_company: "list_ex (has x) [''connext'', ''opendds'', ''coredx'', ''intercom'', ''fastdds'', ''dust'', ''hdds'', ''cyclone'', ''zzdds'', ''zenzen'']
    \<longleftrightarrow> (\<exists>c. get_company_name x = Inr c)"
  by (simp add: get_company_name_def)

lemma has_prefix: "has u v \<Longrightarrow> has (u @ w) v"
  by (simp add: has_def py_lower_append str_in_appendI1)

lemma version_shape: "product_version p = [] \<or> (\<exists>v. product_version p = CHR '' '' # v \<and> list_all (\<lambda>c. \<not> is_space c) v \<and> v \<noteq> [])"
proof (cases "re_search version_re p")
  case (Some m)
  then obtain v r where "group m 1 = Some v" "(1, r) \<in> set (grps version_re)" "v \<in> lang r"
    using group_in_lang [of version_re p m 1] by (auto simp: version_re_def)
  then have "product_version p = CHR '' '' # v" "v \<noteq> []" "list_all (\<lambda>c. is_digit c \<or> c = CHR ''.'') v"
    using Some by (auto simp: product_version_def version_re_def list_all_iff)
  moreover have "list_all (\<lambda>c. \<not> is_space c) v" if "list_all (\<lambda>c. is_digit c \<or> c = CHR ''.'') v"
    using that digit_not_space by (auto simp: list_all_iff is_space_def)
  ultimately show ?thesis by simp
qed (simp add: product_version_def)

lemma strip_version: "name \<noteq> [] \<Longrightarrow> \<not> is_space (hd name) \<Longrightarrow> \<not> is_space (last name) \<Longrightarrow>
    py_strip (name @ product_version p) = name @ product_version p"
proof -
  have strip: "py_strip s = s" if "s \<noteq> []" "\<not> is_space (hd s)" "\<not> is_space (last s)" for s
  proof -
    have "lstrip s = s" using that by (cases s) (simp_all add: lstrip_def)
    moreover have "lstrip (rev s) = rev s" using that by (cases s rule: rev_cases) (simp_all add: lstrip_def)
    ultimately show ?thesis by (simp add: py_strip_def)
  qed
  assume "name \<noteq> []" "\<not> is_space (hd name)" "\<not> is_space (last name)"
  then show ?thesis
    using version_shape [of p] by (intro strip) (auto simp: list_all_iff)
qed

lemma company_of_beautified: "beautified p = Some name \<Longrightarrow> \<exists>c. get_company_name (get_product_name p) = Inr c"
proof -
  assume b: "beautified p = Some name"
  then have name: "name \<in> {''Connext DDS Micro'', ''Connext DDS'', ''OpenDDS'', ''CoreDX DDS'', ''InterCOM DDS'', ''FastDDS'',
      ''Dust DDS'', ''HDDS'', ''Cyclone DDS'', ''Zenzen DDS''}"
    by (auto simp: beautified_def split: if_splits)
  have "list_ex (has name) [''connext'', ''opendds'', ''coredx'', ''intercom'', ''fastdds'', ''dust'', ''hdds'', ''cyclone'', ''zzdds'', ''zenzen'']
      \<and> name \<noteq> [] \<and> \<not> is_space (hd name) \<and> \<not> is_space (last name)"
    using name by (elim insertE emptyE; hypsubst; code_simp)
  then have "list_ex (has (get_product_name p)) [''connext'', ''opendds'', ''coredx'', ''intercom'', ''fastdds'', ''dust'', ''hdds'', ''cyclone'', ''zzdds'', ''zenzen'']"
    using b strip_version [of name p] has_prefix [of name _ "product_version p"] by (auto simp: get_product_name_def)
  then show ?thesis by (simp only: known_company)
qed

text \<open>A name that no rule beautifies has no company, except through \<open>dust\<close> and \<open>zenzen\<close>.\<close>

lemma rustdds_has_no_company: "get_company_name (get_product_name ''rustdds-0.11.4'') = Inl (RuntimeError ''Impossible to get company name: rustdds-0.11.4'')"
  by code_simp

definition known_suite :: "xsuite \<Rightarrow> bool" where
  "known_suite suite \<longleftrightarrow> (\<exists>p s. suite_products (xs_name suite) = (get_product_name p, get_product_name s)
     \<and> beautified p \<noteq> None \<and> beautified s \<noteq> None)"

definition companies_ok :: "junit_data \<Rightarrow> bool" where
  "companies_ok d \<longleftrightarrow> (\<forall>p \<in> set (dkeys (summary_dict d)). \<exists>c. get_company_name p = Inr c)
     \<and> (publisher_product_dict d = [] \<longleftrightarrow> subscriber_product_dict d = [])"

lemma dset_not_nil: "dset k v d \<noteq> []"
  by (cases d) auto

lemma cases_both:
  "rfold (add_case pub sub) cases (d, n) = Inr (d', n') \<Longrightarrow>
    (publisher_product_dict d = [] \<longleftrightarrow> subscriber_product_dict d = []) \<Longrightarrow>
    (publisher_product_dict d' = [] \<longleftrightarrow> subscriber_product_dict d' = [])"
proof (induction cases arbitrary: d n)
  case (Cons c cases)
  then obtain d1 n1 where d1: "add_case pub sub c (d, n) = Inr (d1, n1)" "rfold (add_case pub sub) cases (d1, n1) = Inr (d', n')"
    by (auto simp: rbind_Inr_iff)
  from d1(1) have "publisher_product_dict d1 \<noteq> []" "subscriber_product_dict d1 \<noteq> []"
    by (auto simp: rbind_Inr_iff add_case_def Let_def update_value_to_product_dict_def dset_not_nil)
  with Cons.IH [OF d1(2)] show ?case by simp
qed simp

lemma upd_keys: "fst ` set (upd k v d) = insert k (fst ` set d)"
proof -
  have "fst ` set (dset k w d) = insert k (fst ` set d)" for w by (induction d) auto
  then show ?thesis by (simp add: update_value_aggregated_data_dict_def split: option.split)
qed

lemma suite_companies: "companies_ok d \<Longrightarrow> known_suite suite \<Longrightarrow> add_suite suite d = Inr d' \<Longrightarrow> companies_ok d'"
proof -
  assume ok: "companies_ok d" and known: "known_suite suite" and add: "add_suite suite d = Inr d'"
  from known obtain p s where ps: "suite_products (xs_name suite) = (get_product_name p, get_product_name s)"
    "beautified p \<noteq> None" "beautified s \<noteq> None" by (auto simp: known_suite_def)
  from add obtain d1 n where d1: "rfold (add_case (get_product_name p) (get_product_name s)) (xs_cases suite) (d, 0) = Inr (d1, n)"
    by (auto simp: add_suite_def ps(1) rbind_Inr_iff)
  have d': "fst ` set (summary_dict d') = {get_product_name p, get_product_name s} \<union> fst ` set (summary_dict d1)"
    "publisher_product_dict d' = publisher_product_dict d1" "subscriber_product_dict d' = subscriber_product_dict d1"
  proof -
    have "d' = d1\<lparr>summary_dict := (if get_product_name p \<noteq> get_product_name s
          then upd (get_product_name s) (element suite n) (upd (get_product_name p) (element suite n) (summary_dict d1))
          else upd (get_product_name p) (element suite n) (summary_dict d1)),
        product_summary_dict := upd (get_product_name p, get_product_name s) (element suite n) (product_summary_dict d1)\<rparr>"
      using add by (simp add: add_suite_def ps(1) d1 Let_def)
    then show "fst ` set (summary_dict d') = {get_product_name p, get_product_name s} \<union> fst ` set (summary_dict d1)"
      "publisher_product_dict d' = publisher_product_dict d1" "subscriber_product_dict d' = subscriber_product_dict d1"
      by (simp_all add: upd_keys insert_commute)
  qed
  have "\<exists>c. get_company_name (get_product_name x) = Inr c" if "x \<in> {p, s}" for x
    using that ps(2,3) company_of_beautified by blast
  with ok case_keeps_counts [OF d1] cases_both [OF d1] d' show ?thesis unfolding companies_ok_def by auto
qed

lemma rmap_Inr_ex: "(\<And>x. x \<in> set xs \<Longrightarrow> \<exists>y. f x = Inr y) \<Longrightarrow> \<exists>ys. rmap f xs = Inr ys"
  by (induction xs) force+


definition sample_suites :: "xsuite list" where
  "sample_suites =
     [\<lparr>xs_name = ''connext7---hdds'', xs_tests = 2, xs_failures = 1, xs_skipped = 0, xs_errors = 0, xs_cases =
        [\<lparr>xc_name = ''Test_A_0'', xc_messages = [], xc_passed = True\<rparr>,
         \<lparr>xc_name = ''Test_A_1'', xc_messages = [Some ''x''], xc_passed = False\<rparr>]\<rparr>]"

text \<open>A report is read unless a result has no message.\<close>

definition readable_case :: "xcase \<Rightarrow> bool" where "readable_case c \<longleftrightarrow> take 1 (xc_messages c) \<noteq> [None]"

lemma rfold_Inr_ex: "(\<And>x s. x \<in> set xs \<Longrightarrow> \<exists>s'. f x s = Inr s') \<Longrightarrow> \<exists>s'. rfold f xs s = Inr s'"
  by (induction xs arbitrary: s) (auto, metis rbind_simps(2))

lemma get_info_read:
  assumes "list_all (\<lambda>suite. list_all readable_case (xs_cases suite)) xml"
  shows "\<exists>d. get_info xml = Inr d"
proof -
  have m: "\<exists>b. mentions c u = Inr b" if "readable_case c" for c u
    using that by (auto simp: mentions_def readable_case_def split: list.split option.split)
  have "\<exists>st'. add_case pub sub c st = Inr st'" if "readable_case c" for pub sub c st
    using m [OF that, of "''PUB_UNSUPPORTED_FEATURE''"] m [OF that, of "''SUB_UNSUPPORTED_FEATURE''"]
    by (cases st) (auto simp: add_case_def Let_def)
  then have c: "\<exists>st'. rfold (add_case pub sub) (xs_cases suite) st = Inr st'" if "suite \<in> set xml" for pub sub suite st
    using that assms by (intro rfold_Inr_ex) (auto simp: list_all_iff)
  have "\<exists>d'. add_suite suite d = Inr d'" if mem: "suite \<in> set xml" for suite d
  proof -
    obtain pub sub where ps: "suite_products (xs_name suite) = (pub, sub)" by (cases "suite_products (xs_name suite)")
    obtain d1 n where "rfold (add_case pub sub) (xs_cases suite) (d, 0) = Inr (d1, n)" using c [OF mem] by (metis prod.collapse)
    then show ?thesis by (simp add: add_suite_def ps Let_def)
  qed
  then show ?thesis unfolding get_info_def by (rule rfold_Inr_ex)
qed

lemma sample_info: "\<exists>d. get_info sample_suites = Inr d"
  by (rule get_info_read) (simp add: sample_suites_def readable_case_def)

lemma sample_known: "list_all known_suite sample_suites"
proof -
  have "suite_products ''connext7---hdds''
      = (get_product_name ''connext7'', get_product_name ''hdds'')"
    "beautified ''connext7'' \<noteq> None" "beautified ''hdds'' \<noteq> None" by code_simp+
  then show ?thesis by (auto simp: sample_suites_def known_suite_def)
qed


lemma product_totals_witness:
  "\<exists>d. get_info sample_suites = Inr d \<and> (\<forall>product. dict_value total_tests (summary_dict d) product
     = field_sum total_tests (product_summary_dict d) (\<lambda>(p, s). product = p \<or> product = s))"
  using sample_info product_totals by blast

lemma results_complete_witness:
  "\<exists>d. get_info sample_suites = Inr d
     \<and> dget_or (publisher_product_dict d) ''Connext DDS 7'' [] = concat (map (published ''Connext DDS 7'') sample_suites)"
  using sample_info results_complete by blast

end
