(* ===== verification/Doc_Conf.thy ===== *)
theory Doc_Conf
  imports Test_Texts
begin

text \<open>
  \<open>doc/conf.py\<close>: the parts of the documentation that are generated when Sphinx reads its configuration: the
  descriptions of the tests, and the templates, in which placeholders stand for links and for that text; and the
  settings that it assigns.
  The files are given by name and content, the listing of \<open>_static/html\<close> by its names.
\<close>

section \<open>The descriptions of the tests\<close>

definition lf :: string where "lf = [CHR 0x0A]"

definition group_re :: re where   \<comment> \<open>\<open>Test_(.*?)_\\d+\<close>\<close>
  "group_re = Seqs [Lit ''Test_'', Grp 1 (Rep False CDot), Lit ''_'', Plus CDigit]"

definition test_group :: "string \<Rightarrow> string res" where   \<comment> \<open>\<open>re.search(...).group(1)\<close>\<close>
  "test_group name =
     (case re_search group_re name of
        None \<Rightarrow> Inl AttributeError
      | Some m \<Rightarrow> (case group m 1 of Some g \<Rightarrow> Inr g | None \<Rightarrow> Inl AttributeError))"

definition heading :: "char \<Rightarrow> string \<Rightarrow> string" where
  "heading c s = s @ lf @ replicate (length s) c @ lf @ lf"

definition test_section :: "test_text \<Rightarrow> string" where
  "test_section t = (case t of (test_name, title, description) \<Rightarrow>
     heading (CHR ''~'') test_name @ title @ lf @ lf @ description @ lf)"

definition describe_test :: "test_text \<Rightarrow> string \<times> string \<Rightarrow> (string \<times> string) res" where   \<comment> \<open>\<open>last_test_group\<close> and the text\<close>
  "describe_test t st = (case st of (last_test_group, rst) \<Rightarrow>
     rbind (test_group (fst t)) (\<lambda>current_test_group.
       let rst = (if last_test_group \<noteq> current_test_group then rst @ heading (CHR ''-'') current_test_group else rst) in
       Inr (current_test_group, rst @ test_section t)))"

definition generate_test_description_rst :: "test_text list \<Rightarrow> string res" where
  "generate_test_description_rst suite = rbind (rfold describe_test suite ([], [])) (\<lambda>(_, rst). Inr rst)"

section \<open>The templates\<close>

function py_replace :: "string \<Rightarrow> string \<Rightarrow> string \<Rightarrow> string" where   \<comment> \<open>\<open>s.replace(c # target, r)\<close> for a text that is not empty\<close>
  "py_replace (c # target) r s =
     (case s of
        [] \<Rightarrow> []
      | d # s' \<Rightarrow> if starts_with (c # target) s then r @ py_replace (c # target) r (drop (length target) s')
          else d # py_replace (c # target) r s')"
| "py_replace [] r s = s"   \<comment> \<open>not used\<close>
  by pat_completeness auto
termination by (relation "measure (\<lambda>(_, _, s). length s)") auto

declare py_replace.simps [simp del]

definition fill_template :: "(string, string) dict \<Rightarrow> string \<Rightarrow> string" where
  "fill_template replacements content = fold (\<lambda>(target, replacement). py_replace target replacement) replacements content"

definition replace_in_rst_files :: "(string, string) dict \<Rightarrow> (string \<times> string) list \<Rightarrow> (string \<times> string) list" where
  "replace_in_rst_files replacements files =
     map (\<lambda>(name, content). (py_replace ''.template.rst'' ''.rst'' name, fill_template replacements content))
       (filter (\<lambda>(name, _). ends_with ''.template.rst'' name) files)"

section \<open>The configuration\<close>

definition find_index_html :: "string list \<Rightarrow> string option" where   \<comment> \<open>of the names in \<open>_static/html\<close>, relative to \<open>doc\<close>\<close>
  "find_index_html names =
     (case filter (\<lambda>n. starts_with ''interoperability_report_'' n \<and> ends_with ''.html'' n) names of
        n # _ \<Rightarrow> Some (''_static/html/'' @ n)
      | [] \<Rightarrow> None)"

definition replacements_for :: "string \<Rightarrow> string \<Rightarrow> string \<Rightarrow> (string, string) dict" where
  "replacements_for xlsx_url index_html description =
     [(''|LINK_XLSX_URL|'', xlsx_url), (''|INDEX_HTML_PATH|'', index_html), (''|TEST_DESCRIPTION|'', description)]"

definition rst_epilog :: "string \<Rightarrow> string" where
  "rst_epilog zip_url = lf @ ''.. |LINK_ZIP_URL| replace:: '' @ zip_url @ lf"

section \<open>The settings Sphinx reads\<close>

datatype setting = Setting string | Enabled bool | Names "string list" | Captions "(string, string) dict" | Sidebars "(string, string list) dict"

definition general_settings :: "(string, setting) dict" where
  "general_settings =
     [(''extensions'', Names [''sphinx.ext.imgmath'', ''sphinx.ext.extlinks'', ''sphinx.ext.imgconverter'']),
      (''source_suffix'', Setting ''.rst''), (''master_doc'', Setting ''index''),
      (''project'', Setting ''DDS Interoperability Tests''),
      (''html_show_sphinx'', Enabled False), (''html_show_copyright'', Enabled False),
      (''release'', Setting ''version 1.1 (2024)''), (''version'', Setting ''version 1.1 (2024)''),
      (''language'', Setting ''en''),
      (''exclude_patterns'', Names [''_build'', ''Thumbs.db'', ''.DS_Store'', ''*.template.rst'']),
      (''pygments_style'', Setting ''sphinx''), (''todo_include_todos'', Enabled False), (''numfig'', Enabled True),
      (''numfig_format'', Captions [(''figure'', ''Figure %s''), (''table'', ''Table %s''), (''code-block'', ''Listing %s''),
        (''section'', ''Section %s'')])]"

definition html_settings :: "(string, setting) dict" where
  "html_settings =
     [(''html_theme'', Setting ''sphinx_rtd_theme''),
      (''html_logo'', Setting ''_static/img/DDS-logo-nobg.png''), (''html_favicon'', Setting ''_static/img/favicon.ico''),
      (''html_css_files'', Names [''css/custom.css'']), (''html_js_files'', Names [''js/custom.js'']),
      (''html_static_path'', Names [''_static'']),
      (''html_sidebars'', Sidebars [(''**'', [''relations.html'', ''searchbox.html''])])]"

definition setup_app :: "string list \<Rightarrow> string list" where   \<comment> \<open>\<open>setup\<close>: the style files of the application\<close>
  "setup_app css_files = css_files @ [''css/custom.css'']"

definition sphinx_settings :: "string \<Rightarrow> (string, setting) dict" where
  "sphinx_settings epilog =
     general_settings @ html_settings @ [(''rst_epilog'', Setting epilog), (''htmlhelp_basename'', Setting ''DDS_Interoperability_Tests'')]"

definition import_error :: py_error where "import_error = RuntimeError ''ImportError''"

text \<open>
  The files written and the settings, given what \<open>gdrive_url.py\<close> defines: a name it lacks cannot be imported.
\<close>

definition configure :: "string option \<times> string option \<Rightarrow> test_text list \<Rightarrow> string list \<Rightarrow> (string \<times> string) list
    \<Rightarrow> ((string \<times> string) list \<times> (string, setting) dict) res" where
  "configure urls suite html_names files =
     (case urls of
        (Some xlsx_url, Some zip_url) \<Rightarrow>
          rbind (generate_test_description_rst suite) (\<lambda>description.
            (case find_index_html html_names of
               None \<Rightarrow> Inl (SystemExit 1)
             | Some index_html \<Rightarrow>
                 Inr (replace_in_rst_files (replacements_for xlsx_url index_html description) files,
                   sphinx_settings (rst_epilog zip_url))))
      | _ \<Rightarrow> Inl import_error)"

section \<open>The outline of the descriptions\<close>

text \<open>The sections of adjacent tests of one group.\<close>

fun outline :: "(string \<times> test_text) list \<Rightarrow> (string \<times> test_text list) list" where
  "outline [] = []"
| "outline ((g, t) # gts) =
     (case outline gts of
        (h, ts) # rest \<Rightarrow> if g = h then (g, t # ts) # rest else (g, [t]) # (h, ts) # rest
      | [] \<Rightarrow> [(g, [t])])"

definition render_outline :: "(string \<times> test_text list) list \<Rightarrow> string" where
  "render_outline sections = concat (map (\<lambda>(g, ts). heading (CHR ''-'') g @ concat (map test_section ts)) sections)"

lemma outline_Cons:
  "render_outline (outline ((g, t) # gts)) =
     heading (CHR ''-'') g @ test_section t @
     (case outline gts of
        (h, ts) # rest \<Rightarrow> if g = h then concat (map test_section ts) @ render_outline rest else render_outline (outline gts)
      | [] \<Rightarrow> [])"
  by (auto simp: render_outline_def split: list.splits)

lemma outline_starts: "\<exists>ts rest. outline ((g, t) # gts) = (g, ts) # rest"
  by (auto split: list.split)

lemma describe_outline:
  assumes "list_all2 (\<lambda>t (g, u). test_group (fst t) = Inr g \<and> u = t \<and> g \<noteq> []) suite gts"
  shows "\<exists>g. rfold describe_test suite (lg, rst) = Inr (g, rst @
     (case outline gts of
        (h, ts) # rest \<Rightarrow> if lg = h then concat (map test_section ts) @ render_outline rest else render_outline (outline gts)
      | [] \<Rightarrow> []))"
  using assms
proof (induction suite gts arbitrary: lg rst rule: list_all2_induct)
  case (Cons t suite gt gts)
  obtain g where gt: "gt = (g, t)" "test_group (fst t) = Inr g" using Cons(1) by auto
  obtain ts rest where o: "outline ((g, t) # gts) = (g, ts) # rest"
    using outline_starts by blast
  show ?case
    using Cons.IH [of g "if lg \<noteq> g then rst @ heading (CHR ''-'') g @ test_section t else rst @ test_section t"] outline_Cons [of g t gts] o
    by (auto simp: describe_test_def gt render_outline_def split: list.splits if_splits)
qed simp

lemma outline_groups: "map fst (outline gts) = remdups_adj (map fst gts)"
  by (induction gts rule: outline.induct) (auto simp: remdups_adj_Cons split: list.splits)

lemma outline_tests: "concat (map snd (outline gts)) = map snd gts"
  by (induction gts rule: outline.induct) (auto split: list.splits)

lemma outline_members:
  "list_all P gts \<Longrightarrow> list_all (\<lambda>(g, ts). ts \<noteq> [] \<and> list_all (\<lambda>t. P (g, t)) ts) (outline gts)"
  by (induction gts rule: outline.induct) (auto split: list.splits)

lemma suite_texts_names: "map fst suite_texts = dkeys rtps_test_suite_1"
  by (simp add: suite_texts_def texts_Domain_def texts_DataRepresentation_def texts_Reliability_def texts_History_def
      texts_Ownership_def texts_Deadline_def texts_Topic_def texts_Cft_def texts_Partition_def texts_Durability_def
      texts_TimeBasedFilter_def texts_FinalInstanceState_def texts_LargeData_def texts_Lifespan_def
      texts_OrderedAccess_def texts_CoherentSets_def suite_defs)

lemma descriptions_rendered:
  assumes "rmap test_group (map fst suite) = Inr gs" "list_all (\<lambda>g. g \<noteq> []) gs"
  shows "generate_test_description_rst suite = Inr (render_outline (outline (zip gs suite)))"
    and "map fst (outline (zip gs suite)) = remdups_adj gs"
    and "concat (map snd (outline (zip gs suite))) = suite"
    and "list_all (\<lambda>(g, ts). ts \<noteq> [] \<and> list_all (\<lambda>t. test_group (fst t) = Inr g) ts) (outline (zip gs suite))"
proof -
  have groups: "list_all2 (\<lambda>n g. test_group n = Inr g) (map fst suite) gs" using assms(1) by (simp add: rmap_Inr_iff)
  then have len: "length gs = length suite" by (simp add: list_all2_lengthD [symmetric])
  have "list_all2 (\<lambda>t (g, u). test_group (fst t) = Inr g \<and> u = t \<and> g \<noteq> []) suite (zip gs suite)"
    using groups assms(2) by (simp add: list_all2_conv_all_nth list_all_length)
  from describe_outline [OF this, of "[]" "[]"]
  obtain g where g: "rfold describe_test suite ([], []) = Inr (g,
      case outline (zip gs suite) of (h, ts) # rest \<Rightarrow> if [] = h then concat (map test_section ts) @ render_outline rest
        else render_outline (outline (zip gs suite)) | [] \<Rightarrow> [])" by auto
  show heads: "map fst (outline (zip gs suite)) = remdups_adj gs" by (simp add: outline_groups len)
  have "fst s \<noteq> []" if "s \<in> set (outline (zip gs suite))" for s
  proof -
    have "fst s \<in> set gs" using that heads by (metis imageI remdups_adj_set set_map)
    with assms(2) show ?thesis by (auto simp: list_all_iff)
  qed
  with g show "generate_test_description_rst suite = Inr (render_outline (outline (zip gs suite)))"
    by (fastforce simp: generate_test_description_rst_def render_outline_def split: list.splits)
  show "concat (map snd (outline (zip gs suite))) = suite" by (simp add: outline_tests len)
  have "list_all (\<lambda>(g, t). test_group (fst t) = Inr g) (zip gs suite)"
    using groups by (auto simp: list_all2_conv_all_nth list_all_length)
  from outline_members [OF this]
  show "list_all (\<lambda>(g, ts). ts \<noteq> [] \<and> list_all (\<lambda>t. test_group (fst t) = Inr g) ts) (outline (zip gs suite))" by simp
qed

lemma suite_groups:
  "case rmap test_group (dkeys rtps_test_suite_1) of Inl _ \<Rightarrow> False | Inr gs \<Rightarrow> distinct (remdups_adj gs) \<and> list_all (\<lambda>g. g \<noteq> []) gs"
  by code_simp

section \<open>Properties\<close>

text \<open>
  C18: The descriptions are the suite's, grouped by feature. For \<open>test_suite.py\<close> no test name is without a group;
  the text has one section for each group of adjacent tests, no two sections have the same group, and in them each
  test of the suite has its own part, in the order of the suite.
\<close>

theorem descriptions_grouped:
  "\<exists>sections. generate_test_description_rst suite_texts = Inr (render_outline sections)
     \<and> distinct (map fst sections) \<and> concat (map snd sections) = suite_texts
     \<and> map fst suite_texts = dkeys rtps_test_suite_1
     \<and> list_all (\<lambda>(g, ts). ts \<noteq> [] \<and> list_all (\<lambda>t. test_group (fst t) = Inr g) ts) sections"
proof -
  obtain gs where gs: "rmap test_group (map fst suite_texts) = Inr gs" "list_all (\<lambda>g. g \<noteq> []) gs" "distinct (remdups_adj gs)"
    using suite_groups by (auto simp: suite_texts_names split: sum.splits)
  note made = descriptions_rendered [OF gs(1,2)]
  with gs(3) show ?thesis by (intro exI [of _ "outline (zip gs suite_texts)"]) (simp add: suite_texts_names)
qed

section \<open>Filled templates\<close>

text \<open>A template is text and references between bars, \<open>|name|\<close>.\<close>

definition reference :: "string \<Rightarrow> string" where "reference name = ''|'' @ name @ ''|''"

definition template :: "string \<Rightarrow> (string \<times> string) list \<Rightarrow> string" where
  "template w ps = w @ concat (map (\<lambda>(n, t). reference n @ t) ps)"

definition no_bar :: "string \<Rightarrow> bool" where "no_bar s \<longleftrightarrow> CHR ''|'' \<notin> set s"

fun merge_value :: "string \<Rightarrow> string \<Rightarrow> string \<Rightarrow> (string \<times> string) list \<Rightarrow> string \<times> (string \<times> string) list" where
  "merge_value n r w [] = (w, [])"
| "merge_value n r w ((m, t) # ps) =
     (if m = n then merge_value n r (w @ r @ t) ps
      else (case merge_value n r t ps of (u, qs) \<Rightarrow> (w, (m, u) # qs)))"

lemma reference_Cons: "reference n = CHR ''|'' # (n @ ''|'')"
  by (simp add: reference_def)

lemma py_replace_skip: "\<not> starts_with (reference n) (d # s) \<Longrightarrow> py_replace (reference n) r (d # s) = d # py_replace (reference n) r s"
  unfolding reference_Cons by (subst py_replace.simps(1)) (simp only: list.case if_False)

lemma py_replace_found: "py_replace (reference n) r (reference n @ s) = r @ py_replace (reference n) r s"
  using starts_with_append [of "n @ ''|''" s] unfolding reference_Cons by (subst py_replace.simps(1)) simp

lemma py_replace_Nil [simp]: "py_replace (reference n) r [] = []"
  unfolding reference_Cons by (subst py_replace.simps(1)) simp

lemma py_replace_plain: "no_bar w \<Longrightarrow> py_replace (reference n) r (w @ s) = w @ py_replace (reference n) r s"
proof (induction w)
  case (Cons c w)
  then have "\<not> starts_with (reference n) (c # w @ s)" by (auto simp: no_bar_def reference_Cons)
  with Cons show ?case by (simp add: py_replace_skip no_bar_def)
qed simp

lemma starts_with_bar: "no_bar n \<Longrightarrow> no_bar m \<Longrightarrow> starts_with (n @ ''|'') (m @ CHR ''|'' # s) \<longleftrightarrow> n = m"
proof (induction n arbitrary: m)
  case (Cons c n)
  then show ?case by (cases m) (auto simp: no_bar_def)
next
  case Nil
  then show ?case by (cases m) (auto simp: no_bar_def)
qed

lemma starts_without_bar: "no_bar t \<Longrightarrow> \<not> starts_with (n @ ''|'') t"
  by (auto simp: starts_with_iff no_bar_def)

lemma py_replace_bar:
  assumes "no_bar n" "no_bar t" "t \<noteq> n"
  shows "py_replace (reference n) r (CHR ''|'' # template t ps) = CHR ''|'' # py_replace (reference n) r (template t ps)"
proof (rule py_replace_skip)
  show "\<not> starts_with (reference n) (CHR ''|'' # template t ps)"
    using assms starts_with_bar [of n t] starts_without_bar [of t n]
    by (cases ps) (auto simp: template_def reference_Cons)
qed

definition pieces_ok :: "string list \<Rightarrow> (string \<times> string) list \<Rightarrow> bool" where
  "pieces_ok names ps \<longleftrightarrow> list_all (\<lambda>(m, t). no_bar m \<and> no_bar t \<and> t \<notin> set names) ps"

lemma template_Cons: "template w ((m, t) # ps) = w @ reference m @ template t ps"
  by (simp add: template_def)

lemma template_append: "template (x @ w) ps = x @ template w ps"
  by (simp add: template_def)

lemma merge_value_append: "merge_value n r (x @ w) ps = (case merge_value n r w ps of (u, qs) \<Rightarrow> (x @ u, qs))"
proof (induction ps arbitrary: w)
  case (Cons p ps)
  then show ?case by (cases p) (simp split: prod.splits)
qed simp

lemma replace_template:
  "no_bar n \<Longrightarrow> no_bar w \<Longrightarrow> pieces_ok [n] ps \<Longrightarrow>
    py_replace (reference n) r (template w ps) = (case merge_value n r w ps of (u, qs) \<Rightarrow> template u qs)"
proof (induction ps arbitrary: w)
  case Nil
  then show ?case using py_replace_plain [of w n r "[]"] by (simp add: template_def)
next
  case (Cons p ps)
  obtain m t where p: "p = (m, t)" by (cases p)
  with Cons.prems have ok: "no_bar m" "no_bar t" "t \<noteq> n" "pieces_ok [n] ps" by (auto simp: pieces_ok_def)
  note IH = Cons.IH [OF Cons.prems(1) ok(2,4)]
  show ?case
  proof (cases "m = n")
    case True
    then show ?thesis
      using py_replace_plain [OF Cons.prems(2)] merge_value_append [of n r "w @ r" t ps]
      by (simp add: p template_Cons py_replace_found IH template_append split: prod.splits)
  next
    case False
    have "\<not> starts_with (reference n) (CHR ''|'' # m @ CHR ''|'' # template t ps)"
      using starts_with_bar [OF Cons.prems(1) ok(1)] False by (simp add: reference_Cons)
    from py_replace_skip [OF this, of r]
    have "py_replace (reference n) r (reference m @ template t ps) = reference m @ py_replace (reference n) r (template t ps)"
      using py_replace_plain [OF ok(1)] py_replace_bar [OF Cons.prems(1) ok(2,3)] by (simp add: reference_def)
    with False show ?thesis
      using py_replace_plain [OF Cons.prems(2)] by (simp add: p template_Cons IH split: prod.splits)
  qed
qed

text \<open>All references replaced at once.\<close>

definition filled :: "(string, string) dict \<Rightarrow> string \<Rightarrow> (string \<times> string) list \<Rightarrow> string" where
  "filled vs w ps = w @ concat (map (\<lambda>(m, t). (case dget vs m of Some v \<Rightarrow> v | None \<Rightarrow> reference m) @ t) ps)"

lemma filled_merge: "merge_value n r w ps = (u, qs) \<Longrightarrow> dget vs n = None \<Longrightarrow> filled vs u qs = filled ((n, r) # vs) w ps"
proof (induction ps arbitrary: w u qs)
  case (Cons p ps)
  obtain m t where p: "p = (m, t)" by (cases p)
  obtain u' qs' where m: "merge_value n r t ps = (u', qs')" by (cases "merge_value n r t ps")
  with Cons.IH [OF m Cons.prems(2)] Cons.prems(1) merge_value_append [of n r "w @ r" t ps] show ?case
    by (auto simp: p filled_def split: if_splits)
qed (simp add: filled_def)

text \<open>A value with a slash makes no text equal to a name without one.\<close>

lemma merge_pieces_ok:
  "merge_value n r w ps = (u, qs) \<Longrightarrow> no_bar w \<Longrightarrow> no_bar r \<Longrightarrow> pieces_ok names ps \<Longrightarrow> CHR ''/'' \<in> set r
   \<Longrightarrow> list_all (\<lambda>m. CHR ''/'' \<notin> set m) names \<Longrightarrow> no_bar u \<and> (u = w \<or> CHR ''/'' \<in> set u) \<and> pieces_ok names qs"
proof (induction ps arbitrary: w u qs)
  case (Cons p ps)
  obtain m t where p: "p = (m, t)" by (cases p)
  show ?case
  proof (cases "m = n")
    case True
    with Cons.prems have "merge_value n r (w @ r @ t) ps = (u, qs)" "no_bar (w @ r @ t)" "pieces_ok names ps"
      by (auto simp: p pieces_ok_def no_bar_def)
    from Cons.IH [OF this(1,2) Cons.prems(3) this(3) Cons.prems(5,6)] Cons.prems(5) show ?thesis by auto
  next
    case False
    obtain u' qs' where m: "merge_value n r t ps = (u', qs')" by (cases "merge_value n r t ps")
    from Cons.prems(4) have "no_bar t" "t \<notin> set names" "no_bar m" "pieces_ok names ps" by (auto simp: p pieces_ok_def)
    with Cons.IH [OF m this(1) Cons.prems(3) this(4) Cons.prems(5,6)] Cons.prems False m show ?thesis
      by (auto simp: p pieces_ok_def list_all_iff)
  qed
qed (simp add: pieces_ok_def)

text \<open>The values after which another replacement comes have no bar and have a slash; the names have neither.\<close>

fun replaceable :: "(string, string) dict \<Rightarrow> bool" where
  "replaceable [] = True"
| "replaceable ((n, r) # vs) =
     (no_bar n \<and> CHR ''/'' \<notin> set n \<and> n \<notin> set (map fst vs) \<and> (vs = [] \<or> no_bar r \<and> CHR ''/'' \<in> set r) \<and> replaceable vs)"

lemma fill_template_filled:
  "replaceable vs \<Longrightarrow> no_bar w \<Longrightarrow> pieces_ok (map fst vs) ps \<Longrightarrow>
    fill_template (map (\<lambda>(n, r). (reference n, r)) vs) (template w ps) = filled vs w ps"
proof (induction vs arbitrary: w ps)
  case Nil
  have "template w ps = filled [] w ps" by (simp add: template_def filled_def)
  then show ?case by (simp add: fill_template_def)
next
  case (Cons v vs)
  obtain n r where v: "v = (n, r)" by (cases v)
  obtain u qs where m: "merge_value n r w ps = (u, qs)" by (cases "merge_value n r w ps")
  from Cons.prems have ok: "no_bar n" "pieces_ok [n] ps" "pieces_ok (map fst vs) ps" "replaceable vs" "n \<notin> set (map fst vs)"
    by (auto simp: v pieces_ok_def list_all_iff)
  then have "dget vs n = None" by (simp add: dget_None)
  from filled_merge [OF m this] have all: "filled (v # vs) w ps = filled vs u qs" by (simp add: v)
  have step: "fill_template (map (\<lambda>(n, r). (reference n, r)) (v # vs)) (template w ps)
      = fill_template (map (\<lambda>(n, r). (reference n, r)) vs) (template u qs)"
    using replace_template [OF ok(1) Cons.prems(2) ok(2), of r] by (simp add: v fill_template_def m)
  show ?case
  proof (cases "vs = []")
    case True
    then show ?thesis unfolding step all by (simp add: fill_template_def template_def filled_def)
  next
    case False
    have "list_all (\<lambda>m. CHR ''/'' \<notin> set m) (map fst vs)" using ok(4) by (induction vs rule: replaceable.induct) auto
    moreover from False Cons.prems(1) have "no_bar r" "CHR ''/'' \<in> set r" by (simp_all add: v)
    ultimately have "no_bar u" "pieces_ok (map fst vs) qs" using merge_pieces_ok [OF m Cons.prems(2) _ ok(3)] by auto
    then show ?thesis unfolding step all by (rule Cons.IH [OF ok(4)])
  qed
qed

text \<open>
  C40: Filling a template replaces its references at once. On a template of text and references \<open>|name|\<close>, in which no
  text between two bars happens to be a name, the replacements one after the other give each reference its value and
  leave everything else as it is, when the links that come first have a slash and no bar; what is inserted is
  never read as a reference.
\<close>

theorem template_filled:
  assumes "no_bar w" "pieces_ok [''LINK_XLSX_URL'', ''INDEX_HTML_PATH'', ''TEST_DESCRIPTION''] ps"
    and "no_bar xlsx_url" "CHR ''/'' \<in> set xlsx_url" "find_index_html html_names = Some index_html" "list_all no_bar html_names"
  shows "fill_template (replacements_for xlsx_url index_html description) (template w ps) =
    filled [(''LINK_XLSX_URL'', xlsx_url), (''INDEX_HTML_PATH'', index_html), (''TEST_DESCRIPTION'', description)] w ps"
proof -
  obtain n where "n \<in> set html_names" "index_html = ''_static/html/'' @ n"
    using assms(5) by (auto simp: find_index_html_def filter_eq_Cons_iff split: list.splits)
  with assms(6) have "no_bar index_html" "CHR ''/'' \<in> set index_html" by (auto simp: no_bar_def list_all_iff)
  with assms(3,4) have "replaceable [(''LINK_XLSX_URL'', xlsx_url), (''INDEX_HTML_PATH'', index_html), (''TEST_DESCRIPTION'', description)]"
    by (simp add: no_bar_def)
  from fill_template_filled [OF this assms(1), of ps] assms(2) show ?thesis
    by (simp add: replacements_for_def reference_def)
qed

lemma template_filled_witness:
  "fill_template (replacements_for ''https://x/y'' ''_static/html/interoperability_report_1.html'' ''a |TEST_DESCRIPTION| b'')
     ''See |LINK_XLSX_URL|, |br| and |TEST_DESCRIPTION|.'' = ''See https://x/y, |br| and a |TEST_DESCRIPTION| b.''"
proof -
  let ?ps = "[(''LINK_XLSX_URL'', '', ''), (''br'', '' and ''), (''TEST_DESCRIPTION'', ''.'')]"
  have "template ''See '' ?ps = ''See |LINK_XLSX_URL|, |br| and |TEST_DESCRIPTION|.''" by (simp add: template_def reference_def)
  moreover have "fill_template (replacements_for ''https://x/y'' ''_static/html/interoperability_report_1.html'' ''a |TEST_DESCRIPTION| b'')
      (template ''See '' ?ps) = filled [(''LINK_XLSX_URL'', ''https://x/y''),
        (''INDEX_HTML_PATH'', ''_static/html/interoperability_report_1.html''), (''TEST_DESCRIPTION'', ''a |TEST_DESCRIPTION| b'')] ''See '' ?ps"
    by (rule template_filled [where html_names = "[''interoperability_report_1.html'']"])
       (simp_all add: no_bar_def pieces_ok_def find_index_html_def ends_with_def)
  ultimately show ?thesis by (simp add: filled_def reference_def)
qed

end
