(* ===== verification/Latest_Files.thy ===== *)
theory Latest_Files
  imports Py_Text
begin

text \<open>
  \<open>get_latest_file_urls.py\<close>: the search for the newest spreadsheet and archive in a folder of the drive.  What the
  service answers is the input: an item with its kind, the time of its last change, its link, and, for a
  folder, the pages in which the service lists its contents.
\<close>

datatype drive_item = Item (mime: string) (modified: string) (link: "string option") (pages: "drive_item list list")

definition folder_type :: string where "folder_type = ''application/vnd.google-apps.folder''"
definition xlsx_type :: string where "xlsx_type = ''application/vnd.openxmlformats-officedocument.spreadsheetml.sheet''"
definition zip_type :: string where "zip_type = ''application/zip''"

text \<open>The loop over the pages assigns \<open>items\<close> anew each time, so that the last page is what it leaves.\<close>

definition last_page :: "drive_item list list \<Rightarrow> drive_item list" where
  "last_page ps = (if ps = [] then [] else last ps)"

lemma last_page_smaller [termination_simp]: "x \<in> set (last_page ps) \<Longrightarrow> size x < Suc (size_list (size_list size) ps)"
proof -
  assume x: "x \<in> set (last_page ps)"
  then have "last_page ps \<in> set ps" by (auto simp: last_page_def split: if_splits)
  then have "size_list size (last_page ps) \<le> size_list (size_list size) ps" by (simp add: size_list_estimation')
  moreover have "size x \<le> size_list size (last_page ps)" using x by (simp add: size_list_estimation')
  ultimately show ?thesis by simp
qed

definition extend_all :: "(drive_item list \<times> drive_item list) list \<Rightarrow> drive_item list \<times> drive_item list" where
  "extend_all fs = (concat (map fst fs), concat (map snd fs))"

fun item_files :: "drive_item \<Rightarrow> drive_item list \<times> drive_item list" where   \<comment> \<open>spreadsheets and archives\<close>
  "item_files (Item m t l ps) =
     (if m = folder_type then extend_all (map item_files (last_page ps))
      else if m = xlsx_type then ([Item m t l ps], [])
      else if m = zip_type then ([], [Item m t l ps])
      else ([], []))"

definition get_subfolder_files :: "drive_item list list \<Rightarrow> drive_item list \<times> drive_item list" where
  "get_subfolder_files ps = extend_all (map item_files (last_page ps))"

fun newest :: "drive_item list \<Rightarrow> drive_item option" where   \<comment> \<open>\<open>max(files, key=...)\<close>: the first of the greatest\<close>
  "newest [] = None"
| "newest (f # fs) = Some (fold (\<lambda>g best. if modified best < modified g then g else best) fs f)"

definition latest_link :: "drive_item list \<Rightarrow> string option" where
  "latest_link fs = (case newest fs of None \<Rightarrow> None | Some f \<Rightarrow> link f)"

definition get_latest_files_url :: "drive_item list list \<Rightarrow> string option \<times> string option" where
  "get_latest_files_url ps = (case get_subfolder_files ps of (xlsx_files, zip_files) \<Rightarrow> (latest_link xlsx_files, latest_link zip_files))"

definition url_line :: "string \<Rightarrow> string option \<Rightarrow> string" where
  "url_line name url = (case url of None \<Rightarrow> [] | Some u \<Rightarrow> name @ '' = '' @ [CHR 0x27] @ u @ [CHR 0x27, CHR 0x0A])"

text \<open>The text of the output file, or the exit status.\<close>

definition latest_main :: "drive_item list list \<Rightarrow> string list \<Rightarrow> nat + string" where
  "latest_main ps argv =
     (case argv of
        _ # file_name # _ \<Rightarrow>
          if \<not> ends_with ''.py'' file_name then Inl 1
          else (case get_latest_files_url ps of (xlsx_url, zip_url) \<Rightarrow> Inr (url_line ''xlsx_url'' xlsx_url @ url_line ''zip_url'' zip_url))
      | _ \<Rightarrow> Inl 1)"

section \<open>The newest file\<close>

lemma newest_greatest:
  "newest fs = None \<longleftrightarrow> fs = []" "newest fs = Some f \<Longrightarrow> f \<in> set fs \<and> (\<forall>g \<in> set fs. modified g \<le> modified f)"
proof -
  show "newest fs = None \<longleftrightarrow> fs = []" by (cases fs) simp_all
  have "fold (\<lambda>g best. if modified best < modified g then g else best) fs b \<in> insert b (set fs)
      \<and> (\<forall>g \<in> insert b (set fs). modified g \<le> modified (fold (\<lambda>g best. if modified best < modified g then g else best) fs b))" for fs b
  proof (induction fs arbitrary: b)
    case (Cons g fs)
    show ?case
    proof (cases "modified b < modified g")
      case True
      with Cons.IH [of g] show ?thesis by (auto intro: order.strict_implies_order order_trans)
    next
      case False
      with Cons.IH [of b] show ?thesis by (auto intro: order_trans [of "modified g" "modified b"])
    qed
  qed simp
  then show "newest fs = Some f \<Longrightarrow> f \<in> set fs \<and> (\<forall>g \<in> set fs. modified g \<le> modified f)" by (cases fs) fastforce+
qed

inductive reachable :: "drive_item list list \<Rightarrow> drive_item \<Rightarrow> bool" where   \<comment> \<open>in the folder or below it, on any page\<close>
  here: "p \<in> set ps \<Longrightarrow> f \<in> set p \<Longrightarrow> reachable ps f"
| below: "reachable ps d \<Longrightarrow> mime d = folder_type \<Longrightarrow> p \<in> set (pages d) \<Longrightarrow> f \<in> set p \<Longrightarrow> reachable ps f"

definition single_page :: "drive_item list list \<Rightarrow> bool" where   \<comment> \<open>every folder fits on one page\<close>
  "single_page ps \<longleftrightarrow> length ps \<le> 1 \<and> (\<forall>d. reachable ps d \<longrightarrow> mime d = folder_type \<longrightarrow> length (pages d) \<le> 1)"

lemma one_page: "length ps \<le> 1 \<Longrightarrow> set (last_page ps) = \<Union> (set ` set ps)"
  by (cases ps) (auto simp: last_page_def)

lemma set_extend: "set (fst (extend_all fs)) = (\<Union>x \<in> set fs. set (fst x))" "set (snd (extend_all fs)) = (\<Union>x \<in> set fs. set (snd x))"
  by (auto simp: extend_all_def)

lemma types_differ: "folder_type \<noteq> xlsx_type" "folder_type \<noteq> zip_type" "xlsx_type \<noteq> zip_type"
  by (simp_all add: folder_type_def xlsx_type_def zip_type_def)

lemma item_files_sound:
  "reachable ps f \<Longrightarrow> x \<in> set (fst (item_files f)) \<Longrightarrow> reachable ps x \<and> mime x = xlsx_type"
  "reachable ps f \<Longrightarrow> x \<in> set (snd (item_files f)) \<Longrightarrow> reachable ps x \<and> mime x = zip_type"
proof (induction f rule: item_files.induct)
  case (1 m t l qs)
  have below: "reachable ps g" if "g \<in> set (last_page qs)" "m = folder_type" "reachable ps (Item m t l qs)" for g
    using that reachable.below [of ps "Item m t l qs" "last_page qs" g] by (auto simp: last_page_def split: if_splits)
  { case 1 then show ?case using "1.IH"(1) below by (auto simp: set_extend split: if_splits) }
  { case 2 then show ?case using "1.IH"(2) below by (auto simp: set_extend split: if_splits) }
qed

lemma item_files_complete:
  "reachable ps f \<Longrightarrow> single_page ps \<Longrightarrow>
    set (fst (item_files f)) \<subseteq> set (fst (get_subfolder_files ps)) \<and> set (snd (item_files f)) \<subseteq> set (snd (get_subfolder_files ps))"
proof (induction rule: reachable.induct)
  case (here p ps f)
  then have "f \<in> set (last_page ps)" using one_page [of ps] by (auto simp: single_page_def)
  then show ?case by (auto simp: get_subfolder_files_def set_extend)
next
  case (below ps d p f)
  then have "length (pages d) \<le> 1" by (simp add: single_page_def)
  then have "f \<in> set (last_page (pages d))" using one_page [of "pages d"] below.hyps by auto
  then have "set (fst (item_files f)) \<subseteq> set (fst (item_files d))" "set (snd (item_files f)) \<subseteq> set (snd (item_files d))"
    using below.hyps by (cases d; auto simp: set_extend)+
  with below.IH below.prems show ?case by blast
qed

lemma found_files:
  assumes "single_page ps"
  shows "f \<in> set (fst (get_subfolder_files ps)) \<longleftrightarrow> reachable ps f \<and> mime f = xlsx_type"
    "f \<in> set (snd (get_subfolder_files ps)) \<longleftrightarrow> reachable ps f \<and> mime f = zip_type"
proof -
  have top: "reachable ps g" if "g \<in> set (last_page ps)" for g
    using that reachable.here [of "last_page ps" ps g] by (auto simp: last_page_def split: if_splits)
  have "mime f = xlsx_type \<Longrightarrow> f \<in> set (fst (item_files f))" "mime f = zip_type \<Longrightarrow> f \<in> set (snd (item_files f))"
    using types_differ by (cases f; simp)+
  moreover have "reachable ps f \<and> mime f = xlsx_type" if "f \<in> set (fst (get_subfolder_files ps))"
    using that top item_files_sound(1) by (auto simp: get_subfolder_files_def set_extend)
  moreover have "reachable ps f \<and> mime f = zip_type" if "f \<in> set (snd (get_subfolder_files ps))"
    using that top item_files_sound(2) by (auto simp: get_subfolder_files_def set_extend)
  ultimately show "f \<in> set (fst (get_subfolder_files ps)) \<longleftrightarrow> reachable ps f \<and> mime f = xlsx_type"
    "f \<in> set (snd (get_subfolder_files ps)) \<longleftrightarrow> reachable ps f \<and> mime f = zip_type"
    using item_files_complete [OF _ assms, of f] by blast+
qed

definition newest_of :: "drive_item list list \<Rightarrow> string \<Rightarrow> string option \<Rightarrow> bool" where
  "newest_of ps kind url \<longleftrightarrow>
     (if \<exists>f. reachable ps f \<and> mime f = kind
      then \<exists>f. reachable ps f \<and> mime f = kind \<and> url = link f \<and> (\<forall>g. reachable ps g \<and> mime g = kind \<longrightarrow> modified g \<le> modified f)
      else url = None)"

lemma latest_link_newest:
  assumes "\<And>f. f \<in> set fs \<longleftrightarrow> reachable ps f \<and> mime f = kind"
  shows "newest_of ps kind (latest_link fs)"
proof (cases "newest fs")
  case None
  then show ?thesis using newest_greatest(1) [of fs] assms by (simp add: newest_of_def latest_link_def) (metis list.set_intros(1) neq_Nil_conv)
next
  case (Some f)
  then show ?thesis using newest_greatest(2) [OF Some] assms by (auto simp: newest_of_def latest_link_def)
qed

text \<open>
  C39: The newest files are found when every folder fits on one page. The two links are those of the files of their kind
  that were changed last, among all files in the folder and in the folders below it at any depth; there is none
  only when there is no such file.
\<close>

theorem latest_files_newest:
  assumes "single_page ps"
  shows "newest_of ps xlsx_type (fst (get_latest_files_url ps)) \<and> newest_of ps zip_type (snd (get_latest_files_url ps))"
  using latest_link_newest found_files [OF assms] by (simp add: get_latest_files_url_def case_prod_unfold)

definition sample_file :: "string \<Rightarrow> string \<Rightarrow> drive_item" where
  "sample_file t l = Item xlsx_type t (Some l) []"

lemma latest_files_newest_witness:
  "newest_of [[sample_file ''2026-01-01'' ''a'', sample_file ''2026-02-01'' ''b'']] xlsx_type (Some ''b'')"
proof -
  let ?ps = "[[sample_file ''2026-01-01'' ''a'', sample_file ''2026-02-01'' ''b'']]"
  have "mime d = xlsx_type" if "reachable ?ps d" for d
    using that by (induction "?ps" d rule: reachable.induct) (auto simp: sample_file_def types_differ)
  then have "single_page ?ps" using types_differ by (auto simp: single_page_def)
  moreover have "fst (get_latest_files_url ?ps) = Some ''b''" by code_simp
  ultimately show ?thesis using latest_files_newest [of ?ps] by simp
qed

text \<open>The files on an earlier page are lost: the newest file of a folder with two pages is not found.\<close>

lemma earlier_page_lost:
  "get_latest_files_url [[sample_file ''2026-02-01'' ''new''], [sample_file ''2026-01-01'' ''old'']] = (Some ''old'', None)"
  by code_simp

end
