(* ===== verification/Spec2Isabelle.thy ===== *)
theory Spec2Isabelle
  imports Handshake Console Read_Back Command_Facts Html_Assets Discovery_Verdicts Xlsx_Facts Doc_Conf Latest_Files
begin

text \<open>
  \<^bold>\<open>A verification of the DDS-RTPS interoperability tools\<close>

  \<^bold>\<open>The program.\<close>  \<open>interoperability_report.py\<close> starts publishers and subscribers of two vendors, reads what they print,
  lets a check function decide and writes a JUnit report.  \<open>benchmarking/compare_junit_reports.py\<close>, with the package
  \<open>junit_compare\<close>, reads such reports back, compares them and analyses runs in parallel; \<open>generate_xlsx_report.py\<close> makes
  a spreadsheet of one report; \<open>discovery/rtps_discovery_sniffer.py\<close> examines the discovery traffic of a test;
  \<open>get_latest_file_urls.py\<close> finds the newest published results; \<open>doc/conf.py\<close> generates the pages of the documentation.

  \<^bold>\<open>Theories and sources.\<close>
  \<^item> \<open>Prelude\<close>, \<open>Regex\<close>, \<open>Py_Text\<close>, \<open>Py_Float\<close>, \<open>Py_Literal\<close>, \<open>Difflib\<close>, \<open>Py_Argparse\<close>: what the sources use of Python: exceptions as a sum, strings,
    insertion-ordered dictionaries, regular expressions with a backtracking matcher, \<open>repr\<close>, floats with 53 bits, \<open>int(s, base)\<close>,
    \<open>float(s)\<close>, \<open>difflib.unified_diff\<close> and \<open>argparse\<close>; \<open>Argparse_Facts\<close>: what a parser can return and how a line it is given is read.
  \<^item> \<open>Child\<close>: the \<open>pexpect\<close> child as the script of its answers.  \<open>Utilities\<close>: \<open>rtps_test_utilities.py\<close>.
  \<^item> \<open>CheckLoop\<close>, \<open>Streams\<close>, \<open>Check_Receivers\<close>, \<open>Check_Order\<close>, \<open>Check_Durability\<close>, \<open>Check_TimeFilter\<close>, \<open>Check_Lifespan\<close>,
    \<open>Check_Instances\<close>, \<open>Check_Ordered\<close>, \<open>Check_Coherent\<close>, \<open>Checks\<close>: the check functions of \<open>test_suite_functions.py\<close>, each a
    state record, a loop step and a verdict; \<open>CheckLoop\<close> has the loop they share and the locale of its invariants.
  \<^item> \<open>Interop_Run\<close>, \<open>Handshake\<close>, \<open>Interop_Report\<close>, \<open>Console\<close>, \<open>Test_Suite\<close>: the processes of a test case, the events by which
    they wait for one another (a transition relation), \<open>run_test\<close> and \<open>main\<close> with what they print, and \<open>test_suite.py\<close>.
  \<^item> \<open>Models\<close>, \<open>Loader\<close>, \<open>Read_Back\<close>, \<open>Report_Data\<close>, \<open>File_Registry\<close>, \<open>Analyzer\<close>, \<open>Aggregates\<close>, \<open>Renderer\<close>, \<open>Explain\<close>, \<open>Html_Report\<close>,
    \<open>Html_Nesting\<close>, \<open>Html_Assets\<close>: the modules of \<open>junit_compare\<close> under their names; \<open>Read_Back\<close> joins the writer and the reader of the outcome
    table, \<open>Aggregates\<close> has the invariants of the analysis, \<open>Html_Nesting\<close> a reader of markup, \<open>Html_Assets\<close> the style sheet
    and the script of the page.  \<open>Compare_Main\<close>: \<open>main\<close> of the command.
  \<^item> \<open>Discovery\<close>, \<open>Discovery_Report\<close>: the sniffer; \<open>Discovered\<close>, \<open>Discovery_Verdicts\<close>: what holds of it.
  \<^item> \<open>Xlsx_Data\<close>, \<open>Xlsx_Report\<close>: the spreadsheet as the calls of \<open>xlsxwriter\<close>; \<open>Xlsx_Facts\<close>: what holds of it.
  \<^item> \<open>Latest_Files\<close>: \<open>get_latest_file_urls.py\<close>.
  \<^item> \<open>Command_Lines\<close>: the four parsers and the programs on a command line; \<open>Command_Facts\<close>: what holds of them.
  \<^item> \<open>Test_Texts\<close>: the titles and descriptions of \<open>test_suite.py\<close>; \<open>Doc_Conf\<close>: \<open>doc/conf.py\<close>, which documents them.

  State, data and operations keep the names of the source where Isabelle allows it: a class or a dictionary with fixed keys is
  a record, an enumeration a datatype, a dictionary an association list in insertion order, an exception the left side of a sum.
  A loop is a fold or a recursion; a nested function that changes the variables around it takes and returns them.

  \<^bold>\<open>What is shown.\<close>
  \<^item> Check functions: they raise nothing, return on every complete script, and answer OK exactly on (or only on) the
    streams their documentation describes; the exceptions found are stated as part of the theorems.
  \<^item> Test cases: no process waits for ever and no application is stopped too early; a case is passed, skipped or failed
    as the codes say; \<open>main\<close> runs exactly the selected cases; the suite passes the tests of \<open>main\<close>.
  \<^item> Comparison: the table written into a report is read back exactly and classified by the codes it was written with; every case of a
    report is loaded; comparison is symmetric; aggregated counts are those of the plain grouping; the HTML page is well
    nested whatever the reports contain; no exception leaves the command, whatever its command line.
  \<^item> Discovery: decoders are exact on all values of their width; the table of participants refines the ordered set of announced
    prefixes; no endpoint is listed twice; each test case fails exactly when its rule is broken; the QoS case refines the
    request-offered order; the runs of all pairs are kept.
  \<^item> Command lines: a line is refused or \<open>main\<close> has selected cases of the suite that can be run; every selection can be asked for
    and is read as it was written.
  \<^item> Documentation: the descriptions have every test of the suite in one section per group; filling a template is the simultaneous
    substitution of its references.
  \<^item> Spreadsheet: totals are sums over pairs, no result is lost, and the cells of a table are what the list says.

  \<^bold>\<open>Interfaces.\<close>  Operations that share a contract are the parameters of a locale (the loop of the checks, the counters of the
  analysis), which is interpreted on the definitions of the model where they are provided.

  \<^bold>\<open>Bounds and fuel.\<close>  No definition is given fuel.  Loops over a child's answers recurse on the script; its end is an answer of its own.
  Regular expressions repeat one character class only, so that matching recurses on the pattern.  \<open>MAX_SAMPLES_READ\<close> and the
  other limits are those of the source.

  \<^bold>\<open>Not modelled.\<close>  Help texts and the printed usage, log messages and progress output, the parsing of XML and JSON text (the
  element tree, the suites and the JSON value are inputs), the work of \<open>pexpect\<close>, \<open>tshark\<close>, \<open>junitparser\<close>, \<open>xlsxwriter\<close>, Sphinx
  and the Drive API, and the applications under test, which are programs in C, C++, Rust and Zig against the vendors'
  libraries.  Text is that of single-byte characters.
\<close>

end
